(* ===== verification/Prelude.thy ===== *)
theory Prelude
  imports Main "HOL-Library.AList"
begin

text \<open>
  The notions every component of the model shares: the collections of rewrite rules, the
  result type of fallible Go functions, Go's fixed-width integers, and Go maps.

  A Go map is modelled as an association list with distinct keys. The order of the list
  stands for the order in which \<^verbatim>\<open>range\<close> visits the map, which Go leaves unspecified:
  a theorem about every such list is a theorem about every iteration order.
\<close>

section \<open>Collections\<close>

named_theorems go_map_simps \<open>lookup, length and key laws of Go maps\<close>
named_theorems go_string_simps \<open>laws of the string operations\<close>
named_theorems inv_intros \<open>invariant preservation, one fact for each operation\<close>

section \<open>Results\<close>

text \<open>A Go function that returns \<open>(T, error)\<close> returns \<open>Inl e\<close> for the error, \<open>Inr x\<close> otherwise.\<close>

definition is_ok :: "'e + 'a \<Rightarrow> bool" where
  "is_ok r = (case r of Inl _ \<Rightarrow> False | Inr _ \<Rightarrow> True)"

lemma is_ok_simps [simp]: "is_ok (Inr x)" "\<not> is_ok (Inl e)"
  by (simp_all add: is_ok_def)

lemma is_ok_iff: "is_ok r \<longleftrightarrow> (\<exists>x. r = Inr x)"
  by (cases r) simp_all

section \<open>Integers of 64 bits\<close>

text \<open>
  \<open>wrap64 x\<close> is the value of the mathematical integer \<open>x\<close> after Go's \<^verbatim>\<open>int64\<close> arithmetic has
  reduced it: two's complement, modulo \<open>2 ^ 64\<close>.
\<close>

definition max_int64 :: int where "max_int64 = 9223372036854775807"
definition min_int64 :: int where "min_int64 = -9223372036854775808"

definition in_int64 :: "int \<Rightarrow> bool" where
  "in_int64 x \<longleftrightarrow> min_int64 \<le> x \<and> x \<le> max_int64"

definition wrap64 :: "int \<Rightarrow> int" where
  "wrap64 x = (x + 9223372036854775808) mod 18446744073709551616 - 9223372036854775808"

lemma wrap64_in_range: "in_int64 (wrap64 x)"
proof -
  have "0 \<le> (x + 9223372036854775808) mod 18446744073709551616"
    and "(x + 9223372036854775808) mod 18446744073709551616 < 18446744073709551616"
    by simp_all
  then show ?thesis
    unfolding in_int64_def wrap64_def min_int64_def max_int64_def by linarith
qed

lemma wrap64_id: "in_int64 x \<Longrightarrow> wrap64 x = x"
  unfolding in_int64_def wrap64_def min_int64_def max_int64_def
  by (simp add: mod_pos_pos_trivial)

section \<open>Go maps\<close>

type_synonym ('k, 'v) gomap = "('k \<times> 'v) list"

definition go_get :: "('k, 'v) gomap \<Rightarrow> 'k \<Rightarrow> 'v option" where
  "go_get m k = map_of m k"

definition go_put :: "('k, 'v) gomap \<Rightarrow> 'k \<Rightarrow> 'v \<Rightarrow> ('k, 'v) gomap" where
  "go_put m k v = AList.update k v m"

definition go_del :: "('k, 'v) gomap \<Rightarrow> 'k \<Rightarrow> ('k, 'v) gomap" where
  "go_del m k = filter (\<lambda>e. fst e \<noteq> k) m"

definition go_len :: "('k, 'v) gomap \<Rightarrow> int" where
  "go_len m = int (length m)"

definition go_filter :: "('k \<Rightarrow> 'v \<Rightarrow> bool) \<Rightarrow> ('k, 'v) gomap \<Rightarrow> ('k, 'v) gomap" where
  "go_filter P m = filter (\<lambda>e. P (fst e) (snd e)) m"

text \<open>The well-formedness every Go map has: no key occurs twice.\<close>

definition wf_map :: "('k, 'v) gomap \<Rightarrow> bool" where
  "wf_map m \<longleftrightarrow> distinct (map fst m)"

lemma go_get_empty [simp, go_map_simps]: "go_get [] k = None"
  by (simp add: go_get_def)

lemma go_get_put [simp, go_map_simps]:
  "go_get (go_put m k v) k' = (if k' = k then Some v else go_get m k')"
  by (simp add: go_get_def go_put_def update_conv')

lemma go_get_del [simp, go_map_simps]:
  "go_get (go_del m k) k' = (if k' = k then None else go_get m k')"
  unfolding go_get_def go_del_def by (induction m) auto

lemma go_get_filter [go_map_simps]:
  "wf_map m \<Longrightarrow> go_get (go_filter P m) k =
     (case go_get m k of None \<Rightarrow> None | Some v \<Rightarrow> if P k v then Some v else None)"
  unfolding go_get_def go_filter_def wf_map_def
proof (induction m)
  case Nil
  then show ?case by simp
next
  case (Cons e m)
  then show ?case
    by (cases e) (auto split: option.splits dest: map_of_SomeD intro: rev_image_eqI)
qed

lemma wf_map_empty [simp, inv_intros]: "wf_map []"
  by (simp add: wf_map_def)

lemma wf_map_put [simp, inv_intros]: "wf_map m \<Longrightarrow> wf_map (go_put m k v)"
  by (simp add: wf_map_def go_put_def distinct_update)

lemma wf_map_filter [simp, inv_intros]: "wf_map m \<Longrightarrow> wf_map (go_filter P m)"
  unfolding wf_map_def go_filter_def by (induction m) auto

lemma wf_map_del [simp, inv_intros]: "wf_map m \<Longrightarrow> wf_map (go_del m k)"
  unfolding wf_map_def go_del_def by (induction m) auto

lemma go_get_set: "wf_map m \<Longrightarrow> go_get m k = Some v \<longleftrightarrow> (k, v) \<in> set m"
  by (simp add: wf_map_def go_get_def)

lemma go_get_None: "go_get m k = None \<longleftrightarrow> k \<notin> fst ` set m"
  by (simp add: go_get_def map_of_eq_None_iff)

lemma go_len_nonneg [simp]: "0 \<le> go_len m"
  by (simp add: go_len_def)

lemma go_len_empty_iff [simp]: "go_len m = 0 \<longleftrightarrow> m = []"
  by (simp add: go_len_def)

lemma go_len_put [go_map_simps]:
  "go_len (go_put m k v) = (case go_get m k of None \<Rightarrow> go_len m + 1 | Some _ \<Rightarrow> go_len m)"
  unfolding go_len_def go_put_def go_get_def by (induction m) (auto split: option.splits)

lemma go_len_filter_le [go_map_simps]: "go_len (go_filter P m) \<le> go_len m"
  by (simp add: go_len_def go_filter_def)

lemma go_len_del_le [go_map_simps]: "go_len (go_del m k) \<le> go_len m"
  by (simp add: go_len_def go_del_def)

lemma go_put_nonempty [simp]: "go_put m k v \<noteq> []"
  unfolding go_put_def by (cases m) auto

lemma go_get_nonempty: "go_get m k = Some v \<Longrightarrow> m \<noteq> []"
  by auto

lemma set_go_put: "set (go_put m k v) \<subseteq> insert (k, v) (set m)"
  unfolding go_put_def by (induction m) auto

lemma go_del_absent: "go_get m k = None \<Longrightarrow> go_del m k = m"
  unfolding go_del_def by (auto simp: go_get_None intro!: filter_True)

lemma set_go_filter [simp]: "set (go_filter P m) = {e \<in> set m. P (fst e) (snd e)}"
  by (simp add: go_filter_def)

lemma set_go_del [simp]: "set (go_del m k) = {e \<in> set m. fst e \<noteq> k}"
  by (simp add: go_del_def)

text \<open>The number of entries is the number of keys that have a value.\<close>

lemma go_len_card: "wf_map m \<Longrightarrow> go_len m = int (card {k. go_get m k \<noteq> None})"
proof -
  assume "wf_map m"
  then have "card (set (map fst m)) = length (map fst m)"
    unfolding wf_map_def by (rule distinct_card)
  moreover have "{k. go_get m k \<noteq> None} = set (map fst m)"
    by (auto simp: go_get_None)
  ultimately show ?thesis
    unfolding go_len_def by simp
qed

end
