(* ===== verification/Go_Strings.thy ===== *)
theory Go_Strings
  imports Prelude
begin

text \<open>
  Go strings and the functions of the packages \<^verbatim>\<open>strings\<close> and \<^verbatim>\<open>strconv\<close> the program uses. A Go
  string is a sequence of bytes, here a list of characters with codes 0 to 255 (text is its
  UTF-8 encoding).

  \<open>TrimSpace\<close> removes every character for which \<^verbatim>\<open>unicode.IsSpace\<close> holds, the multi-byte ones
  included. \<open>ToLower\<close>, \<open>ToUpper\<close> and the folding of \<open>EqualFold\<close> map the ASCII letters and those
  non-ASCII characters whose image is ASCII (the Kelvin sign, the dotted capital I, the long
  s); other non-ASCII characters are left as they are. So comparing, searching or prefix
  testing the result against an ASCII constant, which is how the program uses them, gives
  Go's answer on every input.
\<close>

section \<open>Bytes\<close>

definition byte :: "nat \<Rightarrow> char" where
  "byte n = char_of n"

definition ord :: "char \<Rightarrow> nat" where
  "ord c = of_char c"

lemma ord_less: "ord c < 256"
  unfolding ord_def by (metis of_char_mod_256 mod_less_divisor zero_less_numeral)

lemma byte_ord [simp]: "byte (ord c) = c"
  by (simp add: byte_def ord_def)

lemma ord_byte [simp]: "n < 256 \<Longrightarrow> ord (byte n) = n"
  by (simp add: byte_def ord_def)

lemma ord_inj [simp]: "ord c = ord d \<longleftrightarrow> c = d"
  by (metis byte_ord)

fun index_of :: "char \<Rightarrow> string \<Rightarrow> nat option" where
  "index_of c [] = None"
| "index_of c (x # xs) = (if x = c then Some 0 else map_option Suc (index_of c xs))"

lemma index_of_nth: "distinct xs \<Longrightarrow> n < length xs \<Longrightarrow> index_of (xs ! n) xs = Some n"
proof (induction xs arbitrary: n)
  case Nil
  then show ?case by simp
next
  case (Cons x xs)
  then show ?case by (cases n) auto
qed

lemma index_of_Some: "index_of c xs = Some n \<Longrightarrow> n < length xs \<and> xs ! n = c"
  by (induction xs arbitrary: n) (auto split: if_splits)

section \<open>White space\<close>

definition ascii_space :: "char \<Rightarrow> bool" where
  "ascii_space c \<longleftrightarrow> c = CHR '' '' \<or> c = CHR 0x09 \<or> c = CHR 0x0A \<or> c = CHR 0x0B
     \<or> c = CHR 0x0C \<or> c = CHR 0x0D"

text \<open>The two-byte spaces are U+0085 and U+00A0; the three-byte ones lie in the blocks E1, E2, E3.\<close>

definition space2 :: "char \<Rightarrow> char \<Rightarrow> bool" where
  "space2 a b \<longleftrightarrow> a = CHR 0xC2 \<and> (b = CHR 0x85 \<or> b = CHR 0xA0)"

definition space3 :: "char \<Rightarrow> char \<Rightarrow> char \<Rightarrow> bool" where
  "space3 a b c \<longleftrightarrow>
     a = CHR 0xE1 \<and> b = CHR 0x9A \<and> c = CHR 0x80
   \<or> a = CHR 0xE2 \<and> b = CHR 0x80 \<and>
       c \<in> set [CHR 0x80, CHR 0x81, CHR 0x82, CHR 0x83, CHR 0x84, CHR 0x85, CHR 0x86,
                CHR 0x87, CHR 0x88, CHR 0x89, CHR 0x8A, CHR 0xA8, CHR 0xA9, CHR 0xAF]
   \<or> a = CHR 0xE2 \<and> b = CHR 0x81 \<and> c = CHR 0x9F
   \<or> a = CHR 0xE3 \<and> b = CHR 0x80 \<and> c = CHR 0x80"

text \<open>The length in bytes of the space a string starts with, or 0.\<close>

fun space_width :: "string \<Rightarrow> nat" where
  "space_width [] = 0"
| "space_width [a] = (if ascii_space a then 1 else 0)"
| "space_width [a, b] = (if ascii_space a then 1 else if space2 a b then 2 else 0)"
| "space_width (a # b # c # s) =
     (if ascii_space a then 1 else if space2 a b then 2 else if space3 a b c then 3 else 0)"

text \<open>The same for the space a string ends with, read off the reversed string.\<close>

fun rspace_width :: "string \<Rightarrow> nat" where
  "rspace_width [] = 0"
| "rspace_width [a] = (if ascii_space a then 1 else 0)"
| "rspace_width [a, b] = (if ascii_space a then 1 else if space2 b a then 2 else 0)"
| "rspace_width (a # b # c # s) =
     (if ascii_space a then 1 else if space2 b a then 2 else if space3 c b a then 3 else 0)"

text \<open>Dropping prefixes of the width \<open>w\<close> gives, while there is one.\<close>

function strip :: "(string \<Rightarrow> nat) \<Rightarrow> string \<Rightarrow> string" where
  "strip w s = (if w s = 0 \<or> s = [] then s else strip w (drop (w s) s))"
  by pat_completeness auto
termination
  by (relation "measure (\<lambda>(w, s). length s)") auto

declare strip.simps [simp del]

definition TrimSpace :: "string \<Rightarrow> string" where
  "TrimSpace s = rev (strip rspace_width (rev (strip space_width s)))"

definition trimmed :: "string \<Rightarrow> bool" where
  "trimmed s \<longleftrightarrow> space_width s = 0 \<and> rspace_width (rev s) = 0"

lemma strip_fixpoint: "w s = 0 \<Longrightarrow> strip w s = s"
  by (simp add: strip.simps)

lemma strip_stops: "w [] = 0 \<Longrightarrow> w (strip w s) = 0"
proof (induction w s rule: strip.induct)
  case (1 w s)
  then show ?case by (cases "w s = 0 \<or> s = []") (auto simp: strip.simps [of w s])
qed

lemma strip_suffix: "\<exists>n. strip w s = drop n s"
proof (induction w s rule: strip.induct)
  case (1 w s)
  show ?case
  proof (cases "w s = 0 \<or> s = []")
    case True
    then have "strip w s = drop 0 s" by (auto simp: strip.simps [of w s])
    then show ?thesis by blast
  next
    case False
    with 1 obtain n where "strip w (drop (w s) s) = drop n (drop (w s) s)" by blast
    with False have "strip w s = drop (n + w s) s" by (simp add: strip.simps [of w s])
    then show ?thesis by blast
  qed
qed

lemma space_width_take: "space_width (take n s) \<noteq> 0 \<Longrightarrow> space_width s \<noteq> 0"
  by (cases s rule: space_width.cases; cases n rule: nat.exhaust)
     (auto simp: take_Cons' split: if_splits)

lemma trimmed_TrimSpace [simp]: "trimmed (TrimSpace s)"
proof -
  obtain n where n: "strip rspace_width (rev (strip space_width s)) = drop n (rev (strip space_width s))"
    using strip_suffix by blast
  have "space_width (strip space_width s) = 0" by (rule strip_stops) simp
  moreover have "rev (drop n (rev (strip space_width s)))
      = take (length (strip space_width s) - n) (strip space_width s)"
    by (simp add: rev_drop)
  ultimately have "space_width (TrimSpace s) = 0"
    unfolding TrimSpace_def n using space_width_take by metis
  moreover have "rspace_width (rev (TrimSpace s)) = 0"
    unfolding TrimSpace_def rev_rev_ident by (rule strip_stops) simp
  ultimately show ?thesis by (simp add: trimmed_def)
qed

lemma TrimSpace_id [go_string_simps]: "trimmed s \<Longrightarrow> TrimSpace s = s"
  by (simp add: trimmed_def TrimSpace_def strip_fixpoint)

lemma TrimSpace_idem [simp]: "TrimSpace (TrimSpace s) = TrimSpace s"
  by (simp add: TrimSpace_id)

lemma trimmed_Nil [simp]: "trimmed []"
  by (simp add: trimmed_def)

lemma TrimSpace_Nil [simp]: "TrimSpace [] = []"
  by (simp add: TrimSpace_id)

lemma trimmed_iff: "trimmed s \<longleftrightarrow> TrimSpace s = s"
  by (metis TrimSpace_id trimmed_TrimSpace)

section \<open>Case mapping\<close>

definition lower_char :: "char \<Rightarrow> char" where
  "lower_char c = (if 65 \<le> (of_char c :: nat) \<and> (of_char c :: nat) \<le> 90
     then char_of (of_char c + 32 :: nat) else c)"

definition upper_char :: "char \<Rightarrow> char" where
  "upper_char c = (if 97 \<le> (of_char c :: nat) \<and> (of_char c :: nat) \<le> 122
     then char_of (of_char c - 32 :: nat) else c)"

text \<open>U+212A (Kelvin sign) and U+0130 (capital I with dot) have the lower cases k and i.\<close>

fun ToLower :: "string \<Rightarrow> string" where
  "ToLower [] = []"
| "ToLower (c # s) =
     (if c = CHR 0xE2 \<and> take 2 s = [CHR 0x84, CHR 0xAA] then CHR ''k'' # ToLower (drop 2 s)
      else if c = CHR 0xC4 \<and> take 1 s = [CHR 0xB0] then CHR ''i'' # ToLower (drop 1 s)
      else lower_char c # ToLower s)"

text \<open>U+017F (long s) and U+0131 (dotless i) have the upper cases S and I.\<close>

fun ToUpper :: "string \<Rightarrow> string" where
  "ToUpper [] = []"
| "ToUpper (c # s) =
     (if c = CHR 0xC5 \<and> take 1 s = [CHR 0xBF] then CHR ''S'' # ToUpper (drop 1 s)
      else if c = CHR 0xC4 \<and> take 1 s = [CHR 0xB1] then CHR ''I'' # ToUpper (drop 1 s)
      else upper_char c # ToUpper s)"

text \<open>Simple case folding: the Kelvin sign folds to k, the long s to s.\<close>

fun fold_case :: "string \<Rightarrow> string" where
  "fold_case [] = []"
| "fold_case (c # s) =
     (if c = CHR 0xE2 \<and> take 2 s = [CHR 0x84, CHR 0xAA] then CHR ''k'' # fold_case (drop 2 s)
      else if c = CHR 0xC5 \<and> take 1 s = [CHR 0xBF] then CHR ''s'' # fold_case (drop 1 s)
      else lower_char c # fold_case s)"

definition EqualFold :: "string \<Rightarrow> string \<Rightarrow> bool" where
  "EqualFold s t \<longleftrightarrow> fold_case s = fold_case t"

lemma EqualFold_refl [simp]: "EqualFold s s"
  by (simp add: EqualFold_def)

lemma EqualFold_sym: "EqualFold s t \<Longrightarrow> EqualFold t s"
  by (simp add: EqualFold_def)

lemma EqualFold_trans: "EqualFold s t \<Longrightarrow> EqualFold t u \<Longrightarrow> EqualFold s u"
  by (simp add: EqualFold_def)

definition is_letter :: "char \<Rightarrow> bool" where
  "is_letter c \<longleftrightarrow> 65 \<le> (of_char c :: nat) \<and> (of_char c :: nat) \<le> 90
     \<or> 97 \<le> (of_char c :: nat) \<and> (of_char c :: nat) \<le> 122"

lemma lower_char_letter: "lower_char c \<noteq> c \<Longrightarrow> is_letter (lower_char c)"
  by (auto simp: lower_char_def is_letter_def split: if_splits)

lemma lower_char_inv: "\<not> is_letter (lower_char c) \<Longrightarrow> lower_char c = c"
  using lower_char_letter by blast

lemma lower_char_idem [simp]: "lower_char (lower_char c) = lower_char c"
  by (auto simp: lower_char_def split: if_splits)

lemma ToLower_Cons_nonletter:
  assumes "ToLower s = b # t" and "\<not> is_letter b"
  shows "\<exists>s'. s = b # s' \<and> t = ToLower s'"
proof (cases s)
  case Nil
  with assms show ?thesis by simp
next
  case (Cons c s')
  have letters: "is_letter (CHR ''k'')" "is_letter (CHR ''i'')"
    by (simp_all add: is_letter_def)
  from assms letters Cons have "b = lower_char c" and "t = ToLower s'"
    by (auto split: if_splits)
  moreover from this assms(2) have "lower_char c = c" by (intro lower_char_inv) simp
  ultimately show ?thesis using Cons by simp
qed

lemma ToLower_nonletters: "\<forall>b \<in> set (ToLower s). \<not> is_letter b \<Longrightarrow> ToLower s = s"
proof (induction "ToLower s" arbitrary: s)
  case Nil
  then show ?case by (cases s) (auto split: if_splits)
next
  case (Cons b t)
  from Cons.hyps(2) [symmetric] Cons.prems obtain s' where s: "s = b # s'" "t = ToLower s'"
    using ToLower_Cons_nonletter by (metis list.set_intros(1))
  moreover have "ToLower s' = s'"
    using Cons.hyps(1) [OF s(2)] Cons.prems Cons.hyps(2) [symmetric] s(2) by simp
  ultimately show ?case using Cons.hyps(2) by metis
qed

lemma ToLower_suffix:
  assumes "ToLower s = p @ q" and "\<forall>b \<in> set q. \<not> is_letter b"
  shows "\<exists>p'. s = p' @ q"
  using assms
proof (induction s arbitrary: p rule: ToLower.induct)
  case 1
  then show ?case by simp
next
  case (2 c s)
  show ?case
  proof (cases p)
    case Nil
    with "2.prems" have "ToLower (c # s) = c # s" by (intro ToLower_nonletters) simp
    with Nil "2.prems" show ?thesis by (intro exI [of _ "[]"]) simp
  next
    case (Cons x p0)
    have rest: "\<exists>p'. drop n s = p' @ q \<Longrightarrow> \<exists>p'. c # s = p' @ q" for n
      by (metis append_Cons append_assoc append_take_drop_id)
    consider (k) "c = CHR 0xE2 \<and> take 2 s = [CHR 0x84, CHR 0xAA]"
      | (i) "\<not> (c = CHR 0xE2 \<and> take 2 s = [CHR 0x84, CHR 0xAA])"
          "c = CHR 0xC4 \<and> take 1 s = [CHR 0xB0]"
      | (o) "\<not> (c = CHR 0xE2 \<and> take 2 s = [CHR 0x84, CHR 0xAA])"
          "\<not> (c = CHR 0xC4 \<and> take 1 s = [CHR 0xB0])"
      by blast
    then show ?thesis
    proof cases
      case k
      then have "ToLower (drop 2 s) = p0 @ q" using "2.prems" Cons by simp
      then show ?thesis using "2.IH"(1) [OF k _ "2.prems"(2)] rest by blast
    next
      case i
      then have "ToLower (drop 1 s) = p0 @ q" using "2.prems" Cons by simp
      then show ?thesis using "2.IH"(2) [OF i _ "2.prems"(2)] rest by blast
    next
      case o
      then have "ToLower s = p0 @ q" using "2.prems" Cons by (simp split: if_splits)
      then show ?thesis using "2.IH"(3) [OF o _ "2.prems"(2)] rest [of 0] by simp
    qed
  qed
qed

lemma is_letter_hi [simp]: "\<not> is_letter (CHR 0xE2)" "\<not> is_letter (CHR 0x84)" "\<not> is_letter (CHR 0xAA)"
    "\<not> is_letter (CHR 0xC4)" "\<not> is_letter (CHR 0xB0)"
  by (simp_all add: is_letter_def)

lemma ToLower_idem [simp]: "ToLower (ToLower s) = ToLower s"
proof (induction s rule: ToLower.induct)
  case 1
  show ?case by simp
next
  case (2 c s)
  have k: "lower_char (CHR ''k'') = CHR ''k''" "lower_char (CHR ''i'') = CHR ''i''"
    by (simp_all add: lower_char_def)
  consider (k) "c = CHR 0xE2 \<and> take 2 s = [CHR 0x84, CHR 0xAA]"
    | (i) "\<not> (c = CHR 0xE2 \<and> take 2 s = [CHR 0x84, CHR 0xAA])"
        "c = CHR 0xC4 \<and> take 1 s = [CHR 0xB0]"
    | (o) "\<not> (c = CHR 0xE2 \<and> take 2 s = [CHR 0x84, CHR 0xAA])"
        "\<not> (c = CHR 0xC4 \<and> take 1 s = [CHR 0xB0])"
    by blast
  then show ?case
  proof cases
    case k
    then show ?thesis using "2.IH"(1) \<open>lower_char (CHR ''k'') = CHR ''k''\<close> by simp
  next
    case i
    then show ?thesis using "2.IH"(2) k(2) by simp
  next
    case o
    have one: "ToLower (c # s) = lower_char c # ToLower s" using o by auto
    have "\<not> (lower_char c = CHR 0xE2 \<and> take 2 (ToLower s) = [CHR 0x84, CHR 0xAA])"
    proof
      assume a: "lower_char c = CHR 0xE2 \<and> take 2 (ToLower s) = [CHR 0x84, CHR 0xAA]"
      then have "c = CHR 0xE2" using lower_char_inv [of c] by simp
      from a obtain t where "ToLower s = CHR 0x84 # CHR 0xAA # t"
        by (cases "ToLower s"; cases "tl (ToLower s)") (auto simp: numeral_2_eq_2)
      then obtain s' where "s = CHR 0x84 # s'" "CHR 0xAA # t = ToLower s'"
        using ToLower_Cons_nonletter by fastforce
      moreover then obtain s'' where "s' = CHR 0xAA # s''"
        using ToLower_Cons_nonletter by (metis is_letter_hi(3))
      ultimately show False using o(1) \<open>c = CHR 0xE2\<close> by (simp add: numeral_2_eq_2)
    qed
    moreover have "\<not> (lower_char c = CHR 0xC4 \<and> take 1 (ToLower s) = [CHR 0xB0])"
    proof
      assume a: "lower_char c = CHR 0xC4 \<and> take 1 (ToLower s) = [CHR 0xB0]"
      then have "c = CHR 0xC4" using lower_char_inv [of c] by simp
      from a obtain t where "ToLower s = CHR 0xB0 # t" by (cases "ToLower s") auto
      then obtain s' where "s = CHR 0xB0 # s'" using ToLower_Cons_nonletter by fastforce
      then show False using o(2) \<open>c = CHR 0xC4\<close> by simp
    qed
    ultimately have "ToLower (lower_char c # ToLower s) = lower_char c # ToLower (ToLower s)"
      by (simp split: if_splits)
    then show ?thesis using one "2.IH"(3) [OF o] by simp
  qed
qed

lemma nonletter_space: "ascii_space a \<Longrightarrow> \<not> is_letter a"
  "space2 a b \<Longrightarrow> \<not> is_letter a \<and> \<not> is_letter b"
  "space3 a b c \<Longrightarrow> \<not> is_letter a \<and> \<not> is_letter b \<and> \<not> is_letter c"
  by (auto simp: ascii_space_def space2_def space3_def is_letter_def)

text \<open>A string starts (ends) with a space when it has one of the encodings as a prefix (suffix).\<close>

definition is_space_seq :: "string \<Rightarrow> bool" where
  "is_space_seq q \<longleftrightarrow> (\<exists>a. q = [a] \<and> ascii_space a) \<or> (\<exists>a b. q = [a, b] \<and> space2 a b)
     \<or> (\<exists>a b c. q = [a, b, c] \<and> space3 a b c)"

lemma is_space_seqI [intro]: "ascii_space a \<Longrightarrow> is_space_seq [a]"
  "space2 a b \<Longrightarrow> is_space_seq [a, b]" "space3 a b c \<Longrightarrow> is_space_seq [a, b, c]"
  by (simp_all add: is_space_seq_def)

lemma space_seq_nonletters: "is_space_seq q \<Longrightarrow> \<forall>b \<in> set q. \<not> is_letter b"
  using nonletter_space by (fastforce simp: is_space_seq_def)

lemma space_width_prefix: "space_width s \<noteq> 0 \<longleftrightarrow> (\<exists>q r. is_space_seq q \<and> s = q @ r)"
proof
  assume nz: "space_width s \<noteq> 0"
  have seq: "is_space_seq q \<Longrightarrow> \<exists>q' r'. is_space_seq q' \<and> q @ r = q' @ r'" for q r
    by blast
  from nz show "\<exists>q r. is_space_seq q \<and> s = q @ r"
    by (cases s rule: space_width.cases)
       (auto split: if_splits intro: seq [of "[x]" for x, simplified] seq [of "[x, y]" for x y, simplified]
          seq [of "[x, y, z]" for x y z, simplified] seq [of _ "[]", simplified])
next
  assume "\<exists>q r. is_space_seq q \<and> s = q @ r"
  then obtain q r where "is_space_seq q" "s = q @ r" by blast
  then show "space_width s \<noteq> 0"
    by (cases r; cases "tl r") (auto simp: is_space_seq_def)
qed

lemma rspace_width_suffix: "rspace_width (rev s) \<noteq> 0 \<longleftrightarrow> (\<exists>q r. is_space_seq q \<and> s = r @ q)"
proof
  assume "rspace_width (rev s) \<noteq> 0"
  define t where "t = rev s"
  have seq: "is_space_seq q \<Longrightarrow> \<exists>q' r'. is_space_seq q' \<and> r @ q = r' @ q'" for q r
    by blast
  have "rspace_width t \<noteq> 0 \<Longrightarrow> \<exists>q r. is_space_seq q \<and> rev t = r @ q"
    by (cases t rule: rspace_width.cases)
       (auto split: if_splits intro: seq seq [of _ "[]", simplified] seq [of "[x]" "r @ s" for x r s, simplified])
  with t_def \<open>rspace_width (rev s) \<noteq> 0\<close> show "\<exists>q r. is_space_seq q \<and> s = r @ q" by auto
next
  assume "\<exists>q r. is_space_seq q \<and> s = r @ q"
  then obtain q r where "is_space_seq q" "s = r @ q" by blast
  then show "rspace_width (rev s) \<noteq> 0"
    by (cases "rev r"; cases "tl (rev r)") (auto simp: is_space_seq_def)
qed

lemma trimmed_space_seqs:
  "trimmed s \<longleftrightarrow> (\<forall>q. is_space_seq q \<longrightarrow> (\<forall>r. s \<noteq> q @ r \<and> s \<noteq> r @ q))"
  unfolding trimmed_def using space_width_prefix [of s] rspace_width_suffix [of s] by blast

lemma ToLower_prefix:
  assumes "ToLower s = q @ r" and "\<forall>b \<in> set q. \<not> is_letter b"
  shows "\<exists>r'. s = q @ r'"
  using assms
proof (induction q arbitrary: s)
  case Nil
  then show ?case by simp
next
  case (Cons b q)
  then obtain s' where "s = b # s'" "q @ r = ToLower s'"
    using ToLower_Cons_nonletter [of s b "q @ r"] by auto
  with Cons show ?case by (metis append_Cons list.set_intros(2))
qed

lemma trimmed_ToLower: "trimmed s \<Longrightarrow> trimmed (ToLower s)"
  unfolding trimmed_space_seqs
  by (metis ToLower_prefix ToLower_suffix space_seq_nonletters)

section \<open>Prefixes, searching, cutting\<close>

definition HasPrefix :: "string \<Rightarrow> string \<Rightarrow> bool" where
  "HasPrefix s p \<longleftrightarrow> take (length p) s = p"

definition TrimPrefix :: "string \<Rightarrow> string \<Rightarrow> string" where
  "TrimPrefix s p = (if HasPrefix s p then drop (length p) s else s)"

text \<open>\<open>Index\<close> is Go's, with \<open>None\<close> for \<^verbatim>\<open>-1\<close>.\<close>

fun Index :: "string \<Rightarrow> string \<Rightarrow> nat option" where
  "Index [] p = (if p = [] then Some 0 else None)"
| "Index (c # s) p = (if HasPrefix (c # s) p then Some 0 else map_option Suc (Index s p))"

definition Contains :: "string \<Rightarrow> string \<Rightarrow> bool" where
  "Contains s p \<longleftrightarrow> Index s p \<noteq> None"

definition TrimRight :: "string \<Rightarrow> string \<Rightarrow> string" where
  "TrimRight s cutset = rev (dropWhile (\<lambda>c. c \<in> set cutset) (rev s))"

definition TrimLeft :: "string \<Rightarrow> string \<Rightarrow> string" where
  "TrimLeft s cutset = dropWhile (\<lambda>c. c \<in> set cutset) s"

definition Trim :: "string \<Rightarrow> string \<Rightarrow> string" where
  "Trim s cutset = TrimRight (TrimLeft s cutset) cutset"

text \<open>\<^verbatim>\<open>strings.Split(s, sep)\<close> for a separator of one character.\<close>

fun split_on :: "char \<Rightarrow> string \<Rightarrow> string list" where
  "split_on c [] = [[]]"
| "split_on c (x # xs) =
     (if x = c then [] # split_on c xs
      else (case split_on c xs of [] \<Rightarrow> [[x]] | y # ys \<Rightarrow> (x # y) # ys))"

fun Join :: "string list \<Rightarrow> string \<Rightarrow> string" where
  "Join [] sep = []"
| "Join [x] sep = x"
| "Join (x # y # xs) sep = x @ sep @ Join (y # xs) sep"

text \<open>\<^verbatim>\<open>strings.ReplaceAll(s, old, new)\<close> for an \<open>old\<close> of one character.\<close>

definition replace_char :: "string \<Rightarrow> char \<Rightarrow> string \<Rightarrow> string" where
  "replace_char s c new = concat (map (\<lambda>x. if x = c then new else [x]) s)"

definition Repeat :: "string \<Rightarrow> nat \<Rightarrow> string" where
  "Repeat s n = concat (replicate n s)"

lemma HasPrefix_iff: "HasPrefix s p \<longleftrightarrow> (\<exists>r. s = p @ r)"
  unfolding HasPrefix_def by (metis append_eq_conv_conj append_take_drop_id)

lemma HasPrefix_append [simp]: "HasPrefix (p @ r) p"
  by (auto simp: HasPrefix_iff)

lemma TrimPrefix_append [simp]: "TrimPrefix (p @ r) p = r"
  by (simp add: TrimPrefix_def)

lemma Index_Some_iff:
  "Index s p = Some i \<longleftrightarrow> i \<le> length s \<and> HasPrefix (drop i s) p \<and> (\<forall>j < i. \<not> HasPrefix (drop j s) p)"
proof (induction s p arbitrary: i rule: Index.induct)
  case (1 p)
  then show ?case by (auto simp: HasPrefix_def)
next
  case (2 c s p)
  show ?case
  proof (cases "HasPrefix (c # s) p")
    case True
    then show ?thesis by (cases i) auto
  next
    case False
    have all: "(\<forall>j < Suc n. \<not> HasPrefix (drop j (c # s)) p) \<longleftrightarrow> (\<forall>j < n. \<not> HasPrefix (drop j s) p)" for n
      using False by (auto simp: All_less_Suc2)
    show ?thesis
    proof (cases i)
      case 0
      with False show ?thesis by simp
    next
      case (Suc n)
      then show ?thesis using 2 [OF False, of n] False all [of n] by auto
    qed
  qed
qed

lemma Contains_iff: "Contains s p \<longleftrightarrow> (\<exists>a b. s = a @ p @ b)"
proof
  assume "Contains s p"
  then obtain i where "Index s p = Some i" by (auto simp: Contains_def)
  then have "HasPrefix (drop i s) p" by (simp add: Index_Some_iff)
  then show "\<exists>a b. s = a @ p @ b" by (metis HasPrefix_iff append_take_drop_id)
next
  assume "\<exists>a b. s = a @ p @ b"
  then obtain a b where s: "s = a @ p @ b" by blast
  show "Contains s p" unfolding s Contains_def
  proof (induction a)
    case Nil
    have "Index (p @ b) p = Some 0" by (simp add: Index_Some_iff)
    then show ?case by simp
  next
    case (Cons x a)
    then show ?case by simp
  qed
qed

lemma Index_split: "Index s p = Some i \<Longrightarrow> s = take i s @ p @ drop (i + length p) s"
  by (metis HasPrefix_def Index_Some_iff append_take_drop_id drop_drop add.commute)

lemma split_on_nonempty [simp]: "split_on c s \<noteq> []"
  by (induction s) (auto split: list.splits)

lemma split_on_append:
  "c \<notin> set a \<Longrightarrow> split_on c (a @ c # b) = a # split_on c b"
  by (induction a) auto

lemma split_on_none: "c \<notin> set a \<Longrightarrow> split_on c a = [a]"
  by (induction a) auto

lemma split_on_Join:
  "xs \<noteq> [] \<Longrightarrow> \<forall>x \<in> set xs. c \<notin> set x \<Longrightarrow> split_on c (Join xs [c]) = xs"
  by (induction xs "[c]" rule: Join.induct) (auto simp: split_on_append split_on_none)

lemma Join_split_on: "Join (split_on c s) [c] = s"
proof (induction s)
  case Nil
  then show ?case by simp
next
  case (Cons x s)
  obtain y ys where "split_on c s = y # ys" by (cases "split_on c s") auto
  with Cons show ?case by (cases ys) auto
qed

lemma split_on_pieces: "x \<in> set (split_on c s) \<Longrightarrow> c \<notin> set x"
  by (induction s arbitrary: x) (auto split: list.splits if_splits)

lemma TrimRight_suffix: "\<exists>n. TrimRight s cs = take n s"
  unfolding TrimRight_def by (metis dropWhile_eq_drop rev_drop rev_rev_ident)

lemma TrimRight_idem [simp]: "TrimRight (TrimRight s cs) cs = TrimRight s cs"
  unfolding TrimRight_def by (simp add: dropWhile_idem)

section \<open>Decimal numbers\<close>

definition digit_val :: "char \<Rightarrow> int option" where
  "digit_val c = (if 48 \<le> (of_char c :: nat) \<and> (of_char c :: nat) \<le> 57
     then Some (int (of_char c) - 48) else None)"

fun digits_val :: "int \<Rightarrow> string \<Rightarrow> int option" where
  "digits_val acc [] = Some acc"
| "digits_val acc (c # s) =
     (case digit_val c of None \<Rightarrow> None | Some d \<Rightarrow> digits_val (acc * 10 + d) s)"

text \<open>
  \<^verbatim>\<open>strconv.Atoi\<close> (and \<^verbatim>\<open>strconv.ParseInt(s, 10, 64)\<close>): an optional sign, at least one decimal
  digit, nothing else, and a value that fits in 64 bits; \<open>None\<close> is the error.
\<close>

definition Atoi :: "string \<Rightarrow> int option" where
  "Atoi s =
     (let (neg, ds) = (case s of
         c # r \<Rightarrow> if c = CHR ''-'' then (True, r) else if c = CHR ''+'' then (False, r) else (False, s)
       | [] \<Rightarrow> (False, s))
      in if ds = [] then None
         else case digits_val 0 ds of
             None \<Rightarrow> None
           | Some n \<Rightarrow> let v = (if neg then - n else n) in if in_int64 v then Some v else None)"

definition digit_char :: "nat \<Rightarrow> char" where
  "digit_char d = ''0123456789'' ! d"

fun nat_digits :: "nat \<Rightarrow> string" where
  "nat_digits n = (if n < 10 then [digit_char n] else nat_digits (n div 10) @ [digit_char (n mod 10)])"

declare nat_digits.simps [simp del]

text \<open>The \<^verbatim>\<open>%d\<close> rendering of an integer.\<close>

definition Itoa :: "int \<Rightarrow> string" where
  "Itoa n = (if n < 0 then CHR ''-'' # nat_digits (nat (- n)) else nat_digits (nat n))"

lemma lt10_cases: "(d :: nat) < 10 \<Longrightarrow> d \<in> {0, 1, 2, 3, 4, 5, 6, 7, 8, 9}"
  by auto

lemma digit_val_char: "d < 10 \<Longrightarrow> digit_val (digit_char d) = Some (int d)"
  by (drule lt10_cases) (elim insertE emptyE; simp add: digit_val_def digit_char_def)

lemma digits_val_snoc:
  "digits_val acc (s @ [c]) =
     (case digits_val acc s of None \<Rightarrow> None
      | Some v \<Rightarrow> (case digit_val c of None \<Rightarrow> None | Some d \<Rightarrow> Some (v * 10 + d)))"
  by (induction acc s rule: digits_val.induct) (auto split: option.splits)

lemma digits_val_nat_digits: "digits_val 0 (nat_digits n) = Some (int n)"
proof (induction n rule: nat_digits.induct)
  case (1 n)
  show ?case
  proof (cases "n < 10")
    case True
    then show ?thesis by (simp add: nat_digits.simps [of n] digit_val_char)
  next
    case False
    then have "digits_val 0 (nat_digits n) = Some (int (n div 10) * 10 + int (n mod 10))"
      using 1 by (simp add: nat_digits.simps [of n] digits_val_snoc digit_val_char)
    also have "int (n div 10) * 10 + int (n mod 10) = int n" by presburger
    finally show ?thesis .
  qed
qed

lemma nat_digits_nonempty [simp]: "nat_digits n \<noteq> []"
  by (subst nat_digits.simps) simp

lemma nat_digits_chars: "c \<in> set (nat_digits n) \<Longrightarrow> \<exists>d < 10. c = digit_char d"
proof (induction n rule: nat_digits.induct)
  case (1 n)
  then show ?case
    by (subst (asm) (2) nat_digits.simps) (auto split: if_splits intro: exI [of _ "n mod 10"])
qed

lemma digit_char_props:
  assumes "d < 10"
  shows "digit_char d \<noteq> CHR ''-'' \<and> digit_char d \<noteq> CHR ''+'' \<and> digit_char d \<noteq> CHR '':''
     \<and> digit_char d \<noteq> CHR '','' \<and> digit_char d \<noteq> CHR ''.'' \<and> \<not> ascii_space (digit_char d)
     \<and> (of_char (digit_char d) :: nat) < 128"
  using lt10_cases [OF assms] by (elim insertE emptyE) (simp_all add: digit_char_def ascii_space_def)

lemma Atoi_Itoa: "in_int64 n \<Longrightarrow> Atoi (Itoa n) = Some n"
proof -
  assume n: "in_int64 n"
  have hd: "nat_digits m = c # r \<Longrightarrow> c \<noteq> CHR ''-'' \<and> c \<noteq> CHR ''+''" for m c r
    using nat_digits_chars [of c m] digit_char_props by auto
  show ?thesis
  proof (cases "n < 0")
    case True
    then show ?thesis using n digits_val_nat_digits [of "nat (- n)"]
      by (simp add: Atoi_def Itoa_def)
  next
    case False
    then show ?thesis using n digits_val_nat_digits [of "nat n"] hd [of "nat n"]
      by (cases "nat_digits (nat n)") (auto simp: Atoi_def Itoa_def)
  qed
qed

end
