(* ===== verification/Go_Base64.thy ===== *)
theory Go_Base64
  imports Go_Strings
begin

text \<open>
  The encodings of the package \<^verbatim>\<open>encoding/base64\<close> the program uses: with the standard and the
  URL alphabet, padded and raw. As in Go, decoding skips carriage returns and line feeds
  wherever they stand, and does not look at the unused low bits of the last character.
\<close>

section \<open>Alphabets\<close>

definition std_alphabet :: string where
  "std_alphabet = ''ABCDEFGHIJKLMNOPQRSTUVWXYZabcdefghijklmnopqrstuvwxyz0123456789+/''"

definition url_alphabet :: string where
  "url_alphabet = ''ABCDEFGHIJKLMNOPQRSTUVWXYZabcdefghijklmnopqrstuvwxyz0123456789-_''"

section \<open>Encoding\<close>

fun sextets :: "string \<Rightarrow> nat list" where
  "sextets [] = []"
| "sextets [a] = [ord a div 4, ord a mod 4 * 16]"
| "sextets [a, b] = [ord a div 4, ord a mod 4 * 16 + ord b div 16, ord b mod 16 * 4]"
| "sextets (a # b # c # s) =
     [ord a div 4, ord a mod 4 * 16 + ord b div 16, ord b mod 16 * 4 + ord c div 64, ord c mod 64]
     @ sextets s"

fun bytes_of :: "nat list \<Rightarrow> string option" where
  "bytes_of [] = Some []"
| "bytes_of [p] = None"
| "bytes_of [p, q] = Some [byte (p * 4 + q div 16)]"
| "bytes_of [p, q, r] = Some [byte (p * 4 + q div 16), byte (q mod 16 * 16 + r div 4)]"
| "bytes_of (p # q # r # t # s) =
     map_option (\<lambda>rest. byte (p * 4 + q div 16) # byte (q mod 16 * 16 + r div 4)
                        # byte (r mod 4 * 64 + t) # rest) (bytes_of s)"

definition raw_encode :: "string \<Rightarrow> string \<Rightarrow> string" where
  "raw_encode alpha s = map (\<lambda>n. alpha ! n) (sextets s)"

fun lookup_all :: "string \<Rightarrow> string \<Rightarrow> nat list option" where
  "lookup_all alpha [] = Some []"
| "lookup_all alpha (c # s) =
     (case index_of c alpha of None \<Rightarrow> None
      | Some n \<Rightarrow> map_option ((#) n) (lookup_all alpha s))"

definition drop_newlines :: "string \<Rightarrow> string" where
  "drop_newlines s = filter (\<lambda>c. c \<noteq> CHR 0x0A \<and> c \<noteq> CHR 0x0D) s"

definition raw_decode :: "string \<Rightarrow> string \<Rightarrow> string option" where
  "raw_decode alpha s = Option.bind (lookup_all alpha (drop_newlines s)) bytes_of"

text \<open>
  Padded: the length is a multiple of four, the padding stands at the end, one or two
  characters of it, and completes the last group.
\<close>

definition padded_encode :: "string \<Rightarrow> string \<Rightarrow> string" where
  "padded_encode alpha s =
     raw_encode alpha s @ replicate ((3 - length s mod 3) mod 3) (CHR ''='')"

definition padded_decode :: "string \<Rightarrow> string \<Rightarrow> string option" where
  "padded_decode alpha s =
     (let t = drop_newlines s; body = TrimRight t ''=''; pads = length t - length body
      in if length t mod 4 = 0 \<and> pads \<le> 2 then raw_decode alpha body else None)"

definition RawURL_Encode :: "string \<Rightarrow> string" where
  "RawURL_Encode = raw_encode url_alphabet"

definition RawURL_Decode :: "string \<Rightarrow> string option" where
  "RawURL_Decode = raw_decode url_alphabet"

section \<open>Round trip\<close>

lemma div_mod_pack:
  fixes q r m :: nat
  assumes "r < m"
  shows "(q * m + r) div m = q" "(q * m + r) mod m = r"
  using assms by simp_all

lemma sextet_parts:
  "(ord a mod 4 * 16 + ord b div 16) div 16 = ord a mod 4"
  "(ord a mod 4 * 16 + ord b div 16) mod 16 = ord b div 16"
  "(ord b mod 16 * 4 + ord c div 64) div 4 = ord b mod 16"
  "(ord b mod 16 * 4 + ord c div 64) mod 4 = ord c div 64"
proof -
  have "ord b div 16 < 16" "ord c div 64 < 4"
    using ord_less [of b] ord_less [of c] by simp_all
  then show "(ord a mod 4 * 16 + ord b div 16) div 16 = ord a mod 4"
    "(ord a mod 4 * 16 + ord b div 16) mod 16 = ord b div 16"
    "(ord b mod 16 * 4 + ord c div 64) div 4 = ord b mod 16"
    "(ord b mod 16 * 4 + ord c div 64) mod 4 = ord c div 64"
    by (simp_all only: div_mod_pack)
qed

lemma high_parts: "ord b div 16 mod 16 = ord b div 16" "ord c div 64 mod 4 = ord c div 64"
  using ord_less [of b] ord_less [of c] by simp_all

lemma bytes_of_sextets: "bytes_of (sextets s) = Some s"
  by (induction s rule: sextets.induct) (simp_all add: sextet_parts high_parts)

lemma sextets_less: "n \<in> set (sextets s) \<Longrightarrow> n < 64"
proof (induction s rule: sextets.induct)
  case (2 a)
  then show ?case using ord_less [of a] by auto
next
  case (3 a b)
  then show ?case using ord_less [of a] ord_less [of b] by auto
next
  case (4 a b c s)
  then show ?case using ord_less [of a] ord_less [of b] ord_less [of c] by auto
qed simp

lemma lookup_all_map:
  "distinct alpha \<Longrightarrow> \<forall>n \<in> set ns. n < length alpha \<Longrightarrow> lookup_all alpha (map ((!) alpha) ns) = Some ns"
  by (induction ns) (auto simp: index_of_nth)

lemma drop_newlines_id: "CHR 0x0A \<notin> set s \<Longrightarrow> CHR 0x0D \<notin> set s \<Longrightarrow> drop_newlines s = s"
  unfolding drop_newlines_def by (rule filter_True) metis

lemma raw_encode_chars: "length alpha = 64 \<Longrightarrow> set (raw_encode alpha s) \<subseteq> set alpha"
  unfolding raw_encode_def using sextets_less by fastforce

lemma raw_round_trip:
  assumes "distinct alpha" "length alpha = 64" "CHR 0x0A \<notin> set alpha" "CHR 0x0D \<notin> set alpha"
  shows "raw_decode alpha (raw_encode alpha s) = Some s"
proof -
  have "drop_newlines (raw_encode alpha s) = raw_encode alpha s"
    using raw_encode_chars [OF assms(2), of s] assms(3,4) by (intro drop_newlines_id) auto
  moreover have "lookup_all alpha (raw_encode alpha s) = Some (sextets s)"
    unfolding raw_encode_def using assms(1,2) sextets_less by (intro lookup_all_map) auto
  ultimately show ?thesis
    by (simp add: raw_decode_def bytes_of_sextets)
qed

lemma url_alphabet_facts:
  "distinct url_alphabet" "length url_alphabet = 64"
  "CHR 0x0A \<notin> set url_alphabet" "CHR 0x0D \<notin> set url_alphabet" "CHR ''.'' \<notin> set url_alphabet"
  by (simp_all add: url_alphabet_def)

lemma std_alphabet_facts:
  "distinct std_alphabet" "length std_alphabet = 64"
  "CHR 0x0A \<notin> set std_alphabet" "CHR 0x0D \<notin> set std_alphabet" "CHR ''='' \<notin> set std_alphabet"
  by (simp_all add: std_alphabet_def)

lemma RawURL_round_trip [simp]: "RawURL_Decode (RawURL_Encode s) = Some s"
  unfolding RawURL_Decode_def RawURL_Encode_def
  by (rule raw_round_trip) (rule url_alphabet_facts)+

lemma RawURL_chars: "set (RawURL_Encode s) \<subseteq> set url_alphabet"
  unfolding RawURL_Encode_def by (rule raw_encode_chars) (rule url_alphabet_facts)

lemma RawURL_no_dot: "CHR ''.'' \<notin> set (RawURL_Encode s)"
  using RawURL_chars url_alphabet_facts(5) by blast

lemma RawURL_inj: "RawURL_Encode s = RawURL_Encode t \<longleftrightarrow> s = t"
  by (metis RawURL_round_trip option.inject)

lemma sextets_length: "length (sextets s) = (4 * length s + 2) div 3"
  by (induction s rule: sextets.induct) auto

lemma RawURL_length: "length (RawURL_Encode s) = (4 * length s + 2) div 3"
  by (simp add: RawURL_Encode_def raw_encode_def sextets_length)

lemma url_safe_trimmed:
  assumes "\<forall>c \<in> set s. ord c < 128 \<and> \<not> ascii_space c"
  shows "trimmed s"
proof -
  have high: "space2 a b \<Longrightarrow> 128 \<le> ord a" "space3 a b c \<Longrightarrow> 128 \<le> ord a" for a b c
    by (auto simp: space2_def space3_def ord_def)
  have "\<exists>c \<in> set q. 128 \<le> ord c \<or> ascii_space c" if "is_space_seq q" for q
    using that high unfolding is_space_seq_def by fastforce
  with assms show ?thesis
    unfolding trimmed_space_seqs by (metis Un_iff not_less set_append)
qed

lemma RawURL_safe: "c \<in> set (RawURL_Encode s) \<Longrightarrow> ord c < 128 \<and> \<not> ascii_space c"
proof -
  have "list_all (\<lambda>c. ord c < 128 \<and> \<not> ascii_space c) url_alphabet"
    by (simp add: url_alphabet_def ord_def ascii_space_def)
  moreover assume "c \<in> set (RawURL_Encode s)"
  ultimately show ?thesis using RawURL_chars by (auto simp: list_all_iff)
qed

lemma RawURL_trimmed: "trimmed (RawURL_Encode s)"
  using RawURL_safe by (intro url_safe_trimmed) blast

lemma RawURL_Nil_iff [simp]: "RawURL_Encode s = [] \<longleftrightarrow> s = []"
  by (cases s rule: sextets.cases) (simp_all add: RawURL_Encode_def raw_encode_def)

end
