(* ===== verification/Go_Time.thy ===== *)
theory Go_Time
  imports Go_Strings
begin

text \<open>
  Instants and durations of the package \<^verbatim>\<open>time\<close>. An instant is the number of nanoseconds since
  1 January of year 1, UTC, so the zero \<^verbatim>\<open>time.Time\<close> is 0 and \<^verbatim>\<open>IsZero\<close> is \<open>t = 0\<close>; \<^verbatim>\<open>Before\<close> and
  \<^verbatim>\<open>After\<close> are the order and \<^verbatim>\<open>UTC()\<close> is the identity. A duration is an \<^verbatim>\<open>int64\<close> of nanoseconds.

  Adding a duration (at most 292 years) to an instant read from the clock stays far inside
  the range of Go's representation, so it is written \<open>+\<close>. \<open>Time_Add\<close> is the exact operation,
  with its saturation, for instants that come from a token.
\<close>

type_synonym gotime = int
type_synonym duration = int

abbreviation Second :: duration where "Second \<equiv> 1000000000"
abbreviation Minute :: duration where "Minute \<equiv> 60 * Second"
abbreviation Hour :: duration where "Hour \<equiv> 60 * Minute"

text \<open>The seconds from the first day of year 1 to 1 January 1970.\<close>

definition unix_offset :: int where "unix_offset = 62135596800"

text \<open>\<^verbatim>\<open>time.Unix(sec, 0)\<close>: the seconds are rebased in \<^verbatim>\<open>int64\<close>, which wraps around.\<close>

definition time_Unix :: "int \<Rightarrow> gotime" where
  "time_Unix sec = wrap64 (sec + unix_offset) * Second"

text \<open>\<^verbatim>\<open>t.Unix()\<close>.\<close>

definition Time_Unix :: "gotime \<Rightarrow> int" where
  "Time_Unix t = wrap64 (t div Second - unix_offset)"

definition Time_Add :: "gotime \<Rightarrow> duration \<Rightarrow> gotime" where
  "Time_Add t d =
     (let s = (t + d) div Second; n = (t + d) mod Second
      in if max_int64 < s then max_int64 * Second + n
         else if s < min_int64 then - max_int64 * Second + n
         else t + d)"

text \<open>Go's integer division of a duration truncates towards zero.\<close>

definition quot :: "int \<Rightarrow> int \<Rightarrow> int" where
  "quot a b = sgn a * sgn b * (\<bar>a\<bar> div \<bar>b\<bar>)"

text \<open>The instants from year 1 to far beyond any clock reading (about the year 146 billion).\<close>

definition clock_time :: "gotime \<Rightarrow> bool" where
  "clock_time t \<longleftrightarrow> 0 \<le> t \<and> t < 4611686018427387904 * Second"

lemma Time_Unix_clock: "clock_time t \<Longrightarrow> Time_Unix t = t div Second - unix_offset"
  unfolding clock_time_def Time_Unix_def unix_offset_def
  by (intro wrap64_id) (simp add: in_int64_def min_int64_def max_int64_def, linarith)

lemma time_Unix_Unix: "clock_time t \<Longrightarrow> time_Unix (Time_Unix t) = t div Second * Second"
proof -
  assume t: "clock_time t"
  then have "in_int64 (t div Second)"
    unfolding clock_time_def in_int64_def min_int64_def max_int64_def by (simp, linarith)
  with t show ?thesis
    by (simp add: time_Unix_def Time_Unix_clock wrap64_id)
qed

lemma Time_Add_clock:
  "clock_time t \<Longrightarrow> in_int64 d \<Longrightarrow> Time_Add t d = t + d"
  unfolding clock_time_def Time_Add_def in_int64_def max_int64_def min_int64_def
  by (simp add: Let_def, linarith)

section \<open>RFC 3339\<close>

text \<open>
  \<^verbatim>\<open>t.Format(time.RFC3339)\<close> for an instant in UTC: the proleptic Gregorian date, the time of day
  to the second, and \<^verbatim>\<open>Z\<close>. Day 0 is 1 January of year 1.
\<close>

definition leap :: "int \<Rightarrow> bool" where
  "leap y \<longleftrightarrow> y mod 4 = 0 \<and> (y mod 100 \<noteq> 0 \<or> y mod 400 = 0)"

definition days_before_year :: "int \<Rightarrow> int" where
  "days_before_year y = (let p = y - 1 in 365 * p + p div 4 - p div 100 + p div 400)"

text \<open>The year of a day: an estimate that is never too late and at most one year too early.\<close>

definition year_of_day :: "int \<Rightarrow> int" where
  "year_of_day d = (let y = (d * 400) div 146097 + 1
     in if days_before_year (y + 1) \<le> d then y + 1 else if d < days_before_year y then y - 1 else y)"

definition month_lengths :: "int \<Rightarrow> int list" where
  "month_lengths y = [31, if leap y then 29 else 28, 31, 30, 31, 30, 31, 31, 30, 31, 30, 31]"

fun month_day :: "int \<Rightarrow> int list \<Rightarrow> int \<Rightarrow> int \<times> int" where
  "month_day m [] d = (m, d + 1)"
| "month_day m (l # ls) d = (if d < l then (m, d + 1) else month_day (m + 1) ls (d - l))"

definition pad :: "nat \<Rightarrow> int \<Rightarrow> string" where
  "pad w n = (if n < 0 then ''-'' else []) @
     (let ds = nat_digits (nat \<bar>n\<bar>) in replicate (w - length ds) (CHR ''0'') @ ds)"

definition Format_RFC3339 :: "gotime \<Rightarrow> string" where
  "Format_RFC3339 t =
     (let s = t div Second; day = s div 86400; tod = s mod 86400; y = year_of_day day;
          (m, d) = month_day 1 (month_lengths y) (day - days_before_year y)
      in pad 4 y @ ''-'' @ pad 2 m @ ''-'' @ pad 2 d @ ''T'' @ pad 2 (tod div 3600) @ '':''
         @ pad 2 (tod mod 3600 div 60) @ '':'' @ pad 2 (tod mod 60) @ ''Z'')"

end
