(* ===== verification/One_Time_Store.thy ===== *)
theory One_Time_Store
  imports Go_Time
begin

text \<open>
  The two contracts of the stores that make a credential usable once.

  \<open>one_time_store\<close>: refresh tokens and login keys. A credential is accepted until it is consumed
  or expires, and only an operation that issues it makes it acceptable again. \<open>expiring_store\<close>
  adds that the periodic clean-up cannot be observed.

  \<open>replay_store\<close>: the contract of \<^verbatim>\<open>grantauth.ReplayStore\<close>. The first caller for a token id
  succeeds, later callers fail until the recorded expiry has passed.
\<close>

section \<open>Stores of one-time credentials\<close>

locale one_time_store =
  fixes inv :: "'s \<Rightarrow> bool"
    and step :: "'s \<Rightarrow> 'op \<Rightarrow> 's"
    and accepts :: "'s \<Rightarrow> gotime \<Rightarrow> 'k \<Rightarrow> 'v option"
    and consume :: "gotime \<Rightarrow> 'k \<Rightarrow> 'op"
    and issues :: "'s \<Rightarrow> 'op \<Rightarrow> 'k \<Rightarrow> bool"
  assumes inv_step: "inv s \<Longrightarrow> inv (step s op)"
    and consumed: "inv s \<Longrightarrow> accepts (step s (consume now k)) t k = None"
    and no_revival: "inv s \<Longrightarrow> (\<And>t. accepts s t k = None) \<Longrightarrow> \<not> issues s op k \<Longrightarrow> accepts (step s op) t k = None"
begin

text \<open>No operation of the sequence, in the state it finds, issues the credential.\<close>

fun never_issued :: "'s \<Rightarrow> 'op list \<Rightarrow> 'k \<Rightarrow> bool" where
  "never_issued s [] k = True"
| "never_issued s (op # ops) k = (\<not> issues s op k \<and> never_issued (step s op) ops k)"

lemma stays_dead:
  "inv s \<Longrightarrow> (\<And>t. accepts s t k = None) \<Longrightarrow> never_issued s ops k \<Longrightarrow> accepts (foldl step s ops) t k = None"
proof (induction ops arbitrary: s)
  case Nil
  then show ?case by simp
next
  case (Cons op ops)
  have "accepts (step s op) u k = None" for u
    using Cons.prems by (intro no_revival) auto
  then show ?case using Cons inv_step by simp
qed

lemma consumed_once:
  "inv s \<Longrightarrow> never_issued (step s (consume now k)) ops k \<Longrightarrow>
   accepts (foldl step (step s (consume now k)) ops) t k = None"
  by (rule stays_dead) (simp_all add: consumed inv_step)

end

locale expiring_store = one_time_store inv step accepts consume issues
  for inv :: "'s \<Rightarrow> bool"
    and step :: "'s \<Rightarrow> 'op \<Rightarrow> 's"
    and accepts :: "'s \<Rightarrow> gotime \<Rightarrow> 'k \<Rightarrow> 'v option"
    and consume :: "gotime \<Rightarrow> 'k \<Rightarrow> 'op"
    and issues :: "'s \<Rightarrow> 'op \<Rightarrow> 'k \<Rightarrow> bool" +
  fixes cleanup :: "gotime \<Rightarrow> 'op"
  assumes cleanup_invisible: "inv s \<Longrightarrow> now \<le> t \<Longrightarrow> accepts (step s (cleanup now)) t k = accepts s t k"
begin

lemma cleanups_invisible:
  "inv s \<Longrightarrow> \<forall>now \<in> set ns. now \<le> t \<Longrightarrow> accepts (foldl step s (map cleanup ns)) t k = accepts s t k"
  by (induction ns arbitrary: s) (simp_all add: cleanup_invisible inv_step)

end

section \<open>Replay stores\<close>

locale replay_store =
  fixes inv :: "'s \<Rightarrow> bool"
    and consume :: "gotime \<Rightarrow> 's \<Rightarrow> string \<Rightarrow> gotime \<Rightarrow> 's"
    and accepted :: "gotime \<Rightarrow> 's \<Rightarrow> string \<Rightarrow> gotime \<Rightarrow> bool"
    and live :: "'s \<Rightarrow> gotime \<Rightarrow> string \<Rightarrow> bool"
  assumes inv_consume: "inv s \<Longrightarrow> inv (consume now s k e)"
    and accepted_iff: "inv s \<Longrightarrow> accepted now s k e \<longleftrightarrow> TrimSpace k \<noteq> [] \<and> \<not> live s now (TrimSpace k)"
    and live_accepted: "inv s \<Longrightarrow> accepted now s k e \<Longrightarrow> now \<le> t \<Longrightarrow> live (consume now s k e) t (TrimSpace k) \<longleftrightarrow> t < e"
    and live_other: "inv s \<Longrightarrow> now \<le> t \<Longrightarrow> accepted now s k e \<longrightarrow> k' \<noteq> TrimSpace k \<Longrightarrow>
          live (consume now s k e) t k' \<longleftrightarrow> live s t k'"
begin

definition calls :: "'s \<Rightarrow> (gotime \<times> string \<times> gotime) list \<Rightarrow> 's" where
  "calls = foldl (\<lambda>s (now, k, e). consume now s k e)"

lemma inv_calls: "inv s \<Longrightarrow> inv (calls s cs)"
  unfolding calls_def by (induction cs arbitrary: s) (auto simp: inv_consume)

text \<open>What is live stays live, over calls in the order of time, until its expiry.\<close>

lemma live_calls:
  "inv s \<Longrightarrow> live s t0 k \<Longrightarrow> (\<And>t. t0 \<le> t \<Longrightarrow> live s t k \<longleftrightarrow> t < e) \<Longrightarrow>
   sorted (t0 # map fst cs) \<Longrightarrow> \<forall>c \<in> set cs. fst c < e \<Longrightarrow> \<forall>c \<in> set cs. fst c \<le> t \<Longrightarrow> t0 \<le> t \<Longrightarrow>
   live (calls s cs) t k \<longleftrightarrow> t < e"
proof (induction cs arbitrary: s t0)
  case Nil
  then show ?case by (simp add: calls_def)
next
  case (Cons c cs)
  obtain now k' e' where c: "c = (now, k', e')" by (cases c)
  have lk: "live s now k" using Cons.prems c by auto
  have keep: "live (consume now s k' e') u k \<longleftrightarrow> live s u k" if "now \<le> u" for u
    using that lk Cons.prems(1) accepted_iff [of s now k' e'] by (intro live_other) auto
  have "live (calls (consume now s k' e') cs) t k \<longleftrightarrow> t < e"
    using Cons.prems c keep lk by (intro Cons.IH [of _ now]) (auto simp: inv_consume)
  then show ?case by (simp add: calls_def c)
qed

lemma refused_until_expiry:
  assumes "inv s" and "accepted now s k e" and "sorted (now # map fst cs @ [t])" and "t < e"
    and "TrimSpace k' = TrimSpace k"
  shows "\<not> accepted t (calls (consume now s k e) cs) k' e'"
proof -
  have live: "live (consume now s k e) u (TrimSpace k) \<longleftrightarrow> u < e" if "now \<le> u" for u
    using live_accepted [OF assms(1,2) that] .
  have order: "sorted (now # map fst cs)" "\<forall>c \<in> set cs. fst c \<le> t" "now \<le> t"
    using assms(3) by (auto simp: sorted_append)
  then have "live (calls (consume now s k e) cs) t (TrimSpace k) \<longleftrightarrow> t < e"
    using assms(1,4) live by (intro live_calls [of _ now]) (auto simp: inv_consume)
  then show ?thesis
    using assms(1,4,5) by (simp add: accepted_iff inv_calls inv_consume)
qed

end

end
