(* ===== verification/Refresh_Tokens.thy ===== *)
theory Refresh_Tokens
  imports Go_Base64 One_Time_Store
begin

text \<open>
  \<^verbatim>\<open>controlplane/refresh_tokens.go\<close> with \<^verbatim>\<open>opaque_token.go\<close> and \<^verbatim>\<open>userkey_hash.go\<close>: the store of
  refresh tokens, indexed by the hash of the token.

  SHA-256 is a parameter \<open>sha\<close>. The 32 random bytes of a new token are an argument (\<open>None\<close> when
  the system has no randomness to give), and so is the clock.
\<close>

section \<open>Hashes\<close>

definition HashToken :: "(string \<Rightarrow> string) \<Rightarrow> string \<Rightarrow> string" where
  "HashToken sha raw = RawURL_Encode (sha raw)"

definition hashOpaqueToken :: "(string \<Rightarrow> string) \<Rightarrow> string \<Rightarrow> string" where
  "hashOpaqueToken sha raw = RawURL_Encode (sha raw)"

definition HashUserKey :: "(string \<Rightarrow> string) \<Rightarrow> string \<Rightarrow> string" where
  "HashUserKey sha raw = RawURL_Encode (sha raw)"

section \<open>The store\<close>

record refreshTokenRecord =
  rt_Subject :: string
  rt_ExpiresAt :: gotime

type_synonym RefreshTokenStore = "(string, refreshTokenRecord) gomap"

datatype refresh_error =
  RefreshSubjectRequired | RefreshTTLInvalid | RefreshRandomFailed
| RefreshTokenRequired | InvalidRefreshToken | RefreshTokenExpired

definition NewRefreshTokenStore :: RefreshTokenStore where
  "NewRefreshTokenStore = []"

definition RandomToken :: "string option \<Rightarrow> string option" where
  "RandomToken bytes = map_option RawURL_Encode bytes"

definition RefreshTokenStore_Issue ::
  "(string \<Rightarrow> string) \<Rightarrow> gotime \<Rightarrow> string option \<Rightarrow> RefreshTokenStore \<Rightarrow> string \<Rightarrow> duration
   \<Rightarrow> RefreshTokenStore \<times> (refresh_error + string \<times> gotime)"
where
  "RefreshTokenStore_Issue sha now bytes s rawSubject ttl =
     (let subject = TrimSpace rawSubject
      in if subject = [] then (s, Inl RefreshSubjectRequired)
         else if ttl \<le> 0 then (s, Inl RefreshTTLInvalid)
         else case RandomToken bytes of None \<Rightarrow> (s, Inl RefreshRandomFailed)
         | Some token \<Rightarrow>
             let expiresAt = now + ttl
             in (go_put s (HashToken sha token) \<lparr>rt_Subject = subject, rt_ExpiresAt = expiresAt\<rparr>,
                 Inr (token, expiresAt)))"

definition RefreshTokenStore_Peek ::
  "(string \<Rightarrow> string) \<Rightarrow> gotime \<Rightarrow> RefreshTokenStore \<Rightarrow> string \<Rightarrow> refresh_error + string"
where
  "RefreshTokenStore_Peek sha now s raw =
     (let rawToken = TrimSpace raw
      in if rawToken = [] then Inl RefreshTokenRequired
         else case go_get s (HashToken sha rawToken) of
           None \<Rightarrow> Inl InvalidRefreshToken
         | Some r \<Rightarrow> if rt_ExpiresAt r < now then Inl RefreshTokenExpired else Inr (rt_Subject r))"

definition RefreshTokenStore_Consume ::
  "(string \<Rightarrow> string) \<Rightarrow> gotime \<Rightarrow> RefreshTokenStore \<Rightarrow> string
   \<Rightarrow> RefreshTokenStore \<times> (refresh_error + string)"
where
  "RefreshTokenStore_Consume sha now s raw =
     (let rawToken = TrimSpace raw
      in if rawToken = [] then (s, Inl RefreshTokenRequired)
         else let tokenHash = HashToken sha rawToken
         in case go_get s tokenHash of
           None \<Rightarrow> (s, Inl InvalidRefreshToken)
         | Some r \<Rightarrow>
             (go_del s tokenHash,
              if rt_ExpiresAt r < now then Inl RefreshTokenExpired else Inr (rt_Subject r)))"

definition RefreshTokenStore_Cleanup :: "gotime \<Rightarrow> RefreshTokenStore \<Rightarrow> RefreshTokenStore" where
  "RefreshTokenStore_Cleanup cutoff s = go_filter (\<lambda>_ r. \<not> rt_ExpiresAt r < cutoff) s"

section \<open>Operations as steps\<close>

datatype refresh_op =
  RefreshIssue gotime "string option" string duration
| RefreshPeek gotime string
| RefreshConsume gotime string
| RefreshCleanup gotime

fun refresh_step :: "(string \<Rightarrow> string) \<Rightarrow> RefreshTokenStore \<Rightarrow> refresh_op \<Rightarrow> RefreshTokenStore" where
  "refresh_step sha s (RefreshIssue now bytes subject ttl) = fst (RefreshTokenStore_Issue sha now bytes s subject ttl)"
| "refresh_step sha s (RefreshPeek now raw) = s"
| "refresh_step sha s (RefreshConsume now raw) = fst (RefreshTokenStore_Consume sha now s raw)"
| "refresh_step sha s (RefreshCleanup now) = RefreshTokenStore_Cleanup now s"

text \<open>The operation draws the bytes of a token with the same hash as \<open>raw\<close>.\<close>

fun refresh_issues :: "(string \<Rightarrow> string) \<Rightarrow> refresh_op \<Rightarrow> string \<Rightarrow> bool" where
  "refresh_issues sha (RefreshIssue now bytes subject ttl) raw =
     (case RandomToken bytes of None \<Rightarrow> False
      | Some token \<Rightarrow> HashToken sha token = HashToken sha (TrimSpace raw))"
| "refresh_issues sha _ raw = False"

definition refresh_accepts :: "(string \<Rightarrow> string) \<Rightarrow> RefreshTokenStore \<Rightarrow> gotime \<Rightarrow> string \<Rightarrow> string option" where
  "refresh_accepts sha s now raw =
     (case RefreshTokenStore_Peek sha now s raw of Inl _ \<Rightarrow> None | Inr subject \<Rightarrow> Some subject)"

lemma wf_refresh_step [inv_intros]: "wf_map s \<Longrightarrow> wf_map (refresh_step sha s op)"
  by (cases op) (auto simp: RefreshTokenStore_Issue_def RefreshTokenStore_Consume_def
      RefreshTokenStore_Cleanup_def Let_def split: option.splits)

lemma Consume_as_Peek: "snd (RefreshTokenStore_Consume sha now s raw) = RefreshTokenStore_Peek sha now s raw"
  by (simp add: RefreshTokenStore_Consume_def RefreshTokenStore_Peek_def Let_def split: option.split)

lemma refresh_accepts_unfold:
  "refresh_accepts sha s now raw =
     (if TrimSpace raw = [] then None
      else case go_get s (HashToken sha (TrimSpace raw)) of None \<Rightarrow> None
        | Some r \<Rightarrow> if rt_ExpiresAt r < now then None else Some (rt_Subject r))"
  by (simp add: refresh_accepts_def RefreshTokenStore_Peek_def Let_def split: option.split)

lemma refresh_accepts_Consume:
  "refresh_accepts sha (fst (RefreshTokenStore_Consume sha now s raw)) t raw' =
     (if HashToken sha (TrimSpace raw') = HashToken sha (TrimSpace raw) \<and> TrimSpace raw \<noteq> [] then None
      else refresh_accepts sha s t raw')"
  by (auto simp: refresh_accepts_unfold RefreshTokenStore_Consume_def Let_def split: option.splits)

lemma refresh_accepts_Issue:
  "refresh_accepts sha (fst (RefreshTokenStore_Issue sha now bytes s subject ttl)) t raw =
     (case RandomToken bytes of
        Some token \<Rightarrow>
          if HashToken sha (TrimSpace raw) = HashToken sha token \<and> TrimSpace subject \<noteq> [] \<and> 0 < ttl
             \<and> TrimSpace raw \<noteq> []
          then (if now + ttl < t then None else Some (TrimSpace subject))
          else refresh_accepts sha s t raw
      | None \<Rightarrow> refresh_accepts sha s t raw)"
  by (auto simp: refresh_accepts_unfold RefreshTokenStore_Issue_def Let_def split: option.splits)

lemma go_get_Cleanup:
  "wf_map s \<Longrightarrow> go_get (RefreshTokenStore_Cleanup now s) h =
     (case go_get s h of Some r \<Rightarrow> if rt_ExpiresAt r < now then None else Some r | None \<Rightarrow> None)"
  by (simp add: RefreshTokenStore_Cleanup_def go_get_filter split: option.split)

lemma refresh_accepts_Cleanup:
  "wf_map s \<Longrightarrow> refresh_accepts sha (RefreshTokenStore_Cleanup now s) t raw =
     (case go_get s (HashToken sha (TrimSpace raw)) of
        Some r \<Rightarrow> if rt_ExpiresAt r < now then None else refresh_accepts sha s t raw
      | None \<Rightarrow> None)"
  by (auto simp: refresh_accepts_unfold go_get_Cleanup split: option.splits)

interpretation refresh: expiring_store wf_map "refresh_step sha" "refresh_accepts sha" RefreshConsume
  "\<lambda>_. refresh_issues sha" RefreshCleanup for sha
proof
  fix s :: RefreshTokenStore and op k now t
  assume s: "wf_map s"
  show "wf_map (refresh_step sha s op)" using s by (rule wf_refresh_step)
  show "refresh_accepts sha (refresh_step sha s (RefreshConsume now k)) t k = None"
    by (simp add: refresh_accepts_Consume) (simp add: refresh_accepts_unfold)
  show "refresh_accepts sha (refresh_step sha s (RefreshCleanup now)) t k = refresh_accepts sha s t k"
    if "now \<le> t"
    using s that by (auto simp: refresh_accepts_unfold go_get_Cleanup split: option.splits)
  show "refresh_accepts sha (refresh_step sha s op) t k = None"
    if "\<And>t. refresh_accepts sha s t k = None" "\<not> refresh_issues sha op k"
    using s that by (cases op) (auto simp: refresh_accepts_Issue refresh_accepts_Consume
        refresh_accepts_Cleanup split: option.splits)
qed

lemma refresh_never_issued:
  "\<forall>op \<in> set ops. \<not> refresh_issues sha op raw \<Longrightarrow> refresh.never_issued sha s ops raw"
  by (induction ops arbitrary: s) auto

section \<open>Properties\<close>

text \<open>
  A refresh token that has just been issued is accepted, with its subject, up to and including
  its expiry and refused after it, and the expiry is the issue time plus the lifetime.
\<close>

theorem refresh_issue_then_consume:
  assumes "RefreshTokenStore_Issue sha now (Some bytes) s subject ttl = (s', Inr (token, expt))"
    and "bytes \<noteq> []"
  shows "expt = now + ttl
    \<and> snd (RefreshTokenStore_Consume sha t s' token) =
        (if t \<le> expt then Inr (TrimSpace subject) else Inl RefreshTokenExpired)"
proof -
  have "token = RawURL_Encode bytes" "TrimSpace token = token" "token \<noteq> []"
    using assms RawURL_trimmed [of bytes]
    by (auto simp: RefreshTokenStore_Issue_def Let_def RandomToken_def TrimSpace_id split: if_splits)
  with assms(1) show ?thesis
    by (auto simp: RefreshTokenStore_Issue_def RefreshTokenStore_Consume_def Let_def RandomToken_def
        split: if_splits)
qed

lemma refresh_issue_then_consume_witness:
  "snd (RefreshTokenStore_Consume rev 900
     (fst (RefreshTokenStore_Issue rev 100 (Some ''abc'') NewRefreshTokenStore '' bob '' 1000)) ''YWJj'') = Inr ''bob''"
proof -
  have issue: "RefreshTokenStore_Issue rev 100 (Some ''abc'') NewRefreshTokenStore '' bob '' 1000
      = (fst (RefreshTokenStore_Issue rev 100 (Some ''abc'') NewRefreshTokenStore '' bob '' 1000), Inr (''YWJj'', 1100))"
    by code_simp
  have bob: "TrimSpace '' bob '' = ''bob''" by code_simp
  show ?thesis
    using refresh_issue_then_consume [OF issue, of 900] by (simp add: bob)
qed

text \<open>
  C33: A refresh token can be used once: after \<^verbatim>\<open>Consume\<close> has seen it, no later sequence of
  operations makes the store accept it again, unless one of them draws a token with the same hash.
\<close>

theorem refresh_single_use:
  assumes "wf_map s" and "\<forall>op \<in> set ops. \<not> refresh_issues sha op raw"
  shows "\<not> is_ok (snd (RefreshTokenStore_Consume sha t
           (foldl (refresh_step sha) (fst (RefreshTokenStore_Consume sha now s raw)) ops) raw))"
proof -
  have "refresh_accepts sha (foldl (refresh_step sha) (refresh_step sha s (RefreshConsume now raw)) ops) t raw = None"
    using assms by (intro refresh.consumed_once refresh_never_issued)
  then show ?thesis
    by (auto simp: Consume_as_Peek refresh_accepts_def split: sum.splits)
qed

lemma refresh_single_use_witness:
  "\<not> is_ok (snd (RefreshTokenStore_Consume rev 300
     (foldl (refresh_step rev)
        (fst (RefreshTokenStore_Consume rev 200
           (go_put [] (HashToken rev ''YWJj'') \<lparr>rt_Subject = ''bob'', rt_ExpiresAt = 1100\<rparr>) ''YWJj''))
        [RefreshCleanup 250, RefreshIssue 260 (Some ''xyz'') ''bob'' 50]) ''YWJj''))"
proof (rule refresh_single_use)
  show "wf_map (go_put [] (HashToken rev ''YWJj'') \<lparr>rt_Subject = ''bob'', rt_ExpiresAt = 1100\<rparr>)" by simp
  have "\<not> refresh_issues rev (RefreshIssue 260 (Some ''xyz'') ''bob'' 50) ''YWJj''" by code_simp
  then show "\<forall>op \<in> set [RefreshCleanup 250, RefreshIssue 260 (Some ''xyz'') ''bob'' 50]. \<not> refresh_issues rev op ''YWJj''"
    by simp
qed

end
