(* ===== verification/Login_Keys.thy ===== *)
theory Login_Keys
  imports Refresh_Tokens
begin

text \<open>
  \<^verbatim>\<open>controlplane/login_keys.go\<close> and \<^verbatim>\<open>login_key_words.go\<close>: the one-time keys of four words that
  log a second device in.

  The words are the argument \<open>words\<close>, the result of \<open>mustLoadLoginKeyWords\<close> on the embedded file.
  Randomness is the list \<open>draws\<close> of the results of \<^verbatim>\<open>rand.Int\<close>, in the order they are asked for:
  \<open>None\<close> when it fails, otherwise an index into the words. A store operation that draws returns
  what is left of the list.
\<close>

section \<open>Words\<close>

definition loginKeyWordCount :: nat where "loginKeyWordCount = 4"

text \<open>\<^verbatim>\<open>strings.Fields\<close>; \<open>cur\<close> is the field being read, reversed.\<close>

function Fields_from :: "string \<Rightarrow> string \<Rightarrow> string list" where
  "Fields_from cur [] = (if cur = [] then [] else [rev cur])"
| "Fields_from cur (c # s) =
     (if space_width (c # s) = 0 then Fields_from (c # cur) s
      else (if cur = [] then [] else [rev cur]) @ Fields_from [] (drop (space_width (c # s)) (c # s)))"
  by pat_completeness auto
termination
  by (relation "measure (length \<circ> snd)") auto

definition mustLoadLoginKeyWords :: "string \<Rightarrow> string list option" where
  "mustLoadLoginKeyWords raw =
     (let words = Fields_from [] raw in if length words = 2048 then Some words else None)"

definition normalizeLoginKey :: "string \<Rightarrow> string" where
  "normalizeLoginKey raw = ToLower (TrimSpace raw)"

fun draw_words :: "string list \<Rightarrow> nat \<Rightarrow> nat option list \<Rightarrow> string list option \<times> nat option list" where
  "draw_words words 0 draws = (Some [], draws)"
| "draw_words words (Suc n) [] = (None, [])"
| "draw_words words (Suc n) (d # draws) =
     (case d of None \<Rightarrow> (None, draws)
      | Some i \<Rightarrow>
          if i < length words
          then (let (rest, draws') = draw_words words n draws in (map_option ((#) (words ! i)) rest, draws'))
          else (None, draws))"

definition randomWordLoginKey :: "string list \<Rightarrow> nat option list \<Rightarrow> string option \<times> nat option list" where
  "randomWordLoginKey words draws =
     (let (parts, draws') = draw_words words loginKeyWordCount draws
      in (map_option (\<lambda>ps. normalizeLoginKey (Join ps ''-'')) parts, draws'))"

section \<open>The store\<close>

record LoginKeyClaims =
  lk_Subject :: string
  lk_MaxSessions :: int

record loginKeyRecord =
  lr_Claims :: LoginKeyClaims
  lr_ExpiresAt :: gotime

type_synonym LoginKeyStore = "(string, loginKeyRecord) gomap"

datatype login_error =
  LoginSubjectRequired | LoginMaxSessionsInvalid | LoginTTLInvalid | LoginRandomFailed
| LoginKeyNotUnique | LoginKeyRequired | InvalidLoginKey | LoginKeyExpired

definition NewLoginKeyStore :: LoginKeyStore where
  "NewLoginKeyStore = []"

text \<open>The loop over at most eight attempts to find a key whose hash is not in the store.\<close>

fun login_attempts ::
  "(string \<Rightarrow> string) \<Rightarrow> string list \<Rightarrow> nat \<Rightarrow> LoginKeyStore \<Rightarrow> loginKeyRecord \<Rightarrow> nat option list
   \<Rightarrow> LoginKeyStore \<times> (login_error + string) \<times> nat option list"
where
  "login_attempts sha words 0 s r draws = (s, Inl LoginKeyNotUnique, draws)"
| "login_attempts sha words (Suc n) s r draws =
     (case randomWordLoginKey words draws of
        (None, draws') \<Rightarrow> (s, Inl LoginRandomFailed, draws')
      | (Some raw, draws') \<Rightarrow>
          let keyHash = hashOpaqueToken sha raw
          in if go_get s keyHash = None then (go_put s keyHash r, Inr raw, draws')
             else login_attempts sha words n s r draws')"

definition LoginKeyStore_Issue ::
  "(string \<Rightarrow> string) \<Rightarrow> string list \<Rightarrow> gotime \<Rightarrow> nat option list \<Rightarrow> LoginKeyStore \<Rightarrow> string \<Rightarrow> int \<Rightarrow> duration
   \<Rightarrow> LoginKeyStore \<times> (login_error + string \<times> gotime) \<times> nat option list"
where
  "LoginKeyStore_Issue sha words now draws s rawSubject maxSessions ttl =
     (let subject = TrimSpace rawSubject
      in if subject = [] then (s, Inl LoginSubjectRequired, draws)
         else if maxSessions \<le> 0 then (s, Inl LoginMaxSessionsInvalid, draws)
         else if ttl \<le> 0 then (s, Inl LoginTTLInvalid, draws)
         else
           let expiresAt = now + ttl;
               record = \<lparr>lr_Claims = \<lparr>lk_Subject = subject, lk_MaxSessions = maxSessions\<rparr>,
                         lr_ExpiresAt = expiresAt\<rparr>;
               (s', result, draws') = login_attempts sha words 8 s record draws
           in (s', map_sum id (\<lambda>raw. (raw, expiresAt)) result, draws'))"

definition LoginKeyStore_Consume ::
  "(string \<Rightarrow> string) \<Rightarrow> gotime \<Rightarrow> LoginKeyStore \<Rightarrow> string \<Rightarrow> LoginKeyStore \<times> (login_error + LoginKeyClaims)"
where
  "LoginKeyStore_Consume sha now s raw =
     (let rawKey = normalizeLoginKey raw
      in if rawKey = [] then (s, Inl LoginKeyRequired)
         else let keyHash = hashOpaqueToken sha rawKey
         in case go_get s keyHash of
           None \<Rightarrow> (s, Inl InvalidLoginKey)
         | Some r \<Rightarrow>
             (go_del s keyHash,
              if lr_ExpiresAt r < now then Inl LoginKeyExpired else Inr (lr_Claims r)))"

definition LoginKeyStore_Cleanup :: "gotime \<Rightarrow> LoginKeyStore \<Rightarrow> LoginKeyStore" where
  "LoginKeyStore_Cleanup cutoff s = go_filter (\<lambda>_ r. \<not> lr_ExpiresAt r < cutoff) s"

section \<open>Operations as steps\<close>

datatype login_op =
  LoginIssue gotime "nat option list" string int duration
| LoginConsume gotime string
| LoginCleanup gotime

fun login_step :: "(string \<Rightarrow> string) \<Rightarrow> string list \<Rightarrow> LoginKeyStore \<Rightarrow> login_op \<Rightarrow> LoginKeyStore" where
  "login_step sha words s (LoginIssue now draws subject n ttl) =
     fst (LoginKeyStore_Issue sha words now draws s subject n ttl)"
| "login_step sha words s (LoginConsume now raw) = fst (LoginKeyStore_Consume sha now s raw)"
| "login_step sha words s (LoginCleanup now) = LoginKeyStore_Cleanup now s"

text \<open>The operation issues a key with the same hash as \<open>raw\<close>.\<close>

fun login_issues ::
  "(string \<Rightarrow> string) \<Rightarrow> string list \<Rightarrow> LoginKeyStore \<Rightarrow> login_op \<Rightarrow> string \<Rightarrow> bool"
where
  "login_issues sha words s (LoginIssue now draws subject n ttl) raw =
     (case fst (snd (LoginKeyStore_Issue sha words now draws s subject n ttl)) of
        Inl _ \<Rightarrow> False
      | Inr (key, _) \<Rightarrow> hashOpaqueToken sha key = hashOpaqueToken sha (normalizeLoginKey raw))"
| "login_issues sha words s _ raw = False"

fun login_never_issued ::
  "(string \<Rightarrow> string) \<Rightarrow> string list \<Rightarrow> LoginKeyStore \<Rightarrow> login_op list \<Rightarrow> string \<Rightarrow> bool"
where
  "login_never_issued sha words s [] raw = True"
| "login_never_issued sha words s (op # ops) raw =
     (\<not> login_issues sha words s op raw \<and> login_never_issued sha words (login_step sha words s op) ops raw)"

definition login_accepts :: "(string \<Rightarrow> string) \<Rightarrow> LoginKeyStore \<Rightarrow> gotime \<Rightarrow> string \<Rightarrow> LoginKeyClaims option" where
  "login_accepts sha s now raw =
     (case snd (LoginKeyStore_Consume sha now s raw) of Inl _ \<Rightarrow> None | Inr c \<Rightarrow> Some c)"

lemma login_accepts_unfold:
  "login_accepts sha s now raw =
     (if normalizeLoginKey raw = [] then None
      else case go_get s (hashOpaqueToken sha (normalizeLoginKey raw)) of None \<Rightarrow> None
        | Some r \<Rightarrow> if lr_ExpiresAt r < now then None else Some (lr_Claims r))"
  by (simp add: login_accepts_def LoginKeyStore_Consume_def Let_def split: option.split)

lemma login_attempts_result:
  "login_attempts sha words n s r draws = (s', res, draws') \<Longrightarrow>
     (case res of Inl _ \<Rightarrow> s' = s
      | Inr raw \<Rightarrow> go_get s (hashOpaqueToken sha raw) = None \<and> s' = go_put s (hashOpaqueToken sha raw) r
          \<and> (\<exists>key. raw = normalizeLoginKey key))"
proof (induction n arbitrary: draws)
  case 0
  then show ?case by auto
next
  case (Suc n)
  show ?case
  proof (cases "randomWordLoginKey words draws")
    case (Pair o' rest)
    with Suc show ?thesis
      by (cases o') (auto simp: Let_def randomWordLoginKey_def split: if_splits prod.splits)
  qed
qed

definition login_record :: "gotime \<Rightarrow> string \<Rightarrow> int \<Rightarrow> duration \<Rightarrow> loginKeyRecord" where
  "login_record now subject n ttl =
     \<lparr>lr_Claims = \<lparr>lk_Subject = TrimSpace subject, lk_MaxSessions = n\<rparr>, lr_ExpiresAt = now + ttl\<rparr>"

lemma Issue_unfold:
  "LoginKeyStore_Issue sha words now draws s subject n ttl =
     (if TrimSpace subject = [] then (s, Inl LoginSubjectRequired, draws)
      else if n \<le> 0 then (s, Inl LoginMaxSessionsInvalid, draws)
      else if ttl \<le> 0 then (s, Inl LoginTTLInvalid, draws)
      else (case login_attempts sha words 8 s (login_record now subject n ttl) draws of
              (s', result, draws') \<Rightarrow> (s', map_sum id (\<lambda>raw. (raw, now + ttl)) result, draws')))"
  by (simp add: LoginKeyStore_Issue_def Let_def login_record_def)

lemma login_Issue_Inr:
  assumes "LoginKeyStore_Issue sha words now draws s subject n ttl = (s', Inr (key, expt), draws')"
  shows "TrimSpace subject \<noteq> [] \<and> 0 < n \<and> 0 < ttl \<and> expt = now + ttl
     \<and> go_get s (hashOpaqueToken sha key) = None
     \<and> s' = go_put s (hashOpaqueToken sha key) (login_record now subject n ttl)
     \<and> (\<exists>raw. key = normalizeLoginKey raw)"
proof -
  obtain s1 res d1 where att: "login_attempts sha words 8 s (login_record now subject n ttl) draws = (s1, res, d1)"
    by (cases "login_attempts sha words 8 s (login_record now subject n ttl) draws")
  with assms show ?thesis
    using login_attempts_result [OF att] by (cases res) (auto simp: Issue_unfold split: if_splits)
qed

lemma login_Issue_Inl:
  assumes "LoginKeyStore_Issue sha words now draws s subject n ttl = (s', Inl e, draws')"
  shows "s' = s"
proof -
  obtain s1 res d1 where att: "login_attempts sha words 8 s (login_record now subject n ttl) draws = (s1, res, d1)"
    by (cases "login_attempts sha words 8 s (login_record now subject n ttl) draws")
  with assms show ?thesis
    using login_attempts_result [OF att] by (cases res) (auto simp: Issue_unfold split: if_splits)
qed

lemma login_Issue_outcome:
  obtains (failed) e draws' where "LoginKeyStore_Issue sha words now draws s subject n ttl = (s, Inl e, draws')"
  | (issued) key draws' where "LoginKeyStore_Issue sha words now draws s subject n ttl
        = (go_put s (hashOpaqueToken sha key) (login_record now subject n ttl), Inr (key, now + ttl), draws')"
proof -
  obtain s' res draws' where i: "LoginKeyStore_Issue sha words now draws s subject n ttl = (s', res, draws')"
    by (cases "LoginKeyStore_Issue sha words now draws s subject n ttl")
  show ?thesis
  proof (cases res)
    case (Inl e)
    with i login_Issue_Inl [of sha words now draws s subject n ttl s' e draws'] failed show ?thesis by simp
  next
    case (Inr p)
    obtain key expt where "p = (key, expt)" by (cases p)
    with i Inr login_Issue_Inr [of sha words now draws s subject n ttl s' key expt draws'] issued show ?thesis by simp
  qed
qed

lemma wf_login_step [inv_intros]: "wf_map s \<Longrightarrow> wf_map (login_step sha words s op)"
proof (cases op)
  case (LoginIssue now draws subject n ttl)
  assume "wf_map s"
  then show ?thesis
    by (cases rule: login_Issue_outcome [of sha words now draws s subject n ttl]) (simp_all add: LoginIssue)
qed (auto simp: LoginKeyStore_Consume_def LoginKeyStore_Cleanup_def Let_def split: option.splits)

lemma go_get_login_Cleanup:
  "wf_map s \<Longrightarrow> go_get (LoginKeyStore_Cleanup now s) h =
     (case go_get s h of Some r \<Rightarrow> if lr_ExpiresAt r < now then None else Some r | None \<Rightarrow> None)"
  by (simp add: LoginKeyStore_Cleanup_def go_get_filter split: option.split)

lemma normalize_idem [simp]: "normalizeLoginKey (normalizeLoginKey raw) = normalizeLoginKey raw"
  by (simp add: normalizeLoginKey_def TrimSpace_id trimmed_ToLower)

lemma login_accepts_Consume:
  "login_accepts sha (fst (LoginKeyStore_Consume sha now s raw)) t raw' =
     (if normalizeLoginKey raw \<noteq> []
         \<and> hashOpaqueToken sha (normalizeLoginKey raw') = hashOpaqueToken sha (normalizeLoginKey raw) then None
      else login_accepts sha s t raw')"
  by (auto simp: login_accepts_unfold LoginKeyStore_Consume_def Let_def split: option.splits)

interpretation login: expiring_store wf_map "login_step sha words" "login_accepts sha" LoginConsume
  "login_issues sha words" LoginCleanup for sha words
proof
  fix s :: LoginKeyStore and op k now t
  assume s: "wf_map s"
  show "wf_map (login_step sha words s op)" using s by (rule wf_login_step)
  show "login_accepts sha (login_step sha words s (LoginConsume now k)) t k = None"
    by (simp add: login_accepts_Consume) (simp add: login_accepts_unfold)
  show "login_accepts sha (login_step sha words s (LoginCleanup now)) t k = login_accepts sha s t k"
    if "now \<le> t"
    using s that by (auto simp: login_accepts_unfold go_get_login_Cleanup split: option.splits)
  show "login_accepts sha (login_step sha words s op) t k = None"
    if dead: "\<And>t. login_accepts sha s t k = None" and fresh: "\<not> login_issues sha words s op k"
  proof (cases op)
    case (LoginIssue now draws subject n ttl)
    show ?thesis
      using fresh dead [of t] LoginIssue
      by (cases rule: login_Issue_outcome [of sha words now draws s subject n ttl])
         (auto simp: login_accepts_unfold split: option.splits if_splits)
  next
    case (LoginConsume now raw)
    with dead show ?thesis by (simp add: login_accepts_Consume)
  next
    case (LoginCleanup now)
    then show ?thesis
      using s dead [of t] by (auto simp: login_accepts_unfold go_get_login_Cleanup split: option.splits if_splits)
  qed
qed

lemma login_never_issued_iff:
  "login_never_issued sha words s ops raw \<longleftrightarrow> login.never_issued sha words s ops raw"
  by (induction ops arbitrary: s) simp_all

section \<open>Properties\<close>

text \<open>
  A login key that has just been issued logs in once with the subject and the session limit it
  was issued for, typed in any case and with any white space around it, until it expires; its hash
  was not in the store before, so issuing never replaces another key.
\<close>

theorem login_issue_then_consume:
  assumes "LoginKeyStore_Issue sha words now draws s subject n ttl = (s', Inr (key, expt), draws')"
    and "key \<noteq> []" and "ToLower (TrimSpace typed) = key"
  shows "expt = now + ttl \<and> go_get s (hashOpaqueToken sha key) = None
    \<and> snd (LoginKeyStore_Consume sha t s' typed) =
        (if t \<le> expt then Inr \<lparr>lk_Subject = TrimSpace subject, lk_MaxSessions = n\<rparr> else Inl LoginKeyExpired)"
  using login_Issue_Inr [OF assms(1)] assms(2,3)
  by (auto simp: LoginKeyStore_Consume_def normalizeLoginKey_def login_record_def Let_def)

lemma login_issue_then_consume_witness:
  "snd (LoginKeyStore_Consume rev 100
     (fst (LoginKeyStore_Issue rev [''able'', ''zoo''] 40 [Some 1, Some 0, Some 0, Some 1] [] ''bob'' 2 60))
     '' Zoo-able-ABLE-zoo '') = Inr \<lparr>lk_Subject = ''bob'', lk_MaxSessions = 2\<rparr>"
proof -
  have issue: "LoginKeyStore_Issue rev [''able'', ''zoo''] 40 [Some 1, Some 0, Some 0, Some 1] [] ''bob'' 2 60
      = (fst (LoginKeyStore_Issue rev [''able'', ''zoo''] 40 [Some 1, Some 0, Some 0, Some 1] [] ''bob'' 2 60),
         Inr (''zoo-able-able-zoo'', 100), [])"
    by code_simp
  have typed: "ToLower (TrimSpace '' Zoo-able-ABLE-zoo '') = ''zoo-able-able-zoo''" and bob: "TrimSpace ''bob'' = ''bob''"
    by code_simp+
  show ?thesis
    using login_issue_then_consume [OF issue _ typed, of 100] by (simp add: bob)
qed

text \<open>
  C34: A login key can be used once: after \<^verbatim>\<open>Consume\<close> has seen it, no later sequence of operations
  makes the store accept it again, unless one of them issues a key with the same hash.
\<close>

theorem login_single_use:
  assumes "wf_map s"
    and "login_never_issued sha words (fst (LoginKeyStore_Consume sha now s raw)) ops raw"
  shows "\<not> is_ok (snd (LoginKeyStore_Consume sha t
           (foldl (login_step sha words) (fst (LoginKeyStore_Consume sha now s raw)) ops) raw))"
proof -
  have "login_accepts sha (foldl (login_step sha words) (login_step sha words s (LoginConsume now raw)) ops) t raw = None"
    using assms by (intro login.consumed_once) (simp_all add: login_never_issued_iff)
  then show ?thesis
    by (auto simp: login_accepts_def split: sum.splits)
qed

lemma login_single_use_witness:
  "\<not> is_ok (snd (LoginKeyStore_Consume rev 300
     (foldl (login_step rev [''able'', ''zoo''])
        (fst (LoginKeyStore_Consume rev 200 (go_put [] (hashOpaqueToken rev ''zoo'') (login_record 100 ''bob'' 2 600)) ''zoo''))
        [LoginCleanup 250, LoginIssue 260 [Some 0, Some 0, Some 0, Some 1] ''eve'' 1 50]) ''zoo''))"
proof (rule login_single_use)
  show "wf_map (go_put [] (hashOpaqueToken rev ''zoo'') (login_record 100 ''bob'' 2 600))" by simp
  show "login_never_issued rev [''able'', ''zoo'']
     (fst (LoginKeyStore_Consume rev 200 (go_put [] (hashOpaqueToken rev ''zoo'') (login_record 100 ''bob'' 2 600)) ''zoo''))
     [LoginCleanup 250, LoginIssue 260 [Some 0, Some 0, Some 0, Some 1] ''eve'' 1 50] ''zoo''"
    by code_simp
qed

end
