(* ===== verification/User_Keys.thy ===== *)
theory User_Keys
  imports Refresh_Tokens
begin

text \<open>
  The entitlements of \<^verbatim>\<open>controlplane\<close>: \<^verbatim>\<open>userkey_types.go\<close>, \<^verbatim>\<open>entitlement.go\<close>, \<^verbatim>\<open>userkey_store.go\<close>
  and \<^verbatim>\<open>userkey_parse.go\<close>. The store keeps the entitlements by the hash of the user key, with one
  index by subject and one by original transaction id. An \<^verbatim>\<open>error\<close> is an option.

  The locale \<open>secondary_index\<close> is the contract of an index; the store meets it twice.
\<close>

section \<open>Entitlements\<close>

record UserEntitlement =
  ue_Subject :: string
  ue_MaxSessions :: int
  ue_Active :: bool
  ue_ProductID :: string
  ue_OriginalTransactionID :: string
  ue_ExpiresAt :: gotime
  ue_UpdatedAt :: gotime

record UserKeyEntry =
  uk_UserKey :: string
  uk_Entitlement :: UserEntitlement

record UserKeyStore =
  us_items :: "(string, UserEntitlement) gomap"
  us_subjectToID :: "(string, string) gomap"
  us_originalTxToID :: "(string, string) gomap"

datatype userkey_error =
  UserKeyRequired | EntitlementSubjectRequired | EntitlementMaxSessionsInvalid
| DuplicateUserKey | DuplicateSubject | DuplicateOriginalTransactionID
| OriginalTransactionIDRequired | OriginalTransactionIDNotFound

definition NewUserKeyStore :: UserKeyStore where
  "NewUserKeyStore = \<lparr>us_items = [], us_subjectToID = [], us_originalTxToID = []\<rparr>"

definition NormalizeEntitlement :: "gotime \<Rightarrow> UserEntitlement \<Rightarrow> userkey_error + UserEntitlement" where
  "NormalizeEntitlement now e =
     (let subject = TrimSpace (ue_Subject e)
      in if subject = [] then Inl EntitlementSubjectRequired
         else if ue_MaxSessions e \<le> 0 then Inl EntitlementMaxSessionsInvalid
         else Inr \<lparr>ue_Subject = subject, ue_MaxSessions = ue_MaxSessions e, ue_Active = ue_Active e,
                   ue_ProductID = TrimSpace (ue_ProductID e),
                   ue_OriginalTransactionID = TrimSpace (ue_OriginalTransactionID e),
                   ue_ExpiresAt = (if ue_ExpiresAt e = 0 then 0 else ue_ExpiresAt e),
                   ue_UpdatedAt = now\<rparr>)"

section \<open>The store\<close>

text \<open>\<open>is_dup idx i k\<close>: the index has \<open>i\<close> under another key than \<open>k\<close>.\<close>

definition is_dup :: "(string, string) gomap \<Rightarrow> string \<Rightarrow> string \<Rightarrow> bool" where
  "is_dup idx i k = (case go_get idx i of None \<Rightarrow> False | Some k' \<Rightarrow> k' \<noteq> k)"

text \<open>The entry of an absent key is the zero entitlement, so its subject and transaction are empty.\<close>

definition existing_field :: "(UserEntitlement \<Rightarrow> string) \<Rightarrow> UserEntitlement option \<Rightarrow> string" where
  "existing_field f e = (case e of None \<Rightarrow> [] | Some x \<Rightarrow> f x)"

definition upsertLocked ::
  "UserKeyStore \<Rightarrow> string \<Rightarrow> UserEntitlement \<Rightarrow> bool \<Rightarrow> UserKeyStore \<times> userkey_error option"
where
  "upsertLocked s keyHash e failIfExists =
     (let existing = go_get (us_items s) keyHash;
          oldSubject = existing_field ue_Subject existing;
          oldTx = existing_field ue_OriginalTransactionID existing;
          subject = ue_Subject e; tx = ue_OriginalTransactionID e
      in if existing \<noteq> None \<and> failIfExists then (s, Some DuplicateUserKey)
         else if is_dup (us_subjectToID s) subject keyHash then (s, Some DuplicateSubject)
         else if tx \<noteq> [] \<and> is_dup (us_originalTxToID s) tx keyHash
           then (s, Some DuplicateOriginalTransactionID)
         else
           let subjects = (if oldSubject \<noteq> [] \<and> oldSubject \<noteq> subject
                           then go_del (us_subjectToID s) oldSubject else us_subjectToID s);
               txs = (if oldTx \<noteq> [] \<and> oldTx \<noteq> tx
                      then go_del (us_originalTxToID s) oldTx else us_originalTxToID s)
           in (\<lparr>us_items = go_put (us_items s) keyHash e,
                us_subjectToID = go_put subjects subject keyHash,
                us_originalTxToID = (if tx \<noteq> [] then go_put txs tx keyHash else txs)\<rparr>, None))"

definition store_by_key ::
  "(string \<Rightarrow> string) \<Rightarrow> gotime \<Rightarrow> bool \<Rightarrow> UserKeyStore \<Rightarrow> string \<Rightarrow> UserEntitlement
   \<Rightarrow> UserKeyStore \<times> userkey_error option"
where
  "store_by_key sha now failIfExists s raw e =
     (let rawKey = TrimSpace raw
      in if rawKey = [] then (s, Some UserKeyRequired)
         else case NormalizeEntitlement now e of
           Inl err \<Rightarrow> (s, Some err)
         | Inr e' \<Rightarrow> upsertLocked s (HashUserKey sha rawKey) e' failIfExists)"

definition UserKeyStore_Add ::
  "(string \<Rightarrow> string) \<Rightarrow> gotime \<Rightarrow> UserKeyStore \<Rightarrow> string \<Rightarrow> UserEntitlement \<Rightarrow> UserKeyStore \<times> userkey_error option"
where
  "UserKeyStore_Add sha now s raw e = store_by_key sha now True s raw e"

definition UserKeyStore_Upsert ::
  "(string \<Rightarrow> string) \<Rightarrow> gotime \<Rightarrow> UserKeyStore \<Rightarrow> string \<Rightarrow> UserEntitlement \<Rightarrow> UserKeyStore \<times> userkey_error option"
where
  "UserKeyStore_Upsert sha now s raw e = store_by_key sha now False s raw e"

definition UserKeyStore_Lookup :: "(string \<Rightarrow> string) \<Rightarrow> UserKeyStore \<Rightarrow> string \<Rightarrow> UserEntitlement option" where
  "UserKeyStore_Lookup sha s raw = go_get (us_items s) (HashUserKey sha (TrimSpace raw))"

definition UserKeyStore_LookupBySubject :: "UserKeyStore \<Rightarrow> string \<Rightarrow> UserEntitlement option" where
  "UserKeyStore_LookupBySubject s raw =
     (let subject = TrimSpace raw
      in if subject = [] then None
         else case go_get (us_subjectToID s) subject of None \<Rightarrow> None
           | Some keyHash \<Rightarrow> go_get (us_items s) keyHash)"

definition UserKeyStore_LookupByOriginalTransactionID :: "UserKeyStore \<Rightarrow> string \<Rightarrow> UserEntitlement option" where
  "UserKeyStore_LookupByOriginalTransactionID s raw =
     (let tx = TrimSpace raw
      in if tx = [] then None
         else case go_get (us_originalTxToID s) tx of None \<Rightarrow> None
           | Some keyHash \<Rightarrow> go_get (us_items s) keyHash)"

definition UserKeyStore_UpsertByOriginalTransactionID ::
  "gotime \<Rightarrow> UserKeyStore \<Rightarrow> string \<Rightarrow> UserEntitlement \<Rightarrow> UserKeyStore \<times> userkey_error option"
where
  "UserKeyStore_UpsertByOriginalTransactionID now s raw e =
     (let tx = TrimSpace raw
      in if tx = [] then (s, Some OriginalTransactionIDRequired)
         else
           let e1 = (if TrimSpace (ue_OriginalTransactionID e) = []
                     then e\<lparr>ue_OriginalTransactionID := tx\<rparr> else e)
           in case NormalizeEntitlement now e1 of
                Inl err \<Rightarrow> (s, Some err)
              | Inr e2 \<Rightarrow>
                  (case go_get (us_originalTxToID s) tx of
                     None \<Rightarrow> (s, Some OriginalTransactionIDNotFound)
                   | Some keyHash \<Rightarrow> upsertLocked s keyHash e2 False))"

definition UserKeyStore_Count :: "UserKeyStore \<Rightarrow> int" where
  "UserKeyStore_Count s = go_len (us_items s)"

section \<open>Indexes\<close>

locale secondary_index =
  fixes inv :: "'s \<Rightarrow> bool"
    and items :: "'s \<Rightarrow> 'k \<Rightarrow> 'v option"
    and find :: "'s \<Rightarrow> 'i \<Rightarrow> 'k option"
    and ix :: "'v \<Rightarrow> 'i option"
  assumes exact: "inv s \<Longrightarrow> find s i = Some k \<longleftrightarrow> (\<exists>e. items s k = Some e \<and> ix e = Some i)"
begin

definition look :: "'s \<Rightarrow> 'i \<Rightarrow> 'v option" where
  "look s i = (case find s i of None \<Rightarrow> None | Some k \<Rightarrow> items s k)"

lemma unique:
  "inv s \<Longrightarrow> items s k1 = Some e1 \<Longrightarrow> items s k2 = Some e2 \<Longrightarrow> ix e1 = Some i \<Longrightarrow> ix e2 = Some i \<Longrightarrow> k1 = k2"
  by (metis exact option.inject)

lemma look_iff: "inv s \<Longrightarrow> look s i = Some e \<longleftrightarrow> (\<exists>k. items s k = Some e) \<and> ix e = Some i"
proof
  assume "inv s" "look s i = Some e"
  then show "(\<exists>k. items s k = Some e) \<and> ix e = Some i"
    by (auto simp: look_def exact split: option.splits)
next
  assume s: "inv s" and "(\<exists>k. items s k = Some e) \<and> ix e = Some i"
  then obtain k where "items s k = Some e" "ix e = Some i" by blast
  with s have "find s i = Some k" by (auto simp: exact)
  with \<open>items s k = Some e\<close> show "look s i = Some e" by (simp add: look_def)
qed

end

text \<open>The two values the store indexes. An entitlement without a transaction id is not indexed by it.\<close>

definition subject_ix :: "UserEntitlement \<Rightarrow> string option" where
  "subject_ix e = Some (ue_Subject e)"

definition tx_ix :: "UserEntitlement \<Rightarrow> string option" where
  "tx_ix e = (if ue_OriginalTransactionID e = [] then None else Some (ue_OriginalTransactionID e))"

definition index_exact ::
  "(UserEntitlement \<Rightarrow> string option) \<Rightarrow> (string, UserEntitlement) gomap \<Rightarrow> (string, string) gomap \<Rightarrow> bool"
where
  "index_exact ix items idx \<longleftrightarrow>
     (\<forall>i k. go_get idx i = Some k \<longleftrightarrow> (\<exists>e. go_get items k = Some e \<and> ix e = Some i))"

definition entitlement_ok :: "UserEntitlement \<Rightarrow> bool" where
  "entitlement_ok e \<longleftrightarrow> ue_Subject e \<noteq> [] \<and> trimmed (ue_Subject e) \<and> 0 < ue_MaxSessions e
     \<and> trimmed (ue_OriginalTransactionID e) \<and> trimmed (ue_ProductID e)"

definition UserKeyStore_ok :: "UserKeyStore \<Rightarrow> bool" where
  "UserKeyStore_ok s \<longleftrightarrow>
     wf_map (us_items s) \<and> wf_map (us_subjectToID s) \<and> wf_map (us_originalTxToID s)
     \<and> (\<forall>k e. go_get (us_items s) k = Some e \<longrightarrow> entitlement_ok e)
     \<and> index_exact subject_ix (us_items s) (us_subjectToID s)
     \<and> index_exact tx_ix (us_items s) (us_originalTxToID s)"

text \<open>Storing an entry and moving its index entry keeps the index exact.\<close>

lemma index_exactD:
  assumes "index_exact ix items idx"
  shows "go_get idx j = Some l \<longleftrightarrow> Option.bind (go_get items l) ix = Some j"
  using assms unfolding index_exact_def by (auto simp: bind_eq_Some_conv)

lemma index_exactI:
  assumes "\<And>j l. go_get idx j = Some l \<longleftrightarrow> Option.bind (go_get items l) ix = Some j"
  shows "index_exact ix items idx"
  using assms unfolding index_exact_def by (auto simp: bind_eq_Some_conv)

lemma index_exact_put:
  assumes ex: "index_exact ix items idx" and new: "ix e = Some i" and free: "\<not> is_dup idx i k"
    and old: "old = Option.bind (go_get items k) ix"
  shows "index_exact ix (go_put items k e)
     (go_put (case old of Some j \<Rightarrow> if j \<noteq> i then go_del idx j else idx | None \<Rightarrow> idx) i k)"
proof (rule index_exactI)
  fix j l
  have K: "go_get idx j = Some k \<longleftrightarrow> old = Some j" for j
    using index_exactD [OF ex, of j k] old by simp
  have free': "go_get idx i = Some l \<Longrightarrow> l = k"
    using free by (auto simp: is_dup_def)
  show "go_get (go_put (case old of Some j \<Rightarrow> if j \<noteq> i then go_del idx j else idx | None \<Rightarrow> idx) i k) j = Some l
      \<longleftrightarrow> Option.bind (go_get (go_put items k e) l) ix = Some j"
  proof (cases "l = k")
    case True
    then show ?thesis using K [of j] new by (cases old) auto
  next
    case False
    then show ?thesis
      using K [of j] free' index_exactD [OF ex, of j l] by (cases old) auto
  qed
qed

lemma index_exact_remove:
  assumes ex: "index_exact ix items idx" and new: "ix e = None"
    and old: "old = Option.bind (go_get items k) ix"
  shows "index_exact ix (go_put items k e) (case old of Some j \<Rightarrow> go_del idx j | None \<Rightarrow> idx)"
proof (rule index_exactI)
  fix j l
  have K: "go_get idx j = Some k \<longleftrightarrow> old = Some j" for j
    using index_exactD [OF ex, of j k] old by simp
  show "go_get (case old of Some j \<Rightarrow> go_del idx j | None \<Rightarrow> idx) j = Some l
      \<longleftrightarrow> Option.bind (go_get (go_put items k e) l) ix = Some j"
    using K [of j] new index_exactD [OF ex, of j l] by (cases "l = k"; cases old) auto
qed

section \<open>The invariant\<close>

lemma NormalizeEntitlement_ok: "NormalizeEntitlement now e = Inr e' \<Longrightarrow> entitlement_ok e'"
  by (auto simp: NormalizeEntitlement_def entitlement_ok_def Let_def split: if_splits)

lemma upsertLocked_success:
  "snd (upsertLocked s k e fail) = None \<longleftrightarrow>
     \<not> (go_get (us_items s) k \<noteq> None \<and> fail) \<and> \<not> is_dup (us_subjectToID s) (ue_Subject e) k
     \<and> \<not> (ue_OriginalTransactionID e \<noteq> [] \<and> is_dup (us_originalTxToID s) (ue_OriginalTransactionID e) k)"
  by (simp add: upsertLocked_def Let_def)

lemma upsertLocked_failure: "snd (upsertLocked s k e fail) \<noteq> None \<Longrightarrow> fst (upsertLocked s k e fail) = s"
  by (simp add: upsertLocked_def Let_def split: if_splits)

lemma old_subject:
  "UserKeyStore_ok s \<Longrightarrow>
     (case Option.bind (go_get (us_items s) k) subject_ix of
        Some j \<Rightarrow> if j \<noteq> i then go_del idx j else idx | None \<Rightarrow> idx)
     = (let o1 = existing_field ue_Subject (go_get (us_items s) k)
        in if o1 \<noteq> [] \<and> o1 \<noteq> i then go_del idx o1 else idx)"
  by (cases "go_get (us_items s) k")
     (auto simp: existing_field_def subject_ix_def UserKeyStore_ok_def entitlement_ok_def)

lemma old_tx:
  "(case Option.bind (go_get (us_items s) k) tx_ix of
        Some j \<Rightarrow> if j \<noteq> i then go_del idx j else idx | None \<Rightarrow> idx)
     = (let o1 = existing_field ue_OriginalTransactionID (go_get (us_items s) k)
        in if o1 \<noteq> [] \<and> o1 \<noteq> i then go_del idx o1 else idx)"
  by (cases "go_get (us_items s) k") (auto simp: existing_field_def tx_ix_def)

lemma old_tx_removed:
  "(case Option.bind (go_get (us_items s) k) tx_ix of Some j \<Rightarrow> go_del idx j | None \<Rightarrow> idx)
     = (let o1 = existing_field ue_OriginalTransactionID (go_get (us_items s) k)
        in if o1 \<noteq> [] \<and> o1 \<noteq> [] then go_del idx o1 else idx)"
  by (cases "go_get (us_items s) k") (auto simp: existing_field_def tx_ix_def)

lemma upsertLocked_ok:
  assumes s: "UserKeyStore_ok s" and e: "entitlement_ok e"
  shows "UserKeyStore_ok (fst (upsertLocked s k e fail))"
proof (cases "snd (upsertLocked s k e fail) = None")
  case False
  then show ?thesis using upsertLocked_failure s by metis
next
  case True
  define s' where "s' = fst (upsertLocked s k e fail)"
  have dup: "\<not> (go_get (us_items s) k \<noteq> None \<and> fail)"
    and free: "\<not> is_dup (us_subjectToID s) (ue_Subject e) k"
    and free': "\<not> (ue_OriginalTransactionID e \<noteq> [] \<and> is_dup (us_originalTxToID s) (ue_OriginalTransactionID e) k)"
    using True unfolding upsertLocked_success by blast+
  have items: "us_items s' = go_put (us_items s) k e"
    and subjects: "us_subjectToID s' = go_put (let o1 = existing_field ue_Subject (go_get (us_items s) k)
        in if o1 \<noteq> [] \<and> o1 \<noteq> ue_Subject e then go_del (us_subjectToID s) o1 else us_subjectToID s) (ue_Subject e) k"
    and txs: "us_originalTxToID s' = (let txs = (let o1 = existing_field ue_OriginalTransactionID (go_get (us_items s) k)
        in if o1 \<noteq> [] \<and> o1 \<noteq> ue_OriginalTransactionID e then go_del (us_originalTxToID s) o1 else us_originalTxToID s)
        in if ue_OriginalTransactionID e \<noteq> [] then go_put txs (ue_OriginalTransactionID e) k else txs)"
    unfolding s'_def upsertLocked_def Let_def if_not_P [OF dup] if_not_P [OF free] if_not_P [OF free']
    by simp_all
  have "index_exact subject_ix (us_items s') (us_subjectToID s')"
    unfolding items subjects old_subject [OF s, symmetric]
    using s free by (intro index_exact_put) (auto simp: subject_ix_def UserKeyStore_ok_def)
  moreover have "index_exact tx_ix (us_items s') (us_originalTxToID s')"
  proof (cases "ue_OriginalTransactionID e = []")
    case True
    then have "index_exact tx_ix (go_put (us_items s) k e)
        (let o1 = existing_field ue_OriginalTransactionID (go_get (us_items s) k)
         in if o1 \<noteq> [] \<and> o1 \<noteq> [] then go_del (us_originalTxToID s) o1 else us_originalTxToID s)"
      unfolding old_tx_removed [symmetric] using s
      by (intro index_exact_remove) (auto simp: tx_ix_def UserKeyStore_ok_def)
    with True show ?thesis by (simp add: items txs Let_def)
  next
    case False
    then have "index_exact tx_ix (go_put (us_items s) k e)
        (go_put (let o1 = existing_field ue_OriginalTransactionID (go_get (us_items s) k)
         in if o1 \<noteq> [] \<and> o1 \<noteq> ue_OriginalTransactionID e then go_del (us_originalTxToID s) o1
            else us_originalTxToID s) (ue_OriginalTransactionID e) k)"
      unfolding old_tx [symmetric] using s free'
      by (intro index_exact_put) (auto simp: tx_ix_def UserKeyStore_ok_def)
    with False show ?thesis by (simp add: items txs Let_def)
  qed
  moreover have "wf_map (us_items s')" "wf_map (us_subjectToID s')" "wf_map (us_originalTxToID s')"
    using s by (simp_all add: items subjects txs UserKeyStore_ok_def Let_def)
  moreover have "\<forall>l e'. go_get (us_items s') l = Some e' \<longrightarrow> entitlement_ok e'"
    using s e by (simp add: items UserKeyStore_ok_def)
  ultimately show ?thesis
    unfolding s'_def [symmetric] UserKeyStore_ok_def by blast
qed

section \<open>Reachable stores\<close>

text \<open>The stores that calls of the exported operations can produce from a new one.\<close>

inductive userkey_step :: "(string \<Rightarrow> string) \<Rightarrow> UserKeyStore \<Rightarrow> UserKeyStore \<Rightarrow> bool" for sha where
  Add: "userkey_step sha s (fst (UserKeyStore_Add sha now s raw e))"
| Upsert: "userkey_step sha s (fst (UserKeyStore_Upsert sha now s raw e))"
| UpsertByTx: "userkey_step sha s (fst (UserKeyStore_UpsertByOriginalTransactionID now s raw e))"

inductive userkey_reachable :: "(string \<Rightarrow> string) \<Rightarrow> UserKeyStore \<Rightarrow> bool" for sha where
  new: "userkey_reachable sha NewUserKeyStore"
| step: "userkey_reachable sha s \<Longrightarrow> userkey_step sha s s' \<Longrightarrow> userkey_reachable sha s'"

inductive_cases userkey_stepE: "userkey_step sha s s'"

lemma NewUserKeyStore_ok: "UserKeyStore_ok NewUserKeyStore"
  by (simp add: UserKeyStore_ok_def NewUserKeyStore_def index_exact_def)

lemma store_by_key_ok: "UserKeyStore_ok s \<Longrightarrow> UserKeyStore_ok (fst (store_by_key sha now b s raw e))"
  by (auto simp: store_by_key_def Let_def upsertLocked_ok NormalizeEntitlement_ok split: sum.split)

lemma UpsertByTx_ok:
  "UserKeyStore_ok s \<Longrightarrow> UserKeyStore_ok (fst (UserKeyStore_UpsertByOriginalTransactionID now s raw e))"
  by (auto simp: UserKeyStore_UpsertByOriginalTransactionID_def Let_def upsertLocked_ok NormalizeEntitlement_ok
      split: sum.split option.split)

lemma userkey_step_ok: "userkey_step sha s s' \<Longrightarrow> UserKeyStore_ok s \<Longrightarrow> UserKeyStore_ok s'"
  by (elim userkey_stepE)
     (auto simp: UserKeyStore_Add_def UserKeyStore_Upsert_def store_by_key_ok UpsertByTx_ok)

interpretation by_subject: secondary_index UserKeyStore_ok "\<lambda>s. go_get (us_items s)"
  "\<lambda>s. go_get (us_subjectToID s)" subject_ix
  by unfold_locales (simp add: UserKeyStore_ok_def index_exact_def)

interpretation by_tx: secondary_index UserKeyStore_ok "\<lambda>s. go_get (us_items s)"
  "\<lambda>s. go_get (us_originalTxToID s)" tx_ix
  by unfold_locales (simp add: UserKeyStore_ok_def index_exact_def)

lemma LookupBySubject_look:
  "TrimSpace raw \<noteq> [] \<Longrightarrow> UserKeyStore_LookupBySubject s raw = by_subject.look s (TrimSpace raw)"
  by (simp add: UserKeyStore_LookupBySubject_def by_subject.look_def Let_def)

lemma LookupByTx_look:
  "TrimSpace raw \<noteq> [] \<Longrightarrow> UserKeyStore_LookupByOriginalTransactionID s raw = by_tx.look s (TrimSpace raw)"
  by (simp add: UserKeyStore_LookupByOriginalTransactionID_def by_tx.look_def Let_def)

lemma LookupBySubject_Some:
  assumes "UserKeyStore_ok s"
  shows "UserKeyStore_LookupBySubject s raw = Some e \<longleftrightarrow>
    (\<exists>k. go_get (us_items s) k = Some e) \<and> ue_Subject e = TrimSpace raw"
proof (cases "TrimSpace raw = []")
  case True
  then show ?thesis
    using assms by (auto simp: UserKeyStore_LookupBySubject_def UserKeyStore_ok_def entitlement_ok_def)
next
  case False
  then show ?thesis
    using by_subject.look_iff [OF assms] by (simp add: LookupBySubject_look subject_ix_def)
qed

lemma LookupByTx_Some:
  assumes "UserKeyStore_ok s"
  shows "UserKeyStore_LookupByOriginalTransactionID s raw = Some e \<longleftrightarrow>
    (\<exists>k. go_get (us_items s) k = Some e) \<and> TrimSpace raw \<noteq> [] \<and> ue_OriginalTransactionID e = TrimSpace raw"
proof (cases "TrimSpace raw = []")
  case True
  then show ?thesis by (simp add: UserKeyStore_LookupByOriginalTransactionID_def)
next
  case False
  then show ?thesis
    using by_tx.look_iff [OF assms] by (auto simp: LookupByTx_look tx_ix_def)
qed

lemma userkey_reachable_ok: "userkey_reachable sha s \<Longrightarrow> UserKeyStore_ok s"
  by (induction rule: userkey_reachable.induct) (auto intro: NewUserKeyStore_ok userkey_step_ok)

section \<open>Properties\<close>

text \<open>
  C36: In every store that calls can produce, the two indexes are exact: a subject or a transaction
  id finds an entitlement exactly when some key holds an entitlement with it, and no two keys
  share one; and every entitlement names a subject and allows at least one session.
\<close>

theorem userkey_indexes_exact:
  assumes "userkey_reachable sha s"
  shows "(\<forall>raw e. UserKeyStore_LookupBySubject s raw = Some e \<longleftrightarrow>
           (\<exists>k. go_get (us_items s) k = Some e) \<and> ue_Subject e = TrimSpace raw)
    \<and> (\<forall>raw e. UserKeyStore_LookupByOriginalTransactionID s raw = Some e \<longleftrightarrow>
           (\<exists>k. go_get (us_items s) k = Some e) \<and> TrimSpace raw \<noteq> [] \<and> ue_OriginalTransactionID e = TrimSpace raw)
    \<and> (\<forall>k1 k2 e1 e2. go_get (us_items s) k1 = Some e1 \<longrightarrow> go_get (us_items s) k2 = Some e2 \<longrightarrow>
           ue_Subject e1 = ue_Subject e2 \<or> tx_ix e1 = tx_ix e2 \<and> tx_ix e1 \<noteq> None \<longrightarrow> k1 = k2)
    \<and> (\<forall>k e. go_get (us_items s) k = Some e \<longrightarrow> entitlement_ok e)"
proof -
  have ok: "UserKeyStore_ok s" using assms by (rule userkey_reachable_ok)
  moreover have "k1 = k2" if "go_get (us_items s) k1 = Some e1" "go_get (us_items s) k2 = Some e2"
    "ue_Subject e1 = ue_Subject e2 \<or> tx_ix e1 = tx_ix e2 \<and> tx_ix e1 \<noteq> None" for k1 k2 e1 e2
    using that(3) by_subject.unique [OF ok that(1,2)] by_tx.unique [OF ok that(1,2)]
    unfolding subject_ix_def by (metis not_None_eq)
  ultimately show ?thesis
    using LookupBySubject_Some [OF ok] LookupByTx_Some [OF ok] unfolding UserKeyStore_ok_def by blast
qed

definition demo_entitlement :: UserEntitlement where
  "demo_entitlement = \<lparr>ue_Subject = ''alice'', ue_MaxSessions = 2, ue_Active = True, ue_ProductID = [],
     ue_OriginalTransactionID = ''tx1'', ue_ExpiresAt = 0, ue_UpdatedAt = 0\<rparr>"

definition demo_store :: UserKeyStore where
  "demo_store = fst (UserKeyStore_Add rev 7 NewUserKeyStore ''k1'' demo_entitlement)"

lemma demo_store_reachable: "userkey_reachable rev demo_store"
  unfolding demo_store_def by (intro userkey_reachable.step [OF userkey_reachable.new] userkey_step.Add)

lemma demo_store_lookup: "go_get (us_items demo_store) (HashUserKey rev ''k1'') = Some (demo_entitlement\<lparr>ue_UpdatedAt := 7\<rparr>)"
  by code_simp

lemma userkey_indexes_exact_witness:
  "UserKeyStore_LookupBySubject demo_store ''alice'' = Some (demo_entitlement\<lparr>ue_UpdatedAt := 7\<rparr>)"
proof -
  have "TrimSpace ''alice'' = ''alice''" by code_simp
  then show ?thesis
    using userkey_indexes_exact [OF demo_store_reachable] demo_store_lookup
    by (auto simp: demo_entitlement_def)
qed

text \<open>
  An operation of the store either fails and leaves the store as it was, or stores the
  normalised entitlement under its key, so that the key and the subject find it, and changes no
  other key. \<^verbatim>\<open>Add\<close> never succeeds on a key that is already there.
\<close>

theorem userkey_store_effect:
  assumes "userkey_reachable sha s" and "store_by_key sha now addOnly s raw e = (s', err)"
  shows "(case err of
      Some _ \<Rightarrow> s' = s
    | None \<Rightarrow> (\<exists>e'. NormalizeEntitlement now e = Inr e'
        \<and> UserKeyStore_Lookup sha s' raw = Some e' \<and> UserKeyStore_LookupBySubject s' (ue_Subject e) = Some e')
        \<and> (\<forall>k. k \<noteq> HashUserKey sha (TrimSpace raw) \<longrightarrow> go_get (us_items s') k = go_get (us_items s) k)
        \<and> (addOnly \<longrightarrow> UserKeyStore_Lookup sha s raw = None))"
proof (cases err)
  case (Some x)
  then have "s' = s"
    using assms(2) upsertLocked_failure [of s "HashUserKey sha (TrimSpace raw)" _ addOnly]
    by (auto simp: store_by_key_def Let_def split: if_splits sum.splits) (metis fst_conv option.distinct(1) snd_conv)
  with Some show ?thesis by simp
next
  case None
  obtain e' where n: "NormalizeEntitlement now e = Inr e'" "TrimSpace raw \<noteq> []"
    and u: "upsertLocked s (HashUserKey sha (TrimSpace raw)) e' addOnly = (s', None)"
    using assms(2) None by (auto simp: store_by_key_def Let_def split: if_splits sum.splits)
  have ok: "UserKeyStore_ok s'"
    using upsertLocked_ok [OF userkey_reachable_ok [OF assms(1)] NormalizeEntitlement_ok [OF n(1)]] u
    by (metis fst_conv)
  have items: "us_items s' = go_put (us_items s) (HashUserKey sha (TrimSpace raw)) e'"
    using u by (auto simp: upsertLocked_def Let_def split: if_splits)
  have "ue_Subject e' = TrimSpace (ue_Subject e)"
    using n(1) by (auto simp: NormalizeEntitlement_def Let_def split: if_splits)
  then have "UserKeyStore_LookupBySubject s' (ue_Subject e) = Some e'"
    using LookupBySubject_Some [OF ok] items by auto
  moreover have "addOnly \<Longrightarrow> go_get (us_items s) (HashUserKey sha (TrimSpace raw)) = None"
    using upsertLocked_success [of s "HashUserKey sha (TrimSpace raw)" e' addOnly] u by auto
  ultimately show ?thesis
    using None n items by (auto simp: UserKeyStore_Lookup_def)
qed

lemma userkey_store_effect_witness:
  "\<exists>e'. NormalizeEntitlement 9 demo_entitlement = Inr e'
     \<and> UserKeyStore_Lookup rev (fst (store_by_key rev 9 False demo_store ''k1'' demo_entitlement)) ''k1'' = Some e'"
proof -
  have "store_by_key rev 9 False demo_store ''k1'' demo_entitlement
      = (fst (store_by_key rev 9 False demo_store ''k1'' demo_entitlement), None)"
    by code_simp
  from userkey_store_effect [OF demo_store_reachable this] show ?thesis by auto
qed

end
