(* ===== verification/User_Key_Spec.thy ===== *)
theory User_Key_Spec
  imports User_Keys
begin

text \<open>
  \<^verbatim>\<open>controlplane/userkey_parse.go\<close>: the comma-separated list of user keys,
  \<^verbatim>\<open>user_key:subject[:max_sessions]\<close>. An error carries the number of the entry and its text.
\<close>

section \<open>Parsing\<close>

datatype spec_error =
  DefaultMaxSessionsInvalid
| InvalidEntry nat string
| InvalidMaxSessions nat string

definition parse_entry :: "int \<Rightarrow> nat \<Rightarrow> string \<Rightarrow> spec_error + UserKeyEntry" where
  "parse_entry defaultMax n raw =
     (let chunks = map TrimSpace (split_on CHR '':'' raw);
          entry = (\<lambda>k subject m. \<lparr>uk_UserKey = k, uk_Entitlement =
             \<lparr>ue_Subject = subject, ue_MaxSessions = m, ue_Active = True, ue_ProductID = [],
              ue_OriginalTransactionID = [], ue_ExpiresAt = 0, ue_UpdatedAt = 0\<rparr>\<rparr>)
      in case chunks of
           k # subject # rest \<Rightarrow>
             if 1 < length rest then Inl (InvalidEntry n raw)
             else if k = [] \<or> subject = [] then Inl (InvalidEntry n raw)
             else (case rest of
                 [] \<Rightarrow> Inr (entry k subject defaultMax)
               | m # _ \<Rightarrow>
                   (case Atoi m of
                      None \<Rightarrow> Inl (InvalidMaxSessions n raw)
                    | Some i \<Rightarrow> if i \<le> 0 then Inl (InvalidMaxSessions n raw) else Inr (entry k subject i)))
         | _ \<Rightarrow> Inl (InvalidEntry n raw))"

text \<open>The loop over the parts, numbered from \<open>n\<close>; blank parts are skipped.\<close>

fun parse_parts :: "int \<Rightarrow> nat \<Rightarrow> string list \<Rightarrow> spec_error + UserKeyEntry list" where
  "parse_parts defaultMax n [] = Inr []"
| "parse_parts defaultMax n (part # parts) =
     (if TrimSpace part = [] then parse_parts defaultMax (Suc n) parts
      else case parse_entry defaultMax n (TrimSpace part) of
        Inl e \<Rightarrow> Inl e
      | Inr entry \<Rightarrow>
          (case parse_parts defaultMax (Suc n) parts of Inl e \<Rightarrow> Inl e | Inr es \<Rightarrow> Inr (entry # es)))"

definition ParseUserKeySpec :: "string \<Rightarrow> int \<Rightarrow> spec_error + UserKeyEntry list" where
  "ParseUserKeySpec raw defaultMax =
     (if defaultMax \<le> 0 then Inl DefaultMaxSessionsInvalid
      else let spec = TrimSpace raw
      in if spec = [] then Inr [] else parse_parts defaultMax 1 (split_on CHR '','' spec))"

section \<open>Trimming at a boundary\<close>

lemma space_seq_no_ascii:
  "is_space_seq q \<Longrightarrow> c \<in> set q \<Longrightarrow> ord c < 128 \<Longrightarrow> \<not> ascii_space c \<Longrightarrow> False"
  by (auto simp: is_space_seq_def space2_def space3_def ord_def)

definition solid :: "char \<Rightarrow> bool" where
  "solid c \<longleftrightarrow> ord c < 128 \<and> \<not> ascii_space c"

lemma solid_not_space: "is_space_seq q \<Longrightarrow> c \<in> set q \<Longrightarrow> \<not> solid c"
  using space_seq_no_ascii unfolding solid_def by blast

text \<open>Trimmed texts joined by a solid character are trimmed.\<close>

lemma trimmed_concat:
  assumes "trimmed a" "a \<noteq> []" "trimmed b" "b \<noteq> []" "solid c"
  shows "trimmed (a @ c # b)"
proof -
  have "\<not> (\<exists>r. a @ c # b = q @ r)" if q: "is_space_seq q" for q
  proof
    assume "\<exists>r. a @ c # b = q @ r"
    moreover have "c \<notin> set q" using solid_not_space [OF q] assms(5) by blast
    ultimately have "\<exists>u. a = q @ u"
      by (auto simp: append_eq_append_conv2) (metis Cons_eq_append_conv append_Nil2 list.set_intros(1))
    with q assms(1) show False unfolding trimmed_space_seqs by blast
  qed
  moreover have "\<not> (\<exists>r. a @ c # b = r @ q)" if q: "is_space_seq q" for q
  proof
    assume "\<exists>r. a @ c # b = r @ q"
    then obtain r where e: "(a @ [c]) @ b = r @ q" by auto
    have "c \<notin> set q" using solid_not_space [OF q] assms(5) by blast
    have "\<exists>u. b = u @ q"
    proof (rule ccontr)
      assume "\<nexists>u. b = u @ q"
      moreover have "\<exists>w. (a @ [c] = r @ w \<and> w @ b = q) \<or> ((a @ [c]) @ w = r \<and> b = w @ q)"
        using e unfolding append_eq_append_conv2 .
      ultimately obtain w where w: "q = w @ b" "a @ [c] = r @ w" by blast
      with \<open>\<nexists>u. b = u @ q\<close> have "w \<noteq> []" by auto
      with w have "c \<in> set w" by (metis last_append last_in_set last_snoc)
      with w \<open>c \<notin> set q\<close> show False by auto
    qed
    with q assms(3) show False unfolding trimmed_space_seqs by blast
  qed
  ultimately show ?thesis unfolding trimmed_space_seqs by metis
qed

section \<open>Printing, then parsing\<close>

definition show_entry :: "UserKeyEntry \<Rightarrow> string" where
  "show_entry e = uk_UserKey e @ '':'' @ ue_Subject (uk_Entitlement e) @ '':''
     @ Itoa (ue_MaxSessions (uk_Entitlement e))"

text \<open>The entries that can be written in the format.\<close>

definition plain_field :: "string \<Rightarrow> bool" where
  "plain_field s \<longleftrightarrow> s \<noteq> [] \<and> trimmed s \<and> CHR '':'' \<notin> set s \<and> CHR '','' \<notin> set s"

definition spec_entry :: "UserKeyEntry \<Rightarrow> bool" where
  "spec_entry e \<longleftrightarrow> plain_field (uk_UserKey e) \<and> plain_field (ue_Subject (uk_Entitlement e))
     \<and> 0 < ue_MaxSessions (uk_Entitlement e) \<and> ue_MaxSessions (uk_Entitlement e) \<le> max_int64
     \<and> uk_Entitlement e = \<lparr>ue_Subject = ue_Subject (uk_Entitlement e),
          ue_MaxSessions = ue_MaxSessions (uk_Entitlement e), ue_Active = True, ue_ProductID = [],
          ue_OriginalTransactionID = [], ue_ExpiresAt = 0, ue_UpdatedAt = 0\<rparr>"

lemma nat_digits_solid: "c \<in> set (nat_digits n) \<Longrightarrow> solid c \<and> c \<noteq> CHR '':'' \<and> c \<noteq> CHR '',''"
proof -
  assume "c \<in> set (nat_digits n)"
  then obtain d where "d < 10" "c = digit_char d" using nat_digits_chars by blast
  with digit_char_props [of d] show ?thesis by (simp add: solid_def ord_def)
qed

lemma Itoa_positive: "0 < m \<Longrightarrow> plain_field (Itoa m) \<and> (\<forall>c \<in> set (Itoa m). solid c)"
proof -
  assume "0 < m"
  then have i: "Itoa m = nat_digits (nat m)" by (simp add: Itoa_def)
  have s: "\<forall>c \<in> set (nat_digits (nat m)). solid c \<and> c \<noteq> CHR '':'' \<and> c \<noteq> CHR '',''"
    using nat_digits_solid by blast
  then have "trimmed (nat_digits (nat m))"
    by (intro url_safe_trimmed) (simp add: solid_def)
  with s show ?thesis unfolding i plain_field_def by (metis nat_digits_nonempty)
qed

lemma solid_separators: "solid CHR '':''" "solid CHR '',''"
  by (simp_all add: solid_def ord_def ascii_space_def)

lemma trimmed_plain: "plain_field s \<Longrightarrow> trimmed s" "plain_field s \<Longrightarrow> s \<noteq> []"
  by (simp_all add: plain_field_def)

lemma show_entry_split:
  assumes "spec_entry e"
  shows "split_on CHR '':'' (show_entry e)
    = [uk_UserKey e, ue_Subject (uk_Entitlement e), Itoa (ue_MaxSessions (uk_Entitlement e))]"
proof -
  have "CHR '':'' \<notin> set (Itoa (ue_MaxSessions (uk_Entitlement e)))"
    using assms Itoa_positive unfolding spec_entry_def plain_field_def by blast
  with assms show ?thesis
    unfolding show_entry_def spec_entry_def plain_field_def
    by (simp add: split_on_append split_on_none)
qed

lemma show_entry_trimmed: "spec_entry e \<Longrightarrow> trimmed (show_entry e) \<and> show_entry e \<noteq> []"
proof
  assume e: "spec_entry e"
  then have "trimmed (uk_UserKey e @ CHR '':'' # (ue_Subject (uk_Entitlement e) @ CHR '':''
      # Itoa (ue_MaxSessions (uk_Entitlement e))))"
    using Itoa_positive by (intro trimmed_concat) (auto simp: spec_entry_def plain_field_def solid_separators)
  then show "trimmed (show_entry e)" by (simp add: show_entry_def)
  show "show_entry e \<noteq> []" by (simp add: show_entry_def)
qed

lemma show_entry_no_comma: "spec_entry e \<Longrightarrow> CHR '','' \<notin> set (show_entry e)"
  using Itoa_positive [of "ue_MaxSessions (uk_Entitlement e)"]
  by (auto simp: spec_entry_def plain_field_def show_entry_def)

lemma parse_show_entry:
  assumes "spec_entry e"
  shows "parse_entry d n (show_entry e) = Inr e"
proof -
  have m: "Atoi (Itoa (ue_MaxSessions (uk_Entitlement e))) = Some (ue_MaxSessions (uk_Entitlement e))"
    using assms by (intro Atoi_Itoa) (simp add: spec_entry_def in_int64_def min_int64_def)
  have t: "TrimSpace (uk_UserKey e) = uk_UserKey e"
    "TrimSpace (ue_Subject (uk_Entitlement e)) = ue_Subject (uk_Entitlement e)"
    "TrimSpace (Itoa (ue_MaxSessions (uk_Entitlement e))) = Itoa (ue_MaxSessions (uk_Entitlement e))"
    using assms Itoa_positive by (auto simp: spec_entry_def plain_field_def intro!: TrimSpace_id)
  have "\<lparr>uk_UserKey = uk_UserKey e, uk_Entitlement = uk_Entitlement e\<rparr> = e" by simp
  then show ?thesis
    using assms m unfolding parse_entry_def show_entry_split [OF assms] spec_entry_def
    by (simp add: t Let_def plain_field_def)
qed

lemma parse_show_parts:
  "\<forall>e \<in> set es. spec_entry e \<Longrightarrow> parse_parts d n (map show_entry es) = Inr es"
  by (induction es arbitrary: n) (simp_all add: show_entry_trimmed TrimSpace_id parse_show_entry)

lemma trimmed_Join:
  "xs \<noteq> [] \<Longrightarrow> \<forall>x \<in> set xs. trimmed x \<and> x \<noteq> [] \<Longrightarrow> solid c \<Longrightarrow> trimmed (Join xs [c]) \<and> Join xs [c] \<noteq> []"
  by (induction xs "[c]" rule: Join.induct) (auto intro: trimmed_concat)

section \<open>Properties\<close>

text \<open>
  A list of entries written in the documented format, with fields that are trimmed, not empty
  and free of the separators and limits that fit an \<^verbatim>\<open>int\<close>, is parsed back to exactly these
  entries, each of them active and without an expiry.
\<close>

theorem ParseUserKeySpec_round_trip:
  assumes "0 < d" and "\<forall>e \<in> set es. spec_entry e"
  shows "ParseUserKeySpec (Join (map show_entry es) '','') d = Inr es"
proof (cases "es = []")
  case True
  with assms show ?thesis by (simp add: ParseUserKeySpec_def)
next
  case False
  have "trimmed (Join (map show_entry es) '','') \<and> Join (map show_entry es) '','' \<noteq> []"
    using False assms(2) show_entry_trimmed solid_separators by (intro trimmed_Join) auto
  moreover have "split_on CHR '','' (Join (map show_entry es) '','') = map show_entry es"
    using False assms(2) show_entry_no_comma by (intro split_on_Join) auto
  ultimately show ?thesis
    using assms by (simp add: ParseUserKeySpec_def TrimSpace_id parse_show_parts)
qed

lemma ParseUserKeySpec_round_trip_witness:
  "ParseUserKeySpec ''k1:alice:2'' 1 = Inr [\<lparr>uk_UserKey = ''k1'', uk_Entitlement =
     \<lparr>ue_Subject = ''alice'', ue_MaxSessions = 2, ue_Active = True, ue_ProductID = [],
      ue_OriginalTransactionID = [], ue_ExpiresAt = 0, ue_UpdatedAt = 0\<rparr>\<rparr>]"
proof -
  let ?e = "\<lparr>uk_UserKey = ''k1'', uk_Entitlement =
     \<lparr>ue_Subject = ''alice'', ue_MaxSessions = 2, ue_Active = True, ue_ProductID = [],
      ue_OriginalTransactionID = [], ue_ExpiresAt = 0, ue_UpdatedAt = 0\<rparr>\<rparr>"
  have "trimmed ''k1''" "trimmed ''alice''" by code_simp+
  then have "\<forall>e \<in> set [?e]. spec_entry e"
    by (simp add: spec_entry_def plain_field_def max_int64_def)
  moreover have "Join (map show_entry [?e]) '','' = ''k1:alice:2''"
    by (simp add: show_entry_def Itoa_def nat_digits.simps digit_char_def)
  ultimately show ?thesis
    using ParseUserKeySpec_round_trip [of 1 "[?e]"] by simp
qed

end
