(* ===== verification/Go_Json.thy ===== *)
theory Go_Json
  imports Go_Strings "HOL-Library.Char_ord" "HOL-Library.List_Lexorder"
begin

text \<open>
  The package \<^verbatim>\<open>encoding/json\<close> as the program uses it: the grammar of JSON texts, the decoding
  of a text into a struct, and the encoding of maps and structs.

  A number keeps its text (as \<^verbatim>\<open>json.Number\<close> and \<^verbatim>\<open>json.RawMessage\<close> do). The members of an
  object are kept in order, duplicates included, since the last one wins when decoding.
\<close>

section \<open>UTF-8\<close>

definition cont :: "char \<Rightarrow> bool" where
  "cont c \<longleftrightarrow> 128 \<le> ord c \<and> ord c < 192"

text \<open>The length of the valid encoding a string starts with; 0 when there is none.\<close>

fun rune_width :: "string \<Rightarrow> nat" where
  "rune_width [] = 0"
| "rune_width (a # s) =
     (let n = ord a in
      if n < 128 then 1
      else if 194 \<le> n \<and> n < 224 then (case s of b # _ \<Rightarrow> if cont b then 2 else 0 | _ \<Rightarrow> 0)
      else if 224 \<le> n \<and> n < 240 then
        (case s of b # c # _ \<Rightarrow>
           if cont b \<and> cont c \<and> (n = 224 \<longrightarrow> 160 \<le> ord b) \<and> (n = 237 \<longrightarrow> ord b < 160) then 3 else 0
         | _ \<Rightarrow> 0)
      else if 240 \<le> n \<and> n < 245 then
        (case s of b # c # d # _ \<Rightarrow>
           if cont b \<and> cont c \<and> cont d \<and> (n = 240 \<longrightarrow> 144 \<le> ord b) \<and> (n = 244 \<longrightarrow> ord b < 144)
           then 4 else 0
         | _ \<Rightarrow> 0)
      else 0)"

text \<open>U+FFFD, which replaces what is not valid.\<close>

definition replacement_char :: string where
  "replacement_char = [CHR 0xEF, CHR 0xBF, CHR 0xBD]"

text \<open>\<^verbatim>\<open>utf8.EncodeRune\<close> for a code point that is not a surrogate.\<close>

definition encode_rune :: "nat \<Rightarrow> string" where
  "encode_rune n =
     (if n < 128 then [byte n]
      else if n < 2048 then [byte (192 + n div 64), byte (128 + n mod 64)]
      else if n < 65536 then [byte (224 + n div 4096), byte (128 + n div 64 mod 64), byte (128 + n mod 64)]
      else [byte (240 + n div 262144), byte (128 + n div 4096 mod 64),
            byte (128 + n div 64 mod 64), byte (128 + n mod 64)])"

lemma rune_width_le: "rune_width s \<le> length s"
  by (cases s rule: rune_width.cases)
     (auto simp: Let_def split: list.splits)

function valid_utf8 :: "string \<Rightarrow> bool" where
  "valid_utf8 s =
     (if s = [] then True else if rune_width s = 0 then False else valid_utf8 (drop (rune_width s) s))"
  by pat_completeness auto
termination
  by (relation "measure length") auto

declare valid_utf8.simps [simp del]

section \<open>Values and their grammar\<close>

datatype json =
  JNull
| JBool bool
| JNum string
| JStr string
| JArr "json list"
| JObj "(string \<times> json) list"

definition is_digit :: "char \<Rightarrow> bool" where
  "is_digit c \<longleftrightarrow> 48 \<le> ord c \<and> ord c \<le> 57"

definition json_space :: "char \<Rightarrow> bool" where
  "json_space c \<longleftrightarrow> c = CHR '' '' \<or> c = CHR 0x09 \<or> c = CHR 0x0A \<or> c = CHR 0x0D"

definition skip_ws :: "string \<Rightarrow> string" where
  "skip_ws s = dropWhile json_space s"

definition hex_val :: "char \<Rightarrow> nat option" where
  "hex_val c = (let n = ord c in
     if 48 \<le> n \<and> n \<le> 57 then Some (n - 48)
     else if 97 \<le> n \<and> n \<le> 102 then Some (n - 87)
     else if 65 \<le> n \<and> n \<le> 70 then Some (n - 55) else None)"

definition getu4 :: "string \<Rightarrow> (nat \<times> string) option" where
  "getu4 s = (case s of
     a # b # c # d # r \<Rightarrow>
       (case (hex_val a, hex_val b, hex_val c, hex_val d) of
          (Some w, Some x, Some y, Some z) \<Rightarrow> Some (((w * 16 + x) * 16 + y) * 16 + z, r)
        | _ \<Rightarrow> None)
   | _ \<Rightarrow> None)"

text \<open>
  The escape after a backslash. A high surrogate followed by an escaped low one is one code
  point; any other surrogate is replaced.
\<close>

definition unescape :: "string \<Rightarrow> (string \<times> string) option" where
  "unescape s = (case s of [] \<Rightarrow> None
   | e # r \<Rightarrow>
       if e = CHR 0x22 \<or> e = CHR 0x5C \<or> e = CHR ''/'' then Some ([e], r)
       else if e = CHR ''b'' then Some ([CHR 0x08], r)
       else if e = CHR ''f'' then Some ([CHR 0x0C], r)
       else if e = CHR ''n'' then Some ([CHR 0x0A], r)
       else if e = CHR ''r'' then Some ([CHR 0x0D], r)
       else if e = CHR ''t'' then Some ([CHR 0x09], r)
       else if e = CHR ''u'' then
         (case getu4 r of None \<Rightarrow> None
          | Some (u, r1) \<Rightarrow>
              if 55296 \<le> u \<and> u < 57344 then
                (case r1 of x # y # r2 \<Rightarrow>
                   if x = CHR 0x5C \<and> y = CHR ''u'' then
                     (case getu4 r2 of
                        Some (v, r3) \<Rightarrow>
                          if u < 56320 \<and> 56320 \<le> v \<and> v < 57344
                          then Some (encode_rune ((u - 55296) * 1024 + (v - 56320) + 65536), r3)
                          else Some (replacement_char, r1)
                      | None \<Rightarrow> Some (replacement_char, r1))
                   else Some (replacement_char, r1)
                 | _ \<Rightarrow> Some (replacement_char, r1))
              else Some (encode_rune u, r1))
       else None)"

lemma getu4_length: "getu4 s = Some (u, r) \<Longrightarrow> length r < length s"
  by (auto simp: getu4_def split: list.splits option.splits)

lemma unescape_length: "unescape s = Some (out, r) \<Longrightarrow> length r < length s"
  by (auto simp: unescape_def split: list.splits option.splits if_splits dest!: getu4_length)

text \<open>The rest of a string literal after its opening quote: its value and what follows it.\<close>

function parse_chars :: "string \<Rightarrow> (string \<times> string) option" where
  "parse_chars [] = None"
| "parse_chars (c # s) =
     (if c = CHR 0x22 then Some ([], s)
      else if c = CHR 0x5C then
        (case unescape s of None \<Rightarrow> None
         | Some (out, r) \<Rightarrow> map_option (apfst ((@) out)) (parse_chars r))
      else if ord c < 32 then None
      else if rune_width (c # s) = 0 then map_option (apfst ((@) replacement_char)) (parse_chars s)
      else map_option (apfst ((@) (take (rune_width (c # s)) (c # s))))
             (parse_chars (drop (rune_width (c # s)) (c # s))))"
  by pat_completeness auto
termination
  by (relation "measure length") (auto dest: unescape_length)

definition parse_number :: "string \<Rightarrow> (string \<times> string) option" where
  "parse_number s =
     (let (sign, s1) = (case s of c # r \<Rightarrow> if c = CHR ''-'' then ([c], r) else ([], s) | [] \<Rightarrow> ([], s));
          whole = (case s1 of c # _ \<Rightarrow> if c = CHR ''0'' then [c] else takeWhile is_digit s1 | [] \<Rightarrow> []);
          s2 = drop (length whole) s1
      in if whole = [] then None
         else
           let (dot, frac) = (case s2 of c # r \<Rightarrow>
                 if c = CHR ''.'' then (True, takeWhile is_digit r) else (False, []) | [] \<Rightarrow> (False, []));
               s3 = (if dot then drop (Suc (length frac)) s2 else s2)
           in if dot \<and> frac = [] then None
              else
                let (ex, mark) = (case s3 of c # r \<Rightarrow>
                      if c = CHR ''e'' \<or> c = CHR ''E''
                      then (True, (case r of d # _ \<Rightarrow> if d = CHR ''+'' \<or> d = CHR ''-'' then [c, d] else [c]
                                   | [] \<Rightarrow> [c]))
                      else (False, []) | [] \<Rightarrow> (False, []));
                    power = (if ex then takeWhile is_digit (drop (length mark) s3) else []);
                    s4 = drop (length mark + length power) s3
                in if ex \<and> power = [] then None
                   else Some (sign @ whole @ (if dot then CHR ''.'' # frac else []) @ mark @ power, s4))"

definition isValidNumber :: "string \<Rightarrow> bool" where
  "isValidNumber s \<longleftrightarrow> parse_number s = Some (s, [])"

text \<open>
  Values, by recursion on fuel (every level of the grammar consumes a character at least every
  second step, so twice the length is enough) and on the depth that is left.
\<close>

fun parse_value :: "nat \<Rightarrow> nat \<Rightarrow> string \<Rightarrow> (json \<times> string) option"
  and parse_elems :: "nat \<Rightarrow> nat \<Rightarrow> string \<Rightarrow> (json list \<times> string) option"
  and parse_members :: "nat \<Rightarrow> nat \<Rightarrow> string \<Rightarrow> ((string \<times> json) list \<times> string) option"
where
  "parse_value 0 d s = None"
| "parse_value (Suc n) d s = (case skip_ws s of [] \<Rightarrow> None
   | c # r \<Rightarrow>
       if c = CHR 0x22 then map_option (apfst JStr) (parse_chars r)
       else if c = CHR ''{'' then
         (if d = 0 then None
          else case skip_ws r of [] \<Rightarrow> None
          | x # r1 \<Rightarrow> if x = CHR ''}'' then Some (JObj [], r1)
                      else map_option (apfst JObj) (parse_members n (d - 1) (x # r1)))
       else if c = CHR ''['' then
         (if d = 0 then None
          else case skip_ws r of [] \<Rightarrow> None
          | x # r1 \<Rightarrow> if x = CHR '']'' then Some (JArr [], r1)
                      else map_option (apfst JArr) (parse_elems n (d - 1) (x # r1)))
       else if HasPrefix (c # r) ''null'' then Some (JNull, drop 4 (c # r))
       else if HasPrefix (c # r) ''true'' then Some (JBool True, drop 4 (c # r))
       else if HasPrefix (c # r) ''false'' then Some (JBool False, drop 5 (c # r))
       else map_option (apfst JNum) (parse_number (c # r)))"
| "parse_elems 0 d s = None"
| "parse_elems (Suc n) d s = (case parse_value n d s of None \<Rightarrow> None
   | Some (v, r) \<Rightarrow>
       (case skip_ws r of [] \<Rightarrow> None
        | x # r1 \<Rightarrow>
            if x = CHR '','' then map_option (apfst ((#) v)) (parse_elems n d r1)
            else if x = CHR '']'' then Some ([v], r1) else None))"
| "parse_members 0 d s = None"
| "parse_members (Suc n) d s = (case skip_ws s of [] \<Rightarrow> None
   | q # s1 \<Rightarrow>
       if q \<noteq> CHR 0x22 then None
       else (case parse_chars s1 of None \<Rightarrow> None
       | Some (k, s2) \<Rightarrow>
           (case skip_ws s2 of [] \<Rightarrow> None
            | x # s3 \<Rightarrow>
                if x \<noteq> CHR '':'' then None
                else (case parse_value n d s3 of None \<Rightarrow> None
                | Some (v, r) \<Rightarrow>
                    (case skip_ws r of [] \<Rightarrow> None
                     | y # r1 \<Rightarrow>
                         if y = CHR '','' then map_option (apfst ((#) (k, v))) (parse_members n d r1)
                         else if y = CHR ''}'' then Some ([(k, v)], r1) else None)))))"

definition max_depth :: nat where "max_depth = 10000"

text \<open>
  \<^verbatim>\<open>json.NewDecoder(r).Decode\<close> reads the first value of the stream and leaves the rest;
  \<^verbatim>\<open>json.Unmarshal\<close> accepts nothing but white space after it.
\<close>

definition json_Decode :: "string \<Rightarrow> json option" where
  "json_Decode s = map_option fst (parse_value (2 * length s + 2) max_depth s)"

definition json_Unmarshal :: "string \<Rightarrow> json option" where
  "json_Unmarshal s = (case parse_value (2 * length s + 2) max_depth s of None \<Rightarrow> None
     | Some (v, r) \<Rightarrow> if skip_ws r = [] then Some v else None)"

section \<open>Decoding into Go types\<close>

text \<open>
  Decoding \<^verbatim>\<open>null\<close> leaves a variable as it is. A value of the wrong kind is an error; Go goes on
  decoding after it, but returns the error, and the program never looks at the result then.
\<close>

definition decode_string :: "json \<Rightarrow> string \<Rightarrow> string option" where
  "decode_string v old = (case v of JStr s \<Rightarrow> Some s | JNull \<Rightarrow> Some old | _ \<Rightarrow> None)"

definition decode_int :: "json \<Rightarrow> int \<Rightarrow> int option" where
  "decode_int v old = (case v of JNum n \<Rightarrow> Atoi n | JNull \<Rightarrow> Some old | _ \<Rightarrow> None)"

text \<open>A \<^verbatim>\<open>json.Number\<close> takes numbers, and strings that hold one.\<close>

definition decode_number :: "json \<Rightarrow> string \<Rightarrow> string option" where
  "decode_number v old = (case v of JNum n \<Rightarrow> Some n
     | JStr s \<Rightarrow> if isValidNumber s then Some s else None
     | JNull \<Rightarrow> Some old | _ \<Rightarrow> None)"

text \<open>A slice of strings: a \<^verbatim>\<open>null\<close> element is the empty string, a \<^verbatim>\<open>null\<close> slice is nil.\<close>

fun decode_strings :: "json list \<Rightarrow> string list option" where
  "decode_strings [] = Some []"
| "decode_strings (v # vs) =
     (case decode_string v [] of None \<Rightarrow> None | Some s \<Rightarrow> map_option ((#) s) (decode_strings vs))"

text \<open>
  A struct: each member goes to the field whose name it equals, ignoring case; members without
  a field are skipped, or refused after \<^verbatim>\<open>DisallowUnknownFields\<close>.
\<close>

definition field_of :: "string list \<Rightarrow> string \<Rightarrow> string option" where
  "field_of names k = List.find (\<lambda>f. EqualFold f k) names"

fun decode_members ::
  "bool \<Rightarrow> string list \<Rightarrow> (string \<Rightarrow> json \<Rightarrow> 'r \<Rightarrow> 'r option) \<Rightarrow> (string \<times> json) list \<Rightarrow> 'r \<Rightarrow> 'r option"
where
  "decode_members strict names put [] r = Some r"
| "decode_members strict names put ((k, v) # ms) r =
     (case field_of names k of
        None \<Rightarrow> if strict then None else decode_members strict names put ms r
      | Some f \<Rightarrow> (case put f v r of None \<Rightarrow> None | Some r' \<Rightarrow> decode_members strict names put ms r'))"

definition decode_struct ::
  "bool \<Rightarrow> string list \<Rightarrow> (string \<Rightarrow> json \<Rightarrow> 'r \<Rightarrow> 'r option) \<Rightarrow> 'r \<Rightarrow> json \<Rightarrow> 'r option"
where
  "decode_struct strict names put zero v = (case v of
     JObj ms \<Rightarrow> decode_members strict names put ms zero
   | JNull \<Rightarrow> Some zero
   | _ \<Rightarrow> None)"

section \<open>Encoding\<close>

definition hex_char :: "nat \<Rightarrow> char" where
  "hex_char n = ''0123456789abcdef'' ! n"

definition escape_ascii :: "char \<Rightarrow> string" where
  "escape_ascii c =
     (if c = CHR 0x22 \<or> c = CHR 0x5C then [CHR 0x5C, c]
      else if c = CHR 0x08 then [CHR 0x5C, CHR ''b'']
      else if c = CHR 0x0C then [CHR 0x5C, CHR ''f'']
      else if c = CHR 0x0A then [CHR 0x5C, CHR ''n'']
      else if c = CHR 0x0D then [CHR 0x5C, CHR ''r'']
      else if c = CHR 0x09 then [CHR 0x5C, CHR ''t'']
      else if ord c < 32 \<or> c = CHR ''<'' \<or> c = CHR ''>'' \<or> c = CHR ''&''
        then [CHR 0x5C, CHR ''u'', CHR ''0'', CHR ''0'', hex_char (ord c div 16), hex_char (ord c mod 16)]
      else [c])"

function escape_chars :: "string \<Rightarrow> string" where
  "escape_chars [] = []"
| "escape_chars (c # s) =
     (if ord c < 128 then escape_ascii c @ escape_chars s
      else if rune_width (c # s) = 0 then [CHR 0x5C, CHR ''u'', CHR ''f'', CHR ''f'', CHR ''f'', CHR ''d''] @ escape_chars s
      else if take 2 (c # s) = [CHR 0xE2, CHR 0x80] \<and> (take 1 (drop 2 (c # s)) = [CHR 0xA8] \<or> take 1 (drop 2 (c # s)) = [CHR 0xA9])
        then [CHR 0x5C, CHR ''u'', CHR ''2'', CHR ''0'', CHR ''2'',
              hex_char (ord ((c # s) ! 2) mod 16)] @ escape_chars (drop 3 (c # s))
      else take (rune_width (c # s)) (c # s) @ escape_chars (drop (rune_width (c # s)) (c # s)))"
  by pat_completeness auto
termination
  by (relation "measure length") auto

fun print_json :: "json \<Rightarrow> string"
  and print_elems :: "json list \<Rightarrow> string"
  and print_members :: "(string \<times> json) list \<Rightarrow> string"
where
  "print_json JNull = ''null''"
| "print_json (JBool b) = (if b then ''true'' else ''false'')"
| "print_json (JNum n) = n"
| "print_json (JStr s) = [CHR 0x22] @ escape_chars s @ [CHR 0x22]"
| "print_json (JArr vs) = ''['' @ print_elems vs @ '']''"
| "print_json (JObj ms) = ''{'' @ print_members ms @ ''}''"
| "print_elems [] = []"
| "print_elems [v] = print_json v"
| "print_elems (v # w # vs) = print_json v @ '','' @ print_elems (w # vs)"
| "print_members [] = []"
| "print_members [(k, v)] = [CHR 0x22] @ escape_chars k @ [CHR 0x22] @ '':'' @ print_json v"
| "print_members ((k, v) # m # ms) =
     [CHR 0x22] @ escape_chars k @ [CHR 0x22] @ '':'' @ print_json v @ '','' @ print_members (m # ms)"

text \<open>\<^verbatim>\<open>json.Marshal\<close> of a map writes the members in the order of their keys.\<close>

definition Marshal_map :: "(string \<times> json) list \<Rightarrow> string" where
  "Marshal_map m = print_json (JObj (sort_key fst m))"

declare parse_chars.simps [simp del] escape_chars.simps [simp del] parse_value.simps [simp del]
  parse_elems.simps [simp del] parse_members.simps [simp del]

section \<open>Round trip\<close>

text \<open>
  What the encoder writes, the decoder reads back, for values whose strings are ASCII and whose
  numbers are integers: the tokens and bodies the program builds.
\<close>

definition ascii :: "string \<Rightarrow> bool" where
  "ascii s \<longleftrightarrow> (\<forall>c \<in> set s. ord c < 128)"

lemma hex_val_char: "n < 16 \<Longrightarrow> hex_val (hex_char n) = Some n"
proof -
  have "list_all (\<lambda>n. hex_val (hex_char n) = Some n) [0..<16]"
    by code_simp
  moreover assume "n < 16"
  ultimately show ?thesis by (simp add: list_all_iff)
qed

lemma hex_val_zero: "hex_val (CHR ''0'') = Some 0"
  by (simp add: hex_val_def ord_def)

lemma getu4_byte:
  "ord c < 128 \<Longrightarrow> getu4 (CHR ''0'' # CHR ''0'' # hex_char (ord c div 16) # hex_char (ord c mod 16) # r)
     = Some (ord c, r)"
  by (simp add: getu4_def hex_val_zero hex_val_char)

lemma unescape_simple:
  "unescape (CHR 0x22 # t) = Some ([CHR 0x22], t)"
  "unescape (CHR 0x5C # t) = Some ([CHR 0x5C], t)"
  "unescape (CHR ''b'' # t) = Some ([CHR 0x08], t)"
  "unescape (CHR ''f'' # t) = Some ([CHR 0x0C], t)"
  "unescape (CHR ''n'' # t) = Some ([CHR 0x0A], t)"
  "unescape (CHR ''r'' # t) = Some ([CHR 0x0D], t)"
  "unescape (CHR ''t'' # t) = Some ([CHR 0x09], t)"
  by (simp_all add: unescape_def)

lemma unescape_byte:
  "ord c < 128 \<Longrightarrow>
   unescape (CHR ''u'' # CHR ''0'' # CHR ''0'' # hex_char (ord c div 16) # hex_char (ord c mod 16) # t)
     = Some ([c], t)"
  by (simp add: unescape_def getu4_byte encode_rune_def)

lemma parse_chars_unescape:
  "unescape t = Some (out, r) \<Longrightarrow> parse_chars (CHR 0x5C # t) = map_option (apfst ((@) out)) (parse_chars r)"
  by (simp add: parse_chars.simps(2))

lemma parse_chars_plain:
  "c \<noteq> CHR 0x22 \<Longrightarrow> c \<noteq> CHR 0x5C \<Longrightarrow> 32 \<le> ord c \<Longrightarrow> ord c < 128 \<Longrightarrow>
   parse_chars (c # t) = map_option (apfst ((@) [c])) (parse_chars t)"
  by (simp add: parse_chars.simps(2))

lemma parse_chars_escape_ascii:
  assumes "ord c < 128"
  shows "parse_chars (escape_ascii c @ t) = map_option (apfst ((@) [c])) (parse_chars t)"
proof -
  note esc = parse_chars_unescape [OF unescape_simple(1)] parse_chars_unescape [OF unescape_simple(2)]
    parse_chars_unescape [OF unescape_simple(3)] parse_chars_unescape [OF unescape_simple(4)]
    parse_chars_unescape [OF unescape_simple(5)] parse_chars_unescape [OF unescape_simple(6)]
    parse_chars_unescape [OF unescape_simple(7)]
  show ?thesis
  proof (cases "c \<in> {CHR 0x22, CHR 0x5C, CHR 0x08, CHR 0x0C, CHR 0x0A, CHR 0x0D, CHR 0x09}")
    case True
    then show ?thesis
      unfolding insert_iff empty_iff
      by (elim disjE FalseE) (simp_all add: escape_ascii_def esc)
  next
    case False
    then have *: "escape_ascii c = (if ord c < 32 \<or> c = CHR ''<'' \<or> c = CHR ''>'' \<or> c = CHR ''&''
        then [CHR 0x5C, CHR ''u'', CHR ''0'', CHR ''0'', hex_char (ord c div 16), hex_char (ord c mod 16)]
        else [c])"
      by (simp add: escape_ascii_def)
    show ?thesis
    proof (cases "ord c < 32 \<or> c = CHR ''<'' \<or> c = CHR ''>'' \<or> c = CHR ''&''")
      case True
      with * show ?thesis
        using parse_chars_unescape [OF unescape_byte [OF assms, of t]] by simp
    next
      case plain: False
      with * False show ?thesis
        using parse_chars_plain [of c t] assms by simp
    qed
  qed
qed

lemma parse_chars_escape:
  "ascii s \<Longrightarrow> parse_chars (escape_chars s @ CHR 0x22 # r) = Some (s, r)"
  by (induction s) (auto simp: ascii_def escape_chars.simps parse_chars.simps(2) [of "CHR 0x22"] parse_chars_escape_ascii)


definition number_end :: "string \<Rightarrow> bool" where
  "number_end r \<longleftrightarrow> (\<forall>c t. r = c # t \<longrightarrow>
     \<not> is_digit c \<and> c \<noteq> CHR ''.'' \<and> c \<noteq> CHR ''e'' \<and> c \<noteq> CHR ''E'')"

lemma is_digit_char [simp]: "d < 10 \<Longrightarrow> is_digit (digit_char d)"
  by (drule lt10_cases) (elim insertE emptyE; simp add: is_digit_def digit_char_def ord_def)

lemma digit_char_not_minus: "d < 10 \<Longrightarrow> digit_char d \<noteq> CHR ''-''"
  using digit_char_props by blast

lemma nat_digits_all_digits: "c \<in> set (nat_digits n) \<Longrightarrow> is_digit c"
  using nat_digits_chars by fastforce

lemma nat_digits_zero_head: "nat_digits n = CHR ''0'' # t \<Longrightarrow> n = 0 \<and> t = []"
proof (induction n arbitrary: t rule: nat_digits.induct)
  case (1 n)
  show ?case
  proof (cases "n < 10")
    case True
    have "d < 10 \<Longrightarrow> digit_char d = CHR ''0'' \<Longrightarrow> d = 0" for d
      by (drule lt10_cases) (elim insertE emptyE; simp add: digit_char_def)
    with True "1.prems" show ?thesis by (simp add: nat_digits.simps [of n])
  next
    case False
    with "1.prems" obtain t' where "nat_digits (n div 10) = CHR ''0'' # t'"
      by (cases "nat_digits (n div 10)") (auto simp: nat_digits.simps [of n])
    with 1 False have "n div 10 = 0" by blast
    with False show ?thesis by simp
  qed
qed

lemma takeWhile_digits:
  "number_end r \<Longrightarrow> \<forall>c \<in> set ds. is_digit c \<Longrightarrow> takeWhile is_digit (ds @ r) = ds"
  by (cases r) (auto simp: takeWhile_append2 number_end_def)

lemma parse_number_nat_digits:
  assumes "number_end r"
  shows "parse_number (nat_digits n @ r) = Some (nat_digits n, r)"
    and "parse_number (CHR ''-'' # nat_digits n @ r) = Some (CHR ''-'' # nat_digits n, r)"
proof -
  obtain c t where ct: "nat_digits n = c # t" by (cases "nat_digits n") auto
  have c: "c \<noteq> CHR ''-''"
    using ct nat_digits_chars [of c n] digit_char_not_minus by auto
  have tw: "takeWhile is_digit (c # t @ r) = c # t"
    using takeWhile_digits [OF assms, of "c # t"] nat_digits_all_digits [of _ n] ct by auto
  have z: "c = CHR ''0'' \<Longrightarrow> t = []"
    using nat_digits_zero_head ct by blast
  have whole: "(if c = CHR ''0'' then [c] else takeWhile is_digit (c # t @ r)) = c # t"
    using tw z by auto
  have tail: "r = [] \<or> (\<exists>x y. r = x # y \<and> x \<noteq> CHR ''.'' \<and> x \<noteq> CHR ''e'' \<and> x \<noteq> CHR ''E'')"
    using assms by (cases r) (auto simp: number_end_def)
  show "parse_number (nat_digits n @ r) = Some (nat_digits n, r)"
    "parse_number (CHR ''-'' # nat_digits n @ r) = Some (CHR ''-'' # nat_digits n, r)"
    using tail c whole unfolding ct parse_number_def
    by (auto simp: Let_def split del: if_split)
qed

lemma parse_number_Itoa: "number_end r \<Longrightarrow> parse_number (Itoa i @ r) = Some (Itoa i, r)"
  by (simp add: Itoa_def parse_number_nat_digits)

lemma Itoa_head: "\<exists>c t. Itoa i = c # t \<and> (is_digit c \<or> c = CHR ''-'')"
proof (cases "i < 0")
  case True
  then show ?thesis by (simp add: Itoa_def)
next
  case False
  obtain c t where "nat_digits (nat i) = c # t" by (cases "nat_digits (nat i)") auto
  then show ?thesis using False nat_digits_all_digits [of c "nat i"] by (simp add: Itoa_def)
qed

text \<open>The values of nesting at most \<open>d\<close> for which encoding loses nothing.\<close>

fun printable :: "nat \<Rightarrow> json \<Rightarrow> bool" where
  "printable d JNull = True"
| "printable d (JBool b) = True"
| "printable d (JNum n) = (\<exists>i. n = Itoa i)"
| "printable d (JStr s) = ascii s"
| "printable d (JArr vs) = (0 < d \<and> (\<forall>v \<in> set vs. printable (d - 1) v))"
| "printable d (JObj ms) = (0 < d \<and> (\<forall>m \<in> set ms. ascii (fst m) \<and> printable (d - 1) (snd m)))"

lemma skip_ws_Cons: "\<not> json_space c \<Longrightarrow> skip_ws (c # r) = c # r"
  by (simp add: skip_ws_def)

lemma print_head:
  "printable d v \<Longrightarrow> \<exists>c t. print_json v = c # t \<and> \<not> json_space c \<and> c \<noteq> CHR ''}'' \<and> c \<noteq> CHR '']''"
proof (cases v)
  case (JNum n)
  moreover assume "printable d v"
  ultimately obtain i where n: "n = Itoa i" by auto
  obtain c t where "Itoa i = c # t" "is_digit c \<or> c = CHR ''-''" using Itoa_head by blast
  then show ?thesis using JNum n by (auto simp: is_digit_def ord_def json_space_def)
qed (auto simp: json_space_def)

lemma parse_value_number:
  assumes "number_end r"
  shows "parse_value (Suc n) d (Itoa i @ r) = Some (JNum (Itoa i), r)"
proof -
  obtain c t where ct: "Itoa i = c # t" "is_digit c \<or> c = CHR ''-''" using Itoa_head by blast
  then have "\<not> json_space c" "c \<noteq> CHR 0x22" "c \<noteq> CHR ''{''" "c \<noteq> CHR ''[''" "c \<noteq> CHR ''n''"
    "c \<noteq> CHR ''t''" "c \<noteq> CHR ''f''"
    by (auto simp: is_digit_def ord_def json_space_def)
  then show ?thesis
    using parse_number_Itoa [OF assms, of i] ct(1)
    by (simp add: parse_value.simps skip_ws_Cons HasPrefix_def)
qed

lemma parse_value_string:
  "ascii s \<Longrightarrow> parse_value (Suc n) d (CHR 0x22 # escape_chars s @ CHR 0x22 # r) = Some (JStr s, r)"
  by (simp add: parse_value.simps skip_ws_Cons json_space_def parse_chars_escape)

lemma length_print_pos: "printable d v \<Longrightarrow> 0 < length (print_json v)"
  using print_head by fastforce

lemma parse_print:
  "printable d v \<Longrightarrow> number_end r \<Longrightarrow> 2 * length (print_json v) \<le> n \<Longrightarrow>
     parse_value n d (print_json v @ r) = Some (v, r)"
  and "vs \<noteq> [] \<Longrightarrow> \<forall>v \<in> set vs. printable d v \<Longrightarrow> 2 * length (print_elems vs) + 1 \<le> n \<Longrightarrow>
     parse_elems n d (print_elems vs @ CHR '']'' # r) = Some (vs, r)"
  and "ms \<noteq> [] \<Longrightarrow> \<forall>m \<in> set ms. ascii (fst m) \<and> printable d (snd m) \<Longrightarrow>
     2 * length (print_members ms) + 1 \<le> n \<Longrightarrow>
     parse_members n d (print_members ms @ CHR ''}'' # r) = Some (ms, r)"
proof (induction v and vs and ms arbitrary: n d r and n d r and n d r
    rule: print_json_print_elems_print_members.induct)
  case 1
  then show ?case by (cases n) (auto simp: parse_value.simps skip_ws_Cons json_space_def HasPrefix_def)
next
  case (2 b)
  then show ?case by (cases n; cases b) (auto simp: parse_value.simps skip_ws_Cons json_space_def HasPrefix_def)
next
  case (3 k)
  then obtain i where k: "k = Itoa i" by auto
  with 3 Itoa_head [of i] obtain m where "n = Suc m" by (cases n) auto
  with 3 k show ?case by (simp add: parse_value_number)
next
  case (4 s)
  then show ?case by (cases n) (auto simp: parse_value_string)
next
  case (5 vs)
  then obtain m where n: "n = Suc m" by (cases n) auto
  show ?case
  proof (cases vs)
    case Nil
    with 5 n show ?thesis by (simp add: parse_value.simps skip_ws_Cons json_space_def)
  next
    case (Cons v ws)
    with 5 have "printable (d - 1) v" by simp
    with Cons obtain c t where ct: "print_elems vs = c # t" "\<not> json_space c" "c \<noteq> CHR '']''"
      using print_head by (cases ws) force+
    then show ?thesis
      using 5 n Cons by (simp add: parse_value.simps skip_ws_Cons json_space_def)
  qed
next
  case (6 ms)
  then obtain m where n: "n = Suc m" by (cases n) auto
  show ?case
  proof (cases ms)
    case Nil
    with 6 n show ?thesis by (simp add: parse_value.simps skip_ws_Cons json_space_def)
  next
    case (Cons kv ws)
    then obtain t where ct: "print_members ms = CHR 0x22 # t"
      by (cases kv; cases ws) auto
    then show ?thesis
      using 6 n Cons by (simp add: parse_value.simps skip_ws_Cons json_space_def)
  qed
next
  case 7
  then show ?case by simp
next
  case (8 v)
  then obtain m where n: "n = Suc m" by (cases n) auto
  have "number_end (CHR '']'' # r)" by (simp add: number_end_def is_digit_def ord_def)
  with 8 n show ?case by (simp add: parse_elems.simps skip_ws_Cons json_space_def)
next
  case (9 v w vs)
  then obtain m where n: "n = Suc m" by (cases n) auto
  have "number_end (CHR '','' # t)" for t by (simp add: number_end_def is_digit_def ord_def)
  with 9 n show ?case by (simp add: parse_elems.simps skip_ws_Cons json_space_def)
next
  case 10
  then show ?case by simp
next
  case (11 k v)
  then obtain m where n: "n = Suc m" by (cases n) auto
  have "number_end (CHR ''}'' # r)" by (simp add: number_end_def is_digit_def ord_def)
  with 11 n show ?case
    by (simp add: parse_members.simps skip_ws_Cons json_space_def parse_chars_escape)
next
  case (12 k v m ms)
  then obtain l where n: "n = Suc l" by (cases n) auto
  have "number_end (CHR '','' # t)" for t by (simp add: number_end_def is_digit_def ord_def)
  with 12 n show ?case
    by (simp add: parse_members.simps skip_ws_Cons json_space_def parse_chars_escape)
qed

lemma Unmarshal_print: "printable max_depth v \<Longrightarrow> json_Unmarshal (print_json v) = Some v"
  using parse_print(1) [of max_depth v "[]" "2 * length (print_json v) + 2"]
  by (simp add: json_Unmarshal_def number_end_def skip_ws_def)

lemma Decode_print: "printable max_depth v \<Longrightarrow> json_Decode (print_json v) = Some v"
  using parse_print(1) [of max_depth v "[]" "2 * length (print_json v) + 2"]
  by (simp add: json_Decode_def number_end_def)

end
