(* ===== verification/Agent_Label.thy ===== *)
theory Agent_Label
  imports Go_Json
begin

text \<open>
  The label under which the command line client announces its agent
  (\<^verbatim>\<open>cmd/shellin/agent_label.go\<close>): the normalisation of a label, the tracker that holds the current
  one, and the parser that finds terminal titles (the escape sequences \<^verbatim>\<open>ESC ] 0 ; title BEL\<close>) in
  the output of the shell as it arrives, chunk by chunk.

  A rune is represented by its UTF-8 encoding; a byte that belongs to no encoding is the
  replacement character, as in a Go \<^verbatim>\<open>range\<close> over a string. The bound of 4096 bytes on what the
  parser keeps is compared over \<^typ>\<open>int\<close>, like every Go \<^verbatim>\<open>len\<close>.
\<close>

section \<open>Runes\<close>

function runes :: "string \<Rightarrow> string list" where
  "runes s = (if s = [] then []
     else if rune_width s = 0 then replacement_char # runes (drop 1 s)
     else take (rune_width s) s # runes (drop (rune_width s) s))"
  by pat_completeness auto
termination
  by (relation "measure length") auto

declare runes.simps [simp del]

definition is_rune :: "string \<Rightarrow> bool" where
  "is_rune r \<longleftrightarrow> r \<noteq> [] \<and> rune_width r = length r"

lemma rune_width_append: "is_rune r \<Longrightarrow> rune_width (r @ s) = length r"
  unfolding is_rune_def
  by (cases r) (auto simp: Let_def split: list.splits if_splits)

lemma rune_width_take: "rune_width s \<noteq> 0 \<Longrightarrow> is_rune (take (rune_width s) s)"
  unfolding is_rune_def
  by (cases s) (auto simp: Let_def take_Cons' split: list.splits if_splits)

lemma replacement_is_rune: "is_rune replacement_char"
  by (simp add: is_rune_def replacement_char_def cont_def ord_def)

lemma runes_are_runes: "r \<in> set (runes s) \<Longrightarrow> is_rune r"
proof (induction s rule: runes.induct)
  case (1 s)
  then show ?case
    by (subst (asm) (3) runes.simps) (auto simp: replacement_is_rune rune_width_take split: if_splits)
qed

lemma runes_concat: "\<forall>r \<in> set rs. is_rune r \<Longrightarrow> runes (concat rs) = rs"
proof (induction rs)
  case Nil
  then show ?case by (simp add: runes.simps)
next
  case (Cons r rs)
  then have "is_rune r" and "rune_width (r @ concat rs) = length r"
    by (simp_all add: rune_width_append)
  moreover have "runes (concat rs) = rs" using Cons by simp
  ultimately show ?case
    by (subst concat.simps, subst runes.simps) (auto simp: is_rune_def)
qed

lemma rune_bytes: "is_rune r \<Longrightarrow> c \<in> set r \<Longrightarrow> r = [c] \<or> 128 \<le> ord c"
  unfolding is_rune_def
  by (cases r) (auto simp: Let_def cont_def split: list.splits if_splits)

section \<open>Labels\<close>

definition clean_rune :: "string \<Rightarrow> string" where
  "clean_rune r = (case r of [c] \<Rightarrow>
       if c = CHR 0x0A \<or> c = CHR 0x0D \<or> c = CHR 0x09 then '' ''
       else if ord c < 32 \<or> ord c = 127 then [] else r
     | _ \<Rightarrow> r)"

text \<open>\<^verbatim>\<open>strings.Fields\<close>; \<open>fields_from acc\<close> has read \<open>acc\<close> since the last space.\<close>

function fields_from :: "string \<Rightarrow> string \<Rightarrow> string list" where
  "fields_from acc [] = (if acc = [] then [] else [acc])"
| "fields_from acc (c # s) =
     (if space_width (c # s) = 0 then fields_from (acc @ [c]) s
      else (if acc = [] then [] else [acc]) @ fields_from [] (drop (space_width (c # s)) (c # s)))"
  by pat_completeness auto
termination
  by (relation "measure (\<lambda>(acc, s). length s)") auto

declare fields_from.simps(2) [simp del]

definition Fields :: "string \<Rightarrow> string list" where
  "Fields s = fields_from [] s"

definition normalizeAgentLabel :: "string \<Rightarrow> string" where
  "normalizeAgentLabel raw =
     (let cleaned = concat (map clean_rune (runes raw));
          fields = Fields (TrimSpace cleaned)
      in if fields = [] then []
         else let normalized = Join fields '' ''
         in if 120 < int (length (runes normalized)) then concat (take (nat 120) (runes normalized))
            else normalized)"

text \<open>The host name is \<open>None\<close> when the system does not tell it.\<close>

definition defaultAgentLabel :: "string option \<Rightarrow> int \<Rightarrow> string" where
  "defaultAgentLabel hostname pid =
     (let host = (case hostname of None \<Rightarrow> ''agent'' | Some h \<Rightarrow> if TrimSpace h = [] then ''agent'' else h)
      in normalizeAgentLabel (TrimSpace host @ '':'' @ Itoa pid))"

text \<open>A tracker is a nil pointer or its current label.\<close>

type_synonym agentLabelTracker = "string option"

definition newAgentLabelTracker :: "string \<Rightarrow> agentLabelTracker" where
  "newAgentLabelTracker initial = Some (normalizeAgentLabel initial)"

definition agentLabelTracker_Get :: "agentLabelTracker \<Rightarrow> string" where
  "agentLabelTracker_Get t = (case t of None \<Rightarrow> [] | Some label \<Rightarrow> label)"

definition agentLabelTracker_Set :: "agentLabelTracker \<Rightarrow> string \<Rightarrow> agentLabelTracker \<times> bool" where
  "agentLabelTracker_Set t next = (case t of None \<Rightarrow> (t, False)
     | Some _ \<Rightarrow>
         let normalized = normalizeAgentLabel next
         in if normalized = [] \<or> normalized = agentLabelTracker_Get t then (t, False)
            else (Some normalized, True))"

section \<open>Terminal titles\<close>

definition ESC :: char where "ESC = CHR 0x1B"

definition maxPending :: int where "maxPending = 4096"

fun oscTitleTerminator :: "string \<Rightarrow> (nat \<times> nat) option" where
  "oscTitleTerminator [] = None"
| "oscTitleTerminator (c # s) =
     (if c = CHR 0x07 then Some (0, 1)
      else if c = ESC \<and> take 1 s = [CHR 0x5C] then Some (0, 2)
      else map_option (apfst Suc) (oscTitleTerminator s))"

text \<open>One round of the loop in \<^verbatim>\<open>Feed\<close>: it stops with what is kept, or finds a title sequence.\<close>

datatype feed_step = Stop string | Found "string option" string

definition feed_round :: "string \<Rightarrow> feed_step" where
  "feed_round pending0 = (case Index pending0 [ESC, CHR '']''] of
     None \<Rightarrow> Stop (if maxPending < int (length pending0)
                   then (if last pending0 = ESC then [ESC] else []) else pending0)
   | Some start \<Rightarrow>
       let pending = drop start pending0
       in if length pending < 4 then Stop pending
          else case index_of (CHR '';'') (drop 2 pending) of
            None \<Rightarrow> Stop (if maxPending < int (length pending) then take 2 pending else pending)
          | Some separatorOffset \<Rightarrow>
              let titleStart = separatorOffset + 2 + 1
              in case oscTitleTerminator (drop titleStart pending) of
                   None \<Rightarrow> Stop (if maxPending < int (length pending) then take titleStart pending else pending)
                 | Some (terminatorIndex, terminatorWidth) \<Rightarrow>
                     let param = take separatorOffset (drop 2 pending);
                         title = normalizeAgentLabel (take terminatorIndex (drop titleStart pending))
                     in Found (if (param = ''0'' \<or> param = ''2'') \<and> title \<noteq> [] then Some title else None)
                          (drop (titleStart + terminatorIndex + terminatorWidth) pending))"

lemma feed_round_shorter: "feed_round p = Found t rest \<Longrightarrow> length rest < length p"
  unfolding feed_round_def
  by (auto simp: Let_def split: option.splits if_splits)

function feed_loop :: "string \<Rightarrow> string \<times> string list" where
  "feed_loop pending = (case feed_round pending of
     Stop kept \<Rightarrow> (kept, [])
   | Found title rest \<Rightarrow>
       let (kept, titles) = feed_loop rest
       in (kept, (case title of None \<Rightarrow> titles | Some t \<Rightarrow> t # titles)))"
  by pat_completeness auto
termination
  by (relation "measure length") (auto simp: feed_round_shorter)

declare feed_loop.simps [simp del]

type_synonym oscTerminalTitleParser = string

definition oscTerminalTitleParser_Feed :: "oscTerminalTitleParser \<Rightarrow> string \<Rightarrow> oscTerminalTitleParser \<times> string list" where
  "oscTerminalTitleParser_Feed pending chunk =
     (if chunk = [] then (pending, []) else feed_loop (pending @ chunk))"

text \<open>The titles a parser reports over a sequence of chunks.\<close>

fun feed_all :: "oscTerminalTitleParser \<Rightarrow> string list \<Rightarrow> oscTerminalTitleParser \<times> string list" where
  "feed_all p [] = (p, [])"
| "feed_all p (c # cs) =
     (let (p1, ts) = oscTerminalTitleParser_Feed p c; (p2, us) = feed_all p1 cs in (p2, ts @ us))"

end
