(* ===== verification/Client_Errors.thy ===== *)
theory Client_Errors
  imports Go_Strings
begin

text \<open>
  The errors of the command line client and what it shows for them
  (\<^verbatim>\<open>cmd/shellin/error_types.go\<close>, \<^verbatim>\<open>auth_status_errors.go\<close>, \<^verbatim>\<open>error_classification.go\<close> and
  \<^verbatim>\<open>startup_error_display.go\<close>).

  An error is a value of \<open>go_error\<close>: the program's own error types, errors of libraries and of
  \<^verbatim>\<open>errors.New\<close> (\<open>Plain\<close>, which also stands for a \<^verbatim>\<open>fmt.Errorf\<close> that formats errors with
  \<^verbatim>\<open>%v\<close> and so does not wrap them), and a \<^verbatim>\<open>fmt.Errorf\<close> with one \<^verbatim>\<open>%w\<close> (\<open>Wrapped\<close>, with the text
  before and after the wrapped error). A nil error is \<open>None\<close>. \<^verbatim>\<open>errors.As\<close> looks for the first
  error of a type along the chain of \<^verbatim>\<open>Unwrap\<close>.

  The position that \<^verbatim>\<open>parenthesizedSegmentAfter\<close> finds in the lower-cased message is exact as far
  as \<open>ToLower\<close> is (see \<^verbatim>\<open>Go_Strings\<close>).
\<close>

section \<open>Error values\<close>

definition cliCommandName :: string where "cliCommandName = ''shellin''"

datatype go_error =
  Plain string
| Wrapped string go_error string
| StatusError string int string
| NonRetryable go_error
| SessionTerminated go_error
| SubscriptionInactive string

definition inactiveSubscriptionSubtitle :: "string \<Rightarrow> string" where
  "inactiveSubscriptionSubtitle status =
     (let s = ToLower (TrimSpace status)
      in if s = ''expired'' then ''Your subscription has expired.''
         else ''No active subscription was found for this account.'')"

definition status_error_text :: "string \<Rightarrow> int \<Rightarrow> string \<Rightarrow> string" where
  "status_error_text operation code raw =
     (let body = TrimSpace raw;
          head = ''control plane '' @ operation @ '' status '' @ Itoa code
      in if body = [] then head else head @ '': '' @ body)"

fun Error :: "go_error \<Rightarrow> string" where
  "Error (Plain message) = message"
| "Error (Wrapped before err after) = before @ Error err @ after"
| "Error (StatusError operation code body) = status_error_text operation code body"
| "Error (NonRetryable err) = Error err"
| "Error (SessionTerminated err) = ''session was terminated remotely''"
| "Error (SubscriptionInactive status) = inactiveSubscriptionSubtitle status"

fun Unwrap :: "go_error \<Rightarrow> go_error option" where
  "Unwrap (Wrapped _ err _) = Some err"
| "Unwrap (NonRetryable err) = Some err"
| "Unwrap (SessionTerminated err) = Some err"
| "Unwrap _ = None"

text \<open>\<^verbatim>\<open>errors.As\<close> for each of the types the program looks for.\<close>

fun as_status :: "go_error \<Rightarrow> int option" where
  "as_status (StatusError _ code _) = Some code"
| "as_status (Wrapped _ err _) = as_status err"
| "as_status (NonRetryable err) = as_status err"
| "as_status (SessionTerminated err) = as_status err"
| "as_status _ = None"

fun has_permanent :: "go_error \<Rightarrow> bool" where
  "has_permanent (NonRetryable _) = True"
| "has_permanent (Wrapped _ err _) = has_permanent err"
| "has_permanent (SessionTerminated err) = has_permanent err"
| "has_permanent _ = False"

fun has_terminated :: "go_error \<Rightarrow> bool" where
  "has_terminated (SessionTerminated _) = True"
| "has_terminated (Wrapped _ err _) = has_terminated err"
| "has_terminated (NonRetryable err) = has_terminated err"
| "has_terminated _ = False"

fun as_inactive :: "go_error \<Rightarrow> string option" where
  "as_inactive (SubscriptionInactive status) = Some status"
| "as_inactive (Wrapped _ err _) = as_inactive err"
| "as_inactive (NonRetryable err) = as_inactive err"
| "as_inactive (SessionTerminated err) = as_inactive err"
| "as_inactive _ = None"

definition permanent :: "go_error \<Rightarrow> go_error" where
  "permanent e = (if has_permanent e then e else NonRetryable e)"

definition markControlPlaneErrorNonRetryable :: "go_error option \<Rightarrow> go_error option" where
  "markControlPlaneErrorNonRetryable err = map_option permanent err"

definition markControlPlaneErrorSessionTerminated :: "go_error option \<Rightarrow> go_error option" where
  "markControlPlaneErrorSessionTerminated err = (case err of None \<Rightarrow> None
     | Some e \<Rightarrow> if has_terminated e then Some e else Some (SessionTerminated e))"

definition isNonRetryableControlPlaneError :: "go_error option \<Rightarrow> bool" where
  "isNonRetryableControlPlaneError err = (case err of None \<Rightarrow> False | Some e \<Rightarrow> has_permanent e)"

section \<open>HTTP statuses\<close>

definition isUnauthorizedError :: "go_error option \<Rightarrow> bool" where
  "isUnauthorizedError err = (case err of None \<Rightarrow> False
     | Some e \<Rightarrow> (case as_status e of Some code \<Rightarrow> code = 401
         | None \<Rightarrow> let msg = ToLower (Error e) in Contains msg ''status 401'' \<or> Contains msg ''unauthorized''))"

definition isNotFoundError :: "go_error option \<Rightarrow> bool" where
  "isNotFoundError err = (case err of None \<Rightarrow> False
     | Some e \<Rightarrow> (case as_status e of Some code \<Rightarrow> code = 404
         | None \<Rightarrow> let msg = ToLower (Error e) in Contains msg ''status 404'' \<or> Contains msg ''not found''))"

definition isGoneError :: "go_error option \<Rightarrow> bool" where
  "isGoneError err = (case err of None \<Rightarrow> False
     | Some e \<Rightarrow> (case as_status e of Some code \<Rightarrow> code = 410
         | None \<Rightarrow> Contains (ToLower (Error e)) ''status 410''))"

definition terminatedSessionRuntimeError :: "go_error option \<Rightarrow> go_error option" where
  "terminatedSessionRuntimeError err =
     (if \<not> isGoneError err then None
      else markControlPlaneErrorNonRetryable (markControlPlaneErrorSessionTerminated err))"

section \<open>Classes of errors\<close>

definition isSessionLimitReachedError :: "go_error option \<Rightarrow> bool" where
  "isSessionLimitReachedError err = (case err of None \<Rightarrow> False
     | Some e \<Rightarrow> Contains (ToLower (Error e)) ''session limit reached'')"

definition isSubscriptionInactiveError :: "go_error option \<Rightarrow> bool" where
  "isSubscriptionInactiveError err = (case err of None \<Rightarrow> False | Some e \<Rightarrow> as_inactive e \<noteq> None)"

definition isSessionTerminatedError :: "go_error option \<Rightarrow> bool" where
  "isSessionTerminatedError err = (case err of None \<Rightarrow> False | Some e \<Rightarrow> has_terminated e)"

definition isLoginRequiredError :: "go_error option \<Rightarrow> bool" where
  "isLoginRequiredError err = (case err of None \<Rightarrow> False
     | Some e \<Rightarrow> let msg = ToLower (Error e)
         in Contains msg ''load auth profile failed''
            \<or> Contains msg ''auth profile is missing tokens''
            \<or> Contains msg (''run `'' @ cliCommandName @ '' login <key>`''))"

definition isAuthorizationFailedError :: "go_error option \<Rightarrow> bool" where
  "isAuthorizationFailedError err = (case err of None \<Rightarrow> False
     | Some e \<Rightarrow> isUnauthorizedError err \<or> Contains (ToLower (Error e)) ''unauthorized'')"

definition isHeartbeatAuthorizationFailure :: "go_error option \<Rightarrow> bool" where
  "isHeartbeatAuthorizationFailure err = (case err of None \<Rightarrow> False
     | Some e \<Rightarrow> let msg = ToLower (Error e)
         in Contains msg ''failed to refresh control-plane auth during heartbeat''
            \<or> Contains msg ''heartbeat retry after fallback user key exchange failed'')"

definition isDeviceLoginFailedError :: "go_error option \<Rightarrow> bool" where
  "isDeviceLoginFailedError err = (case err of None \<Rightarrow> False
     | Some e \<Rightarrow> Contains (ToLower (Error e)) ''device login failed'')"

section \<open>Subtitles\<close>

definition sessionLimitSubtitle :: "go_error option \<Rightarrow> string" where
  "sessionLimitSubtitle err =
     (let default = ''Your subscription is already using the maximum number of sessions.''
      in case err of None \<Rightarrow> default
         | Some e \<Rightarrow> let msg = TrimSpace (Error e) in if msg = [] then default else msg)"

definition subscriptionInactiveDisplaySubtitle :: "go_error option \<Rightarrow> string" where
  "subscriptionInactiveDisplaySubtitle err =
     (case Option.bind err as_inactive of
        Some status \<Rightarrow> inactiveSubscriptionSubtitle status
      | None \<Rightarrow> inactiveSubscriptionSubtitle [])"

definition deviceLoginFailureSubtitle :: "go_error option \<Rightarrow> string" where
  "deviceLoginFailureSubtitle err = (case err of None \<Rightarrow> ''Your login key could not be used.''
     | Some e \<Rightarrow>
         let msg = TrimSpace (Error e); low = ToLower msg
         in if Contains low ''status 401'' \<or> Contains low ''unauthorized''
            then ''Your one-time login key was rejected or has expired.'' else msg)"

text \<open>The part of a message after the first of some prefixes it has, in any case.\<close>

fun after_prefix :: "string list \<Rightarrow> string \<Rightarrow> string option" where
  "after_prefix [] msg = None"
| "after_prefix (p # ps) msg =
     (if HasPrefix (ToLower msg) (ToLower p) then Some (TrimSpace (drop (length p) msg)) else after_prefix ps msg)"

definition heartbeatAuthorizationFailureDetail :: "string \<Rightarrow> string" where
  "heartbeatAuthorizationFailureDetail raw =
     (case after_prefix
        [''failed to refresh control-plane auth during heartbeat:'',
         ''heartbeat retry after refresh failed:'',
         ''heartbeat retry after shared auth refresh failed:'',
         ''agent heartbeat failed after shared auth reload:''] (TrimSpace raw) of
        Some detail \<Rightarrow> detail
      | None \<Rightarrow> [])"

definition heartbeatAuthorizationFailureSubtitle :: "go_error option \<Rightarrow> string" where
  "heartbeatAuthorizationFailureSubtitle err = (case err of
     None \<Rightarrow> ''Your session authorization expired and automatic recovery failed.''
   | Some e \<Rightarrow>
       let raw = TrimSpace (Error e); msg = ToLower raw
       in if Contains msg ''fallback user key exchange failed''
          then ''Your session authorization expired and automatic recovery failed. Sign in again to restore remote access.''
          else if Contains msg ''heartbeat retry after fallback user key exchange failed''
          then ''Your session authorization expired and the recovered session could not rejoin the control plane. Sign in again to restore remote access.''
          else let detail = heartbeatAuthorizationFailureDetail raw
          in if detail \<noteq> []
             then ''Your saved session could not be refreshed: '' @ detail @ ''. Sign in again to restore remote access.''
             else ''Your session authorization expired. Sign in again to restore remote access.'')"

text \<open>The number of bytes before the parenthesis that closes the one at the given depth.\<close>

fun closing_parenthesis :: "nat \<Rightarrow> string \<Rightarrow> nat option" where
  "closing_parenthesis depth [] = None"
| "closing_parenthesis depth (c # s) =
     (if c = CHR ''('' then map_option Suc (closing_parenthesis (depth + 1) s)
      else if c = CHR '')'' then
        (if depth - 1 = 0 then Some 0 else map_option Suc (closing_parenthesis (depth - 1) s))
      else map_option Suc (closing_parenthesis depth s))"

definition parenthesizedSegmentAfter :: "string \<Rightarrow> string \<Rightarrow> string" where
  "parenthesizedSegmentAfter msg marker =
     (case Index (ToLower msg) (ToLower marker @ '' ('') of
        None \<Rightarrow> []
      | Some idx \<Rightarrow>
          let start = idx + length marker + 2
          in if length msg \<le> start then []
             else case closing_parenthesis 1 (drop start msg) of
                    None \<Rightarrow> []
                  | Some n \<Rightarrow> TrimSpace (take n (drop start msg)))"

definition statusAuthorizationFailureDetail :: "string \<Rightarrow> string" where
  "statusAuthorizationFailureDetail raw =
     (let trimmed = TrimSpace raw;
          msg = (case after_prefix
             [''status request failed:'', ''cleanup request failed:'',
              ''cleanup authorization failed:'', ''status authorization failed:''] trimmed of
             Some rest \<Rightarrow> rest | None \<Rightarrow> trimmed);
          refresh = parenthesizedSegmentAfter msg ''refresh failed'';
          request = parenthesizedSegmentAfter msg ''status request failed''
      in if refresh \<noteq> [] then refresh
         else if request \<noteq> [] then request
         else if Contains (ToLower msg) ''control plane refresh status 401'' then msg
         else [])"

definition authorizationFailureSubtitle :: "go_error option \<Rightarrow> string" where
  "authorizationFailureSubtitle err = (case err of
     None \<Rightarrow> ''Your authorization failed. Sign in again to restore remote access.''
   | Some e \<Rightarrow>
       if isHeartbeatAuthorizationFailure err then heartbeatAuthorizationFailureSubtitle err
       else let raw = TrimSpace (Error e); detail = statusAuthorizationFailureDetail raw
       in if detail \<noteq> []
          then ''Your saved session could not be refreshed: '' @ detail @ ''. Sign in again to restore remote access.''
          else raw)"

section \<open>The screen for an error\<close>

text \<open>What a screen says: its title, its colour, a subtitle and the steps to take.\<close>

datatype title_colour = HudConnecting | HudError

record startupDisplay =
  sd_title :: string
  sd_titleFG :: title_colour
  sd_subtitle :: string
  sd_steps :: "string list"

definition startupDisplayForError :: "go_error option \<Rightarrow> startupDisplay option" where
  "startupDisplayForError err = (case err of None \<Rightarrow> None
   | Some e \<Rightarrow> Some
      (let again = ''Run '' @ cliCommandName @ '' again'';
           login = ''Run '' @ cliCommandName @ '' login <key>''
       in if isSessionTerminatedError err then
         \<lparr>sd_title = ''Session Ended'', sd_titleFG = HudConnecting,
          sd_subtitle = ''This terminal session was terminated remotely.'',
          sd_steps = [again @ '' to start a fresh session'']\<rparr>
       else if isHeartbeatAuthorizationFailure err then
         \<lparr>sd_title = ''Authorization Failed'', sd_titleFG = HudError,
          sd_subtitle = heartbeatAuthorizationFailureSubtitle err, sd_steps = [login, again]\<rparr>
       else if isSessionLimitReachedError err then
         \<lparr>sd_title = ''Session Limit Reached'', sd_titleFG = HudConnecting,
          sd_subtitle = sessionLimitSubtitle err,
          sd_steps = [''Close another active terminal session'', again]\<rparr>
       else if isSubscriptionInactiveError err then
         \<lparr>sd_title = ''Subscription Required'', sd_titleFG = HudConnecting,
          sd_subtitle = subscriptionInactiveDisplaySubtitle err,
          sd_steps = [''Purchase or restore an active subscription in shellin app'', again]\<rparr>
       else if isLoginRequiredError err then
         \<lparr>sd_title = ''Login Required'', sd_titleFG = HudConnecting,
          sd_subtitle = ''No saved login was found on this machine.'', sd_steps = [login, again]\<rparr>
       else if isDeviceLoginFailedError err then
         \<lparr>sd_title = ''Login Failed'', sd_titleFG = HudError,
          sd_subtitle = deviceLoginFailureSubtitle err,
          sd_steps = [''Check that your one-time login key is still valid'', login @ '' again'']\<rparr>
       else if isAuthorizationFailedError err then
         \<lparr>sd_title = ''Authorization Failed'', sd_titleFG = HudError,
          sd_subtitle = authorizationFailureSubtitle err, sd_steps = [login, again]\<rparr>
       else
         \<lparr>sd_title = ''Unable To Start Session'', sd_titleFG = HudError,
          sd_subtitle = TrimSpace (Error e),
          sd_steps = [''Check your network and control plane settings'', again]\<rparr>))"

end
