(* ===== verification/Protocol.thy ===== *)
theory Protocol
  imports Go_Json "HOL-Library.Word"
begin

text \<open>
  The messages of \<^verbatim>\<open>protocol/messages.go\<close>: one record for each struct, with its JSON fields,
  its decoding and its encoding. A field \<^verbatim>\<open>F\<close> of a struct is the record field \<open>F\<close> behind a prefix of
  the struct's own; a pointer is an option; \<^verbatim>\<open>omitempty\<close> leaves the member out when the field is
  empty. \<open>X_put\<close> stores a member in its field, \<open>decode_X\<close> is the decoding into a zero struct
  (strict after \<^verbatim>\<open>DisallowUnknownFields\<close>), \<open>X_json\<close> the encoding. A slice is decoded afresh by each
  member that holds one.

  The lemmas \<open>decode_X_json\<close> show that each message survives the wire.
\<close>

section \<open>Constants\<close>

definition TransportWebRTCTURN :: string where
  "TransportWebRTCTURN = ''webrtc_turn''"

definition ICEPolicyAll :: string where
  "ICEPolicyAll = ''all''"

definition ICEPolicyRelay :: string where
  "ICEPolicyRelay = ''relay''"

definition SDPTypeOffer :: string where
  "SDPTypeOffer = ''offer''"

definition SDPTypeAnswer :: string where
  "SDPTypeAnswer = ''answer''"

definition SignalMessageTypeOffer :: string where
  "SignalMessageTypeOffer = ''offer''"

definition SignalMessageTypeAnswer :: string where
  "SignalMessageTypeAnswer = ''answer''"

definition SignalMessageTypeCandidate :: string where
  "SignalMessageTypeCandidate = ''candidate''"

definition SignalMessageTypeViewerReady :: string where
  "SignalMessageTypeViewerReady = ''viewer_ready''"

definition SignalMessageTypeViewerReplaced :: string where
  "SignalMessageTypeViewerReplaced = ''viewer_replaced''"

definition SignalMessageTypeDetach :: string where
  "SignalMessageTypeDetach = ''detach''"

definition SignalMessageTypeP2PConnected :: string where
  "SignalMessageTypeP2PConnected = ''p2p_connected''"

section \<open>Field types\<close>

fun decode_list :: "(json \<Rightarrow> 'a option) \<Rightarrow> json list \<Rightarrow> 'a list option" where
  "decode_list f [] = Some []"
| "decode_list f (v # vs) =
     (case f v of None \<Rightarrow> None | Some x \<Rightarrow> map_option ((#) x) (decode_list f vs))"

definition decode_slice :: "(json \<Rightarrow> 'a option) \<Rightarrow> json \<Rightarrow> 'a list option" where
  "decode_slice f v = (case v of JArr vs \<Rightarrow> decode_list f vs | JNull \<Rightarrow> Some [] | _ \<Rightarrow> None)"

text \<open>A pointer: \<^verbatim>\<open>null\<close> makes it nil, any other value is decoded into what it points to.\<close>

definition decode_pointer ::
  "(json \<Rightarrow> 'a \<Rightarrow> 'a option) \<Rightarrow> 'a \<Rightarrow> json \<Rightarrow> 'a option \<Rightarrow> 'a option option"
where
  "decode_pointer f zero v old = (case v of
     JNull \<Rightarrow> Some None
   | _ \<Rightarrow> map_option Some (f v (case old of None \<Rightarrow> zero | Some x \<Rightarrow> x)))"

definition decode_uint16 :: "json \<Rightarrow> 16 word \<Rightarrow> 16 word option" where
  "decode_uint16 v old = (case v of
     JNum n \<Rightarrow> (case Atoi n of None \<Rightarrow> None
       | Some i \<Rightarrow> if HasPrefix n ''-'' \<or> 65535 < i then None else Some (word_of_int i))
   | JNull \<Rightarrow> Some old
   | _ \<Rightarrow> None)"

section \<open>Messages\<close>

record ExchangeAuthRequest =
  xq_UserKey :: string

definition ExchangeAuthRequest_zero :: ExchangeAuthRequest where
  "ExchangeAuthRequest_zero = \<lparr>xq_UserKey = []\<rparr>"

definition ExchangeAuthRequest_fields :: "string list" where
  "ExchangeAuthRequest_fields = [''user_key'']"

definition ExchangeAuthRequest_put :: "string \<Rightarrow> json \<Rightarrow> ExchangeAuthRequest \<Rightarrow> ExchangeAuthRequest option" where
  "ExchangeAuthRequest_put f v r =
     (if f = ''user_key'' then map_option (\<lambda>x. r\<lparr>xq_UserKey := x\<rparr>) (decode_string v (xq_UserKey r))
      else Some r)"

definition decode_ExchangeAuthRequest :: "bool \<Rightarrow> json \<Rightarrow> ExchangeAuthRequest option" where
  "decode_ExchangeAuthRequest strict = decode_struct strict ExchangeAuthRequest_fields ExchangeAuthRequest_put ExchangeAuthRequest_zero"

definition ExchangeAuthRequest_json :: "ExchangeAuthRequest \<Rightarrow> json" where
  "ExchangeAuthRequest_json r = JObj
       ([(''user_key'', JStr (xq_UserKey r))])"

record ExchangeAuthResponse =
  xr_AccessToken :: string
  xr_AccessTokenExpiresAt :: string
  xr_RefreshToken :: string
  xr_RefreshTokenExpiresAt :: string

definition ExchangeAuthResponse_zero :: ExchangeAuthResponse where
  "ExchangeAuthResponse_zero = \<lparr>xr_AccessToken = [], xr_AccessTokenExpiresAt = [], xr_RefreshToken = [], xr_RefreshTokenExpiresAt = []\<rparr>"

definition ExchangeAuthResponse_fields :: "string list" where
  "ExchangeAuthResponse_fields = [''access_token'', ''access_token_expires_at'', ''refresh_token'', ''refresh_token_expires_at'']"

definition ExchangeAuthResponse_put :: "string \<Rightarrow> json \<Rightarrow> ExchangeAuthResponse \<Rightarrow> ExchangeAuthResponse option" where
  "ExchangeAuthResponse_put f v r =
     (if f = ''access_token'' then map_option (\<lambda>x. r\<lparr>xr_AccessToken := x\<rparr>) (decode_string v (xr_AccessToken r))
      else if f = ''access_token_expires_at'' then map_option (\<lambda>x. r\<lparr>xr_AccessTokenExpiresAt := x\<rparr>) (decode_string v (xr_AccessTokenExpiresAt r))
      else if f = ''refresh_token'' then map_option (\<lambda>x. r\<lparr>xr_RefreshToken := x\<rparr>) (decode_string v (xr_RefreshToken r))
      else if f = ''refresh_token_expires_at'' then map_option (\<lambda>x. r\<lparr>xr_RefreshTokenExpiresAt := x\<rparr>) (decode_string v (xr_RefreshTokenExpiresAt r))
      else Some r)"

definition decode_ExchangeAuthResponse :: "bool \<Rightarrow> json \<Rightarrow> ExchangeAuthResponse option" where
  "decode_ExchangeAuthResponse strict = decode_struct strict ExchangeAuthResponse_fields ExchangeAuthResponse_put ExchangeAuthResponse_zero"

definition ExchangeAuthResponse_json :: "ExchangeAuthResponse \<Rightarrow> json" where
  "ExchangeAuthResponse_json r = JObj
       ([(''access_token'', JStr (xr_AccessToken r))] @
        (if xr_AccessTokenExpiresAt r = [] then [] else [(''access_token_expires_at'', JStr (xr_AccessTokenExpiresAt r))]) @
        [(''refresh_token'', JStr (xr_RefreshToken r))] @
        (if xr_RefreshTokenExpiresAt r = [] then [] else [(''refresh_token_expires_at'', JStr (xr_RefreshTokenExpiresAt r))]))"

record RefreshAuthRequest =
  fq_RefreshToken :: string

definition RefreshAuthRequest_zero :: RefreshAuthRequest where
  "RefreshAuthRequest_zero = \<lparr>fq_RefreshToken = []\<rparr>"

definition RefreshAuthRequest_fields :: "string list" where
  "RefreshAuthRequest_fields = [''refresh_token'']"

definition RefreshAuthRequest_put :: "string \<Rightarrow> json \<Rightarrow> RefreshAuthRequest \<Rightarrow> RefreshAuthRequest option" where
  "RefreshAuthRequest_put f v r =
     (if f = ''refresh_token'' then map_option (\<lambda>x. r\<lparr>fq_RefreshToken := x\<rparr>) (decode_string v (fq_RefreshToken r))
      else Some r)"

definition decode_RefreshAuthRequest :: "bool \<Rightarrow> json \<Rightarrow> RefreshAuthRequest option" where
  "decode_RefreshAuthRequest strict = decode_struct strict RefreshAuthRequest_fields RefreshAuthRequest_put RefreshAuthRequest_zero"

definition RefreshAuthRequest_json :: "RefreshAuthRequest \<Rightarrow> json" where
  "RefreshAuthRequest_json r = JObj
       ([(''refresh_token'', JStr (fq_RefreshToken r))])"

record RefreshAuthResponse =
  fr_AccessToken :: string
  fr_AccessTokenExpiresAt :: string
  fr_RefreshToken :: string
  fr_RefreshTokenExpiresAt :: string

definition RefreshAuthResponse_zero :: RefreshAuthResponse where
  "RefreshAuthResponse_zero = \<lparr>fr_AccessToken = [], fr_AccessTokenExpiresAt = [], fr_RefreshToken = [], fr_RefreshTokenExpiresAt = []\<rparr>"

definition RefreshAuthResponse_fields :: "string list" where
  "RefreshAuthResponse_fields = [''access_token'', ''access_token_expires_at'', ''refresh_token'', ''refresh_token_expires_at'']"

definition RefreshAuthResponse_put :: "string \<Rightarrow> json \<Rightarrow> RefreshAuthResponse \<Rightarrow> RefreshAuthResponse option" where
  "RefreshAuthResponse_put f v r =
     (if f = ''access_token'' then map_option (\<lambda>x. r\<lparr>fr_AccessToken := x\<rparr>) (decode_string v (fr_AccessToken r))
      else if f = ''access_token_expires_at'' then map_option (\<lambda>x. r\<lparr>fr_AccessTokenExpiresAt := x\<rparr>) (decode_string v (fr_AccessTokenExpiresAt r))
      else if f = ''refresh_token'' then map_option (\<lambda>x. r\<lparr>fr_RefreshToken := x\<rparr>) (decode_string v (fr_RefreshToken r))
      else if f = ''refresh_token_expires_at'' then map_option (\<lambda>x. r\<lparr>fr_RefreshTokenExpiresAt := x\<rparr>) (decode_string v (fr_RefreshTokenExpiresAt r))
      else Some r)"

definition decode_RefreshAuthResponse :: "bool \<Rightarrow> json \<Rightarrow> RefreshAuthResponse option" where
  "decode_RefreshAuthResponse strict = decode_struct strict RefreshAuthResponse_fields RefreshAuthResponse_put RefreshAuthResponse_zero"

definition RefreshAuthResponse_json :: "RefreshAuthResponse \<Rightarrow> json" where
  "RefreshAuthResponse_json r = JObj
       ([(''access_token'', JStr (fr_AccessToken r))] @
        (if fr_AccessTokenExpiresAt r = [] then [] else [(''access_token_expires_at'', JStr (fr_AccessTokenExpiresAt r))]) @
        [(''refresh_token'', JStr (fr_RefreshToken r))] @
        (if fr_RefreshTokenExpiresAt r = [] then [] else [(''refresh_token_expires_at'', JStr (fr_RefreshTokenExpiresAt r))]))"

record IssueLoginKeyRequest =
  kq_TTLSeconds :: int

definition IssueLoginKeyRequest_zero :: IssueLoginKeyRequest where
  "IssueLoginKeyRequest_zero = \<lparr>kq_TTLSeconds = 0\<rparr>"

definition IssueLoginKeyRequest_fields :: "string list" where
  "IssueLoginKeyRequest_fields = [''ttl_seconds'']"

definition IssueLoginKeyRequest_put :: "string \<Rightarrow> json \<Rightarrow> IssueLoginKeyRequest \<Rightarrow> IssueLoginKeyRequest option" where
  "IssueLoginKeyRequest_put f v r =
     (if f = ''ttl_seconds'' then map_option (\<lambda>x. r\<lparr>kq_TTLSeconds := x\<rparr>) (decode_int v (kq_TTLSeconds r))
      else Some r)"

definition decode_IssueLoginKeyRequest :: "bool \<Rightarrow> json \<Rightarrow> IssueLoginKeyRequest option" where
  "decode_IssueLoginKeyRequest strict = decode_struct strict IssueLoginKeyRequest_fields IssueLoginKeyRequest_put IssueLoginKeyRequest_zero"

definition IssueLoginKeyRequest_json :: "IssueLoginKeyRequest \<Rightarrow> json" where
  "IssueLoginKeyRequest_json r = JObj
       ((if kq_TTLSeconds r = 0 then [] else [(''ttl_seconds'', JNum (Itoa (kq_TTLSeconds r)))]))"

record IssueLoginKeyResponse =
  kr_LoginKey :: string
  kr_ExpiresAt :: string

definition IssueLoginKeyResponse_zero :: IssueLoginKeyResponse where
  "IssueLoginKeyResponse_zero = \<lparr>kr_LoginKey = [], kr_ExpiresAt = []\<rparr>"

definition IssueLoginKeyResponse_fields :: "string list" where
  "IssueLoginKeyResponse_fields = [''login_key'', ''expires_at'']"

definition IssueLoginKeyResponse_put :: "string \<Rightarrow> json \<Rightarrow> IssueLoginKeyResponse \<Rightarrow> IssueLoginKeyResponse option" where
  "IssueLoginKeyResponse_put f v r =
     (if f = ''login_key'' then map_option (\<lambda>x. r\<lparr>kr_LoginKey := x\<rparr>) (decode_string v (kr_LoginKey r))
      else if f = ''expires_at'' then map_option (\<lambda>x. r\<lparr>kr_ExpiresAt := x\<rparr>) (decode_string v (kr_ExpiresAt r))
      else Some r)"

definition decode_IssueLoginKeyResponse :: "bool \<Rightarrow> json \<Rightarrow> IssueLoginKeyResponse option" where
  "decode_IssueLoginKeyResponse strict = decode_struct strict IssueLoginKeyResponse_fields IssueLoginKeyResponse_put IssueLoginKeyResponse_zero"

definition IssueLoginKeyResponse_json :: "IssueLoginKeyResponse \<Rightarrow> json" where
  "IssueLoginKeyResponse_json r = JObj
       ([(''login_key'', JStr (kr_LoginKey r))] @
        (if kr_ExpiresAt r = [] then [] else [(''expires_at'', JStr (kr_ExpiresAt r))]))"

record DeviceLoginRequest =
  dq_LoginKey :: string

definition DeviceLoginRequest_zero :: DeviceLoginRequest where
  "DeviceLoginRequest_zero = \<lparr>dq_LoginKey = []\<rparr>"

definition DeviceLoginRequest_fields :: "string list" where
  "DeviceLoginRequest_fields = [''login_key'']"

definition DeviceLoginRequest_put :: "string \<Rightarrow> json \<Rightarrow> DeviceLoginRequest \<Rightarrow> DeviceLoginRequest option" where
  "DeviceLoginRequest_put f v r =
     (if f = ''login_key'' then map_option (\<lambda>x. r\<lparr>dq_LoginKey := x\<rparr>) (decode_string v (dq_LoginKey r))
      else Some r)"

definition decode_DeviceLoginRequest :: "bool \<Rightarrow> json \<Rightarrow> DeviceLoginRequest option" where
  "decode_DeviceLoginRequest strict = decode_struct strict DeviceLoginRequest_fields DeviceLoginRequest_put DeviceLoginRequest_zero"

definition DeviceLoginRequest_json :: "DeviceLoginRequest \<Rightarrow> json" where
  "DeviceLoginRequest_json r = JObj
       ([(''login_key'', JStr (dq_LoginKey r))])"

record AgentRegisterRequest =
  gq_SessionID :: string
  gq_AgentLabel :: string
  gq_Transport :: string

definition AgentRegisterRequest_zero :: AgentRegisterRequest where
  "AgentRegisterRequest_zero = \<lparr>gq_SessionID = [], gq_AgentLabel = [], gq_Transport = []\<rparr>"

definition AgentRegisterRequest_fields :: "string list" where
  "AgentRegisterRequest_fields = [''session_id'', ''agent_label'', ''transport'']"

definition AgentRegisterRequest_put :: "string \<Rightarrow> json \<Rightarrow> AgentRegisterRequest \<Rightarrow> AgentRegisterRequest option" where
  "AgentRegisterRequest_put f v r =
     (if f = ''session_id'' then map_option (\<lambda>x. r\<lparr>gq_SessionID := x\<rparr>) (decode_string v (gq_SessionID r))
      else if f = ''agent_label'' then map_option (\<lambda>x. r\<lparr>gq_AgentLabel := x\<rparr>) (decode_string v (gq_AgentLabel r))
      else if f = ''transport'' then map_option (\<lambda>x. r\<lparr>gq_Transport := x\<rparr>) (decode_string v (gq_Transport r))
      else Some r)"

definition decode_AgentRegisterRequest :: "bool \<Rightarrow> json \<Rightarrow> AgentRegisterRequest option" where
  "decode_AgentRegisterRequest strict = decode_struct strict AgentRegisterRequest_fields AgentRegisterRequest_put AgentRegisterRequest_zero"

definition AgentRegisterRequest_json :: "AgentRegisterRequest \<Rightarrow> json" where
  "AgentRegisterRequest_json r = JObj
       ([(''session_id'', JStr (gq_SessionID r))] @
        (if gq_AgentLabel r = [] then [] else [(''agent_label'', JStr (gq_AgentLabel r))]) @
        [(''transport'', JStr (gq_Transport r))])"

record AgentHeartbeatRequest =
  hq_SessionID :: string
  hq_AgentLabel :: string

definition AgentHeartbeatRequest_zero :: AgentHeartbeatRequest where
  "AgentHeartbeatRequest_zero = \<lparr>hq_SessionID = [], hq_AgentLabel = []\<rparr>"

definition AgentHeartbeatRequest_fields :: "string list" where
  "AgentHeartbeatRequest_fields = [''session_id'', ''agent_label'']"

definition AgentHeartbeatRequest_put :: "string \<Rightarrow> json \<Rightarrow> AgentHeartbeatRequest \<Rightarrow> AgentHeartbeatRequest option" where
  "AgentHeartbeatRequest_put f v r =
     (if f = ''session_id'' then map_option (\<lambda>x. r\<lparr>hq_SessionID := x\<rparr>) (decode_string v (hq_SessionID r))
      else if f = ''agent_label'' then map_option (\<lambda>x. r\<lparr>hq_AgentLabel := x\<rparr>) (decode_string v (hq_AgentLabel r))
      else Some r)"

definition decode_AgentHeartbeatRequest :: "bool \<Rightarrow> json \<Rightarrow> AgentHeartbeatRequest option" where
  "decode_AgentHeartbeatRequest strict = decode_struct strict AgentHeartbeatRequest_fields AgentHeartbeatRequest_put AgentHeartbeatRequest_zero"

definition AgentHeartbeatRequest_json :: "AgentHeartbeatRequest \<Rightarrow> json" where
  "AgentHeartbeatRequest_json r = JObj
       ([(''session_id'', JStr (hq_SessionID r))] @
        (if hq_AgentLabel r = [] then [] else [(''agent_label'', JStr (hq_AgentLabel r))]))"

record AgentUnregisterRequest =
  uq_SessionID :: string

definition AgentUnregisterRequest_zero :: AgentUnregisterRequest where
  "AgentUnregisterRequest_zero = \<lparr>uq_SessionID = []\<rparr>"

definition AgentUnregisterRequest_fields :: "string list" where
  "AgentUnregisterRequest_fields = [''session_id'']"

definition AgentUnregisterRequest_put :: "string \<Rightarrow> json \<Rightarrow> AgentUnregisterRequest \<Rightarrow> AgentUnregisterRequest option" where
  "AgentUnregisterRequest_put f v r =
     (if f = ''session_id'' then map_option (\<lambda>x. r\<lparr>uq_SessionID := x\<rparr>) (decode_string v (uq_SessionID r))
      else Some r)"

definition decode_AgentUnregisterRequest :: "bool \<Rightarrow> json \<Rightarrow> AgentUnregisterRequest option" where
  "decode_AgentUnregisterRequest strict = decode_struct strict AgentUnregisterRequest_fields AgentUnregisterRequest_put AgentUnregisterRequest_zero"

definition AgentUnregisterRequest_json :: "AgentUnregisterRequest \<Rightarrow> json" where
  "AgentUnregisterRequest_json r = JObj
       ([(''session_id'', JStr (uq_SessionID r))])"

record AgentTerminateAllResponse =
  tr_TerminatedSessions :: int

definition AgentTerminateAllResponse_zero :: AgentTerminateAllResponse where
  "AgentTerminateAllResponse_zero = \<lparr>tr_TerminatedSessions = 0\<rparr>"

definition AgentTerminateAllResponse_fields :: "string list" where
  "AgentTerminateAllResponse_fields = [''terminated_sessions'']"

definition AgentTerminateAllResponse_put :: "string \<Rightarrow> json \<Rightarrow> AgentTerminateAllResponse \<Rightarrow> AgentTerminateAllResponse option" where
  "AgentTerminateAllResponse_put f v r =
     (if f = ''terminated_sessions'' then map_option (\<lambda>x. r\<lparr>tr_TerminatedSessions := x\<rparr>) (decode_int v (tr_TerminatedSessions r))
      else Some r)"

definition decode_AgentTerminateAllResponse :: "bool \<Rightarrow> json \<Rightarrow> AgentTerminateAllResponse option" where
  "decode_AgentTerminateAllResponse strict = decode_struct strict AgentTerminateAllResponse_fields AgentTerminateAllResponse_put AgentTerminateAllResponse_zero"

definition AgentTerminateAllResponse_json :: "AgentTerminateAllResponse \<Rightarrow> json" where
  "AgentTerminateAllResponse_json r = JObj
       ([(''terminated_sessions'', JNum (Itoa (tr_TerminatedSessions r)))])"

record AgentConnectRequest =
  cq_SessionID :: string
  cq_AgentLabel :: string

definition AgentConnectRequest_zero :: AgentConnectRequest where
  "AgentConnectRequest_zero = \<lparr>cq_SessionID = [], cq_AgentLabel = []\<rparr>"

definition AgentConnectRequest_fields :: "string list" where
  "AgentConnectRequest_fields = [''session_id'', ''agent_label'']"

definition AgentConnectRequest_put :: "string \<Rightarrow> json \<Rightarrow> AgentConnectRequest \<Rightarrow> AgentConnectRequest option" where
  "AgentConnectRequest_put f v r =
     (if f = ''session_id'' then map_option (\<lambda>x. r\<lparr>cq_SessionID := x\<rparr>) (decode_string v (cq_SessionID r))
      else if f = ''agent_label'' then map_option (\<lambda>x. r\<lparr>cq_AgentLabel := x\<rparr>) (decode_string v (cq_AgentLabel r))
      else Some r)"

definition decode_AgentConnectRequest :: "bool \<Rightarrow> json \<Rightarrow> AgentConnectRequest option" where
  "decode_AgentConnectRequest strict = decode_struct strict AgentConnectRequest_fields AgentConnectRequest_put AgentConnectRequest_zero"

definition AgentConnectRequest_json :: "AgentConnectRequest \<Rightarrow> json" where
  "AgentConnectRequest_json r = JObj
       ([(''session_id'', JStr (cq_SessionID r))] @
        (if cq_AgentLabel r = [] then [] else [(''agent_label'', JStr (cq_AgentLabel r))]))"

record AgentAttachRequest =
  aq_SessionID :: string

definition AgentAttachRequest_zero :: AgentAttachRequest where
  "AgentAttachRequest_zero = \<lparr>aq_SessionID = []\<rparr>"

definition AgentAttachRequest_fields :: "string list" where
  "AgentAttachRequest_fields = [''session_id'']"

definition AgentAttachRequest_put :: "string \<Rightarrow> json \<Rightarrow> AgentAttachRequest \<Rightarrow> AgentAttachRequest option" where
  "AgentAttachRequest_put f v r =
     (if f = ''session_id'' then map_option (\<lambda>x. r\<lparr>aq_SessionID := x\<rparr>) (decode_string v (aq_SessionID r))
      else Some r)"

definition decode_AgentAttachRequest :: "bool \<Rightarrow> json \<Rightarrow> AgentAttachRequest option" where
  "decode_AgentAttachRequest strict = decode_struct strict AgentAttachRequest_fields AgentAttachRequest_put AgentAttachRequest_zero"

definition AgentAttachRequest_json :: "AgentAttachRequest \<Rightarrow> json" where
  "AgentAttachRequest_json r = JObj
       ([(''session_id'', JStr (aq_SessionID r))])"

record ICEServer =
  ice_URLs :: "string list"
  ice_Username :: string
  ice_Credential :: string

definition ICEServer_zero :: ICEServer where
  "ICEServer_zero = \<lparr>ice_URLs = [], ice_Username = [], ice_Credential = []\<rparr>"

definition ICEServer_fields :: "string list" where
  "ICEServer_fields = [''urls'', ''username'', ''credential'']"

definition ICEServer_put :: "string \<Rightarrow> json \<Rightarrow> ICEServer \<Rightarrow> ICEServer option" where
  "ICEServer_put f v r =
     (if f = ''urls'' then map_option (\<lambda>x. r\<lparr>ice_URLs := x\<rparr>) (decode_slice (\<lambda>e. decode_string e []) v)
      else if f = ''username'' then map_option (\<lambda>x. r\<lparr>ice_Username := x\<rparr>) (decode_string v (ice_Username r))
      else if f = ''credential'' then map_option (\<lambda>x. r\<lparr>ice_Credential := x\<rparr>) (decode_string v (ice_Credential r))
      else Some r)"

definition decode_ICEServer :: "bool \<Rightarrow> json \<Rightarrow> ICEServer option" where
  "decode_ICEServer strict = decode_struct strict ICEServer_fields ICEServer_put ICEServer_zero"

definition ICEServer_json :: "ICEServer \<Rightarrow> json" where
  "ICEServer_json r = JObj
       ([(''urls'', JArr (map JStr (ice_URLs r)))] @
        (if ice_Username r = [] then [] else [(''username'', JStr (ice_Username r))]) @
        (if ice_Credential r = [] then [] else [(''credential'', JStr (ice_Credential r))]))"

record AgentConnectResponse =
  cr_SessionID :: string
  cr_SignalURL :: string
  cr_SignalToken :: string
  cr_ICEServers :: "ICEServer list"
  cr_ICEPolicy :: string
  cr_ExpiresAt :: string

definition AgentConnectResponse_zero :: AgentConnectResponse where
  "AgentConnectResponse_zero = \<lparr>cr_SessionID = [], cr_SignalURL = [], cr_SignalToken = [], cr_ICEServers = [], cr_ICEPolicy = [], cr_ExpiresAt = []\<rparr>"

definition AgentConnectResponse_fields :: "string list" where
  "AgentConnectResponse_fields = [''session_id'', ''signal_url'', ''signal_token'', ''ice_servers'', ''ice_policy'', ''expires_at'']"

definition AgentConnectResponse_put :: "string \<Rightarrow> json \<Rightarrow> AgentConnectResponse \<Rightarrow> AgentConnectResponse option" where
  "AgentConnectResponse_put f v r =
     (if f = ''session_id'' then map_option (\<lambda>x. r\<lparr>cr_SessionID := x\<rparr>) (decode_string v (cr_SessionID r))
      else if f = ''signal_url'' then map_option (\<lambda>x. r\<lparr>cr_SignalURL := x\<rparr>) (decode_string v (cr_SignalURL r))
      else if f = ''signal_token'' then map_option (\<lambda>x. r\<lparr>cr_SignalToken := x\<rparr>) (decode_string v (cr_SignalToken r))
      else if f = ''ice_servers'' then map_option (\<lambda>x. r\<lparr>cr_ICEServers := x\<rparr>) (decode_slice (decode_ICEServer False) v)
      else if f = ''ice_policy'' then map_option (\<lambda>x. r\<lparr>cr_ICEPolicy := x\<rparr>) (decode_string v (cr_ICEPolicy r))
      else if f = ''expires_at'' then map_option (\<lambda>x. r\<lparr>cr_ExpiresAt := x\<rparr>) (decode_string v (cr_ExpiresAt r))
      else Some r)"

definition decode_AgentConnectResponse :: "bool \<Rightarrow> json \<Rightarrow> AgentConnectResponse option" where
  "decode_AgentConnectResponse strict = decode_struct strict AgentConnectResponse_fields AgentConnectResponse_put AgentConnectResponse_zero"

definition AgentConnectResponse_json :: "AgentConnectResponse \<Rightarrow> json" where
  "AgentConnectResponse_json r = JObj
       ([(''session_id'', JStr (cr_SessionID r))] @
        [(''signal_url'', JStr (cr_SignalURL r))] @
        [(''signal_token'', JStr (cr_SignalToken r))] @
        (if cr_ICEServers r = [] then [] else [(''ice_servers'', JArr (map ICEServer_json (cr_ICEServers r)))]) @
        (if cr_ICEPolicy r = [] then [] else [(''ice_policy'', JStr (cr_ICEPolicy r))]) @
        (if cr_ExpiresAt r = [] then [] else [(''expires_at'', JStr (cr_ExpiresAt r))]))"

record AgentAttachResponse =
  ar_SessionID :: string
  ar_SignalURL :: string
  ar_SignalToken :: string
  ar_ICEServers :: "ICEServer list"
  ar_ICEPolicy :: string
  ar_ExpiresAt :: string

definition AgentAttachResponse_zero :: AgentAttachResponse where
  "AgentAttachResponse_zero = \<lparr>ar_SessionID = [], ar_SignalURL = [], ar_SignalToken = [], ar_ICEServers = [], ar_ICEPolicy = [], ar_ExpiresAt = []\<rparr>"

definition AgentAttachResponse_fields :: "string list" where
  "AgentAttachResponse_fields = [''session_id'', ''signal_url'', ''signal_token'', ''ice_servers'', ''ice_policy'', ''expires_at'']"

definition AgentAttachResponse_put :: "string \<Rightarrow> json \<Rightarrow> AgentAttachResponse \<Rightarrow> AgentAttachResponse option" where
  "AgentAttachResponse_put f v r =
     (if f = ''session_id'' then map_option (\<lambda>x. r\<lparr>ar_SessionID := x\<rparr>) (decode_string v (ar_SessionID r))
      else if f = ''signal_url'' then map_option (\<lambda>x. r\<lparr>ar_SignalURL := x\<rparr>) (decode_string v (ar_SignalURL r))
      else if f = ''signal_token'' then map_option (\<lambda>x. r\<lparr>ar_SignalToken := x\<rparr>) (decode_string v (ar_SignalToken r))
      else if f = ''ice_servers'' then map_option (\<lambda>x. r\<lparr>ar_ICEServers := x\<rparr>) (decode_slice (decode_ICEServer False) v)
      else if f = ''ice_policy'' then map_option (\<lambda>x. r\<lparr>ar_ICEPolicy := x\<rparr>) (decode_string v (ar_ICEPolicy r))
      else if f = ''expires_at'' then map_option (\<lambda>x. r\<lparr>ar_ExpiresAt := x\<rparr>) (decode_string v (ar_ExpiresAt r))
      else Some r)"

definition decode_AgentAttachResponse :: "bool \<Rightarrow> json \<Rightarrow> AgentAttachResponse option" where
  "decode_AgentAttachResponse strict = decode_struct strict AgentAttachResponse_fields AgentAttachResponse_put AgentAttachResponse_zero"

definition AgentAttachResponse_json :: "AgentAttachResponse \<Rightarrow> json" where
  "AgentAttachResponse_json r = JObj
       ([(''session_id'', JStr (ar_SessionID r))] @
        [(''signal_url'', JStr (ar_SignalURL r))] @
        [(''signal_token'', JStr (ar_SignalToken r))] @
        (if ar_ICEServers r = [] then [] else [(''ice_servers'', JArr (map ICEServer_json (ar_ICEServers r)))]) @
        (if ar_ICEPolicy r = [] then [] else [(''ice_policy'', JStr (ar_ICEPolicy r))]) @
        (if ar_ExpiresAt r = [] then [] else [(''expires_at'', JStr (ar_ExpiresAt r))]))"

record ProtocolAgentStatus =
  ps_SessionID :: string
  ps_AgentLabel :: string
  ps_Transport :: string
  ps_CreatedAt :: string
  ps_LastSeenAt :: string

definition ProtocolAgentStatus_zero :: ProtocolAgentStatus where
  "ProtocolAgentStatus_zero = \<lparr>ps_SessionID = [], ps_AgentLabel = [], ps_Transport = [], ps_CreatedAt = [], ps_LastSeenAt = []\<rparr>"

definition ProtocolAgentStatus_fields :: "string list" where
  "ProtocolAgentStatus_fields = [''session_id'', ''agent_label'', ''transport'', ''created_at'', ''last_seen_at'']"

definition ProtocolAgentStatus_put :: "string \<Rightarrow> json \<Rightarrow> ProtocolAgentStatus \<Rightarrow> ProtocolAgentStatus option" where
  "ProtocolAgentStatus_put f v r =
     (if f = ''session_id'' then map_option (\<lambda>x. r\<lparr>ps_SessionID := x\<rparr>) (decode_string v (ps_SessionID r))
      else if f = ''agent_label'' then map_option (\<lambda>x. r\<lparr>ps_AgentLabel := x\<rparr>) (decode_string v (ps_AgentLabel r))
      else if f = ''transport'' then map_option (\<lambda>x. r\<lparr>ps_Transport := x\<rparr>) (decode_string v (ps_Transport r))
      else if f = ''created_at'' then map_option (\<lambda>x. r\<lparr>ps_CreatedAt := x\<rparr>) (decode_string v (ps_CreatedAt r))
      else if f = ''last_seen_at'' then map_option (\<lambda>x. r\<lparr>ps_LastSeenAt := x\<rparr>) (decode_string v (ps_LastSeenAt r))
      else Some r)"

definition decode_ProtocolAgentStatus :: "bool \<Rightarrow> json \<Rightarrow> ProtocolAgentStatus option" where
  "decode_ProtocolAgentStatus strict = decode_struct strict ProtocolAgentStatus_fields ProtocolAgentStatus_put ProtocolAgentStatus_zero"

definition ProtocolAgentStatus_json :: "ProtocolAgentStatus \<Rightarrow> json" where
  "ProtocolAgentStatus_json r = JObj
       ([(''session_id'', JStr (ps_SessionID r))] @
        (if ps_AgentLabel r = [] then [] else [(''agent_label'', JStr (ps_AgentLabel r))]) @
        [(''transport'', JStr (ps_Transport r))] @
        (if ps_CreatedAt r = [] then [] else [(''created_at'', JStr (ps_CreatedAt r))]) @
        (if ps_LastSeenAt r = [] then [] else [(''last_seen_at'', JStr (ps_LastSeenAt r))]))"

record ListAgentsResponse =
  la_Agents :: "ProtocolAgentStatus list"

definition ListAgentsResponse_zero :: ListAgentsResponse where
  "ListAgentsResponse_zero = \<lparr>la_Agents = []\<rparr>"

definition ListAgentsResponse_fields :: "string list" where
  "ListAgentsResponse_fields = [''agents'']"

definition ListAgentsResponse_put :: "string \<Rightarrow> json \<Rightarrow> ListAgentsResponse \<Rightarrow> ListAgentsResponse option" where
  "ListAgentsResponse_put f v r =
     (if f = ''agents'' then map_option (\<lambda>x. r\<lparr>la_Agents := x\<rparr>) (decode_slice (decode_ProtocolAgentStatus False) v)
      else Some r)"

definition decode_ListAgentsResponse :: "bool \<Rightarrow> json \<Rightarrow> ListAgentsResponse option" where
  "decode_ListAgentsResponse strict = decode_struct strict ListAgentsResponse_fields ListAgentsResponse_put ListAgentsResponse_zero"

definition ListAgentsResponse_json :: "ListAgentsResponse \<Rightarrow> json" where
  "ListAgentsResponse_json r = JObj
       ([(''agents'', JArr (map ProtocolAgentStatus_json (la_Agents r)))])"

record SessionStatusResponse =
  ss_Subject :: string
  ss_ActiveSessions :: int
  ss_MaxSessions :: int
  ss_ProductID :: string
  ss_OriginalTransactionID :: string
  ss_SubscriptionStatus :: string
  ss_ExpiresAt :: string

definition SessionStatusResponse_zero :: SessionStatusResponse where
  "SessionStatusResponse_zero = \<lparr>ss_Subject = [], ss_ActiveSessions = 0, ss_MaxSessions = 0, ss_ProductID = [], ss_OriginalTransactionID = [], ss_SubscriptionStatus = [], ss_ExpiresAt = []\<rparr>"

definition SessionStatusResponse_fields :: "string list" where
  "SessionStatusResponse_fields = [''subject'', ''active_sessions'', ''max_sessions'', ''product_id'', ''original_transaction_id'', ''subscription_status'', ''expires_at'']"

definition SessionStatusResponse_put :: "string \<Rightarrow> json \<Rightarrow> SessionStatusResponse \<Rightarrow> SessionStatusResponse option" where
  "SessionStatusResponse_put f v r =
     (if f = ''subject'' then map_option (\<lambda>x. r\<lparr>ss_Subject := x\<rparr>) (decode_string v (ss_Subject r))
      else if f = ''active_sessions'' then map_option (\<lambda>x. r\<lparr>ss_ActiveSessions := x\<rparr>) (decode_int v (ss_ActiveSessions r))
      else if f = ''max_sessions'' then map_option (\<lambda>x. r\<lparr>ss_MaxSessions := x\<rparr>) (decode_int v (ss_MaxSessions r))
      else if f = ''product_id'' then map_option (\<lambda>x. r\<lparr>ss_ProductID := x\<rparr>) (decode_string v (ss_ProductID r))
      else if f = ''original_transaction_id'' then map_option (\<lambda>x. r\<lparr>ss_OriginalTransactionID := x\<rparr>) (decode_string v (ss_OriginalTransactionID r))
      else if f = ''subscription_status'' then map_option (\<lambda>x. r\<lparr>ss_SubscriptionStatus := x\<rparr>) (decode_string v (ss_SubscriptionStatus r))
      else if f = ''expires_at'' then map_option (\<lambda>x. r\<lparr>ss_ExpiresAt := x\<rparr>) (decode_string v (ss_ExpiresAt r))
      else Some r)"

definition decode_SessionStatusResponse :: "bool \<Rightarrow> json \<Rightarrow> SessionStatusResponse option" where
  "decode_SessionStatusResponse strict = decode_struct strict SessionStatusResponse_fields SessionStatusResponse_put SessionStatusResponse_zero"

definition SessionStatusResponse_json :: "SessionStatusResponse \<Rightarrow> json" where
  "SessionStatusResponse_json r = JObj
       ((if ss_Subject r = [] then [] else [(''subject'', JStr (ss_Subject r))]) @
        [(''active_sessions'', JNum (Itoa (ss_ActiveSessions r)))] @
        [(''max_sessions'', JNum (Itoa (ss_MaxSessions r)))] @
        (if ss_ProductID r = [] then [] else [(''product_id'', JStr (ss_ProductID r))]) @
        (if ss_OriginalTransactionID r = [] then [] else [(''original_transaction_id'', JStr (ss_OriginalTransactionID r))]) @
        (if ss_SubscriptionStatus r = [] then [] else [(''subscription_status'', JStr (ss_SubscriptionStatus r))]) @
        (if ss_ExpiresAt r = [] then [] else [(''expires_at'', JStr (ss_ExpiresAt r))]))"

record SDPPayload =
  sdp_Type :: string
  sdp_SDP :: string

definition SDPPayload_zero :: SDPPayload where
  "SDPPayload_zero = \<lparr>sdp_Type = [], sdp_SDP = []\<rparr>"

definition SDPPayload_fields :: "string list" where
  "SDPPayload_fields = [''type'', ''sdp'']"

definition SDPPayload_put :: "string \<Rightarrow> json \<Rightarrow> SDPPayload \<Rightarrow> SDPPayload option" where
  "SDPPayload_put f v r =
     (if f = ''type'' then map_option (\<lambda>x. r\<lparr>sdp_Type := x\<rparr>) (decode_string v (sdp_Type r))
      else if f = ''sdp'' then map_option (\<lambda>x. r\<lparr>sdp_SDP := x\<rparr>) (decode_string v (sdp_SDP r))
      else Some r)"

definition decode_SDPPayload :: "bool \<Rightarrow> json \<Rightarrow> SDPPayload option" where
  "decode_SDPPayload strict = decode_struct strict SDPPayload_fields SDPPayload_put SDPPayload_zero"

definition SDPPayload_json :: "SDPPayload \<Rightarrow> json" where
  "SDPPayload_json r = JObj
       ([(''type'', JStr (sdp_Type r))] @
        [(''sdp'', JStr (sdp_SDP r))])"

record ICECandidate =
  cand_Candidate :: string
  cand_SDPMid :: "string option"
  cand_SDPMLineIndex :: "16 word option"
  cand_UsernameFragment :: "string option"

definition ICECandidate_zero :: ICECandidate where
  "ICECandidate_zero = \<lparr>cand_Candidate = [], cand_SDPMid = None, cand_SDPMLineIndex = None, cand_UsernameFragment = None\<rparr>"

definition ICECandidate_fields :: "string list" where
  "ICECandidate_fields = [''candidate'', ''sdpMid'', ''sdpMLineIndex'', ''usernameFragment'']"

definition ICECandidate_put :: "string \<Rightarrow> json \<Rightarrow> ICECandidate \<Rightarrow> ICECandidate option" where
  "ICECandidate_put f v r =
     (if f = ''candidate'' then map_option (\<lambda>x. r\<lparr>cand_Candidate := x\<rparr>) (decode_string v (cand_Candidate r))
      else if f = ''sdpMid'' then map_option (\<lambda>x. r\<lparr>cand_SDPMid := x\<rparr>) (decode_pointer decode_string [] v (cand_SDPMid r))
      else if f = ''sdpMLineIndex'' then map_option (\<lambda>x. r\<lparr>cand_SDPMLineIndex := x\<rparr>) (decode_pointer decode_uint16 0 v (cand_SDPMLineIndex r))
      else if f = ''usernameFragment'' then map_option (\<lambda>x. r\<lparr>cand_UsernameFragment := x\<rparr>) (decode_pointer decode_string [] v (cand_UsernameFragment r))
      else Some r)"

definition decode_ICECandidate :: "bool \<Rightarrow> json \<Rightarrow> ICECandidate option" where
  "decode_ICECandidate strict = decode_struct strict ICECandidate_fields ICECandidate_put ICECandidate_zero"

definition ICECandidate_json :: "ICECandidate \<Rightarrow> json" where
  "ICECandidate_json r = JObj
       ([(''candidate'', JStr (cand_Candidate r))] @
        (case cand_SDPMid r of None \<Rightarrow> [] | Some x \<Rightarrow> [(''sdpMid'', JStr x)]) @
        (case cand_SDPMLineIndex r of None \<Rightarrow> [] | Some x \<Rightarrow> [(''sdpMLineIndex'', JNum (Itoa (uint x)))]) @
        (case cand_UsernameFragment r of None \<Rightarrow> [] | Some x \<Rightarrow> [(''usernameFragment'', JStr x)]))"

record SignalMessage =
  sm_Type :: string
  sm_SDP :: "SDPPayload option"
  sm_Candidate :: "ICECandidate option"

definition SignalMessage_zero :: SignalMessage where
  "SignalMessage_zero = \<lparr>sm_Type = [], sm_SDP = None, sm_Candidate = None\<rparr>"

definition SignalMessage_fields :: "string list" where
  "SignalMessage_fields = [''type'', ''sdp'', ''candidate'']"

definition SignalMessage_put :: "string \<Rightarrow> json \<Rightarrow> SignalMessage \<Rightarrow> SignalMessage option" where
  "SignalMessage_put f v r =
     (if f = ''type'' then map_option (\<lambda>x. r\<lparr>sm_Type := x\<rparr>) (decode_string v (sm_Type r))
      else if f = ''sdp'' then map_option (\<lambda>x. r\<lparr>sm_SDP := x\<rparr>)
       (decode_pointer (\<lambda>e old. decode_struct False SDPPayload_fields SDPPayload_put old e) SDPPayload_zero v (sm_SDP r))
      else if f = ''candidate'' then map_option (\<lambda>x. r\<lparr>sm_Candidate := x\<rparr>)
       (decode_pointer (\<lambda>e old. decode_struct False ICECandidate_fields ICECandidate_put old e) ICECandidate_zero v (sm_Candidate r))
      else Some r)"

definition decode_SignalMessage :: "bool \<Rightarrow> json \<Rightarrow> SignalMessage option" where
  "decode_SignalMessage strict = decode_struct strict SignalMessage_fields SignalMessage_put SignalMessage_zero"

definition SignalMessage_json :: "SignalMessage \<Rightarrow> json" where
  "SignalMessage_json r = JObj
       ([(''type'', JStr (sm_Type r))] @
        (case sm_SDP r of None \<Rightarrow> [] | Some x \<Rightarrow> [(''sdp'', SDPPayload_json x)]) @
        (case sm_Candidate r of None \<Rightarrow> [] | Some x \<Rightarrow> [(''candidate'', ICECandidate_json x)]))"

section \<open>Round trips\<close>

lemma field_of_own:
  assumes "distinct (map fold_case names)" "n \<in> set names"
  shows "field_of names n = Some n"
  using assms unfolding field_of_def
  by (induction names) (auto simp: EqualFold_def rev_image_eqI)

lemmas field_names = field_of_def EqualFold_def lower_char_def char_of_def

lemma decode_list_map: "(\<And>x. x \<in> set xs \<Longrightarrow> f (g x) = Some x) \<Longrightarrow> decode_list f (map g xs) = Some xs"
  by (induction xs) auto

lemma decode_slice_map: "(\<And>x. x \<in> set xs \<Longrightarrow> f (g x) = Some x) \<Longrightarrow> decode_slice f (JArr (map g xs)) = Some xs"
  by (simp add: decode_slice_def decode_list_map)

lemma decode_struct_JObj: "decode_struct strict names put zero (JObj ms) = decode_members strict names put ms zero"
  by (simp add: decode_struct_def)

lemma decode_string_JStr [simp]: "decode_string (JStr s) old = Some s"
  by (simp add: decode_string_def)

lemma decode_int_Itoa [simp]: "in_int64 i \<Longrightarrow> decode_int (JNum (Itoa i)) old = Some i"
  by (simp add: decode_int_def Atoi_Itoa)

lemma uint16_in_int64: "in_int64 (uint (w :: 16 word))"
proof -
  have "0 \<le> uint w" "uint w < 65536" using uint_lt2p [of w] by simp_all
  then show ?thesis unfolding in_int64_def max_int64_def min_int64_def by linarith
qed

lemma decode_uint16_Itoa [simp]: "decode_uint16 (JNum (Itoa (uint w))) old = Some w"
proof -
  have "\<not> HasPrefix (Itoa (uint w)) ''-''"
  proof -
    obtain c t where ct: "nat_digits (nat (uint w)) = c # t" by (cases "nat_digits (nat (uint w))") auto
    then have "c \<noteq> CHR ''-''" using nat_digits_chars [of c] digit_char_props by (metis list.set_intros(1))
    with ct show ?thesis by (simp add: Itoa_def HasPrefix_def)
  qed
  moreover have "uint w \<le> 65535" using uint_lt2p [of w] by simp
  ultimately show ?thesis
    by (simp add: decode_uint16_def Atoi_Itoa uint16_in_int64)
qed

lemma ExchangeAuthRequest_names:
  "field_of ExchangeAuthRequest_fields ''user_key'' = Some ''user_key''"
  by (simp_all add: ExchangeAuthRequest_fields_def field_names)

lemma decode_ExchangeAuthRequest_json:
  "decode_ExchangeAuthRequest strict (ExchangeAuthRequest_json r) = Some r"
  by (cases r) (simp add: decode_ExchangeAuthRequest_def ExchangeAuthRequest_json_def decode_struct_JObj ExchangeAuthRequest_put_def ExchangeAuthRequest_zero_def
      ExchangeAuthRequest_names split: if_split option.split)

lemma ExchangeAuthResponse_names:
  "field_of ExchangeAuthResponse_fields ''access_token'' = Some ''access_token''"
  "field_of ExchangeAuthResponse_fields ''access_token_expires_at'' = Some ''access_token_expires_at''"
  "field_of ExchangeAuthResponse_fields ''refresh_token'' = Some ''refresh_token''"
  "field_of ExchangeAuthResponse_fields ''refresh_token_expires_at'' = Some ''refresh_token_expires_at''"
  by (simp_all add: ExchangeAuthResponse_fields_def field_names)

lemma decode_ExchangeAuthResponse_json:
  "decode_ExchangeAuthResponse strict (ExchangeAuthResponse_json r) = Some r"
  by (cases r) (simp add: decode_ExchangeAuthResponse_def ExchangeAuthResponse_json_def decode_struct_JObj ExchangeAuthResponse_put_def ExchangeAuthResponse_zero_def
      ExchangeAuthResponse_names split: if_split option.split)

lemma RefreshAuthRequest_names:
  "field_of RefreshAuthRequest_fields ''refresh_token'' = Some ''refresh_token''"
  by (simp_all add: RefreshAuthRequest_fields_def field_names)

lemma decode_RefreshAuthRequest_json:
  "decode_RefreshAuthRequest strict (RefreshAuthRequest_json r) = Some r"
  by (cases r) (simp add: decode_RefreshAuthRequest_def RefreshAuthRequest_json_def decode_struct_JObj RefreshAuthRequest_put_def RefreshAuthRequest_zero_def
      RefreshAuthRequest_names split: if_split option.split)

lemma RefreshAuthResponse_names:
  "field_of RefreshAuthResponse_fields ''access_token'' = Some ''access_token''"
  "field_of RefreshAuthResponse_fields ''access_token_expires_at'' = Some ''access_token_expires_at''"
  "field_of RefreshAuthResponse_fields ''refresh_token'' = Some ''refresh_token''"
  "field_of RefreshAuthResponse_fields ''refresh_token_expires_at'' = Some ''refresh_token_expires_at''"
  by (simp_all add: RefreshAuthResponse_fields_def field_names)

lemma decode_RefreshAuthResponse_json:
  "decode_RefreshAuthResponse strict (RefreshAuthResponse_json r) = Some r"
  by (cases r) (simp add: decode_RefreshAuthResponse_def RefreshAuthResponse_json_def decode_struct_JObj RefreshAuthResponse_put_def RefreshAuthResponse_zero_def
      RefreshAuthResponse_names split: if_split option.split)

lemma IssueLoginKeyRequest_names:
  "field_of IssueLoginKeyRequest_fields ''ttl_seconds'' = Some ''ttl_seconds''"
  by (simp_all add: IssueLoginKeyRequest_fields_def field_names)

lemma decode_IssueLoginKeyRequest_json:
  "in_int64 (kq_TTLSeconds r) \<Longrightarrow> decode_IssueLoginKeyRequest strict (IssueLoginKeyRequest_json r) = Some r"
  by (cases r) (simp add: decode_IssueLoginKeyRequest_def IssueLoginKeyRequest_json_def decode_struct_JObj IssueLoginKeyRequest_put_def IssueLoginKeyRequest_zero_def
      IssueLoginKeyRequest_names split: if_split option.split)

lemma IssueLoginKeyResponse_names:
  "field_of IssueLoginKeyResponse_fields ''login_key'' = Some ''login_key''"
  "field_of IssueLoginKeyResponse_fields ''expires_at'' = Some ''expires_at''"
  by (simp_all add: IssueLoginKeyResponse_fields_def field_names)

lemma decode_IssueLoginKeyResponse_json:
  "decode_IssueLoginKeyResponse strict (IssueLoginKeyResponse_json r) = Some r"
  by (cases r) (simp add: decode_IssueLoginKeyResponse_def IssueLoginKeyResponse_json_def decode_struct_JObj IssueLoginKeyResponse_put_def IssueLoginKeyResponse_zero_def
      IssueLoginKeyResponse_names split: if_split option.split)

lemma DeviceLoginRequest_names:
  "field_of DeviceLoginRequest_fields ''login_key'' = Some ''login_key''"
  by (simp_all add: DeviceLoginRequest_fields_def field_names)

lemma decode_DeviceLoginRequest_json:
  "decode_DeviceLoginRequest strict (DeviceLoginRequest_json r) = Some r"
  by (cases r) (simp add: decode_DeviceLoginRequest_def DeviceLoginRequest_json_def decode_struct_JObj DeviceLoginRequest_put_def DeviceLoginRequest_zero_def
      DeviceLoginRequest_names split: if_split option.split)

lemma AgentRegisterRequest_names:
  "field_of AgentRegisterRequest_fields ''session_id'' = Some ''session_id''"
  "field_of AgentRegisterRequest_fields ''agent_label'' = Some ''agent_label''"
  "field_of AgentRegisterRequest_fields ''transport'' = Some ''transport''"
  by (simp_all add: AgentRegisterRequest_fields_def field_names)

lemma decode_AgentRegisterRequest_json:
  "decode_AgentRegisterRequest strict (AgentRegisterRequest_json r) = Some r"
  by (cases r) (simp add: decode_AgentRegisterRequest_def AgentRegisterRequest_json_def decode_struct_JObj AgentRegisterRequest_put_def AgentRegisterRequest_zero_def
      AgentRegisterRequest_names split: if_split option.split)

lemma AgentHeartbeatRequest_names:
  "field_of AgentHeartbeatRequest_fields ''session_id'' = Some ''session_id''"
  "field_of AgentHeartbeatRequest_fields ''agent_label'' = Some ''agent_label''"
  by (simp_all add: AgentHeartbeatRequest_fields_def field_names)

lemma decode_AgentHeartbeatRequest_json:
  "decode_AgentHeartbeatRequest strict (AgentHeartbeatRequest_json r) = Some r"
  by (cases r) (simp add: decode_AgentHeartbeatRequest_def AgentHeartbeatRequest_json_def decode_struct_JObj AgentHeartbeatRequest_put_def AgentHeartbeatRequest_zero_def
      AgentHeartbeatRequest_names split: if_split option.split)

lemma AgentUnregisterRequest_names:
  "field_of AgentUnregisterRequest_fields ''session_id'' = Some ''session_id''"
  by (simp_all add: AgentUnregisterRequest_fields_def field_names)

lemma decode_AgentUnregisterRequest_json:
  "decode_AgentUnregisterRequest strict (AgentUnregisterRequest_json r) = Some r"
  by (cases r) (simp add: decode_AgentUnregisterRequest_def AgentUnregisterRequest_json_def decode_struct_JObj AgentUnregisterRequest_put_def AgentUnregisterRequest_zero_def
      AgentUnregisterRequest_names split: if_split option.split)

lemma AgentTerminateAllResponse_names:
  "field_of AgentTerminateAllResponse_fields ''terminated_sessions'' = Some ''terminated_sessions''"
  by (simp_all add: AgentTerminateAllResponse_fields_def field_names)

lemma decode_AgentTerminateAllResponse_json:
  "in_int64 (tr_TerminatedSessions r) \<Longrightarrow> decode_AgentTerminateAllResponse strict (AgentTerminateAllResponse_json r) = Some r"
  by (cases r) (simp add: decode_AgentTerminateAllResponse_def AgentTerminateAllResponse_json_def decode_struct_JObj AgentTerminateAllResponse_put_def AgentTerminateAllResponse_zero_def
      AgentTerminateAllResponse_names split: if_split option.split)

lemma AgentConnectRequest_names:
  "field_of AgentConnectRequest_fields ''session_id'' = Some ''session_id''"
  "field_of AgentConnectRequest_fields ''agent_label'' = Some ''agent_label''"
  by (simp_all add: AgentConnectRequest_fields_def field_names)

lemma decode_AgentConnectRequest_json:
  "decode_AgentConnectRequest strict (AgentConnectRequest_json r) = Some r"
  by (cases r) (simp add: decode_AgentConnectRequest_def AgentConnectRequest_json_def decode_struct_JObj AgentConnectRequest_put_def AgentConnectRequest_zero_def
      AgentConnectRequest_names split: if_split option.split)

lemma AgentAttachRequest_names:
  "field_of AgentAttachRequest_fields ''session_id'' = Some ''session_id''"
  by (simp_all add: AgentAttachRequest_fields_def field_names)

lemma decode_AgentAttachRequest_json:
  "decode_AgentAttachRequest strict (AgentAttachRequest_json r) = Some r"
  by (cases r) (simp add: decode_AgentAttachRequest_def AgentAttachRequest_json_def decode_struct_JObj AgentAttachRequest_put_def AgentAttachRequest_zero_def
      AgentAttachRequest_names split: if_split option.split)

lemma ICEServer_names:
  "field_of ICEServer_fields ''urls'' = Some ''urls''"
  "field_of ICEServer_fields ''username'' = Some ''username''"
  "field_of ICEServer_fields ''credential'' = Some ''credential''"
  by (simp_all add: ICEServer_fields_def field_names)

lemma decode_ICEServer_json:
  "decode_ICEServer strict (ICEServer_json r) = Some r"
  by (cases r) (simp add: decode_ICEServer_def ICEServer_json_def decode_struct_JObj ICEServer_put_def ICEServer_zero_def
      ICEServer_names decode_slice_map split: if_split option.split)

lemma AgentConnectResponse_names:
  "field_of AgentConnectResponse_fields ''session_id'' = Some ''session_id''"
  "field_of AgentConnectResponse_fields ''signal_url'' = Some ''signal_url''"
  "field_of AgentConnectResponse_fields ''signal_token'' = Some ''signal_token''"
  "field_of AgentConnectResponse_fields ''ice_servers'' = Some ''ice_servers''"
  "field_of AgentConnectResponse_fields ''ice_policy'' = Some ''ice_policy''"
  "field_of AgentConnectResponse_fields ''expires_at'' = Some ''expires_at''"
  by (simp_all add: AgentConnectResponse_fields_def field_names)

lemma decode_AgentConnectResponse_json:
  "decode_AgentConnectResponse strict (AgentConnectResponse_json r) = Some r"
  by (cases r) (simp add: decode_AgentConnectResponse_def AgentConnectResponse_json_def decode_struct_JObj AgentConnectResponse_put_def AgentConnectResponse_zero_def
      AgentConnectResponse_names decode_slice_map decode_ICEServer_json split: if_split option.split)

lemma AgentAttachResponse_names:
  "field_of AgentAttachResponse_fields ''session_id'' = Some ''session_id''"
  "field_of AgentAttachResponse_fields ''signal_url'' = Some ''signal_url''"
  "field_of AgentAttachResponse_fields ''signal_token'' = Some ''signal_token''"
  "field_of AgentAttachResponse_fields ''ice_servers'' = Some ''ice_servers''"
  "field_of AgentAttachResponse_fields ''ice_policy'' = Some ''ice_policy''"
  "field_of AgentAttachResponse_fields ''expires_at'' = Some ''expires_at''"
  by (simp_all add: AgentAttachResponse_fields_def field_names)

lemma decode_AgentAttachResponse_json:
  "decode_AgentAttachResponse strict (AgentAttachResponse_json r) = Some r"
  by (cases r) (simp add: decode_AgentAttachResponse_def AgentAttachResponse_json_def decode_struct_JObj AgentAttachResponse_put_def AgentAttachResponse_zero_def
      AgentAttachResponse_names decode_slice_map decode_ICEServer_json split: if_split option.split)

lemma ProtocolAgentStatus_names:
  "field_of ProtocolAgentStatus_fields ''session_id'' = Some ''session_id''"
  "field_of ProtocolAgentStatus_fields ''agent_label'' = Some ''agent_label''"
  "field_of ProtocolAgentStatus_fields ''transport'' = Some ''transport''"
  "field_of ProtocolAgentStatus_fields ''created_at'' = Some ''created_at''"
  "field_of ProtocolAgentStatus_fields ''last_seen_at'' = Some ''last_seen_at''"
  by (simp_all add: ProtocolAgentStatus_fields_def field_names)

lemma decode_ProtocolAgentStatus_json:
  "decode_ProtocolAgentStatus strict (ProtocolAgentStatus_json r) = Some r"
  by (cases r) (simp add: decode_ProtocolAgentStatus_def ProtocolAgentStatus_json_def decode_struct_JObj ProtocolAgentStatus_put_def ProtocolAgentStatus_zero_def
      ProtocolAgentStatus_names split: if_split option.split)

lemma ListAgentsResponse_names:
  "field_of ListAgentsResponse_fields ''agents'' = Some ''agents''"
  by (simp_all add: ListAgentsResponse_fields_def field_names)

lemma decode_ListAgentsResponse_json:
  "decode_ListAgentsResponse strict (ListAgentsResponse_json r) = Some r"
  by (cases r) (simp add: decode_ListAgentsResponse_def ListAgentsResponse_json_def decode_struct_JObj ListAgentsResponse_put_def ListAgentsResponse_zero_def
      ListAgentsResponse_names decode_slice_map decode_ProtocolAgentStatus_json split: if_split option.split)

lemma SessionStatusResponse_names:
  "field_of SessionStatusResponse_fields ''subject'' = Some ''subject''"
  "field_of SessionStatusResponse_fields ''active_sessions'' = Some ''active_sessions''"
  "field_of SessionStatusResponse_fields ''max_sessions'' = Some ''max_sessions''"
  "field_of SessionStatusResponse_fields ''product_id'' = Some ''product_id''"
  "field_of SessionStatusResponse_fields ''original_transaction_id'' = Some ''original_transaction_id''"
  "field_of SessionStatusResponse_fields ''subscription_status'' = Some ''subscription_status''"
  "field_of SessionStatusResponse_fields ''expires_at'' = Some ''expires_at''"
  by (simp_all add: SessionStatusResponse_fields_def field_names)

lemma decode_SessionStatusResponse_json:
  "in_int64 (ss_ActiveSessions r) \<Longrightarrow> in_int64 (ss_MaxSessions r) \<Longrightarrow> decode_SessionStatusResponse strict (SessionStatusResponse_json r) = Some r"
  by (cases r) (simp add: decode_SessionStatusResponse_def SessionStatusResponse_json_def decode_struct_JObj SessionStatusResponse_put_def SessionStatusResponse_zero_def
      SessionStatusResponse_names split: if_split option.split)

lemma SDPPayload_names:
  "field_of SDPPayload_fields ''type'' = Some ''type''"
  "field_of SDPPayload_fields ''sdp'' = Some ''sdp''"
  by (simp_all add: SDPPayload_fields_def field_names)

lemma decode_SDPPayload_json:
  "decode_SDPPayload strict (SDPPayload_json r) = Some r"
  by (cases r) (simp add: decode_SDPPayload_def SDPPayload_json_def decode_struct_JObj SDPPayload_put_def SDPPayload_zero_def
      SDPPayload_names split: if_split option.split)

lemma ICECandidate_names:
  "field_of ICECandidate_fields ''candidate'' = Some ''candidate''"
  "field_of ICECandidate_fields ''sdpMid'' = Some ''sdpMid''"
  "field_of ICECandidate_fields ''sdpMLineIndex'' = Some ''sdpMLineIndex''"
  "field_of ICECandidate_fields ''usernameFragment'' = Some ''usernameFragment''"
  by (simp_all add: ICECandidate_fields_def field_names)

lemma decode_ICECandidate_json:
  "decode_ICECandidate strict (ICECandidate_json r) = Some r"
  by (cases r) (simp add: decode_ICECandidate_def ICECandidate_json_def decode_struct_JObj ICECandidate_put_def ICECandidate_zero_def
      ICECandidate_names decode_pointer_def split: if_split option.split)

lemma decode_pointer_None:
  "v \<noteq> JNull \<Longrightarrow> f v zero = Some x \<Longrightarrow> decode_pointer f zero v None = Some (Some x)"
  by (cases v) (simp_all add: decode_pointer_def)

lemma decode_pointer_SDP:
  "decode_pointer (\<lambda>e old. decode_struct False SDPPayload_fields SDPPayload_put old e) SDPPayload_zero
     (SDPPayload_json x) None = Some (Some x)"
  using decode_SDPPayload_json [of False x]
  by (intro decode_pointer_None) (simp_all add: decode_SDPPayload_def SDPPayload_json_def)

lemma decode_pointer_ICECandidate:
  "decode_pointer (\<lambda>e old. decode_struct False ICECandidate_fields ICECandidate_put old e) ICECandidate_zero
     (ICECandidate_json x) None = Some (Some x)"
  using decode_ICECandidate_json [of False x]
  by (intro decode_pointer_None) (simp_all add: decode_ICECandidate_def ICECandidate_json_def)

lemma SignalMessage_names:
  "field_of SignalMessage_fields ''type'' = Some ''type''"
  "field_of SignalMessage_fields ''sdp'' = Some ''sdp''"
  "field_of SignalMessage_fields ''candidate'' = Some ''candidate''"
  by (simp_all add: SignalMessage_fields_def field_names)

lemma decode_SignalMessage_json:
  "decode_SignalMessage strict (SignalMessage_json r) = Some r"
  by (cases r) (simp add: decode_SignalMessage_def SignalMessage_json_def decode_struct_JObj SignalMessage_put_def SignalMessage_zero_def
      SignalMessage_names decode_pointer_SDP decode_pointer_ICECandidate split: if_split option.split)

end
