(* ===== verification/Go_Net.thy ===== *)
theory Go_Net
  imports Go_Json
begin

text \<open>
  What the program uses of the packages \<^verbatim>\<open>net\<close>, \<^verbatim>\<open>net/url\<close> and \<^verbatim>\<open>net/http\<close>: splitting a host
  from its port, IP addresses and the loopback test, the parsing of URLs (as of Go 1.24.2, the
  version of \<^verbatim>\<open>go.mod\<close>), and requests.
\<close>

section \<open>Host and port\<close>

fun last_index :: "char \<Rightarrow> string \<Rightarrow> nat option" where
  "last_index c [] = None"
| "last_index c (x # xs) = (case last_index c xs of Some i \<Rightarrow> Some (Suc i)
     | None \<Rightarrow> if x = c then Some 0 else None)"

text \<open>\<^verbatim>\<open>net.SplitHostPort\<close>, of which only the host is used.\<close>

definition SplitHostPort :: "string \<Rightarrow> string option" where
  "SplitHostPort hp = (case last_index CHR '':'' hp of None \<Rightarrow> None
   | Some i \<Rightarrow>
       if HasPrefix hp ''['' then
         (case index_of CHR '']'' hp of None \<Rightarrow> None
          | Some e \<Rightarrow>
              if e + 1 \<noteq> i then None
              else if CHR ''['' \<in> set (drop 1 hp) \<or> CHR '']'' \<in> set (drop (e + 1) hp) then None
              else Some (take (e - 1) (drop 1 hp)))
       else if CHR '':'' \<in> set (take i hp) \<or> CHR ''['' \<in> set hp \<or> CHR '']'' \<in> set hp then None
       else Some (take i hp))"

section \<open>IP addresses\<close>

text \<open>An address is a list of 16 bytes, an IPv4 address in its mapped form.\<close>

definition ipv4_octet :: "string \<Rightarrow> nat option" where
  "ipv4_octet s =
     (if s = [] \<or> \<not> list_all is_digit s then None
      else if 1 < length s \<and> hd s = CHR ''0'' then None
      else case digits_val 0 s of None \<Rightarrow> None
      | Some v \<Rightarrow> if 255 < v then None else Some (nat v))"

definition ipv4_bytes :: "string \<Rightarrow> nat list option" where
  "ipv4_bytes s = (case map ipv4_octet (split_on CHR ''.'' s) of
     [Some a, Some b, Some c, Some d] \<Rightarrow> Some [a, b, c, d] | _ \<Rightarrow> None)"

definition is_hex :: "char \<Rightarrow> bool" where
  "is_hex c \<longleftrightarrow> hex_val c \<noteq> None"

fun hex_number :: "nat \<Rightarrow> string \<Rightarrow> nat" where
  "hex_number acc [] = acc"
| "hex_number acc (c # s) = hex_number (acc * 16 + (case hex_val c of None \<Rightarrow> 0 | Some v \<Rightarrow> v)) s"

text \<open>
  The loop over the fields of an IPv6 address: what is left of the text, the bytes so far, and
  where the ellipsis stood. Every turn adds two bytes, so eight turns are enough.
\<close>

fun ipv6_fields :: "nat \<Rightarrow> string \<Rightarrow> nat list \<Rightarrow> nat option \<Rightarrow> (string \<times> nat list \<times> nat option) option" where
  "ipv6_fields 0 s bytes ell = Some (s, bytes, ell)"
| "ipv6_fields (Suc n) s bytes ell =
     (let hs = takeWhile is_hex s; rest = drop (length hs) s
      in if 4 < length hs \<or> hs = [] then None
         else if HasPrefix rest ''.'' then
           (if ell = None \<and> length bytes \<noteq> 12 \<or> 12 < length bytes then None
            else map_option (\<lambda>b4. ([], bytes @ b4, ell)) (ipv4_bytes s))
         else
           let v = hex_number 0 hs; bytes' = bytes @ [v div 256, v mod 256]
           in (case rest of
                 [] \<Rightarrow> Some ([], bytes', ell)
               | [c] \<Rightarrow> None
               | c # d # r \<Rightarrow>
                   if c \<noteq> CHR '':'' then None
                   else if d = CHR '':'' then
                     (if ell \<noteq> None then None
                      else if r = [] then Some ([], bytes', Some (length bytes'))
                      else ipv6_fields n r bytes' (Some (length bytes')))
                   else ipv6_fields n (d # r) bytes' ell))"

definition ipv6_bytes :: "string \<Rightarrow> nat list option" where
  "ipv6_bytes s =
     (let start = (if HasPrefix s ''::'' then (drop 2 s, Some 0) else (s, None))
      in if HasPrefix s ''::'' \<and> drop 2 s = [] then Some (replicate 16 0)
         else case ipv6_fields 8 (fst start) [] (snd start) of None \<Rightarrow> None
         | Some (rest, bytes, ell) \<Rightarrow>
             if rest \<noteq> [] then None
             else if length bytes < 16 then
               (case ell of None \<Rightarrow> None
                | Some e \<Rightarrow> Some (take e bytes @ replicate (16 - length bytes) 0 @ drop e bytes))
             else if ell \<noteq> None then None else Some bytes)"

text \<open>\<^verbatim>\<open>net.ParseIP\<close>: the first of the three characters decides; an address with a zone is refused.\<close>

definition ParseIP :: "string \<Rightarrow> nat list option" where
  "ParseIP s = (case List.find (\<lambda>c. c = CHR ''.'' \<or> c = CHR '':'' \<or> c = CHR ''%'') s of
     None \<Rightarrow> None
   | Some c \<Rightarrow>
       if c = CHR ''.'' then map_option (\<lambda>b. replicate 10 0 @ [255, 255] @ b) (ipv4_bytes s)
       else if c = CHR '':'' \<and> CHR ''%'' \<notin> set s then ipv6_bytes s
       else None)"

definition IsLoopback :: "nat list \<Rightarrow> bool" where
  "IsLoopback ip =
     (if take 12 ip = replicate 10 0 @ [255, 255] then ip ! 12 = 127 else ip = replicate 15 0 @ [1])"

section \<open>URLs\<close>

record URL =
  url_Scheme :: string
  url_Opaque :: string
  url_User :: bool
  url_Host :: string
  url_Path :: string
  url_RawQuery :: string
  url_Fragment :: string

datatype escape_mode = EscHost | EscZone | EscOther

definition is_alnum :: "char \<Rightarrow> bool" where
  "is_alnum c \<longleftrightarrow> is_digit c \<or> is_letter c"

definition host_char :: "char \<Rightarrow> bool" where
  "host_char c \<longleftrightarrow> is_alnum c \<or> c \<in> set ''-_.~!$&()*+,;=:[]<>'' \<or> c = CHR 0x22 \<or> c = CHR 0x27"

text \<open>\<^verbatim>\<open>unescape\<close> of \<^verbatim>\<open>net/url\<close>.\<close>

fun url_unescape :: "escape_mode \<Rightarrow> string \<Rightarrow> string option" where
  "url_unescape m [] = Some []"
| "url_unescape m (c # s) =
     (if c = CHR ''%'' then
        (case s of a # b # r \<Rightarrow>
           (case (hex_val a, hex_val b) of (Some x, Some y) \<Rightarrow>
              let v = byte (x * 16 + y) in
              if m = EscHost \<and> x < 8 \<and> (a \<noteq> CHR ''2'' \<or> b \<noteq> CHR ''5'') then None
              else if m = EscZone \<and> (a \<noteq> CHR ''2'' \<or> b \<noteq> CHR ''5'') \<and> v \<noteq> CHR '' '' \<and> \<not> host_char v then None
              else map_option ((#) v) (url_unescape m r)
            | _ \<Rightarrow> None)
         | _ \<Rightarrow> None)
      else if m \<noteq> EscOther \<and> ord c < 128 \<and> \<not> host_char c then None
      else map_option ((#) c) (url_unescape m s))"

text \<open>The scheme and the rest; \<open>None\<close> when the scheme is missing before a colon.\<close>

fun get_scheme :: "string \<Rightarrow> string \<Rightarrow> string \<Rightarrow> (string \<times> string) option" where
  "get_scheme raw cur [] = Some ([], raw)"
| "get_scheme raw cur (c # s) =
     (if is_letter c then get_scheme raw (c # cur) s
      else if is_digit c \<or> c = CHR ''+'' \<or> c = CHR ''-'' \<or> c = CHR ''.'' then
        (if cur = [] then Some ([], raw) else get_scheme raw (c # cur) s)
      else if c = CHR '':'' then (if cur = [] then None else Some (rev cur, s))
      else Some ([], raw))"

definition valid_optional_port :: "string \<Rightarrow> bool" where
  "valid_optional_port p \<longleftrightarrow> p = [] \<or> hd p = CHR '':'' \<and> list_all is_digit (tl p)"

definition parse_host :: "string \<Rightarrow> string option" where
  "parse_host h =
     (if HasPrefix h ''['' then
        (case last_index CHR '']'' h of None \<Rightarrow> None
         | Some i \<Rightarrow>
             if \<not> valid_optional_port (drop (i + 1) h) then None
             else case Index (take i h) ''%25'' of
               Some z \<Rightarrow>
                 (case (url_unescape EscHost (take z h), url_unescape EscZone (drop z (take i h)),
                        url_unescape EscHost (drop i h)) of
                    (Some a, Some b, Some c) \<Rightarrow> Some (a @ b @ c) | _ \<Rightarrow> None)
             | None \<Rightarrow> url_unescape EscHost h)
      else case last_index CHR '':'' h of
          Some i \<Rightarrow> if \<not> valid_optional_port (drop i h) then None else url_unescape EscHost h
        | None \<Rightarrow> url_unescape EscHost h)"

definition userinfo_char :: "char \<Rightarrow> bool" where
  "userinfo_char c \<longleftrightarrow> is_alnum c \<or> c \<in> set ''-._:~!$&()*+,;=%@'' \<or> c = CHR 0x27"

text \<open>Whether there is user information, and the host.\<close>

definition parse_authority :: "string \<Rightarrow> (bool \<times> string) option" where
  "parse_authority a = (case last_index CHR ''@'' a of
     None \<Rightarrow> map_option (Pair False) (parse_host a)
   | Some i \<Rightarrow>
       (case parse_host (drop (i + 1) a) of None \<Rightarrow> None
        | Some h \<Rightarrow>
            if list_all userinfo_char (take i a) \<and> url_unescape EscOther (take i a) \<noteq> None
            then Some (True, h) else None))"

definition cut_at :: "char \<Rightarrow> string \<Rightarrow> string \<times> string" where
  "cut_at c s = (case index_of c s of None \<Rightarrow> (s, []) | Some i \<Rightarrow> (take i s, drop (i + 1) s))"

definition parse_rest :: "string \<Rightarrow> string \<Rightarrow> string \<Rightarrow> URL option" where
  "parse_rest scheme rest query =
     (let mk = (\<lambda>user host path. \<lparr>url_Scheme = scheme, url_Opaque = [], url_User = user, url_Host = host,
         url_Path = path, url_RawQuery = query, url_Fragment = []\<rparr>)
      in if \<not> HasPrefix rest ''/'' \<and> scheme \<noteq> [] then Some ((mk False [] [])\<lparr>url_Opaque := rest\<rparr>)
         else if \<not> HasPrefix rest ''/'' \<and> CHR '':'' \<in> set (fst (cut_at CHR ''/'' rest)) then None
         else if (scheme \<noteq> [] \<or> \<not> HasPrefix rest ''///'') \<and> HasPrefix rest ''//'' then
           (let authority = fst (cut_at CHR ''/'' (drop 2 rest));
                path = drop (length authority) (drop 2 rest)
            in case (parse_authority authority, url_unescape EscOther path) of
                 (Some (user, host), Some p) \<Rightarrow> Some (mk user host p) | _ \<Rightarrow> None)
         else map_option (mk False []) (url_unescape EscOther rest))"

definition url_Parse :: "string \<Rightarrow> URL option" where
  "url_Parse raw =
     (let (u, frag) = cut_at CHR ''#'' raw
      in if list_ex (\<lambda>c. ord c < 32 \<or> ord c = 127) u then None
         else case (if u = ''*'' then Some \<lparr>url_Scheme = [], url_Opaque = [], url_User = False, url_Host = [],
                      url_Path = ''*'', url_RawQuery = [], url_Fragment = []\<rparr>
                    else case get_scheme u [] u of None \<Rightarrow> None
                    | Some (scheme, rest) \<Rightarrow>
                        (let (before, query) = cut_at CHR ''?'' rest
                         in parse_rest (ToLower scheme) before query)) of
           None \<Rightarrow> None
         | Some url \<Rightarrow> map_option (\<lambda>f. url\<lparr>url_Fragment := f\<rparr>) (url_unescape EscOther frag))"

section \<open>Requests\<close>

text \<open>
  A request as a handler sees it. Headers are kept by their canonical name, one value each (what
  \<^verbatim>\<open>Header.Get\<close> returns), and the body is the text it can read.
\<close>

record Request =
  req_Method :: string
  req_Host :: string
  req_RemoteAddr :: string
  req_TLS :: bool
  req_Header :: "(string, string) gomap"
  req_Body :: string

definition Header_Get :: "Request \<Rightarrow> string \<Rightarrow> string" where
  "Header_Get r k = (case go_get (req_Header r) k of None \<Rightarrow> [] | Some v \<Rightarrow> v)"

end
