(* ===== verification/Http_Server.thy ===== *)
theory Http_Server
  imports Go_Net Go_Json
begin

text \<open>
  Responses of HTTP handlers, with the helpers of \<^verbatim>\<open>cmd/shellin-control-plane/http.go\<close> and
  \<^verbatim>\<open>http.Error\<close>. A handler returns the response it has written; headers are kept by their
  canonical name.
\<close>

record Response =
  rs_Status :: int
  rs_Header :: "(string, string) gomap"
  rs_Body :: string

definition newline :: string where "newline = [CHR 0x0A]"

definition http_Error :: "string \<Rightarrow> int \<Rightarrow> Response" where
  "http_Error msg code =
     \<lparr>rs_Status = code,
      rs_Header = [(''Content-Type'', ''text/plain; charset=utf-8''), (''X-Content-Type-Options'', ''nosniff'')],
      rs_Body = msg @ newline\<rparr>"

definition writeJSON :: "int \<Rightarrow> json \<Rightarrow> Response" where
  "writeJSON status v =
     \<lparr>rs_Status = status,
      rs_Header = [(''Content-Type'', ''application/json''), (''Cache-Control'', ''no-store'')],
      rs_Body = print_json v @ newline\<rparr>"

text \<open>\<^verbatim>\<open>w.WriteHeader(http.StatusNoContent)\<close>.\<close>

definition no_content :: Response where
  "no_content = \<lparr>rs_Status = 204, rs_Header = [], rs_Body = []\<rparr>"

text \<open>The response of a handler that refuses the method, or \<open>None\<close> when it goes on.\<close>

definition requireMethod :: "Request \<Rightarrow> string \<Rightarrow> Response option" where
  "requireMethod r method =
     (if req_Method r = method then None else Some (http_Error ''method not allowed'' 405))"

definition decodeJSON :: "(bool \<Rightarrow> json \<Rightarrow> 'a option) \<Rightarrow> Request \<Rightarrow> nat \<Rightarrow> 'a option" where
  "decodeJSON dec r limit = Option.bind (json_Decode (take limit (req_Body r))) (dec True)"

text \<open>The headers are set before the handler runs, which may overwrite them.\<close>

definition withSecurityHeaders :: "Response \<Rightarrow> Response" where
  "withSecurityHeaders resp =
     resp\<lparr>rs_Header := foldl (\<lambda>h (k, v). go_put h k v)
        [(''X-Content-Type-Options'', ''nosniff''), (''Referrer-Policy'', ''no-referrer'')] (rs_Header resp)\<rparr>"

lemma rs_Status_simps [simp]:
  "rs_Status (http_Error msg code) = code" "rs_Status (writeJSON code v) = code"
  "rs_Status no_content = 204" "rs_Status (withSecurityHeaders resp) = rs_Status resp"
  by (simp_all add: http_Error_def writeJSON_def no_content_def withSecurityHeaders_def)

lemma rs_Body_simps [simp]:
  "rs_Body (writeJSON code v) = print_json v @ newline" "rs_Body (withSecurityHeaders resp) = rs_Body resp"
  by (simp_all add: writeJSON_def withSecurityHeaders_def)

lemma requireMethod_simps [simp]:
  "req_Method r = method \<Longrightarrow> requireMethod r method = None"
  "req_Method r \<noteq> method \<Longrightarrow> requireMethod r method = Some (http_Error ''method not allowed'' 405)"
  by (simp_all add: requireMethod_def)

text \<open>A body that holds a printed value within the limit is decoded to it.\<close>

lemma decodeJSON_print:
  assumes "req_Body r = print_json v" and "length (print_json v) \<le> limit" and "printable max_depth v"
  shows "decodeJSON dec r limit = dec True v"
  using assms Decode_print by (simp add: decodeJSON_def)

end
