(* ===== verification/Go_Json_Indent.thy ===== *)
theory Go_Json_Indent
  imports Http_Server
begin

text \<open>
  \<^verbatim>\<open>json.MarshalIndent\<close> as the program uses it (no prefix, two spaces), and that reading what it
  writes gives the value back, for the values that \<^verbatim>\<open>json.Marshal\<close> keeps (\<open>printable\<close>).
\<close>

text \<open>\<^verbatim>\<open>json.MarshalIndent\<close> with two spaces: each element on a line of its own, empty ones closed at once.\<close>

definition line_at :: "nat \<Rightarrow> string" where
  "line_at n = newline @ Repeat ''  '' n"

fun indent_json :: "nat \<Rightarrow> json \<Rightarrow> string"
  and indent_elems :: "nat \<Rightarrow> json list \<Rightarrow> string"
  and indent_members :: "nat \<Rightarrow> (string \<times> json) list \<Rightarrow> string"
where
  "indent_json n (JArr []) = ''[]''"
| "indent_json n (JArr (v # vs)) = ''['' @ indent_elems (Suc n) (v # vs) @ line_at n @ '']''"
| "indent_json n (JObj []) = ''{}''"
| "indent_json n (JObj (e # es)) = ''{'' @ indent_members (Suc n) (e # es) @ line_at n @ ''}''"
| "indent_json n v = print_json v"
| "indent_elems n [] = []"
| "indent_elems n [v] = line_at n @ indent_json n v"
| "indent_elems n (v # w # vs) = line_at n @ indent_json n v @ '','' @ indent_elems n (w # vs)"
| "indent_members n [] = []"
| "indent_members n [(k, v)] = line_at n @ print_json (JStr k) @ '': '' @ indent_json n v"
| "indent_members n ((k, v) # e # es) =
     line_at n @ print_json (JStr k) @ '': '' @ indent_json n v @ '','' @ indent_members n (e # es)"

section \<open>White space before a value\<close>

definition spaces :: "string \<Rightarrow> bool" where
  "spaces ws \<longleftrightarrow> (\<forall>c \<in> set ws. json_space c)"

lemma spaces_line_at [simp]: "spaces (line_at n)"
  by (auto simp: spaces_def line_at_def newline_def Repeat_def json_space_def)

lemma line_at_Cons: "\<exists>t. line_at n = CHR 0x0A # t"
  by (simp add: line_at_def newline_def)

lemma skip_ws_append [simp]: "spaces ws \<Longrightarrow> skip_ws (ws @ s) = skip_ws s"
  unfolding spaces_def skip_ws_def by (induction ws) auto

lemma skip_ws_skip [simp]: "skip_ws (skip_ws s) = skip_ws s"
  unfolding skip_ws_def by (simp add: dropWhile_idem)

lemma parse_value_skip: "parse_value n d (skip_ws s) = parse_value n d s"
  by (cases n) (simp_all add: parse_value.simps)

lemma parse_value_spaces: "spaces ws \<Longrightarrow> parse_value n d (ws @ s) = parse_value n d s"
  by (metis parse_value_skip skip_ws_append)

lemma parse_elems_skip: "parse_elems n d (skip_ws s) = parse_elems n d s"
  by (cases n) (simp_all add: parse_elems.simps parse_value_skip)

lemma parse_members_skip: "parse_members n d (skip_ws s) = parse_members n d s"
  by (cases n) (simp_all add: parse_members.simps)

lemma number_end_line: "number_end (line_at n @ s)"
  using line_at_Cons [of n] by (auto simp: number_end_def is_digit_def ord_def)

lemma number_end_comma: "number_end (CHR '','' # s)"
  by (simp add: number_end_def is_digit_def ord_def)

section \<open>Round trip\<close>

lemma indent_head:
  "printable d v \<Longrightarrow> \<exists>c t. indent_json k v = c # t \<and> \<not> json_space c \<and> c \<noteq> CHR ''}'' \<and> c \<noteq> CHR '']''"
  using print_head [of d v] by (cases "(k, v)" rule: indent_json.cases) (auto simp: json_space_def)

lemma elems_head:
  assumes "vs \<noteq> []" and "\<forall>v \<in> set vs. printable d v"
  shows "\<exists>c t. skip_ws (indent_elems k vs @ r) = c # t \<and> c \<noteq> CHR '']''"
proof -
  obtain v ws where vs: "vs = v # ws" using assms(1) by (cases vs) auto
  obtain c t where "indent_json k v = c # t" "\<not> json_space c" "c \<noteq> CHR '']''"
    using assms(2) vs indent_head [of d v k] by auto
  then show ?thesis by (cases ws) (simp_all add: vs skip_ws_Cons)
qed

lemma members_head: "ms \<noteq> [] \<Longrightarrow> \<exists>t. skip_ws (indent_members k ms @ r) = CHR 0x22 # t"
  by (cases "(k, ms)" rule: indent_members.cases) (auto simp: skip_ws_Cons json_space_def)

lemma parse_indent:
  "printable d v \<Longrightarrow> number_end r \<Longrightarrow> 2 * length (indent_json k v) \<le> n \<Longrightarrow>
     parse_value n d (indent_json k v @ r) = Some (v, r)"
  and "vs \<noteq> [] \<Longrightarrow> \<forall>v \<in> set vs. printable d v \<Longrightarrow> 2 * length (indent_elems k vs) + 1 \<le> n \<Longrightarrow>
     parse_elems n d (indent_elems k vs @ line_at j @ CHR '']'' # r) = Some (vs, r)"
  and "ms \<noteq> [] \<Longrightarrow> \<forall>m \<in> set ms. ascii (fst m) \<and> printable d (snd m) \<Longrightarrow>
     2 * length (indent_members k ms) + 1 \<le> n \<Longrightarrow>
     parse_members n d (indent_members k ms @ line_at j @ CHR ''}'' # r) = Some (ms, r)"
proof (induction k v and k vs and k ms arbitrary: n d r and n d r j and n d r j
    rule: indent_json_indent_elems_indent_members.induct)
  case (1 k)
  then show ?case by (cases n) (auto simp: parse_value.simps skip_ws_Cons json_space_def)
next
  case (2 k v vs)
  then obtain m where n: "n = Suc m" by (cases n) auto
  obtain c t where head: "skip_ws (indent_elems (Suc k) (v # vs) @ line_at k @ CHR '']'' # r) = c # t"
      "c \<noteq> CHR '']''"
    using "2.prems"(1) elems_head [of "v # vs" "d - 1" "Suc k" "line_at k @ CHR '']'' # r"]
    by (metis list.distinct(1) printable.simps(5))
  have "parse_elems m (d - 1) (c # t) = Some (v # vs, r)"
    unfolding head(1) [symmetric] parse_elems_skip
    by (rule "2.IH") (use "2.prems" n in auto)
  with head "2.prems" n show ?case
    by (simp add: parse_value.simps skip_ws_Cons json_space_def)
next
  case (3 k)
  then show ?case by (cases n) (auto simp: parse_value.simps skip_ws_Cons json_space_def)
next
  case (4 k e es)
  then obtain m where n: "n = Suc m" by (cases n) auto
  obtain t where head: "skip_ws (indent_members (Suc k) (e # es) @ line_at k @ CHR ''}'' # r) = CHR 0x22 # t"
    using members_head [of "e # es" "Suc k"] by auto
  have "parse_members m (d - 1) (CHR 0x22 # t) = Some (e # es, r)"
    unfolding head(1) [symmetric] parse_members_skip
    by (rule "4.IH") (use "4.prems" n in auto)
  with head "4.prems" n show ?case
    by (simp add: parse_value.simps skip_ws_Cons json_space_def)
next
  case "5_1"
  then show ?case by (simp add: parse_print(1) del: print_json.simps)
next
  case "5_2"
  then show ?case by (simp add: parse_print(1) del: print_json.simps)
next
  case "5_3"
  then show ?case by (simp add: parse_print(1) del: print_json.simps)
next
  case "5_4"
  then show ?case by (simp add: parse_print(1) del: print_json.simps)
next
  case 6
  then show ?case by simp
next
  case (7 k v)
  then obtain m where n: "n = Suc m" by (cases n) auto
  have "parse_value m d (indent_json k v @ line_at j @ CHR '']'' # r) = Some (v, line_at j @ CHR '']'' # r)"
    by (rule "7.IH") (use "7.prems" n in \<open>auto simp: number_end_line\<close>)
  then show ?case
    using n by (simp add: parse_elems.simps parse_value_spaces skip_ws_Cons json_space_def)
next
  case (8 k v w vs)
  then obtain m where n: "n = Suc m" by (cases n) auto
  define rest where "rest = indent_elems k (w # vs) @ line_at j @ CHR '']'' # r"
  have "parse_value m d (indent_json k v @ CHR '','' # rest) = Some (v, CHR '','' # rest)"
    by (rule "8.IH"(1)) (use "8.prems" n in \<open>auto simp: number_end_comma\<close>)
  moreover have "parse_elems m d rest = Some (w # vs, r)"
    unfolding rest_def by (rule "8.IH"(2)) (use "8.prems" n in auto)
  ultimately show ?case
    using n by (simp add: parse_elems.simps parse_value_spaces skip_ws_Cons json_space_def rest_def)
next
  case 9
  then show ?case by simp
next
  case (10 k key v)
  then obtain m where n: "n = Suc m" by (cases n) auto
  have "parse_value m d (indent_json k v @ line_at j @ CHR ''}'' # r) = Some (v, line_at j @ CHR ''}'' # r)"
    by (rule "10.IH") (use "10.prems" n in \<open>auto simp: number_end_line\<close>)
  then have "parse_value m d (CHR '' '' # indent_json k v @ line_at j @ CHR ''}'' # r) = Some (v, line_at j @ CHR ''}'' # r)"
    using parse_value_spaces [of "'' ''"] by (simp add: spaces_def json_space_def)
  then show ?case
    using n "10.prems" by (simp add: parse_members.simps skip_ws_Cons json_space_def parse_chars_escape)
next
  case (11 k key v e es)
  then obtain m where n: "n = Suc m" by (cases n) auto
  define rest where "rest = indent_members k (e # es) @ line_at j @ CHR ''}'' # r"
  have "parse_value m d (indent_json k v @ CHR '','' # rest) = Some (v, CHR '','' # rest)"
    by (rule "11.IH"(1)) (use "11.prems" n in \<open>auto simp: number_end_comma\<close>)
  then have "parse_value m d (CHR '' '' # indent_json k v @ CHR '','' # rest) = Some (v, CHR '','' # rest)"
    using parse_value_spaces [of "'' ''"] by (simp add: spaces_def json_space_def)
  moreover have "parse_members m d rest = Some (e # es, r)"
    unfolding rest_def by (rule "11.IH"(2)) (use "11.prems" n in auto)
  ultimately show ?case
    using n "11.prems" by (simp add: parse_members.simps skip_ws_Cons json_space_def parse_chars_escape rest_def)
qed

lemma Unmarshal_indent:
  assumes "printable max_depth v"
  shows "json_Unmarshal (indent_json 0 v @ newline) = Some v"
proof -
  have "number_end newline" by (simp add: newline_def number_end_def is_digit_def ord_def)
  then have "parse_value (2 * length (indent_json 0 v @ newline) + 2) max_depth (indent_json 0 v @ newline) = Some (v, newline)"
    using assms by (intro parse_indent(1)) simp_all
  then show ?thesis
    by (simp add: json_Unmarshal_def) (simp add: newline_def skip_ws_def json_space_def)
qed

end
