(* ===== verification/Client_Requests.thy ===== *)
theory Client_Requests
  imports "HOL-Library.State_Monad" Agent_Label Client_Errors Protocol Go_Json_Indent Go_Time
begin

text \<open>
  What the command line client asks of the control plane, and the profile in which it keeps its
  tokens (\<^verbatim>\<open>cmd/shellin/auth_exchange_requests.go\<close>, \<^verbatim>\<open>session_requests.go\<close>,
  \<^verbatim>\<open>agent_session_requests.go\<close>, \<^verbatim>\<open>auth_profile.go\<close>).

  The program runs in the state monad over the history of its effects, newest first: the HTTP
  requests it made with their answers, the profiles it read and wrote. What the world answers is
  an \<open>environment\<close>, a function of the whole history, so nothing is assumed about the server or
  about other processes that use the same profile. A request fails with the text of an error (a
  URL that does not parse, a connection that breaks) or is answered with a status and a body.
  Writing the profile takes the steps of \<^verbatim>\<open>saveAuthProfile\<close>, each of which can fail; the file is
  only replaced by the last one, the renaming. The text of a JSON error is the environment's too.
\<close>

section \<open>Effects\<close>

record client_request =
  cr_Method :: string
  cr_URL :: string
  cr_Token :: "string option"
  cr_Body :: "string option"

datatype client_effect =
  Asked client_request "string + int \<times> string"
| ReadProfile string "string + string"
| SavedProfile string string
| SaveFailed string

type_synonym client_history = "client_effect list"

record environment =
  env_http :: "client_history \<Rightarrow> client_request \<Rightarrow> string + int \<times> string"
  env_read :: "client_history \<Rightarrow> string \<Rightarrow> string + string"
  env_save :: "client_history \<Rightarrow> string \<Rightarrow> string option list"
  env_now :: "client_history \<Rightarrow> gotime"
  env_json_error :: "string \<Rightarrow> string"

type_synonym 'a io = "(client_history, 'a) state"

definition ask :: "environment \<Rightarrow> client_request \<Rightarrow> (string + int \<times> string) io" where
  "ask env q = State (\<lambda>h. let a = env_http env h q in (a, Asked q a # h))"

definition read_profile :: "environment \<Rightarrow> string \<Rightarrow> (string + string) io" where
  "read_profile env path = State (\<lambda>h. let a = env_read env h path in (a, ReadProfile path a # h))"

definition clock :: "environment \<Rightarrow> gotime io" where
  "clock env = State (\<lambda>h. (env_now env h, h))"

text \<open>The first error of the steps that write the profile: making the directory (unless it is the
  current one), creating the temporary file, its mode, writing, closing, renaming.\<close>

fun first_error :: "string option list \<Rightarrow> string option" where
  "first_error [] = None"
| "first_error (None # es) = first_error es"
| "first_error (Some e # es) = Some e"

definition write_profile :: "environment \<Rightarrow> string \<Rightarrow> string \<Rightarrow> string option io" where
  "write_profile env path content = State (\<lambda>h.
     case first_error (take 6 (env_save env h path)) of
       None \<Rightarrow> (None, SavedProfile path content # h)
     | Some e \<Rightarrow> (Some e, SaveFailed path # h))"

lemma run_ask [simp]: "run_state (ask env q) h = (env_http env h q, Asked q (env_http env h q) # h)"
  by (simp add: ask_def Let_def)

lemma run_read_profile [simp]:
  "run_state (read_profile env p) h = (env_read env h p, ReadProfile p (env_read env h p) # h)"
  by (simp add: read_profile_def Let_def)

lemma run_clock [simp]: "run_state (clock env) h = (env_now env h, h)"
  by (simp add: clock_def)

section \<open>Configuration and sessions\<close>

record client_config =
  cc_ControlPlaneURL :: string
  cc_AuthProfilePath :: string
  cc_Shell :: string
  cc_AnswerTimeout :: duration
  cc_UserKey :: string
  cc_HUD :: bool

record controlPlaneAuthSession =
  cs_AccessToken :: string
  cs_AccessTokenExpiresAt :: string
  cs_RefreshToken :: string
  cs_RefreshTokenExpiresAt :: string

definition no_tokens :: controlPlaneAuthSession where
  "no_tokens = \<lparr>cs_AccessToken = [], cs_AccessTokenExpiresAt = [], cs_RefreshToken = [], cs_RefreshTokenExpiresAt = []\<rparr>"

definition endpoint :: "string \<Rightarrow> string \<Rightarrow> string" where
  "endpoint base path = TrimRight base ''/'' @ path"

definition bearer :: "string \<Rightarrow> string" where
  "bearer token = ''Bearer '' @ TrimSpace token"

definition post_json :: "string \<Rightarrow> string option \<Rightarrow> json \<Rightarrow> client_request" where
  "post_json url token body = \<lparr>cr_Method = ''POST'', cr_URL = url, cr_Token = token, cr_Body = Some (print_json body)\<rparr>"

section \<open>Tokens\<close>

definition trimmed_session :: "string \<Rightarrow> string \<Rightarrow> string \<Rightarrow> string \<Rightarrow> controlPlaneAuthSession" where
  "trimmed_session access accessExpires refresh refreshExpires =
     \<lparr>cs_AccessToken = TrimSpace access, cs_AccessTokenExpiresAt = TrimSpace accessExpires,
      cs_RefreshToken = TrimSpace refresh, cs_RefreshTokenExpiresAt = TrimSpace refreshExpires\<rparr>"

definition status_text :: "string \<Rightarrow> int \<Rightarrow> string \<Rightarrow> go_error" where
  "status_text what code body = Plain (what @ '' status '' @ Itoa code @ '': '' @ body)"

text \<open>The body of a 200 answer, decoded.\<close>

definition decoded :: "environment \<Rightarrow> (bool \<Rightarrow> json \<Rightarrow> 'a option) \<Rightarrow> string \<Rightarrow> go_error + 'a" where
  "decoded env dec body = (case Option.bind (json_Decode body) (dec False) of
     None \<Rightarrow> Inl (Plain (env_json_error env body))
   | Some x \<Rightarrow> Inr x)"

definition exchangeControlPlaneAuth :: "environment \<Rightarrow> client_config \<Rightarrow> (go_error + controlPlaneAuthSession) io" where
  "exchangeControlPlaneAuth env cfg = do {
     answer \<leftarrow> ask env (post_json (endpoint (cc_ControlPlaneURL cfg) ''/v1/auth/exchange'') None
       (ExchangeAuthRequest_json \<lparr>xq_UserKey = cc_UserKey cfg\<rparr>));
     State_Monad.return (case answer of
       Inl e \<Rightarrow> Inl (Plain e)
     | Inr (code, body) \<Rightarrow>
         if code \<noteq> 200 then Inl (status_text ''control plane exchange'' code body)
         else case decoded env decode_ExchangeAuthResponse body of
           Inl e \<Rightarrow> Inl e
         | Inr out \<Rightarrow>
             if TrimSpace (xr_AccessToken out) = [] then Inl (Plain ''control plane exchange returned empty access_token'')
             else if TrimSpace (xr_RefreshToken out) = [] then Inl (Plain ''control plane exchange returned empty refresh_token'')
             else Inr (trimmed_session (xr_AccessToken out) (xr_AccessTokenExpiresAt out)
                         (xr_RefreshToken out) (xr_RefreshTokenExpiresAt out))) }"

definition refreshControlPlaneAuth ::
  "environment \<Rightarrow> client_config \<Rightarrow> string \<Rightarrow> (go_error + controlPlaneAuthSession) io"
where
  "refreshControlPlaneAuth env cfg refreshToken = do {
     answer \<leftarrow> ask env (post_json (endpoint (cc_ControlPlaneURL cfg) ''/v1/auth/refresh'') None
       (RefreshAuthRequest_json \<lparr>fq_RefreshToken = refreshToken\<rparr>));
     State_Monad.return (case answer of
       Inl e \<Rightarrow> Inl (Plain e)
     | Inr (code, body) \<Rightarrow>
         if code \<noteq> 200 then Inl (status_text ''control plane refresh'' code body)
         else case decoded env decode_RefreshAuthResponse body of
           Inl e \<Rightarrow> Inl e
         | Inr out \<Rightarrow>
             if TrimSpace (fr_AccessToken out) = [] then Inl (Plain ''control plane refresh returned empty access_token'')
             else if TrimSpace (fr_RefreshToken out) = [] then Inl (Plain ''control plane refresh returned empty refresh_token'')
             else Inr (trimmed_session (fr_AccessToken out) (fr_AccessTokenExpiresAt out)
                         (fr_RefreshToken out) (fr_RefreshTokenExpiresAt out))) }"

definition deviceLoginWithKey :: "environment \<Rightarrow> string \<Rightarrow> string \<Rightarrow> (go_error + controlPlaneAuthSession) io" where
  "deviceLoginWithKey env controlPlaneURL rawKey =
     (let loginKey = TrimSpace rawKey
      in if loginKey = [] then State_Monad.return (Inl (Plain ''login key is required''))
         else do {
           answer \<leftarrow> ask env (post_json (endpoint controlPlaneURL ''/v1/auth/device-login'') None
             (DeviceLoginRequest_json \<lparr>dq_LoginKey = loginKey\<rparr>));
           State_Monad.return (case answer of
             Inl e \<Rightarrow> Inl (Plain e)
           | Inr (code, body) \<Rightarrow>
               if code \<noteq> 200 then Inl (status_text ''control plane device login'' code body)
               else case decoded env decode_ExchangeAuthResponse body of
                 Inl e \<Rightarrow> Inl e
               | Inr out \<Rightarrow>
                   if TrimSpace (xr_AccessToken out) = [] \<or> TrimSpace (xr_RefreshToken out) = []
                   then Inl (Plain ''device login returned empty tokens'')
                   else Inr (trimmed_session (xr_AccessToken out) (xr_AccessTokenExpiresAt out)
                               (xr_RefreshToken out) (xr_RefreshTokenExpiresAt out))) })"

section \<open>Sessions\<close>

definition requestSessionStatus :: "environment \<Rightarrow> client_config \<Rightarrow> string \<Rightarrow> (go_error + SessionStatusResponse) io" where
  "requestSessionStatus env cfg accessToken = do {
     answer \<leftarrow> ask env \<lparr>cr_Method = ''GET'', cr_URL = endpoint (cc_ControlPlaneURL cfg) ''/v1/status'',
       cr_Token = Some (bearer accessToken), cr_Body = None\<rparr>;
     State_Monad.return (case answer of
       Inl e \<Rightarrow> Inl (Plain e)
     | Inr (code, body) \<Rightarrow>
         if code \<noteq> 200 then Inl (Plain (''control plane status '' @ Itoa code @ '': '' @ body))
         else case decoded env decode_SessionStatusResponse body of
           Inl e \<Rightarrow> Inl e
         | Inr out \<Rightarrow>
             if ss_MaxSessions out \<le> 0 then Inl (Plain ''control plane returned invalid max_sessions'')
             else if ss_ActiveSessions out < 0 then Inl (Plain ''control plane returned invalid active_sessions'')
             else Inr out) }"

definition requestTerminateAllAgents :: "environment \<Rightarrow> client_config \<Rightarrow> string \<Rightarrow> (go_error + AgentTerminateAllResponse) io" where
  "requestTerminateAllAgents env cfg accessToken = do {
     answer \<leftarrow> ask env \<lparr>cr_Method = ''POST'', cr_URL = endpoint (cc_ControlPlaneURL cfg) ''/v1/agents/terminate-all'',
       cr_Token = Some (bearer accessToken), cr_Body = None\<rparr>;
     State_Monad.return (case answer of
       Inl e \<Rightarrow> Inl (Plain e)
     | Inr (code, body) \<Rightarrow>
         if code \<noteq> 200 then Inl (StatusError ''cleanup'' code (TrimSpace body))
         else case decoded env decode_AgentTerminateAllResponse body of
           Inl e \<Rightarrow> Inl e
         | Inr out \<Rightarrow>
             if tr_TerminatedSessions out < 0 then Inl (Plain ''control plane returned invalid terminated_sessions'')
             else Inr out) }"

text \<open>A request of which only the status matters.\<close>

definition expect_status :: "string \<Rightarrow> int \<Rightarrow> string + int \<times> string \<Rightarrow> go_error option" where
  "expect_status operation expected answer = (case answer of
     Inl e \<Rightarrow> Some (Plain e)
   | Inr (code, body) \<Rightarrow> if code \<noteq> expected then Some (StatusError operation code (TrimSpace body)) else None)"

definition registerAgentSession :: "environment \<Rightarrow> client_config \<Rightarrow> string \<Rightarrow> string \<Rightarrow> string \<Rightarrow> go_error option io" where
  "registerAgentSession env cfg accessToken rawID agentLabel =
     (if TrimSpace accessToken = [] then State_Monad.return (Some (Plain ''access token is required''))
      else if TrimSpace rawID = [] then State_Monad.return (Some (Plain ''session_id is required''))
      else do {
        answer \<leftarrow> ask env (post_json (endpoint (cc_ControlPlaneURL cfg) ''/v1/agents/register'') (Some (bearer accessToken))
          (AgentRegisterRequest_json \<lparr>gq_SessionID = TrimSpace rawID, gq_AgentLabel = normalizeAgentLabel agentLabel,
             gq_Transport = TransportWebRTCTURN\<rparr>));
        State_Monad.return (expect_status ''register'' 200 answer) })"

definition heartbeatAgentSession :: "environment \<Rightarrow> client_config \<Rightarrow> string \<Rightarrow> string \<Rightarrow> string \<Rightarrow> go_error option io" where
  "heartbeatAgentSession env cfg accessToken sessionID agentLabel = do {
     answer \<leftarrow> ask env (post_json (endpoint (cc_ControlPlaneURL cfg) ''/v1/agents/heartbeat'') (Some (bearer accessToken))
       (AgentHeartbeatRequest_json \<lparr>hq_SessionID = TrimSpace sessionID, hq_AgentLabel = normalizeAgentLabel agentLabel\<rparr>));
     State_Monad.return (expect_status ''heartbeat'' 204 answer) }"

definition unregisterAgentSession :: "environment \<Rightarrow> client_config \<Rightarrow> string \<Rightarrow> string \<Rightarrow> go_error option io" where
  "unregisterAgentSession env cfg accessToken sessionID =
     (if TrimSpace accessToken = [] then State_Monad.return None
      else do {
        answer \<leftarrow> ask env (post_json (endpoint (cc_ControlPlaneURL cfg) ''/v1/agents/unregister'') (Some (bearer accessToken))
          (AgentUnregisterRequest_json \<lparr>uq_SessionID = TrimSpace sessionID\<rparr>));
        State_Monad.return (expect_status ''unregister'' 204 answer) })"

section \<open>The profile\<close>

record authProfile =
  ap_ControlPlaneURL :: string
  ap_AccessToken :: string
  ap_AccessTokenExpiresAt :: string
  ap_RefreshToken :: string
  ap_RefreshTokenExpiresAt :: string
  ap_UpdatedAt :: string

definition authProfile_zero :: authProfile where
  "authProfile_zero = \<lparr>ap_ControlPlaneURL = [], ap_AccessToken = [], ap_AccessTokenExpiresAt = [],
     ap_RefreshToken = [], ap_RefreshTokenExpiresAt = [], ap_UpdatedAt = []\<rparr>"

definition authProfile_fields :: "string list" where
  "authProfile_fields = [''control_plane_url'', ''access_token'', ''access_token_expires_at'',
     ''refresh_token'', ''refresh_token_expires_at'', ''updated_at'']"

definition authProfile_put :: "string \<Rightarrow> json \<Rightarrow> authProfile \<Rightarrow> authProfile option" where
  "authProfile_put f v p =
     (if f = ''control_plane_url'' then map_option (\<lambda>s. p\<lparr>ap_ControlPlaneURL := s\<rparr>) (decode_string v (ap_ControlPlaneURL p))
      else if f = ''access_token'' then map_option (\<lambda>s. p\<lparr>ap_AccessToken := s\<rparr>) (decode_string v (ap_AccessToken p))
      else if f = ''access_token_expires_at'' then map_option (\<lambda>s. p\<lparr>ap_AccessTokenExpiresAt := s\<rparr>) (decode_string v (ap_AccessTokenExpiresAt p))
      else if f = ''refresh_token'' then map_option (\<lambda>s. p\<lparr>ap_RefreshToken := s\<rparr>) (decode_string v (ap_RefreshToken p))
      else if f = ''refresh_token_expires_at'' then map_option (\<lambda>s. p\<lparr>ap_RefreshTokenExpiresAt := s\<rparr>) (decode_string v (ap_RefreshTokenExpiresAt p))
      else if f = ''updated_at'' then map_option (\<lambda>s. p\<lparr>ap_UpdatedAt := s\<rparr>) (decode_string v (ap_UpdatedAt p))
      else Some p)"

definition decode_authProfile :: "bool \<Rightarrow> json \<Rightarrow> authProfile option" where
  "decode_authProfile strict = decode_struct strict authProfile_fields authProfile_put authProfile_zero"

definition authProfile_json :: "authProfile \<Rightarrow> json" where
  "authProfile_json p = JObj
     ([(''control_plane_url'', JStr (ap_ControlPlaneURL p)), (''access_token'', JStr (ap_AccessToken p))] @
      (if ap_AccessTokenExpiresAt p = [] then [] else [(''access_token_expires_at'', JStr (ap_AccessTokenExpiresAt p))]) @
      [(''refresh_token'', JStr (ap_RefreshToken p))] @
      (if ap_RefreshTokenExpiresAt p = [] then [] else [(''refresh_token_expires_at'', JStr (ap_RefreshTokenExpiresAt p))]) @
      (if ap_UpdatedAt p = [] then [] else [(''updated_at'', JStr (ap_UpdatedAt p))]))"

definition sameControlPlaneAuthSession :: "controlPlaneAuthSession \<Rightarrow> controlPlaneAuthSession \<Rightarrow> bool" where
  "sameControlPlaneAuthSession a b \<longleftrightarrow>
     TrimSpace (cs_AccessToken a) = TrimSpace (cs_AccessToken b)
   \<and> TrimSpace (cs_AccessTokenExpiresAt a) = TrimSpace (cs_AccessTokenExpiresAt b)
   \<and> TrimSpace (cs_RefreshToken a) = TrimSpace (cs_RefreshToken b)
   \<and> TrimSpace (cs_RefreshTokenExpiresAt a) = TrimSpace (cs_RefreshTokenExpiresAt b)"

definition loadAuthProfile :: "environment \<Rightarrow> string \<Rightarrow> (go_error + authProfile) io" where
  "loadAuthProfile env rawPath =
     (let path = TrimSpace rawPath
      in if path = [] then State_Monad.return (Inl (Plain ''auth profile path is required''))
         else do {
           data \<leftarrow> read_profile env path;
           State_Monad.return (case data of
             Inl e \<Rightarrow> Inl (Plain e)
           | Inr content \<Rightarrow> (case Option.bind (json_Unmarshal content) (decode_authProfile False) of
               None \<Rightarrow> Inl (Plain (env_json_error env content))
             | Some p \<Rightarrow> Inr p)) })"

definition saveAuthProfile :: "environment \<Rightarrow> string \<Rightarrow> authProfile \<Rightarrow> go_error option io" where
  "saveAuthProfile env rawPath p =
     (let path = TrimSpace rawPath
      in if path = [] then State_Monad.return (Some (Plain ''auth profile path is required''))
         else do {
           failure \<leftarrow> write_profile env path (indent_json 0 (authProfile_json p) @ newline);
           State_Monad.return (map_option Plain failure) })"

text \<open>The profile that holds a session.\<close>

definition profile_of :: "string \<Rightarrow> controlPlaneAuthSession \<Rightarrow> gotime \<Rightarrow> authProfile" where
  "profile_of controlPlaneURL next t =
     \<lparr>ap_ControlPlaneURL = controlPlaneURL, ap_AccessToken = cs_AccessToken next,
      ap_AccessTokenExpiresAt = cs_AccessTokenExpiresAt next, ap_RefreshToken = cs_RefreshToken next,
      ap_RefreshTokenExpiresAt = cs_RefreshTokenExpiresAt next, ap_UpdatedAt = Format_RFC3339 t\<rparr>"

definition persistControlPlaneAuthUpdate ::
  "environment \<Rightarrow> string \<Rightarrow> string \<Rightarrow> controlPlaneAuthSession \<Rightarrow> controlPlaneAuthSession \<Rightarrow> go_error option io"
where
  "persistControlPlaneAuthUpdate env profilePath controlPlaneURL previous next =
     (if TrimSpace profilePath = [] \<or> sameControlPlaneAuthSession previous next then State_Monad.return None
      else do {
        t \<leftarrow> clock env;
        saveAuthProfile env profilePath (profile_of controlPlaneURL next t) })"

definition loadControlPlaneAuthFromProfile ::
  "environment \<Rightarrow> string \<Rightarrow> string \<Rightarrow> (go_error + controlPlaneAuthSession) io"
where
  "loadControlPlaneAuthFromProfile env controlPlaneURL profilePath = do {
     loaded \<leftarrow> loadAuthProfile env profilePath;
     State_Monad.return (case loaded of
       Inl e \<Rightarrow> Inl (Wrapped ''load auth profile failed: '' e [])
     | Inr p \<Rightarrow>
         let profileBase = TrimSpace (TrimRight (ap_ControlPlaneURL p) ''/'');
             controlBase = TrimSpace (TrimRight controlPlaneURL ''/'')
         in if profileBase \<noteq> [] \<and> \<not> EqualFold profileBase controlBase
            then Inl (Plain (''auth profile control-plane mismatch: profile='' @ profileBase @ '' current='' @ controlBase))
            else let auth = trimmed_session (ap_AccessToken p) (ap_AccessTokenExpiresAt p)
                              (ap_RefreshToken p) (ap_RefreshTokenExpiresAt p)
            in if cs_AccessToken auth = [] \<or> cs_RefreshToken auth = []
               then Inl (Plain ''auth profile is missing tokens'') else Inr auth) }"

definition loadUpdatedControlPlaneAuthFromProfile ::
  "environment \<Rightarrow> string \<Rightarrow> string \<Rightarrow> controlPlaneAuthSession
   \<Rightarrow> (go_error + controlPlaneAuthSession \<times> bool) io"
where
  "loadUpdatedControlPlaneAuthFromProfile env controlPlaneURL profilePath current =
     (if TrimSpace profilePath = [] then State_Monad.return (Inr (no_tokens, False))
      else do {
        loaded \<leftarrow> loadControlPlaneAuthFromProfile env controlPlaneURL profilePath;
        State_Monad.return (case loaded of
          Inl e \<Rightarrow> Inl e
        | Inr latest \<Rightarrow>
            if sameControlPlaneAuthSession latest current then Inr (no_tokens, False) else Inr (latest, True)) })"

end
