(* ===== verification/Client_Auth.thy ===== *)
theory Client_Auth
  imports Client_Requests
begin

text \<open>
  How the command line client stays authorised: \<^verbatim>\<open>cmd/shellin/auth_client.go\<close>,
  \<^verbatim>\<open>request_auth_recovery.go\<close>, \<^verbatim>\<open>agent_auth_recovery.go\<close> and \<^verbatim>\<open>agent_registry_heartbeat.go\<close>.

  A request that is refused with 401 is tried again with refreshed tokens, with the tokens another
  process has put into the profile in the meantime, or with tokens for the user key. The goroutine
  of the heartbeat is a sequence of rounds, one for each tick or changed label; \<open>heartbeat_run\<close>
  takes the labels at these rounds and stops at the first error that is final.
\<close>

section \<open>Starting\<close>

datatype controlPlaneAuthUpdateMode =
  controlPlaneAuthUnchanged | controlPlaneAuthReloaded | controlPlaneAuthRefreshed

definition resolveControlPlaneAuth ::
  "environment \<Rightarrow> client_config \<Rightarrow> (go_error + controlPlaneAuthSession \<times> string) io"
where
  "resolveControlPlaneAuth env cfg =
     (if cc_ControlPlaneURL cfg = [] then
        State_Monad.return (Inl (Plain ''control plane URL is not configured in this build''))
      else if cc_UserKey cfg \<noteq> [] then do {
        initialAuth \<leftarrow> exchangeControlPlaneAuth env cfg;
        State_Monad.return (case initialAuth of Inl e \<Rightarrow> Inl e | Inr auth \<Rightarrow> Inr (auth, [])) }
      else do {
        initialAuth \<leftarrow> loadControlPlaneAuthFromProfile env (cc_ControlPlaneURL cfg) (cc_AuthProfilePath cfg);
        State_Monad.return (case initialAuth of
          Inl e \<Rightarrow> Inl (Wrapped [] e ('' (run `'' @ cliCommandName @ '' login <key>`)''))
        | Inr auth \<Rightarrow> Inr (auth, cc_AuthProfilePath cfg)) })"

definition sessionStatusAllowsRelay :: "SessionStatusResponse \<Rightarrow> bool" where
  "sessionStatusAllowsRelay status =
     (let s = ToLower (TrimSpace (ss_SubscriptionStatus status))
      in s = [] \<or> s = ''active'' \<or> s = ''grace'')"

definition validateControlPlanePreflightStatus :: "SessionStatusResponse \<Rightarrow> go_error option" where
  "validateControlPlanePreflightStatus status =
     (if \<not> sessionStatusAllowsRelay status then Some (SubscriptionInactive (ss_SubscriptionStatus status))
      else if ss_MaxSessions status \<le> ss_ActiveSessions status then
        Some (Plain (''session limit reached: '' @ Itoa (ss_ActiveSessions status) @ '' active / ''
                     @ Itoa (ss_MaxSessions status) @ '' max''))
      else None)"

section \<open>Requests with recovery\<close>

text \<open>
  The two functions of \<^verbatim>\<open>request_auth_recovery.go\<close> differ in the request and in the word their
  messages begin with.
\<close>

definition with_recovery ::
  "string \<Rightarrow> (string \<Rightarrow> (go_error + 'a) io) \<Rightarrow> environment \<Rightarrow> client_config \<Rightarrow> controlPlaneAuthSession \<Rightarrow> string
   \<Rightarrow> (go_error + 'a \<times> controlPlaneAuthSession) io"
where
  "with_recovery what request env cfg authSession profilePath = do {
     first \<leftarrow> request (cs_AccessToken authSession);
     case first of
       Inr result \<Rightarrow> State_Monad.return (Inr (result, authSession))
     | Inl err \<Rightarrow>
         if \<not> isUnauthorizedError (Some err) \<or> TrimSpace (cs_RefreshToken authSession) = []
         then State_Monad.return (Inl err)
         else do {
           refresh \<leftarrow> refreshControlPlaneAuth env cfg (cs_RefreshToken authSession);
           case refresh of
             Inr refreshed \<Rightarrow> do {
               second \<leftarrow> request (cs_AccessToken refreshed);
               State_Monad.return (case second of Inl e \<Rightarrow> Inl e | Inr result \<Rightarrow> Inr (result, refreshed)) }
           | Inl refreshErr \<Rightarrow> do {
               reload \<leftarrow> loadUpdatedControlPlaneAuthFromProfile env (cc_ControlPlaneURL cfg) profilePath authSession;
               case reload of
                 Inl loadErr \<Rightarrow> State_Monad.return (Inl (Plain (what @ '' request failed ('' @ Error err
                   @ ''); refresh failed ('' @ Error refreshErr @ ''); shared auth reload failed ('' @ Error loadErr @ '')'')))
               | Inr (latestAuth, changed) \<Rightarrow>
                   if \<not> changed then State_Monad.return (Inl (Plain (what @ '' request failed ('' @ Error err
                     @ ''); refresh failed ('' @ Error refreshErr @ '')'')))
                   else do {
                     retry \<leftarrow> request (cs_AccessToken latestAuth);
                     case retry of
                       Inr result \<Rightarrow> State_Monad.return (Inr (result, latestAuth))
                     | Inl retryErr \<Rightarrow>
                         if \<not> isUnauthorizedError (Some retryErr) \<or> TrimSpace (cs_RefreshToken latestAuth) = []
                         then State_Monad.return (Inl retryErr)
                         else do {
                           again \<leftarrow> refreshControlPlaneAuth env cfg (cs_RefreshToken latestAuth);
                           case again of
                             Inl latestRefreshErr \<Rightarrow> State_Monad.return (Inl (Plain (what
                               @ '' request failed after shared auth reload ('' @ Error retryErr
                               @ ''); refresh failed ('' @ Error latestRefreshErr @ '')'')))
                           | Inr refreshed \<Rightarrow> do {
                               final \<leftarrow> request (cs_AccessToken refreshed);
                               State_Monad.return (case final of Inl e \<Rightarrow> Inl e | Inr result \<Rightarrow> Inr (result, refreshed)) } } } } } }"

definition requestSessionStatusWithAuthSession ::
  "environment \<Rightarrow> client_config \<Rightarrow> controlPlaneAuthSession \<Rightarrow> string
   \<Rightarrow> (go_error + SessionStatusResponse \<times> controlPlaneAuthSession) io"
where
  "requestSessionStatusWithAuthSession env cfg = with_recovery ''status'' (requestSessionStatus env cfg) env cfg"

definition requestTerminateAllAgentsWithAuthSession ::
  "environment \<Rightarrow> client_config \<Rightarrow> controlPlaneAuthSession \<Rightarrow> string
   \<Rightarrow> (go_error + AgentTerminateAllResponse \<times> controlPlaneAuthSession) io"
where
  "requestTerminateAllAgentsWithAuthSession env cfg = with_recovery ''cleanup'' (requestTerminateAllAgents env cfg) env cfg"

text \<open>A failure to save the profile is only logged.\<close>

definition ensureControlPlanePreflight ::
  "environment \<Rightarrow> client_config \<Rightarrow> controlPlaneAuthSession \<Rightarrow> string
   \<Rightarrow> (go_error + SessionStatusResponse \<times> controlPlaneAuthSession) io"
where
  "ensureControlPlanePreflight env cfg authSession profilePath = do {
     answer \<leftarrow> requestSessionStatusWithAuthSession env cfg authSession profilePath;
     case answer of
       Inl e \<Rightarrow> State_Monad.return (Inl e)
     | Inr (status, finalAuth) \<Rightarrow> do {
         _ \<leftarrow> persistControlPlaneAuthUpdate env profilePath (cc_ControlPlaneURL cfg) authSession finalAuth;
         State_Monad.return (case validateControlPlanePreflightStatus status of
           Some e \<Rightarrow> Inl e
         | None \<Rightarrow> Inr (status, finalAuth)) } }"

section \<open>The heartbeat of an agent\<close>

definition heartbeatOrRegisterAgentSession ::
  "environment \<Rightarrow> client_config \<Rightarrow> string \<Rightarrow> string \<Rightarrow> string \<Rightarrow> go_error option io"
where
  "heartbeatOrRegisterAgentSession env cfg accessToken rawID agentLabel =
     (let sessionID = TrimSpace rawID
      in if sessionID = [] then State_Monad.return (Some (Plain ''session_id is required''))
         else do {
           err \<leftarrow> heartbeatAgentSession env cfg accessToken sessionID agentLabel;
           case err of
             None \<Rightarrow> State_Monad.return None
           | Some e \<Rightarrow>
               if \<not> isNotFoundError (Some e) then State_Monad.return (Some e)
               else do {
                 registerErr \<leftarrow> registerAgentSession env cfg accessToken sessionID agentLabel;
                 State_Monad.return (map_option
                   (\<lambda>r. Wrapped ''agent registry entry missing; re-register failed: '' r []) registerErr) } })"

text \<open>What becomes of a heartbeat: accepted, a terminated session, or an error with a prefix.\<close>

definition after_heartbeat :: "(go_error \<Rightarrow> go_error) \<Rightarrow> 'a \<Rightarrow> go_error option \<Rightarrow> go_error + 'a" where
  "after_heartbeat wrap ok hbErr = (case hbErr of
     None \<Rightarrow> Inr ok
   | Some e \<Rightarrow> (case terminatedSessionRuntimeError (Some e) of
         Some fatalErr \<Rightarrow> Inl fatalErr
       | None \<Rightarrow> Inl (wrap e)))"

definition tryUserKeyFallback ::
  "environment \<Rightarrow> client_config \<Rightarrow> string \<Rightarrow> string \<Rightarrow> go_error
   \<Rightarrow> (go_error + controlPlaneAuthSession \<times> controlPlaneAuthUpdateMode) io"
where
  "tryUserKeyFallback env cfg sessionID agentLabel cause =
     (if TrimSpace (cc_UserKey cfg) = [] then
        State_Monad.return (Inl (permanent (Plain
          (''failed to refresh control-plane auth during heartbeat: '' @ Error cause))))
      else do {
        fallback \<leftarrow> exchangeControlPlaneAuth env cfg;
        case fallback of
          Inl fallbackErr \<Rightarrow> State_Monad.return (Inl (permanent (Plain
            (''failed to refresh control-plane auth during heartbeat: '' @ Error cause
             @ '' (fallback user key exchange failed: '' @ Error fallbackErr @ '')''))))
        | Inr fallbackAuth \<Rightarrow> do {
            hbErr \<leftarrow> heartbeatOrRegisterAgentSession env cfg (cs_AccessToken fallbackAuth) sessionID agentLabel;
            State_Monad.return (after_heartbeat
              (\<lambda>e. permanent (Wrapped ''heartbeat retry after fallback user key exchange failed: '' e []))
              (fallbackAuth, controlPlaneAuthRefreshed) hbErr) } })"

text \<open>The part that follows a 401 when there is a refresh token, and the part without one.\<close>

definition recover_with_refresh ::
  "environment \<Rightarrow> client_config \<Rightarrow> string \<Rightarrow> string \<Rightarrow> string \<Rightarrow> controlPlaneAuthSession
   \<Rightarrow> (go_error + controlPlaneAuthSession \<times> controlPlaneAuthUpdateMode) io"
where
  "recover_with_refresh env cfg profilePath sessionID agentLabel authSession = do {
     refresh \<leftarrow> refreshControlPlaneAuth env cfg (cs_RefreshToken authSession);
     case refresh of
       Inr refreshed \<Rightarrow> do {
         hbErr \<leftarrow> heartbeatOrRegisterAgentSession env cfg (cs_AccessToken refreshed) sessionID agentLabel;
         State_Monad.return (after_heartbeat (\<lambda>e. Wrapped ''heartbeat retry after refresh failed: '' e [])
           (refreshed, controlPlaneAuthRefreshed) hbErr) }
     | Inl refreshErr \<Rightarrow> do {
         reload \<leftarrow> loadUpdatedControlPlaneAuthFromProfile env (cc_ControlPlaneURL cfg) profilePath authSession;
         case reload of
           Inl loadErr \<Rightarrow> tryUserKeyFallback env cfg sessionID agentLabel
             (Plain (Error refreshErr @ '' (shared auth reload failed: '' @ Error loadErr @ '')''))
         | Inr (latestAuth, changed) \<Rightarrow>
             if \<not> changed then tryUserKeyFallback env cfg sessionID agentLabel refreshErr
             else do {
               hbErr \<leftarrow> heartbeatOrRegisterAgentSession env cfg (cs_AccessToken latestAuth) sessionID agentLabel;
               case hbErr of
                 None \<Rightarrow> State_Monad.return (Inr (latestAuth, controlPlaneAuthReloaded))
               | Some e \<Rightarrow>
                   if terminatedSessionRuntimeError (Some e) \<noteq> None \<or> \<not> isUnauthorizedError (Some e)
                   then State_Monad.return (after_heartbeat
                     (\<lambda>e. Wrapped ''agent heartbeat failed after shared auth reload: '' e [])
                     (latestAuth, controlPlaneAuthReloaded) (Some e))
                   else if TrimSpace (cs_RefreshToken latestAuth) = []
                   then tryUserKeyFallback env cfg sessionID agentLabel refreshErr
                   else do {
                     again \<leftarrow> refreshControlPlaneAuth env cfg (cs_RefreshToken latestAuth);
                     case again of
                       Inl latestRefreshErr \<Rightarrow> tryUserKeyFallback env cfg sessionID agentLabel latestRefreshErr
                     | Inr refreshed \<Rightarrow> do {
                         hbErr \<leftarrow> heartbeatOrRegisterAgentSession env cfg (cs_AccessToken refreshed) sessionID agentLabel;
                         State_Monad.return (after_heartbeat
                           (\<lambda>e. Wrapped ''heartbeat retry after shared auth refresh failed: '' e [])
                           (refreshed, controlPlaneAuthRefreshed) hbErr) } } } } }"

definition recover_without_refresh ::
  "environment \<Rightarrow> client_config \<Rightarrow> string \<Rightarrow> string \<Rightarrow> string \<Rightarrow> controlPlaneAuthSession \<Rightarrow> go_error
   \<Rightarrow> (go_error + controlPlaneAuthSession \<times> controlPlaneAuthUpdateMode) io"
where
  "recover_without_refresh env cfg profilePath sessionID agentLabel authSession err = do {
     reload \<leftarrow> loadUpdatedControlPlaneAuthFromProfile env (cc_ControlPlaneURL cfg) profilePath authSession;
     case reload of
       Inl loadErr \<Rightarrow> tryUserKeyFallback env cfg sessionID agentLabel
         (Wrapped [] err ('' (shared auth reload failed: '' @ Error loadErr @ '')''))
     | Inr (latestAuth, changed) \<Rightarrow>
         if \<not> changed then tryUserKeyFallback env cfg sessionID agentLabel err
         else do {
           hbErr \<leftarrow> heartbeatOrRegisterAgentSession env cfg (cs_AccessToken latestAuth) sessionID agentLabel;
           State_Monad.return (after_heartbeat
             (\<lambda>e. Wrapped ''agent heartbeat failed after shared auth reload: '' e [])
             (latestAuth, controlPlaneAuthReloaded) hbErr) } }"

definition heartbeatAgentSessionWithAuthRecovery ::
  "environment \<Rightarrow> client_config \<Rightarrow> string \<Rightarrow> string \<Rightarrow> string \<Rightarrow> controlPlaneAuthSession
   \<Rightarrow> (go_error + controlPlaneAuthSession \<times> controlPlaneAuthUpdateMode) io"
where
  "heartbeatAgentSessionWithAuthRecovery env cfg profilePath sessionID agentLabel authSession = do {
     err \<leftarrow> heartbeatOrRegisterAgentSession env cfg (cs_AccessToken authSession) sessionID agentLabel;
     case err of
       None \<Rightarrow> State_Monad.return (Inr (authSession, controlPlaneAuthUnchanged))
     | Some e \<Rightarrow>
         if terminatedSessionRuntimeError (Some e) \<noteq> None \<or> \<not> isUnauthorizedError (Some e)
         then State_Monad.return (after_heartbeat (\<lambda>e. Wrapped ''agent heartbeat failed: '' e [])
           (authSession, controlPlaneAuthUnchanged) (Some e))
         else if TrimSpace (cs_RefreshToken authSession) \<noteq> []
         then recover_with_refresh env cfg profilePath sessionID agentLabel authSession
         else recover_without_refresh env cfg profilePath sessionID agentLabel authSession e }"

section \<open>The heartbeat object\<close>

record agentRegistryHeartbeat =
  hb_cfg :: client_config
  hb_profilePath :: string
  hb_sessionID :: string
  hb_accessToken :: string
  hb_refreshToken :: string
  hb_running :: bool

definition newAgentRegistryHeartbeat ::
  "client_config \<Rightarrow> string \<Rightarrow> string \<Rightarrow> controlPlaneAuthSession \<Rightarrow> agentRegistryHeartbeat"
where
  "newAgentRegistryHeartbeat cfg profilePath sessionID initialAuth =
     \<lparr>hb_cfg = cfg, hb_profilePath = TrimSpace profilePath, hb_sessionID = TrimSpace sessionID,
      hb_accessToken = TrimSpace (cs_AccessToken initialAuth),
      hb_refreshToken = TrimSpace (cs_RefreshToken initialAuth), hb_running = False\<rparr>"

definition heartbeat_Start ::
  "environment \<Rightarrow> string \<Rightarrow> agentRegistryHeartbeat \<Rightarrow> (agentRegistryHeartbeat \<times> go_error option) io"
where
  "heartbeat_Start env label h =
     (if TrimSpace (cc_ControlPlaneURL (hb_cfg h)) = [] \<or> hb_accessToken h = []
      then State_Monad.return (h, None)
      else do {
        err \<leftarrow> registerAgentSession env (hb_cfg h) (hb_accessToken h) (hb_sessionID h) label;
        State_Monad.return (case err of Some e \<Rightarrow> (h, Some e) | None \<Rightarrow> (h\<lparr>hb_running := True\<rparr>, None)) })"

definition heartbeat_Stop :: "environment \<Rightarrow> agentRegistryHeartbeat \<Rightarrow> unit io" where
  "heartbeat_Stop env h =
     (if \<not> hb_running h then State_Monad.return ()
      else do {
        _ \<leftarrow> unregisterAgentSession env (hb_cfg h) (hb_accessToken h) (hb_sessionID h);
        State_Monad.return () })"

definition heartbeat_currentAuth :: "agentRegistryHeartbeat \<Rightarrow> controlPlaneAuthSession" where
  "heartbeat_currentAuth h = no_tokens\<lparr>cs_AccessToken := hb_accessToken h, cs_RefreshToken := hb_refreshToken h\<rparr>"

definition heartbeat_setAuth :: "agentRegistryHeartbeat \<Rightarrow> controlPlaneAuthSession \<Rightarrow> agentRegistryHeartbeat" where
  "heartbeat_setAuth h next = h\<lparr>hb_accessToken := TrimSpace (cs_AccessToken next),
     hb_refreshToken := TrimSpace (cs_RefreshToken next)\<rparr>"

definition heartbeat_persistAuth ::
  "environment \<Rightarrow> agentRegistryHeartbeat \<Rightarrow> controlPlaneAuthSession \<Rightarrow> agentRegistryHeartbeat io"
where
  "heartbeat_persistAuth env h next =
     (let h' = heartbeat_setAuth h next
      in if TrimSpace (hb_profilePath h') = [] then State_Monad.return h'
         else do {
           t \<leftarrow> clock env;
           _ \<leftarrow> saveAuthProfile env (hb_profilePath h') (profile_of (cc_ControlPlaneURL (hb_cfg h')) next t);
           State_Monad.return h' })"

definition heartbeat_ApplyAuthUpdate ::
  "environment \<Rightarrow> agentRegistryHeartbeat \<Rightarrow> controlPlaneAuthSession \<Rightarrow> controlPlaneAuthUpdateMode
   \<Rightarrow> agentRegistryHeartbeat io"
where
  "heartbeat_ApplyAuthUpdate env h next mode = (case mode of
     controlPlaneAuthReloaded \<Rightarrow> State_Monad.return (heartbeat_setAuth h next)
   | controlPlaneAuthRefreshed \<Rightarrow> heartbeat_persistAuth env h next
   | controlPlaneAuthUnchanged \<Rightarrow> State_Monad.return h)"

text \<open>One round of \<^verbatim>\<open>run\<close>: the new state, and the error handed to \<^verbatim>\<open>onFatal\<close> when the loop ends.\<close>

definition heartbeat_round ::
  "environment \<Rightarrow> string \<Rightarrow> agentRegistryHeartbeat \<Rightarrow> (agentRegistryHeartbeat \<times> go_error option) io"
where
  "heartbeat_round env label h = do {
     outcome \<leftarrow> heartbeatAgentSessionWithAuthRecovery env (hb_cfg h) (hb_profilePath h) (hb_sessionID h) label
       (heartbeat_currentAuth h);
     case outcome of
       Inl err \<Rightarrow> State_Monad.return (h, if isNonRetryableControlPlaneError (Some err) then Some err else None)
     | Inr (nextAuth, mode) \<Rightarrow> do {
         h' \<leftarrow> heartbeat_ApplyAuthUpdate env h nextAuth mode;
         State_Monad.return (h', None) } }"

fun heartbeat_run ::
  "environment \<Rightarrow> string list \<Rightarrow> agentRegistryHeartbeat \<Rightarrow> (agentRegistryHeartbeat \<times> go_error option) io"
where
  "heartbeat_run env [] h = State_Monad.return (h, None)"
| "heartbeat_run env (label # labels) h = do {
     (h', fatal) \<leftarrow> heartbeat_round env label h;
     case fatal of Some e \<Rightarrow> State_Monad.return (h', Some e) | None \<Rightarrow> heartbeat_run env labels h' }"

end
