(* ===== verification/Client_Auth_Facts.thy ===== *)
theory Client_Auth_Facts
  imports Client_Auth
begin

text \<open>
  What holds of the recovery of \<^verbatim>\<open>Client_Auth\<close>: the effort of one heartbeat, that the session it
  returns is one the control plane has just accepted, and that a session the control plane
  reports as gone (410) is reported as ended. The locale \<open>authorised_request\<close> is the contract of the
  other requests that are made with recovery.

  The rules are those of a Hoare logic over the state monad: \<open>holds_after m Q h\<close> says that \<open>m\<close> started
  with the history \<open>h\<close> ends with a result and a history that satisfy \<open>Q\<close>.
\<close>

section \<open>Triples\<close>

definition holds_after :: "'a io \<Rightarrow> ('a \<Rightarrow> client_history \<Rightarrow> bool) \<Rightarrow> client_history \<Rightarrow> bool" where
  "holds_after m Q h \<longleftrightarrow> (case run_state m h of (x, h') \<Rightarrow> Q x h')"

lemma holds_after_return [simp]: "holds_after (State_Monad.return x) Q = Q x"
  by (simp add: holds_after_def fun_eq_iff)

lemma holds_after_bind [simp]: "holds_after (State_Monad.bind m f) Q = holds_after m (\<lambda>x. holds_after (f x) Q)"
  by (simp add: holds_after_def case_prod_beta fun_eq_iff)

lemma holds_after_mono: "holds_after m P h \<Longrightarrow> (\<And>x h'. P x h' \<Longrightarrow> Q x h') \<Longrightarrow> holds_after m Q h"
  by (auto simp: holds_after_def)

lemma holds_after_run: "holds_after m Q h \<Longrightarrow> run_state m h = (x, h') \<Longrightarrow> Q x h'"
  by (simp add: holds_after_def)

section \<open>Effort\<close>

definition is_request :: "client_effect \<Rightarrow> bool" where
  "is_request e = (case e of Asked _ _ \<Rightarrow> True | _ \<Rightarrow> False)"

definition is_read :: "client_effect \<Rightarrow> bool" where
  "is_read e = (case e of ReadProfile _ _ \<Rightarrow> True | _ \<Rightarrow> False)"

lemma is_request_simps [simp]: "is_request (Asked q a)" "\<not> is_request (ReadProfile p r)"
    "\<not> is_request (SavedProfile p c)" "\<not> is_request (SaveFailed p)"
  by (simp_all add: is_request_def)

lemma is_read_simps [simp]: "\<not> is_read (Asked q a)" "is_read (ReadProfile p r)"
    "\<not> is_read (SavedProfile p c)" "\<not> is_read (SaveFailed p)"
  by (simp_all add: is_read_def)

text \<open>The history grew by at most so many requests and readings, and by nothing else.\<close>

definition grew :: "client_history \<Rightarrow> nat \<Rightarrow> nat \<Rightarrow> client_history \<Rightarrow> bool" where
  "grew h requests reads h' \<longleftrightarrow> (\<exists>new. h' = new @ h \<and> length (filter is_request new) \<le> requests
     \<and> length (filter is_read new) \<le> reads \<and> (\<forall>e \<in> set new. is_request e \<or> is_read e))"

lemma grew_refl [simp]: "grew h n r h"
  by (simp add: grew_def)

lemma grew_mono: "grew h n r h' \<Longrightarrow> n \<le> n' \<Longrightarrow> r \<le> r' \<Longrightarrow> grew h n' r' h'"
  by (auto simp: grew_def)

lemma grew_trans: "grew h n r h1 \<Longrightarrow> grew h1 m s h2 \<Longrightarrow> grew h (n + m) (r + s) h2"
  by (auto simp: grew_def intro!: add_mono)

lemma grew_request: "grew h n r h' \<Longrightarrow> grew h (Suc n) r (Asked q a # h')"
  using grew_trans [of h n r h' 1 0 "Asked q a # h'"] by (simp add: grew_def)

section \<open>What the last request was\<close>

definition agent_url :: "client_config \<Rightarrow> string \<Rightarrow> bool" where
  "agent_url cfg url \<longleftrightarrow> url = endpoint (cc_ControlPlaneURL cfg) ''/v1/agents/heartbeat''
     \<or> url = endpoint (cc_ControlPlaneURL cfg) ''/v1/agents/register''"

text \<open>The last request was a heartbeat, or a registration, under this token and was accepted.\<close>

definition accepted :: "client_config \<Rightarrow> string \<Rightarrow> client_history \<Rightarrow> bool" where
  "accepted cfg token h = (case h of
     Asked q (Inr (code, body)) # _ \<Rightarrow> cr_Token q = Some (bearer token)
       \<and> (cr_URL q = endpoint (cc_ControlPlaneURL cfg) ''/v1/agents/heartbeat'' \<and> code = 204
          \<or> cr_URL q = endpoint (cc_ControlPlaneURL cfg) ''/v1/agents/register'' \<and> code = 200)
   | _ \<Rightarrow> False)"

text \<open>The last request was a heartbeat or a registration and was answered with 410.\<close>

definition gone :: "client_config \<Rightarrow> client_history \<Rightarrow> bool" where
  "gone cfg h = (case h of
     Asked q (Inr (code, body)) # _ \<Rightarrow> agent_url cfg (cr_URL q) \<and> code = 410
   | _ \<Rightarrow> False)"

lemma gone_simps [simp]:
  "gone cfg (ReadProfile p r # h) = False" "gone cfg (Asked q (Inl e) # h) = False"
  "gone cfg (Asked q (Inr (code, body)) # h) \<longleftrightarrow> agent_url cfg (cr_URL q) \<and> code = 410"
  by (simp_all add: gone_def)

lemma endpoint_inj [simp]: "endpoint base p = endpoint base q \<longleftrightarrow> p = q"
  by (simp add: endpoint_def)

lemma cr_URL_post [simp]: "cr_URL (post_json url token body) = url" "cr_Token (post_json url token body) = token"
  by (simp_all add: post_json_def)

lemma not_agent_url [simp]:
  "\<not> agent_url cfg (endpoint (cc_ControlPlaneURL cfg) ''/v1/auth/exchange'')"
  "\<not> agent_url cfg (endpoint (cc_ControlPlaneURL cfg) ''/v1/auth/refresh'')"
  by (simp_all add: agent_url_def)

section \<open>The operations the recovery is made of\<close>

lemma gone_iff: "isGoneError (Some e) \<longleftrightarrow> terminatedSessionRuntimeError (Some e) \<noteq> None"
  by (simp add: terminatedSessionRuntimeError_def markControlPlaneErrorSessionTerminated_def
      markControlPlaneErrorNonRetryable_def)

definition session_over :: "go_error \<Rightarrow> bool" where
  "session_over e \<longleftrightarrow> has_permanent e \<and> has_terminated e"

lemma permanent_simps [simp]: "has_permanent (permanent e)" "has_terminated (permanent e) = has_terminated e"
  by (simp_all add: permanent_def)

lemma terminated_over: "terminatedSessionRuntimeError (Some e) = Some f \<Longrightarrow> session_over f"
  by (auto simp: terminatedSessionRuntimeError_def markControlPlaneErrorSessionTerminated_def session_over_def
      markControlPlaneErrorNonRetryable_def split: if_splits)

lemma holds_after_tokens:
  assumes "\<And>x h'. grew h 1 0 h' \<Longrightarrow> \<not> gone cfg h' \<Longrightarrow> Q x h'"
  shows "holds_after (exchangeControlPlaneAuth env cfg) Q h" "holds_after (refreshControlPlaneAuth env cfg token) Q h"
  unfolding exchangeControlPlaneAuth_def refreshControlPlaneAuth_def holds_after_bind holds_after_return
  by (auto simp: holds_after_def gone_def grew_request [of h 0] intro!: assms split: sum.splits prod.splits)

lemma holds_after_reload:
  assumes "\<And>x h'. grew h 0 1 h' \<Longrightarrow> h' = h \<or> \<not> gone cfg h' \<Longrightarrow> Q x h'"
  shows "holds_after (loadUpdatedControlPlaneAuthFromProfile env url path current) Q h"
proof -
  have read: "grew h 0 (Suc 0) (ReadProfile p r # h)" for p r
    by (simp add: grew_def)
  show ?thesis
    unfolding loadUpdatedControlPlaneAuthFromProfile_def loadControlPlaneAuthFromProfile_def loadAuthProfile_def
    by (auto simp: holds_after_def Let_def read intro!: assms)
qed

lemma holds_after_beat:
  assumes "\<And>q a. cr_Token q = Some (bearer token) \<Longrightarrow> cr_URL q = endpoint (cc_ControlPlaneURL cfg) ''/v1/agents/heartbeat''
    \<Longrightarrow> Q (expect_status ''heartbeat'' 204 a) (Asked q a # h)"
  shows "holds_after (heartbeatAgentSession env cfg token sid label) Q h"
  unfolding heartbeatAgentSession_def by (simp add: holds_after_def assms)

lemma holds_after_register:
  assumes "\<And>q a. cr_Token q = Some (bearer token) \<Longrightarrow> cr_URL q = endpoint (cc_ControlPlaneURL cfg) ''/v1/agents/register''
    \<Longrightarrow> Q (expect_status ''register'' 200 a) (Asked q a # h)"
    and "\<And>t. Q (Some (Plain t)) h"
  shows "holds_after (registerAgentSession env cfg token sid label) Q h"
  unfolding registerAgentSession_def by (simp add: holds_after_def assms)

lemma expect_status_None: "expect_status what code a = None \<longleftrightarrow> (\<exists>body. a = Inr (code, body))"
  by (auto simp: expect_status_def split: sum.splits)

lemma expect_status_gone:
  "expect_status what code (Inr (410, body)) = Some e \<Longrightarrow> as_status e = Some 410"
  by (auto simp: expect_status_def split: if_splits)

lemma gone_Cons: "gone cfg (Asked q a # h) \<Longrightarrow> \<exists>body. a = Inr (410, body)"
  by (auto simp: gone_def split: sum.splits)

lemma status_gone: "as_status e = Some 410 \<Longrightarrow> isGoneError (Some e) \<and> \<not> isNotFoundError (Some e)"
  by (simp add: isGoneError_def isNotFoundError_def)

lemma holds_after_heartbeat:
  assumes ok: "\<And>h'. grew h 2 0 h' \<Longrightarrow> accepted cfg token h' \<Longrightarrow> Q None h'"
    and err: "\<And>e h'. grew h 2 0 h' \<Longrightarrow> (gone cfg h' \<Longrightarrow> h' = h \<or> isGoneError (Some e)) \<Longrightarrow> Q (Some e) h'"
  shows "holds_after (heartbeatOrRegisterAgentSession env cfg token sid label) Q h"
proof (cases "TrimSpace sid = []")
  case True
  then show ?thesis using err [of h] by (simp add: heartbeatOrRegisterAgentSession_def)
next
  case False
  have beat: "grew h 2 0 (Asked q a # h)" and reg: "grew h 2 0 (Asked r b # Asked q a # h)" for q a r b
    by (simp_all add: grew_def)
  show ?thesis
    unfolding heartbeatOrRegisterAgentSession_def Let_def if_not_P [OF False] holds_after_bind
  proof (rule holds_after_beat)
    fix q :: client_request and a
    assume q: "cr_Token q = Some (bearer token)" "cr_URL q = endpoint (cc_ControlPlaneURL cfg) ''/v1/agents/heartbeat''"
    have later: "Q (Some (Wrapped p (Plain t) [])) (Asked q a # h)"
      if "expect_status ''heartbeat'' 204 a = Some e" "isNotFoundError (Some e)" for p t e
      using that beat by (intro err) (auto dest!: gone_Cons expect_status_gone status_gone)
    have register: "holds_after (registerAgentSession env cfg token (TrimSpace sid) label)
        (\<lambda>r. Q (map_option (\<lambda>r. Wrapped p r []) r)) (Asked q a # h)"
      if "expect_status ''heartbeat'' 204 a = Some e" "isNotFoundError (Some e)" for p e
    proof (rule holds_after_register)
      fix r :: client_request and b
      assume r: "cr_Token r = Some (bearer token)" "cr_URL r = endpoint (cc_ControlPlaneURL cfg) ''/v1/agents/register''"
      show "Q (map_option (\<lambda>r. Wrapped p r []) (expect_status ''register'' 200 b)) (Asked r b # Asked q a # h)"
      proof (cases "expect_status ''register'' 200 b")
        case None
        then obtain body where "b = Inr (200, body)" by (auto simp: expect_status_None)
        then show ?thesis using r reg None by (simp add: accepted_def ok)
      next
        case (Some f)
        then have "gone cfg (Asked r b # Asked q a # h) \<Longrightarrow> as_status f = Some 410"
          by (auto dest!: gone_Cons expect_status_gone)
        then show ?thesis using Some reg by (auto simp: isGoneError_def intro!: err)
      qed
    qed (use later that in simp)
    show "holds_after (case expect_status ''heartbeat'' 204 a of None \<Rightarrow> State_Monad.return None
        | Some e \<Rightarrow> if \<not> isNotFoundError (Some e) then State_Monad.return (Some e)
            else registerAgentSession env cfg token (TrimSpace sid) label \<bind> (\<lambda>r. State_Monad.return
              (map_option (\<lambda>r. Wrapped ''agent registry entry missing; re-register failed: '' r []) r)))
        Q (Asked q a # h)"
    proof (cases "expect_status ''heartbeat'' 204 a")
      case None
      then obtain body where "a = Inr (204, body)" by (auto simp: expect_status_None)
      then show ?thesis using q beat None by (simp add: accepted_def ok)
    next
      case (Some e)
      have "Q (Some e) (Asked q a # h)"
        using Some beat by (intro err) (auto dest!: gone_Cons expect_status_gone status_gone)
      then show ?thesis using Some register by simp
    qed
  qed
qed

section \<open>The recovery\<close>

text \<open>
  A result is justified when an accepted request stands behind a session that is returned, and an
  error says that the session is over when the last answer did.
\<close>

definition justified ::
  "client_config \<Rightarrow> controlPlaneAuthSession \<Rightarrow> go_error + controlPlaneAuthSession \<times> controlPlaneAuthUpdateMode
   \<Rightarrow> client_history \<Rightarrow> bool"
where
  "justified cfg auth0 x h = (case x of
     Inl e \<Rightarrow> gone cfg h \<longrightarrow> session_over e
   | Inr (auth, mode) \<Rightarrow> accepted cfg (cs_AccessToken auth) h \<and> (mode = controlPlaneAuthUnchanged \<longrightarrow> auth = auth0))"

definition recovers ::
  "client_config \<Rightarrow> controlPlaneAuthSession \<Rightarrow> client_history \<Rightarrow> nat \<Rightarrow> nat
   \<Rightarrow> (go_error + controlPlaneAuthSession \<times> controlPlaneAuthUpdateMode) io \<Rightarrow> client_history \<Rightarrow> bool"
where
  "recovers cfg auth0 h0 N R m h = holds_after m (\<lambda>x h'. justified cfg auth0 x h' \<and> grew h0 N R h') h"

text \<open>Where a recovery stands: what it has spent, and that the last answer was not 410.\<close>

definition at :: "client_config \<Rightarrow> client_history \<Rightarrow> nat \<Rightarrow> nat \<Rightarrow> client_history \<Rightarrow> bool" where
  "at cfg h0 n r h \<longleftrightarrow> grew h0 n r h \<and> \<not> gone cfg h"

lemma at_step: "at cfg h0 n r h \<Longrightarrow> grew h m s h' \<Longrightarrow> \<not> gone cfg h' \<Longrightarrow> at cfg h0 (n + m) (r + s) h'"
  unfolding at_def using grew_trans by blast

lemma recovers_error: "at cfg h0 n r h \<Longrightarrow> n \<le> N \<Longrightarrow> r \<le> R \<Longrightarrow> recovers cfg auth0 h0 N R (State_Monad.return (Inl e)) h"
  by (auto simp: recovers_def at_def justified_def intro: grew_mono)

lemma after_heartbeat_justified:
  assumes "at cfg h0 n r h" and "n + 2 \<le> N" and "r \<le> R" and "mode = controlPlaneAuthUnchanged \<longrightarrow> auth = auth0"
  shows "holds_after (heartbeatOrRegisterAgentSession env cfg (cs_AccessToken auth) sid label)
    (\<lambda>x h'. justified cfg auth0 (after_heartbeat wrap (auth, mode) x) h' \<and> grew h0 N R h') h"
proof (rule holds_after_heartbeat)
  fix h' assume h': "grew h 2 0 h'" "accepted cfg (cs_AccessToken auth) h'"
  show "justified cfg auth0 (after_heartbeat wrap (auth, mode) None) h' \<and> grew h0 N R h'"
    using assms h' grew_trans [of h0 n r h 2 0 h'] grew_mono
    by (auto simp: justified_def after_heartbeat_def at_def)
next
  fix e h' assume h': "grew h 2 0 h'" "gone cfg h' \<Longrightarrow> h' = h \<or> isGoneError (Some e)"
  then have "gone cfg h' \<Longrightarrow> terminatedSessionRuntimeError (Some e) \<noteq> None"
    using assms(1) gone_iff by (auto simp: at_def)
  then show "justified cfg auth0 (after_heartbeat wrap (auth, mode) (Some e)) h' \<and> grew h0 N R h'"
    using assms h'(1) grew_trans [of h0 n r h 2 0 h'] grew_mono
    by (auto simp: justified_def after_heartbeat_def at_def terminated_over split: option.splits)
qed

lemma recovers_heartbeat:
  assumes "at cfg h0 n r h" and "n + 2 \<le> N" and "r \<le> R" and "mode = controlPlaneAuthUnchanged \<longrightarrow> auth = auth0"
  shows "recovers cfg auth0 h0 N R (heartbeatOrRegisterAgentSession env cfg (cs_AccessToken auth) sid label
    \<bind> (\<lambda>e. State_Monad.return (after_heartbeat wrap (auth, mode) e))) h"
  unfolding recovers_def holds_after_bind holds_after_return using assms by (rule after_heartbeat_justified)

text \<open>A heartbeat whose error is looked at before the recovery goes on.\<close>

lemma recovers_after_heartbeat:
  assumes "at cfg h0 n r h" and "n + 2 \<le> N" and "r \<le> R" and "mode = controlPlaneAuthUnchanged \<longrightarrow> auth = auth0"
    and go_on: "\<And>e h'. at cfg h0 (n + 2) r h' \<Longrightarrow> recovers cfg auth0 h0 N R (rest e) h'"
  shows "recovers cfg auth0 h0 N R (heartbeatOrRegisterAgentSession env cfg (cs_AccessToken auth) sid label
    \<bind> (\<lambda>err. case err of None \<Rightarrow> State_Monad.return (Inr (auth, mode))
      | Some e \<Rightarrow> if terminatedSessionRuntimeError (Some e) \<noteq> None \<or> \<not> isUnauthorizedError (Some e)
          then State_Monad.return (after_heartbeat wrap (auth, mode) (Some e)) else rest e)) h"
  unfolding recovers_def holds_after_bind
proof (rule holds_after_heartbeat)
  fix h' assume h': "grew h 2 0 h'" "accepted cfg (cs_AccessToken auth) h'"
  then show "holds_after (case None of None \<Rightarrow> State_Monad.return (Inr (auth, mode))
      | Some e \<Rightarrow> if terminatedSessionRuntimeError (Some e) \<noteq> None \<or> \<not> isUnauthorizedError (Some e)
          then State_Monad.return (after_heartbeat wrap (auth, mode) (Some e)) else rest e)
      (\<lambda>x h'. justified cfg auth0 x h' \<and> grew h0 N R h') h'"
    using assms(1-4) grew_trans [of h0 n r h 2 0 h'] grew_mono by (auto simp: justified_def at_def)
next
  fix e h' assume h': "grew h 2 0 h'" "gone cfg h' \<Longrightarrow> h' = h \<or> isGoneError (Some e)"
  then have over: "gone cfg h' \<Longrightarrow> terminatedSessionRuntimeError (Some e) \<noteq> None"
    using assms(1) gone_iff by (auto simp: at_def)
  have grew: "grew h0 (n + 2) r h'" using assms(1) h'(1) grew_trans [of h0 n r h 2 0 h'] by (simp add: at_def)
  have "justified cfg auth0 (after_heartbeat wrap (auth, mode) (Some e)) h' \<and> grew h0 N R h'"
    using over grew_mono [OF grew assms(2,3)]
    by (auto simp: justified_def after_heartbeat_def terminated_over split: option.splits)
  moreover have "terminatedSessionRuntimeError (Some e) = None \<Longrightarrow> recovers cfg auth0 h0 N R (rest e) h'"
    using over grew by (intro go_on) (auto simp: at_def)
  ultimately show "holds_after (case Some e of None \<Rightarrow> State_Monad.return (Inr (auth, mode))
      | Some e \<Rightarrow> if terminatedSessionRuntimeError (Some e) \<noteq> None \<or> \<not> isUnauthorizedError (Some e)
          then State_Monad.return (after_heartbeat wrap (auth, mode) (Some e)) else rest e)
      (\<lambda>x h'. justified cfg auth0 x h' \<and> grew h0 N R h') h'"
    by (simp add: recovers_def)
qed

lemma recovers_tokens:
  assumes "at cfg h0 n r h" and "\<And>x h'. at cfg h0 (n + 1) r h' \<Longrightarrow> recovers cfg auth0 h0 N R (f x) h'"
  shows "recovers cfg auth0 h0 N R (exchangeControlPlaneAuth env cfg \<bind> f) h"
    and "recovers cfg auth0 h0 N R (refreshControlPlaneAuth env cfg token \<bind> f) h"
  unfolding recovers_def holds_after_bind
  using assms at_step [of cfg h0 n r h 1 0] by (auto intro!: holds_after_tokens simp: recovers_def)

lemma recovers_reload:
  assumes "at cfg h0 n r h" and "\<And>x h'. at cfg h0 n (r + 1) h' \<Longrightarrow> recovers cfg auth0 h0 N R (f x) h'"
  shows "recovers cfg auth0 h0 N R (loadUpdatedControlPlaneAuthFromProfile env url path current \<bind> f) h"
  unfolding recovers_def holds_after_bind
proof (rule holds_after_reload)
  fix x h' assume "grew h 0 1 h'" "h' = h \<or> \<not> gone cfg h'"
  moreover from this assms(1) have "\<not> gone cfg h'" by (auto simp: at_def)
  ultimately have "at cfg h0 n (r + 1) h'" using assms(1) at_step [of cfg h0 n r h 0 1 h'] by simp
  then show "holds_after (f x) (\<lambda>x h'. justified cfg auth0 x h' \<and> grew h0 N R h') h'"
    using assms(2) by (simp add: recovers_def)
qed

lemma recovers_fallback:
  assumes "at cfg h0 n r h" and "n + 3 \<le> N" and "r \<le> R"
  shows "recovers cfg auth0 h0 N R (tryUserKeyFallback env cfg sid label cause) h"
proof (cases "TrimSpace (cc_UserKey cfg) = []")
  case True
  then show ?thesis
    unfolding tryUserKeyFallback_def using assms by (simp add: recovers_error [OF assms(1)])
next
  case False
  show ?thesis
    unfolding tryUserKeyFallback_def if_not_P [OF False]
  proof (rule recovers_tokens(1) [OF assms(1)], goal_cases)
    case (1 x h')
    show ?case
      using assms by (cases x) (simp_all add: recovers_error [OF 1] recovers_heartbeat [OF 1])
  qed
qed

lemma recovers_with_refresh:
  assumes "at cfg h0 n 0 h" and "n + 7 \<le> N" and "1 \<le> R"
  shows "recovers cfg auth0 h0 N R (recover_with_refresh env cfg path sid label auth) h"
  unfolding recover_with_refresh_def
proof (rule recovers_tokens(2) [OF assms(1)], goal_cases)
  case (1 refresh h1)
  show ?case
  proof (cases refresh)
    case (Inr refreshed)
    then show ?thesis using assms(2) by (simp add: recovers_heartbeat [OF 1])
  next
    case (Inl refreshErr)
    show ?thesis
      unfolding Inl sum.case
    proof (rule recovers_reload [OF 1], goal_cases)
      case (1 reload h2)
      note fallback = recovers_fallback [OF 1]
      show ?case
      proof (cases "\<exists>latest. reload = Inr (latest, True)")
        case False
        then show ?thesis
          using fallback assms by (auto split: sum.split)
      next
        case True
        then obtain latest where "reload = Inr (latest, True)" by blast
        moreover have "recovers cfg auth0 h0 N R (if TrimSpace (cs_RefreshToken latest) = []
            then tryUserKeyFallback env cfg sid label refreshErr
            else refreshControlPlaneAuth env cfg (cs_RefreshToken latest) \<bind> (\<lambda>again. case again of
              Inl latestRefreshErr \<Rightarrow> tryUserKeyFallback env cfg sid label latestRefreshErr
            | Inr refreshed \<Rightarrow> heartbeatOrRegisterAgentSession env cfg (cs_AccessToken refreshed) sid label \<bind>
                (\<lambda>hbErr. State_Monad.return (after_heartbeat
                  (\<lambda>e. Wrapped ''heartbeat retry after shared auth refresh failed: '' e [])
                  (refreshed, controlPlaneAuthRefreshed) hbErr)))) h3"
          if at3: "at cfg h0 (n + 1 + 2) (0 + 1) h3" for h3
        proof -
          have "recovers cfg auth0 h0 N R (case again of
              Inl latestRefreshErr \<Rightarrow> tryUserKeyFallback env cfg sid label latestRefreshErr
            | Inr refreshed \<Rightarrow> heartbeatOrRegisterAgentSession env cfg (cs_AccessToken refreshed) sid label \<bind>
                (\<lambda>hbErr. State_Monad.return (after_heartbeat
                  (\<lambda>e. Wrapped ''heartbeat retry after shared auth refresh failed: '' e [])
                  (refreshed, controlPlaneAuthRefreshed) hbErr))) h4"
            if "at cfg h0 (n + 1 + 2 + 1) (0 + 1) h4" for again h4
            using assms by (cases again) (simp_all add: recovers_fallback [OF that] recovers_heartbeat [OF that])
          then show ?thesis
            using assms recovers_fallback [OF at3] recovers_tokens(2) [OF at3] by simp
        qed
        ultimately show ?thesis
          using recovers_after_heartbeat [OF 1, of N R controlPlaneAuthReloaded latest auth0] assms by simp
      qed
    qed
  qed
qed

lemma recovers_without_refresh:
  assumes "at cfg h0 n 0 h" and "n + 3 \<le> N" and "1 \<le> R"
  shows "recovers cfg auth0 h0 N R (recover_without_refresh env cfg path sid label auth err) h"
  unfolding recover_without_refresh_def
proof (rule recovers_reload [OF assms(1)], goal_cases)
  case (1 reload h')
  show ?case
    using assms by (auto simp: recovers_fallback [OF 1] recovers_heartbeat [OF 1] split: sum.split)
qed

lemma recovers_recovery:
  assumes "\<not> gone cfg h"
  shows "recovers cfg auth h 9 1 (heartbeatAgentSessionWithAuthRecovery env cfg path sid label auth) h"
  unfolding heartbeatAgentSessionWithAuthRecovery_def
proof (rule recovers_after_heartbeat [of cfg h 0 0], goal_cases)
  case (5 e h')
  then show ?case by (simp add: recovers_with_refresh recovers_without_refresh)
qed (use assms in \<open>simp_all add: at_def\<close>)

section \<open>Requests with recovery\<close>

definition grants ::
  "(string \<Rightarrow> 'a \<Rightarrow> client_history \<Rightarrow> bool) \<Rightarrow> client_history \<Rightarrow> nat \<Rightarrow> nat
   \<Rightarrow> (go_error + 'a \<times> controlPlaneAuthSession) io \<Rightarrow> client_history \<Rightarrow> bool"
where
  "grants G h0 N R m h = holds_after m (\<lambda>x h'. grew h0 N R h'
     \<and> (\<forall>result auth. x = Inr (result, auth) \<longrightarrow> G (cs_AccessToken auth) result h')) h"

lemma grants_error: "grew h0 n r h \<Longrightarrow> n \<le> N \<Longrightarrow> r \<le> R \<Longrightarrow> grants G h0 N R (State_Monad.return (Inl e)) h"
  by (auto simp: grants_def intro: grew_mono)

lemma grants_tokens:
  assumes "grew h0 n r h" and "\<And>x h'. grew h0 (n + 1) r h' \<Longrightarrow> grants G h0 N R (f x) h'"
  shows "grants G h0 N R (refreshControlPlaneAuth env cfg token \<bind> f) h"
  unfolding grants_def holds_after_bind
  using assms grew_trans [of h0 n r h 1 0] by (auto intro!: holds_after_tokens [where cfg = cfg] simp: grants_def)

lemma grants_reload:
  assumes "grew h0 n r h" and "\<And>x h'. grew h0 n (r + 1) h' \<Longrightarrow> grants G h0 N R (f x) h'"
  shows "grants G h0 N R (loadUpdatedControlPlaneAuthFromProfile env url path current \<bind> f) h"
  unfolding grants_def holds_after_bind
  using assms grew_trans [of h0 n r h 0 1] by (auto intro!: holds_after_reload [where cfg = undefined] simp: grants_def)

text \<open>
  The contract of a request that \<open>with_recovery\<close> makes with a token: it makes one request and no
  read, and when it succeeds its history grants the result to the token. It is what the recovery
  relies on: with whatever tokens it ends, its result was granted to them.
\<close>

locale authorised_request =
  fixes request :: "string \<Rightarrow> (go_error + 'a) io"
    and granted :: "string \<Rightarrow> 'a \<Rightarrow> client_history \<Rightarrow> bool"
  assumes answered: "holds_after (request token)
    (\<lambda>x h'. grew h 1 0 h' \<and> (\<forall>result. x = Inr result \<longrightarrow> granted token result h')) h"
begin

lemma grants_request:
  assumes "grew h0 n r h"
    and "\<And>x h'. grew h0 (n + 1) r h' \<Longrightarrow> \<forall>result. x = Inr result \<longrightarrow> granted token result h' \<Longrightarrow> grants granted h0 N R (f x) h'"
  shows "grants granted h0 N R (request token \<bind> f) h"
  unfolding grants_def holds_after_bind
  by (rule holds_after_mono [OF answered])
     (use assms grew_trans [of h0 n r h 1 0] in \<open>auto simp: grants_def\<close>)

lemma grants_last:
  assumes "grew h0 n r h" and "n + 1 \<le> N" and "r \<le> R"
  shows "grants granted h0 N R (request (cs_AccessToken auth)
    \<bind> (\<lambda>x. State_Monad.return (case x of Inl e \<Rightarrow> Inl e | Inr result \<Rightarrow> Inr (result, auth)))) h"
  using assms(2,3)
  by (intro grants_request [OF assms(1)]) (auto simp: grants_def intro: grew_mono split: sum.splits)

lemma grants_after_reload:
  assumes three: "grew h (0 + 1 + 1) (0 + 1) h3"
  shows "grants granted h 5 1 (case reload of
      Inl loadErr \<Rightarrow> State_Monad.return (Inl (e1 loadErr))
    | Inr (latestAuth, changed) \<Rightarrow>
        if \<not> changed then State_Monad.return (Inl e2)
        else request (cs_AccessToken latestAuth) \<bind> (\<lambda>retry. case retry of
            Inr result \<Rightarrow> State_Monad.return (Inr (result, latestAuth))
          | Inl retryErr \<Rightarrow>
              if \<not> isUnauthorizedError (Some retryErr) \<or> TrimSpace (cs_RefreshToken latestAuth) = []
              then State_Monad.return (Inl retryErr)
              else refreshControlPlaneAuth env cfg (cs_RefreshToken latestAuth) \<bind> (\<lambda>again. case again of
                  Inl latestRefreshErr \<Rightarrow> State_Monad.return (Inl (e3 retryErr latestRefreshErr))
                | Inr refreshed \<Rightarrow> request (cs_AccessToken refreshed) \<bind> (\<lambda>final. State_Monad.return
                    (case final of Inl e \<Rightarrow> Inl e | Inr result \<Rightarrow> Inr (result, refreshed)))))) h3"
proof (cases "\<exists>latest. reload = Inr (latest, True)")
  case False
  then show ?thesis using grants_error [OF three, of 5 1] by (auto split: sum.split)
next
  case True
  then obtain latest where latest: "reload = Inr (latest, True)" by blast
  show ?thesis
    unfolding latest sum.case prod.case not_True_eq_False if_False
  proof (rule grants_request [OF three], goal_cases)
    case (1 retry h4)
    note four = 1
    show ?case
    proof (cases retry)
      case (Inr result)
      then show ?thesis using four grew_mono [OF four(1), of 5 1] by (simp add: grants_def)
    next
      case (Inl retryErr)
      show ?thesis
        unfolding Inl sum.case
      proof (split if_split, intro conjI impI, goal_cases)
        case 1
        show ?case by (rule grants_error [OF four(1)]) simp_all
      next
        case 2
        show ?case
        proof (rule grants_tokens [OF four(1)], goal_cases)
          case (1 again h5)
          then show ?case
            using grants_error [OF 1, of 5 1] grants_last [OF 1, of 5 1] by (cases again) simp_all
        qed
      qed
    qed
  qed
qed

lemma grants_with_recovery:
  "grants granted h 5 1 (with_recovery what request env cfg auth path) h"
  unfolding with_recovery_def
proof (rule grants_request [OF grew_refl [of h 0 0]], goal_cases)
  case (1 x h1)
  note one = 1
  show ?case
  proof (cases x)
    case (Inr result)
    then show ?thesis using one grew_mono [OF one(1), of 5 1] by (simp add: grants_def)
  next
    case (Inl err)
    show ?thesis
      unfolding Inl sum.case
    proof (split if_split, intro conjI impI, goal_cases)
      case 1
      show ?case by (rule grants_error [OF one(1)]) simp_all
    next
      case 2
      show ?case
      proof (rule grants_tokens [OF one(1)], goal_cases)
        case (1 refresh h2)
        note two = 1
        show ?case
        proof (cases refresh)
          case (Inr refreshed)
          then show ?thesis using grants_last [OF two, of 5 1] by simp
        next
          case (Inl refreshErr)
          show ?thesis
            unfolding Inl sum.case
          proof (rule grants_reload [OF two], goal_cases)
            case (1 reload h3)
            then show ?case by (rule grants_after_reload)
          qed
        qed
      qed
    qed
  qed
qed

lemma recovered:
  assumes "run_state (with_recovery what request env cfg auth path) h = (Inr (result, auth'), h')"
  shows "grew h 5 1 h' \<and> granted (cs_AccessToken auth') result h'"
  using grants_with_recovery [of h what env cfg auth path] assms holds_after_run unfolding grants_def by fast

end

end
