(* ===== verification/Go_Ascii.thy ===== *)
theory Go_Ascii
  imports Go_Json Go_Time Http_Server
begin

text \<open>Texts in ASCII, which JSON carries unchanged, and the bodies of responses that hold them.\<close>

lemma ascii_append [simp]: "ascii (a @ b) \<longleftrightarrow> ascii a \<and> ascii b"
  by (auto simp: ascii_def)

lemma ascii_Cons [simp]: "ascii (c # s) \<longleftrightarrow> ord c < 128 \<and> ascii s"
  by (auto simp: ascii_def)

lemma ascii_Nil [simp]: "ascii []"
  by (simp add: ascii_def)

lemma ascii_pad: "ascii (pad w n)"
proof -
  have "ord c < 128" if "c \<in> set (nat_digits k)" for c k
    using nat_digits_all_digits [OF that] by (auto simp: is_digit_def)
  then show ?thesis by (auto simp: pad_def ascii_def Let_def ord_def)
qed

lemma ascii_Format: "ascii (Format_RFC3339 t)"
  by (simp add: Format_RFC3339_def Let_def ascii_pad ord_def split: prod.split)

text \<open>The body of a response ends in a newline, which the decoder of the client does not mind.\<close>

lemma Decode_line: "printable max_depth v \<Longrightarrow> json_Decode (print_json v @ newline) = Some v"
  using parse_print(1) [of max_depth v newline "2 * length (print_json v @ newline) + 2"]
  by (simp add: json_Decode_def number_end_def newline_def is_digit_def ord_def)

end
