(* ===== verification/Client_Session.thy ===== *)
theory Client_Session
  imports Client_Auth_Facts Go_Ascii
begin

text \<open>
  The properties of a client's session with the control plane: the recovery of its authorisation,
  what a failed recovery forgets, the check before a session starts, and the profile on disk.
\<close>

section \<open>A server for examples\<close>

text \<open>
  A server that is there again after one moment: the access token \<open>a1\<close> has expired, the refresh token
  is good for one refresh, and the first heartbeat after it is answered with 503.
\<close>

definition renewed :: RefreshAuthResponse where
  "renewed = \<lparr>fr_AccessToken = ''a2'', fr_AccessTokenExpiresAt = [], fr_RefreshToken = ''r2'', fr_RefreshTokenExpiresAt = []\<rparr>"

definition renewed_body :: string where
  "renewed_body = print_json (RefreshAuthResponse_json renewed)"

definition asks :: "string \<Rightarrow> client_effect \<Rightarrow> bool" where
  "asks url e = (case e of Asked q _ \<Rightarrow> cr_URL q = url | _ \<Rightarrow> False)"

definition flaky_http :: "client_history \<Rightarrow> client_request \<Rightarrow> string + int \<times> string" where
  "flaky_http h q =
     (if cr_URL q = ''https://c/v1/auth/refresh'' then
        (if list_ex (asks ''https://c/v1/auth/refresh'') h then Inr (401, ''unauthorized'')
         else Inr (200, renewed_body))
      else if cr_Token q = Some ''Bearer a2'' then
        (if length h < 3 then Inr (503, ''overloaded'') else Inr (204, []))
      else Inr (401, ''unauthorized''))"

definition flaky :: environment where
  "flaky = \<lparr>env_http = flaky_http, env_read = (\<lambda>h p. Inl ''no such file''), env_save = (\<lambda>h p. []),
     env_now = (\<lambda>h. 0), env_json_error = (\<lambda>s. ''bad JSON'')\<rparr>"

definition flaky_config :: client_config where
  "flaky_config = \<lparr>cc_ControlPlaneURL = ''https://c'', cc_AuthProfilePath = [], cc_Shell = [],
     cc_AnswerTimeout = 0, cc_UserKey = [], cc_HUD = True\<rparr>"

definition expired_session :: controlPlaneAuthSession where
  "expired_session = no_tokens\<lparr>cs_AccessToken := ''a1'', cs_RefreshToken := ''r1''\<rparr>"

definition flaky_heartbeat :: agentRegistryHeartbeat where
  "flaky_heartbeat = newAgentRegistryHeartbeat flaky_config [] ''s'' expired_session"

lemma flaky_sel [simp]:
  "env_http flaky = flaky_http" "env_read flaky h p = Inl ''no such file''" "env_json_error flaky b = ''bad JSON''"
  by (simp_all add: flaky_def)

lemma flaky_config_sel [simp]:
  "cc_ControlPlaneURL flaky_config = ''https://c''" "cc_UserKey flaky_config = []"
  by (simp_all add: flaky_config_def)

lemma flaky_trim [simp]: "TrimSpace ''a1'' = ''a1''" "TrimSpace ''r1'' = ''r1''" "TrimSpace ''a2'' = ''a2''"
    "TrimSpace ''r2'' = ''r2''" "TrimSpace ''s'' = ''s''"
    "TrimSpace ''unauthorized'' = ''unauthorized''" "TrimSpace ''overloaded'' = ''overloaded''"
  by code_simp+

lemma flaky_urls [simp]:
  "endpoint ''https://c'' ''/v1/auth/refresh'' = ''https://c/v1/auth/refresh''"
  "endpoint ''https://c'' ''/v1/agents/heartbeat'' = ''https://c/v1/agents/heartbeat''"
  by code_simp+

lemma flaky_heartbeat_sel [simp]:
  "hb_cfg flaky_heartbeat = flaky_config" "hb_profilePath flaky_heartbeat = []" "hb_sessionID flaky_heartbeat = ''s''"
  "hb_accessToken flaky_heartbeat = ''a1''" "hb_refreshToken flaky_heartbeat = ''r1''"
  by (simp_all add: flaky_heartbeat_def newAgentRegistryHeartbeat_def expired_session_def no_tokens_def)

lemma renewed_decodes: "decoded flaky decode_RefreshAuthResponse renewed_body = Inr renewed"
proof -
  have "printable max_depth (RefreshAuthResponse_json renewed)"
    by (simp add: RefreshAuthResponse_json_def renewed_def max_depth_def ascii_def ord_def)
  then show ?thesis
    by (simp add: decoded_def renewed_body_def Decode_print decode_RefreshAuthResponse_json)
qed

definition renewed_session :: controlPlaneAuthSession where
  "renewed_session = no_tokens\<lparr>cs_AccessToken := ''a2'', cs_RefreshToken := ''r2''\<rparr>"

definition beat :: "string \<Rightarrow> client_request" where
  "beat token = post_json ''https://c/v1/agents/heartbeat'' (Some (''Bearer '' @ token))
     (AgentHeartbeatRequest_json \<lparr>hq_SessionID = ''s'', hq_AgentLabel = ''box''\<rparr>)"

definition refresh_request :: client_request where
  "refresh_request = post_json ''https://c/v1/auth/refresh'' None (RefreshAuthRequest_json \<lparr>fq_RefreshToken = ''r1''\<rparr>)"

lemma box_label [simp]: "normalizeAgentLabel ''box'' = ''box''"
  by code_simp

lemma flaky_beat:
  "run_state (heartbeatOrRegisterAgentSession flaky flaky_config token ''s'' ''box'') h =
     (expect_status ''heartbeat'' 204 (flaky_http h (beat (TrimSpace token))), Asked (beat (TrimSpace token)) (flaky_http h (beat (TrimSpace token))) # h)"
  if "\<not> isNotFoundError (expect_status ''heartbeat'' 204 (flaky_http h (beat (TrimSpace token))))"
  using that
  by (cases "expect_status ''heartbeat'' 204 (flaky_http h (beat (TrimSpace token)))")
     (simp_all add: heartbeatOrRegisterAgentSession_def heartbeatAgentSession_def beat_def bearer_def Let_def)

lemma flaky_refresh:
  "run_state (refreshControlPlaneAuth flaky flaky_config ''r1'') h =
     (if list_ex (asks ''https://c/v1/auth/refresh'') h
      then (Inl (status_text ''control plane refresh'' 401 ''unauthorized''), Asked refresh_request (Inr (401, ''unauthorized'')) # h)
      else (Inr renewed_session, Asked refresh_request (Inr (200, renewed_body)) # h))"
  using renewed_decodes
  by (simp add: refreshControlPlaneAuth_def refresh_request_def flaky_http_def renewed_def renewed_session_def
      trimmed_session_def no_tokens_def post_json_def)

lemma flaky_answers [simp]:
  "flaky_http h (beat token) =
     (if token = ''a2'' then (if length h < 3 then Inr (503, ''overloaded'') else Inr (204, []))
      else Inr (401, ''unauthorized''))"
  "asks ''https://c/v1/auth/refresh'' (Asked (beat token) a) = False"
  "asks ''https://c/v1/auth/refresh'' (Asked refresh_request a) = True"
  by (simp_all add: flaky_http_def beat_def asks_def refresh_request_def)

lemma flaky_errors [simp]:
  "isNotFoundError None = False" "isNotFoundError (Some (StatusError op code body)) \<longleftrightarrow> code = 404"
  "isUnauthorizedError (Some (StatusError op code body)) \<longleftrightarrow> code = 401"
  "code \<noteq> 410 \<Longrightarrow> terminatedSessionRuntimeError (Some (StatusError op code body)) = None"
  by (simp_all add: isNotFoundError_def isUnauthorizedError_def terminatedSessionRuntimeError_def isGoneError_def
      markControlPlaneErrorSessionTerminated_def markControlPlaneErrorNonRetryable_def)

lemma flaky_beats:
  "token \<noteq> ''a2'' \<Longrightarrow> TrimSpace token = token \<Longrightarrow>
     run_state (heartbeatOrRegisterAgentSession flaky flaky_config token ''s'' ''box'') h =
       (Some (StatusError ''heartbeat'' 401 ''unauthorized''), Asked (beat token) (Inr (401, ''unauthorized'')) # h)"
  "length h < 3 \<Longrightarrow>
     run_state (heartbeatOrRegisterAgentSession flaky flaky_config ''a2'' ''s'' ''box'') h =
       (Some (StatusError ''heartbeat'' 503 ''overloaded''), Asked (beat ''a2'') (Inr (503, ''overloaded'')) # h)"
  "\<not> length h < 3 \<Longrightarrow>
     run_state (heartbeatOrRegisterAgentSession flaky flaky_config ''a2'' ''s'' ''box'') h =
       (None, Asked (beat ''a2'') (Inr (204, [])) # h)"
  using flaky_beat [of h token] flaky_beat [of h "''a2''"] by (simp_all add: expect_status_def)

lemma expired_sel [simp]: "cs_AccessToken expired_session = ''a1''" "cs_RefreshToken expired_session = ''r1''"
    "cs_AccessToken renewed_session = ''a2''" "cs_RefreshToken renewed_session = ''r2''"
  by (simp_all add: expired_session_def renewed_session_def no_tokens_def)

definition first_history :: client_history where
  "first_history = [Asked (beat ''a2'') (Inr (503, ''overloaded'')), Asked refresh_request (Inr (200, renewed_body)),
     Asked (beat ''a1'') (Inr (401, ''unauthorized''))]"

lemma flaky_first:
  "run_state (heartbeatAgentSessionWithAuthRecovery flaky flaky_config [] ''s'' ''box'' expired_session) [] =
     (Inl (Wrapped ''heartbeat retry after refresh failed: '' (StatusError ''heartbeat'' 503 ''overloaded'') []), first_history)"
  by (simp add: heartbeatAgentSessionWithAuthRecovery_def recover_with_refresh_def flaky_beats flaky_refresh
      after_heartbeat_def first_history_def)

lemma flaky_second:
  "\<exists>e h. run_state (heartbeatAgentSessionWithAuthRecovery flaky flaky_config [] ''s'' ''box'' expired_session) first_history =
     (Inl e, h @ first_history) \<and> has_permanent e \<and> length (h @ first_history) = 5"
  by (simp add: heartbeatAgentSessionWithAuthRecovery_def recover_with_refresh_def flaky_beats flaky_refresh
      loadUpdatedControlPlaneAuthFromProfile_def tryUserKeyFallback_def first_history_def)

lemma flaky_auth: "heartbeat_currentAuth flaky_heartbeat = expired_session"
  by (simp add: heartbeat_currentAuth_def expired_session_def no_tokens_def)

text \<open>
  C18: The recovery of a heartbeat makes at most nine requests and reads the profile at most once. A
  session it returns is one whose token the control plane has accepted in its last answer, and it
  returns the session it was given unless it says otherwise.
\<close>
theorem heartbeat_recovery_sound:
  assumes "\<not> gone cfg h"
    and "run_state (heartbeatAgentSessionWithAuthRecovery env cfg profilePath sessionID label auth) h = (outcome, h')"
  shows "\<exists>new. h' = new @ h \<and> length (filter is_request new) \<le> 9 \<and> length (filter is_read new) \<le> 1
    \<and> (case outcome of
         Inl e \<Rightarrow> gone cfg h' \<longrightarrow> isSessionTerminatedError (Some e) \<and> isNonRetryableControlPlaneError (Some e)
       | Inr (auth', mode) \<Rightarrow> accepted cfg (cs_AccessToken auth') h'
           \<and> (mode = controlPlaneAuthUnchanged \<longrightarrow> auth' = auth))"
proof -
  have "justified cfg auth outcome h' \<and> grew h 9 1 h'"
    using recovers_recovery [OF assms(1)] assms(2) unfolding recovers_def by (rule holds_after_run)
  then show ?thesis
    by (auto simp: justified_def grew_def session_over_def isSessionTerminatedError_def
        isNonRetryableControlPlaneError_def split: sum.splits)
qed


theorem heartbeat_recovery_sound_witness:
  "\<exists>new. first_history = new @ [] \<and> length (filter is_request new) \<le> 9 \<and> length (filter is_read new) \<le> 1"
proof -
  have "\<not> gone flaky_config []" by (simp add: gone_def)
  from heartbeat_recovery_sound [OF this flaky_first] show ?thesis by blast
qed

text \<open>
  C19: A refresh is lost when the heartbeat after it fails for a moment. The server has issued new
  tokens and answers the retried heartbeat with 503; the client reports an ordinary connection
  error and keeps the old tokens, in memory and on disk. Its next round refreshes with the token
  that is spent and ends the session for good, although a heartbeat under the new access token
  would be accepted.
\<close>
theorem refreshed_tokens_lost:
  "case run_state (heartbeat_run flaky [''box'', ''box''] flaky_heartbeat) [] of ((hb, fatal), h) \<Rightarrow>
     fatal \<noteq> None \<and> hb = flaky_heartbeat \<and> Asked refresh_request (Inr (200, renewed_body)) \<in> set h
     \<and> fst (run_state (heartbeatOrRegisterAgentSession flaky flaky_config ''a2'' ''s'' ''box'') h) = None"
proof -
  obtain e h where e: "run_state (heartbeatAgentSessionWithAuthRecovery flaky flaky_config [] ''s'' ''box'' expired_session)
      first_history = (Inl e, h @ first_history)" "has_permanent e" "length (h @ first_history) = 5"
    using flaky_second by blast
  have "isNonRetryableControlPlaneError (Some (Wrapped p (StatusError op code body) q)) = False" for p op code body q
    by (simp add: isNonRetryableControlPlaneError_def)
  then have "run_state (heartbeat_run flaky [''box'', ''box''] flaky_heartbeat) [] = ((flaky_heartbeat, Some e), h @ first_history)"
    using e(1,2) flaky_first by (simp add: heartbeat_round_def flaky_auth isNonRetryableControlPlaneError_def)
  then show ?thesis
    using flaky_beats(3) [of "h @ first_history"] e(3) by (simp add: first_history_def)
qed

section \<open>The check before a session starts\<close>

text \<open>The last answer is a status the control plane gave to this token.\<close>

definition status_granted ::
  "environment \<Rightarrow> client_config \<Rightarrow> string \<Rightarrow> SessionStatusResponse \<Rightarrow> client_history \<Rightarrow> bool"
where
  "status_granted env cfg token status h \<longleftrightarrow> (\<exists>q body rest. h = Asked q (Inr (200, body)) # rest
     \<and> cr_URL q = endpoint (cc_ControlPlaneURL cfg) ''/v1/status'' \<and> cr_Token q = Some (bearer token)
     \<and> decoded env decode_SessionStatusResponse body = Inr status \<and> 0 \<le> ss_ActiveSessions status)"

text \<open>The last answer confirms, to this token, how many sessions were terminated.\<close>

definition termination_granted ::
  "environment \<Rightarrow> client_config \<Rightarrow> string \<Rightarrow> AgentTerminateAllResponse \<Rightarrow> client_history \<Rightarrow> bool"
where
  "termination_granted env cfg token result h \<longleftrightarrow> (\<exists>q body rest. h = Asked q (Inr (200, body)) # rest
     \<and> cr_URL q = endpoint (cc_ControlPlaneURL cfg) ''/v1/agents/terminate-all'' \<and> cr_Token q = Some (bearer token)
     \<and> decoded env decode_AgentTerminateAllResponse body = Inr result \<and> 0 \<le> tr_TerminatedSessions result)"

interpretation session_status: authorised_request "requestSessionStatus env cfg" "status_granted env cfg" for env cfg
  by unfold_locales
     (auto simp: requestSessionStatus_def holds_after_def grew_def status_granted_def split: sum.splits if_splits)

interpretation terminate_all: authorised_request "requestTerminateAllAgents env cfg" "termination_granted env cfg" for env cfg
  by unfold_locales
     (auto simp: requestTerminateAllAgents_def holds_after_def grew_def termination_granted_def split: sum.splits if_splits)

lemma save_only_writes:
  "run_state (saveAuthProfile env path p) h = (e, h')
   \<Longrightarrow> \<exists>post. h' = post @ h \<and> length post \<le> 1 \<and> (\<forall>x \<in> set post. \<not> is_request x \<and> \<not> is_read x)
     \<and> (TrimSpace path \<noteq> [] \<longrightarrow> post \<noteq> [])"
  by (auto simp: saveAuthProfile_def write_profile_def Let_def split: if_splits option.splits prod.splits)

lemma persist_only_writes:
  "run_state (persistControlPlaneAuthUpdate env path url a b) h = (e, h')
   \<Longrightarrow> \<exists>post. h' = post @ h \<and> length post \<le> 1 \<and> (\<forall>x \<in> set post. \<not> is_request x \<and> \<not> is_read x)
     \<and> (TrimSpace path \<noteq> [] \<and> \<not> sameControlPlaneAuthSession a b \<longrightarrow> post \<noteq> [])"
  using save_only_writes [of env path]
  by (auto simp: persistControlPlaneAuthUpdate_def split: if_splits)

text \<open>
  A status that is obtained, saved with its tokens and found valid was granted to these tokens, and
  the check took at most five requests.
\<close>

lemma preflight_steps:
  assumes "run_state (requestSessionStatusWithAuthSession env cfg auth profilePath) h = (Inr (status, auth'), h1)"
    and "run_state (persistControlPlaneAuthUpdate env profilePath (cc_ControlPlaneURL cfg) auth auth') h1 = (e, h')"
    and "validateControlPlanePreflightStatus status = None"
  shows "\<exists>pre post. h' = post @ pre @ h \<and> length (filter is_request (post @ pre)) \<le> 5
    \<and> status_granted env cfg (cs_AccessToken auth') status (pre @ h)
    \<and> ss_ActiveSessions status < ss_MaxSessions status
    \<and> ToLower (TrimSpace (ss_SubscriptionStatus status)) \<in> {[], ''active'', ''grace''}
    \<and> (TrimSpace profilePath \<noteq> [] \<and> \<not> sameControlPlaneAuthSession auth auth' \<longrightarrow> post \<noteq> [])"
proof -
  have "grew h 5 1 h1 \<and> status_granted env cfg (cs_AccessToken auth') status h1"
    using assms(1) unfolding requestSessionStatusWithAuthSession_def by (rule session_status.recovered)
  then obtain pre where pre: "h1 = pre @ h" "length (filter is_request pre) \<le> 5"
      "status_granted env cfg (cs_AccessToken auth') status (pre @ h)"
    by (auto simp: grew_def)
  obtain post where "h' = post @ h1" "\<forall>x \<in> set post. \<not> is_request x"
      "TrimSpace profilePath \<noteq> [] \<and> \<not> sameControlPlaneAuthSession auth auth' \<longrightarrow> post \<noteq> []"
    using persist_only_writes [OF assms(2)] by metis
  moreover from this(2) have "filter is_request post = []" by simp
  ultimately show ?thesis
    using pre assms(3)
    by (intro exI [of _ pre] exI [of _ post])
       (auto simp: validateControlPlanePreflightStatus_def sessionStatusAllowsRelay_def Let_def split: if_splits)
qed

text \<open>The function that makes these steps is exercised by the program's tests only.\<close>

lemma preflight_sound:
  assumes "run_state (ensureControlPlanePreflight env cfg auth profilePath) h = (Inr (status, auth'), h')"
  shows "\<exists>pre post. h' = post @ pre @ h \<and> length (filter is_request (post @ pre)) \<le> 5
    \<and> status_granted env cfg (cs_AccessToken auth') status (pre @ h)
    \<and> ss_ActiveSessions status < ss_MaxSessions status
    \<and> ToLower (TrimSpace (ss_SubscriptionStatus status)) \<in> {[], ''active'', ''grace''}
    \<and> (TrimSpace profilePath \<noteq> [] \<and> \<not> sameControlPlaneAuthSession auth auth' \<longrightarrow> post \<noteq> [])"
proof -
  obtain h1 e where steps: "run_state (requestSessionStatusWithAuthSession env cfg auth profilePath) h = (Inr (status, auth'), h1)"
      "run_state (persistControlPlaneAuthUpdate env profilePath (cc_ControlPlaneURL cfg) auth auth') h1 = (e, h')"
      "validateControlPlanePreflightStatus status = None"
    using assms by (auto simp: ensureControlPlanePreflight_def split: sum.splits prod.splits option.splits)
  show ?thesis by (rule preflight_steps [OF steps])
qed

section \<open>The profile\<close>

definition ascii_session :: "controlPlaneAuthSession \<Rightarrow> bool" where
  "ascii_session a \<longleftrightarrow> ascii (cs_AccessToken a) \<and> ascii (cs_AccessTokenExpiresAt a)
     \<and> ascii (cs_RefreshToken a) \<and> ascii (cs_RefreshTokenExpiresAt a)"

lemma authProfile_names:
  "field_of authProfile_fields ''control_plane_url'' = Some ''control_plane_url''"
  "field_of authProfile_fields ''access_token'' = Some ''access_token''"
  "field_of authProfile_fields ''access_token_expires_at'' = Some ''access_token_expires_at''"
  "field_of authProfile_fields ''refresh_token'' = Some ''refresh_token''"
  "field_of authProfile_fields ''refresh_token_expires_at'' = Some ''refresh_token_expires_at''"
  "field_of authProfile_fields ''updated_at'' = Some ''updated_at''"
  by code_simp+

lemma decode_authProfile_json: "decode_authProfile strict (authProfile_json p) = Some p"
  by (cases p) (simp add: decode_authProfile_def authProfile_json_def decode_struct_JObj authProfile_put_def
      authProfile_zero_def authProfile_names split: if_split option.split)

lemma profile_content_read:
  assumes "ascii url" and "ascii_session a"
  shows "Option.bind (json_Unmarshal (indent_json 0 (authProfile_json (profile_of url a t)) @ newline))
    (decode_authProfile False) = Some (profile_of url a t)"
proof -
  have "printable max_depth (authProfile_json (profile_of url a t))"
    using assms by (simp add: authProfile_json_def profile_of_def ascii_session_def ascii_Format max_depth_def ord_def)
  then show ?thesis by (simp add: Unmarshal_indent decode_authProfile_json)
qed

text \<open>
  Tokens that are saved are the tokens that are loaded again for the same control plane, when
  the file system gives back what was written. Tokens and URLs are ASCII.
\<close>
theorem profile_round_trip:
  assumes "run_state (persistControlPlaneAuthUpdate env path url previous auth) h = (None, h1)"
    and "TrimSpace path \<noteq> []" and "\<not> sameControlPlaneAuthSession previous auth"
    and "\<forall>content. env_read env (SavedProfile (TrimSpace path) content # h) (TrimSpace path) = Inr content"
    and "ascii url" and "ascii_session auth"
    and "TrimSpace (cs_AccessToken auth) \<noteq> []" and "TrimSpace (cs_RefreshToken auth) \<noteq> []"
  shows "\<exists>loaded. fst (run_state (loadControlPlaneAuthFromProfile env url path) h1) = Inr loaded
    \<and> sameControlPlaneAuthSession loaded auth"
proof -
  have saved: "h1 = SavedProfile (TrimSpace path)
      (indent_json 0 (authProfile_json (profile_of url auth (env_now env h))) @ newline) # h"
    using assms(1-3)
    by (auto simp: persistControlPlaneAuthUpdate_def saveAuthProfile_def write_profile_def Let_def
        split: option.splits)
  have "fst (run_state (loadAuthProfile env path) h1) = Inr (profile_of url auth (env_now env h))"
    using assms(2,4) profile_content_read [OF assms(5,6)] by (simp add: loadAuthProfile_def saved)
  then show ?thesis
    using assms(7,8)
    by (auto simp: loadControlPlaneAuthFromProfile_def profile_of_def trimmed_session_def
        sameControlPlaneAuthSession_def Let_def split: prod.splits)
qed

section \<open>Instances\<close>

definition two_allowed :: SessionStatusResponse where
  "two_allowed = SessionStatusResponse_zero\<lparr>ss_ActiveSessions := 1, ss_MaxSessions := 2, ss_SubscriptionStatus := ''Active''\<rparr>"

definition two_allowed_body :: string where
  "two_allowed_body = print_json (SessionStatusResponse_json two_allowed)"

text \<open>A server that answers every request with this status, and a disk that keeps what is written.\<close>

fun last_saved :: "client_history \<Rightarrow> string \<Rightarrow> string + string" where
  "last_saved [] path = Inl ''no such file''"
| "last_saved (SavedProfile p content # h) path = (if p = path then Inr content else last_saved h path)"
| "last_saved (e # h) path = last_saved h path"

definition calm :: environment where
  "calm = \<lparr>env_http = (\<lambda>h q. Inr (200, two_allowed_body)), env_read = last_saved, env_save = (\<lambda>h p. []),
     env_now = (\<lambda>h. 0), env_json_error = (\<lambda>s. ''bad JSON'')\<rparr>"

lemma calm_sel [simp]: "env_http calm h q = Inr (200, two_allowed_body)" "env_read calm = last_saved" "env_save calm h p = []"
  by (simp_all add: calm_def)

lemma two_allowed_sel [simp]: "ss_ActiveSessions two_allowed = 1" "ss_MaxSessions two_allowed = 2"
    "ss_SubscriptionStatus two_allowed = ''Active''"
  by (simp_all add: two_allowed_def)

lemma two_allowed_decodes: "decoded calm decode_SessionStatusResponse two_allowed_body = Inr two_allowed"
proof -
  have "printable max_depth (SessionStatusResponse_json two_allowed)"
    by (auto simp: SessionStatusResponse_json_def two_allowed_def SessionStatusResponse_zero_def max_depth_def ord_def)
  moreover have "decode_SessionStatusResponse False (SessionStatusResponse_json two_allowed) = Some two_allowed"
    by (rule decode_SessionStatusResponse_json) (simp_all add: in_int64_def min_int64_def max_int64_def)
  ultimately show ?thesis
    by (simp add: decoded_def two_allowed_body_def Decode_print)
qed

theorem profile_round_trip_witness:
  "\<exists>loaded h. run_state (persistControlPlaneAuthUpdate calm ''/p'' ''https://c'' expired_session renewed_session) [] = (None, h)
     \<and> fst (run_state (loadControlPlaneAuthFromProfile calm ''https://c'' ''/p'') h) = Inr loaded
     \<and> sameControlPlaneAuthSession loaded renewed_session"
proof -
  have trim: "TrimSpace ''/p'' = ''/p''" by code_simp
  have other: "\<not> sameControlPlaneAuthSession expired_session renewed_session"
    by (simp add: sameControlPlaneAuthSession_def)
  obtain h where h: "run_state (persistControlPlaneAuthUpdate calm ''/p'' ''https://c'' expired_session renewed_session) [] = (None, h)"
    using other by (simp add: persistControlPlaneAuthUpdate_def saveAuthProfile_def write_profile_def trim)
  moreover have "\<exists>loaded. fst (run_state (loadControlPlaneAuthFromProfile calm ''https://c'' ''/p'') h) = Inr loaded
      \<and> sameControlPlaneAuthSession loaded renewed_session"
    by (rule profile_round_trip [OF h])
      (use other in \<open>simp_all add: trim ascii_session_def renewed_session_def no_tokens_def ord_def\<close>)
  ultimately show ?thesis by blast
qed

end
