(* ===== verification/Client_Connect.thy ===== *)
theory Client_Connect
  imports Client_Auth Go_Net
begin

text \<open>
  How an agent asks the control plane for a place to meet its viewer
  (\<^verbatim>\<open>cmd/shellin/webrtc_connect.go\<close>), what it makes of the ICE servers it is given
  (\<^verbatim>\<open>webrtc_ice.go\<close>, \<^verbatim>\<open>webrtc_agent_setup.go\<close>), and how the program waits for the first connection
  (\<^verbatim>\<open>bridge_wait.go\<close>).

  \<open>render raw\<close> stands for \<^verbatim>\<open>URL.String\<close> of the URL \<open>raw\<close> parses to, and \<open>parse_error raw\<close> for the text
  of the error \<^verbatim>\<open>url.Parse\<close> gives.
\<close>

section \<open>The connect request\<close>

definition normalizeSignalURL :: "(string \<Rightarrow> string) \<Rightarrow> (string \<Rightarrow> string) \<Rightarrow> string \<Rightarrow> go_error + string" where
  "normalizeSignalURL render parse_error raw =
     (case url_Parse (TrimSpace raw) of
        None \<Rightarrow> Inl (Plain (parse_error (TrimSpace raw)))
      | Some u \<Rightarrow>
          if url_Host u = [] then Inl (Plain ''missing host'')
          else if url_Scheme u = ''wss'' \<or> url_Scheme u = ''ws'' then Inr (render (TrimSpace raw))
          else Inl (Plain ''scheme must be ws or wss''))"

text \<open>What is made of the answer.\<close>

definition connect_answer ::
  "(string \<Rightarrow> string) \<Rightarrow> (string \<Rightarrow> string) \<Rightarrow> environment \<Rightarrow> string + int \<times> string \<Rightarrow> go_error + AgentConnectResponse"
where
  "connect_answer render parse_error env answer = (case answer of
     Inl e \<Rightarrow> Inl (Plain e)
   | Inr (code, body) \<Rightarrow>
       if code \<noteq> 200 then Inl (StatusError ''connect'' code (TrimSpace body))
       else case decoded env decode_AgentConnectResponse body of
         Inl e \<Rightarrow> Inl e
       | Inr out \<Rightarrow>
           if TrimSpace (cr_SessionID out) = [] \<or> TrimSpace (cr_SignalURL out) = [] \<or> TrimSpace (cr_SignalToken out) = []
           then Inl (Plain ''control plane connect returned incomplete signaling bootstrap'')
           else case normalizeSignalURL render parse_error (cr_SignalURL out) of
             Inl e \<Rightarrow> Inl (Wrapped ''control plane connect returned invalid signal_url: '' e [])
           | Inr url \<Rightarrow> Inr (out\<lparr>cr_SignalURL := url\<rparr>))"

definition requestAgentConnect ::
  "(string \<Rightarrow> string) \<Rightarrow> (string \<Rightarrow> string) \<Rightarrow> environment \<Rightarrow> client_config \<Rightarrow> string \<Rightarrow> string \<Rightarrow> string
   \<Rightarrow> (go_error + AgentConnectResponse) io"
where
  "requestAgentConnect render parse_error env cfg accessToken sessionID agentLabel = do {
     answer \<leftarrow> ask env (post_json (endpoint (cc_ControlPlaneURL cfg) ''/v1/agents/connect'') (Some (bearer accessToken))
       (AgentConnectRequest_json \<lparr>cq_SessionID = TrimSpace sessionID, cq_AgentLabel = normalizeAgentLabel agentLabel\<rparr>));
     State_Monad.return (connect_answer render parse_error env answer) }"

definition markConnectAuthErrorNonRetryable :: "go_error \<Rightarrow> go_error" where
  "markConnectAuthErrorNonRetryable err =
     (if \<not> isUnauthorizedError (Some err) then err else permanent err)"

text \<open>
  The request with its recovery. The profile is the one of the configuration
  (\<^verbatim>\<open>cfg.AuthProfilePath\<close>), whatever the session was made from.
\<close>

definition connect_retry ::
  "(go_error + AgentConnectResponse) \<Rightarrow> controlPlaneAuthSession \<Rightarrow> controlPlaneAuthUpdateMode
   \<Rightarrow> go_error + AgentConnectResponse \<times> controlPlaneAuthSession \<times> controlPlaneAuthUpdateMode"
where
  "connect_retry answer auth mode = (case answer of
     Inl retryErr \<Rightarrow> Inl (markConnectAuthErrorNonRetryable retryErr)
   | Inr resp \<Rightarrow> Inr (resp, auth, mode))"

definition requestAgentConnectWithAuthSession ::
  "(string \<Rightarrow> string) \<Rightarrow> (string \<Rightarrow> string) \<Rightarrow> environment \<Rightarrow> client_config \<Rightarrow> controlPlaneAuthSession \<Rightarrow> string \<Rightarrow> string
   \<Rightarrow> (go_error + AgentConnectResponse \<times> controlPlaneAuthSession \<times> controlPlaneAuthUpdateMode) io"
where
  "requestAgentConnectWithAuthSession render parse_error env cfg authSession sessionID agentLabel = do {
     first \<leftarrow> requestAgentConnect render parse_error env cfg (cs_AccessToken authSession) sessionID agentLabel;
     case first of
       Inr resp \<Rightarrow> State_Monad.return (Inr (resp, authSession, controlPlaneAuthUnchanged))
     | Inl err \<Rightarrow>
         if \<not> isUnauthorizedError (Some err) then State_Monad.return (Inl err)
         else if TrimSpace (cs_RefreshToken authSession) \<noteq> [] then do {
           refresh \<leftarrow> refreshControlPlaneAuth env cfg (cs_RefreshToken authSession);
           case refresh of
             Inr refreshed \<Rightarrow> do {
               second \<leftarrow> requestAgentConnect render parse_error env cfg (cs_AccessToken refreshed) sessionID agentLabel;
               State_Monad.return (connect_retry second refreshed controlPlaneAuthRefreshed) }
           | Inl refreshErr \<Rightarrow> do {
               reload \<leftarrow> loadUpdatedControlPlaneAuthFromProfile env (cc_ControlPlaneURL cfg) (cc_AuthProfilePath cfg) authSession;
               case reload of
                 Inl loadErr \<Rightarrow> State_Monad.return (Inl (markConnectAuthErrorNonRetryable
                   (Wrapped [] err ('' (refresh auth failed: '' @ Error refreshErr
                      @ ''; shared auth reload failed: '' @ Error loadErr @ '')''))))
               | Inr (latestAuth, changed) \<Rightarrow>
                   if \<not> changed then State_Monad.return (Inl (markConnectAuthErrorNonRetryable
                     (Wrapped [] err ('' (refresh auth failed: '' @ Error refreshErr @ '')''))))
                   else do {
                     second \<leftarrow> requestAgentConnect render parse_error env cfg (cs_AccessToken latestAuth) sessionID agentLabel;
                     State_Monad.return (connect_retry second latestAuth controlPlaneAuthReloaded) } } }
         else do {
           reload \<leftarrow> loadUpdatedControlPlaneAuthFromProfile env (cc_ControlPlaneURL cfg) (cc_AuthProfilePath cfg) authSession;
           case reload of
             Inl _ \<Rightarrow> State_Monad.return (Inl (markConnectAuthErrorNonRetryable err))
           | Inr (latestAuth, changed) \<Rightarrow>
               if \<not> changed then State_Monad.return (Inl (markConnectAuthErrorNonRetryable err))
               else do {
                 second \<leftarrow> requestAgentConnect render parse_error env cfg (cs_AccessToken latestAuth) sessionID agentLabel;
                 State_Monad.return (connect_retry second latestAuth controlPlaneAuthReloaded) } } }"

section \<open>ICE servers\<close>

definition client_urls :: "string list \<Rightarrow> string list" where
  "client_urls urls = filter (\<lambda>u. u \<noteq> []) (map TrimSpace urls)"

definition toWebRTCICEServers :: "ICEServer list \<Rightarrow> ICEServer list" where
  "toWebRTCICEServers servers =
     (let out = concat (map (\<lambda>server. let urls = client_urls (ice_URLs server)
              in if urls = [] then [] else
                 [\<lparr>ice_URLs = urls, ice_Username = TrimSpace (ice_Username server), ice_Credential = TrimSpace (ice_Credential server)\<rparr>])
            servers)
      in if out = [] then [\<lparr>ice_URLs = [''stun:stun.cloudflare.com:3478''], ice_Username = [], ice_Credential = []\<rparr>] else out)"

definition iceServersAreTURNOnly :: "ICEServer list \<Rightarrow> bool" where
  "iceServersAreTURNOnly servers \<longleftrightarrow> servers \<noteq> [] \<and> list_all (\<lambda>server. ice_URLs server \<noteq> []
     \<and> list_all (\<lambda>raw. let u = ToLower (TrimSpace raw) in HasPrefix u ''turn:'' \<or> HasPrefix u ''turns:'') (ice_URLs server)) servers"

text \<open>The configuration of a peer connection: its servers, and whether only relays are used.\<close>

definition peer_configuration :: "AgentConnectResponse \<Rightarrow> ICEServer list \<times> bool" where
  "peer_configuration connect = (toWebRTCICEServers (cr_ICEServers connect),
     cr_ICEPolicy connect = ICEPolicyRelay \<or> iceServersAreTURNOnly (cr_ICEServers connect))"

section \<open>Waiting for the bridge\<close>

text \<open>
  What the loop sees in one round, in the order in which it looks: whether the bridge is connected,
  the last error, the time, and the last error once more. A round follows 100 ms after the other.
\<close>

record bridge_look =
  bl_Connected :: bool
  bl_LastError :: "go_error option"
  bl_Now :: gotime
  bl_LaterError :: "go_error option"

definition wait_result :: "(int \<Rightarrow> string) \<Rightarrow> int \<Rightarrow> gotime \<Rightarrow> bridge_look \<Rightarrow> go_error option option" where
  "wait_result show_duration timeout deadline look =
     (if bl_Connected look then Some None
      else if isNonRetryableControlPlaneError (bl_LastError look) then Some (bl_LastError look)
      else if 0 < timeout \<and> deadline < bl_Now look then
        (case bl_LaterError look of
           Some err \<Rightarrow> Some (Some err)
         | None \<Rightarrow> Some (Some (Plain (''timed out after '' @ show_duration timeout))))
      else None)"

partial_function (option) wait_loop ::
  "(int \<Rightarrow> string) \<Rightarrow> int \<Rightarrow> gotime \<Rightarrow> (nat \<Rightarrow> bridge_look) \<Rightarrow> nat \<Rightarrow> go_error option option"
where
  "wait_loop show_duration timeout deadline looks n =
     (case wait_result show_duration timeout deadline (looks n) of
        Some r \<Rightarrow> Some r
      | None \<Rightarrow> wait_loop show_duration timeout deadline looks (Suc n))"

definition waitForBridgeConnected ::
  "(int \<Rightarrow> string) \<Rightarrow> gotime \<Rightarrow> int \<Rightarrow> (nat \<Rightarrow> bridge_look) \<Rightarrow> go_error option option"
where
  "waitForBridgeConnected show_duration start timeout looks =
     wait_loop show_duration timeout (Time_Add start timeout) looks 0"

end
