(* ===== verification/Http_Origin.thy ===== *)
theory Http_Origin
  imports Go_Net
begin

text \<open>
  \<^verbatim>\<open>internal/httporigin/httporigin.go\<close>: where a request comes from, what URL the signaling
  endpoint has, and which origins may open a WebSocket. A nil request is \<open>None\<close>; an error of
  \<open>NormalizeExternalBaseURL\<close> is \<open>Inl\<close>.
\<close>

section \<open>Hosts and addresses\<close>

definition HostWithoutPort :: "string \<Rightarrow> string" where
  "HostWithoutPort raw0 =
     (let raw = TrimSpace raw0
      in if raw = [] then []
         else case SplitHostPort raw of
           Some host \<Rightarrow> Trim host ''[]''
         | None \<Rightarrow> Trim raw ''[]'')"

definition NormalizedRemoteAddrIP :: "string \<Rightarrow> string" where
  "NormalizedRemoteAddrIP remoteAddr =
     (case SplitHostPort (TrimSpace remoteAddr) of
        Some host \<Rightarrow> Trim host ''[]''
      | None \<Rightarrow> Trim (TrimSpace remoteAddr) ''[]'')"

definition IsTrustedForwardedSource :: "string \<Rightarrow> bool" where
  "IsTrustedForwardedSource ipString =
     (case ParseIP (TrimSpace ipString) of None \<Rightarrow> False | Some ip \<Rightarrow> IsLoopback ip)"

definition IsLoopbackHost :: "string \<Rightarrow> bool" where
  "IsLoopbackHost host0 =
     (let host = TrimSpace host0
      in if EqualFold host ''localhost'' then True
         else case ParseIP host of None \<Rightarrow> False | Some ip \<Rightarrow> IsLoopback ip)"

section \<open>The effective scheme and host of a request\<close>

definition EffectiveRequestScheme :: "Request option \<Rightarrow> string" where
  "EffectiveRequestScheme req = (case req of None \<Rightarrow> ''http''
   | Some r \<Rightarrow>
       let proto = ToLower (TrimSpace (Header_Get r ''X-Forwarded-Proto''));
           trusted = IsTrustedForwardedSource (NormalizedRemoteAddrIP (req_RemoteAddr r))
       in if trusted \<and> proto = ''https'' then ''https''
          else if trusted \<and> proto = ''http'' then ''http''
          else if req_TLS r then ''https'' else ''http'')"

definition EffectiveRequestHost :: "Request option \<Rightarrow> string" where
  "EffectiveRequestHost req = (case req of None \<Rightarrow> []
   | Some r \<Rightarrow>
       let host = TrimSpace (req_Host r);
           forwardedHost = TrimSpace (Header_Get r ''X-Forwarded-Host'')
       in if IsTrustedForwardedSource (NormalizedRemoteAddrIP (req_RemoteAddr r)) \<and> forwardedHost \<noteq> []
          then forwardedHost else host)"

section \<open>Base URLs and signaling URLs\<close>

datatype origin_error =
  BaseURLIncomplete | BaseURLNotHTTPS | BaseURLScheme | BaseURLPath | BaseURLParse

definition NormalizeExternalBaseURL :: "string \<Rightarrow> origin_error + string" where
  "NormalizeExternalBaseURL raw0 =
     (let raw = TrimRight (TrimSpace raw0) ''/''
      in if raw = [] then Inr []
         else case url_Parse raw of
           None \<Rightarrow> Inl BaseURLIncomplete
         | Some u \<Rightarrow>
             if TrimSpace (url_Host u) = [] then Inl BaseURLIncomplete
             else
               let scheme = ToLower (TrimSpace (url_Scheme u))
               in if scheme = ''http'' \<and> \<not> IsLoopbackHost (HostWithoutPort (url_Host u)) then Inl BaseURLNotHTTPS
                  else if scheme \<noteq> ''http'' \<and> scheme \<noteq> ''https'' then Inl BaseURLScheme
                  else if TrimSpace (url_Path u) \<noteq> [] then Inl BaseURLPath
                  else Inr (scheme @ ''://'' @ TrimSpace (url_Host u)))"

definition signal_url :: "string \<Rightarrow> string \<Rightarrow> string" where
  "signal_url scheme host = scheme @ ''://'' @ host @ ''/v1/agents/signal''"

definition MakeSignalURL :: "Request option \<Rightarrow> string" where
  "MakeSignalURL r =
     (let host = EffectiveRequestHost r
      in signal_url (if EffectiveRequestScheme r = ''http'' \<and> IsLoopbackHost (HostWithoutPort host)
                     then ''ws'' else ''wss'') host)"

definition SignalURLFromExternalBaseURL :: "string \<Rightarrow> origin_error + string" where
  "SignalURLFromExternalBaseURL raw = (case NormalizeExternalBaseURL raw of
     Inl e \<Rightarrow> Inl e
   | Inr baseURL \<Rightarrow>
       if baseURL = [] then Inr []
       else case url_Parse baseURL of None \<Rightarrow> Inl BaseURLParse
       | Some u \<Rightarrow>
           Inr (signal_url (if EqualFold (url_Scheme u) ''http'' \<and> IsLoopbackHost (HostWithoutPort (url_Host u))
                            then ''ws'' else ''wss'') (url_Host u)))"

definition MakeSignalURLWithBaseURL :: "Request option \<Rightarrow> string \<Rightarrow> string" where
  "MakeSignalURLWithBaseURL r externalBaseURL = (case SignalURLFromExternalBaseURL externalBaseURL of
     Inr signalURL \<Rightarrow> if signalURL \<noteq> [] then signalURL else MakeSignalURL r
   | Inl _ \<Rightarrow> MakeSignalURL r)"

section \<open>Origins\<close>

definition OriginAllowedForBaseURL :: "Request \<Rightarrow> string \<Rightarrow> bool" where
  "OriginAllowedForBaseURL r externalBaseURL =
     (let origin = TrimSpace (Header_Get r ''Origin'')
      in if origin = [] then True
         else case url_Parse origin of None \<Rightarrow> False
         | Some u \<Rightarrow>
             if TrimSpace (url_Host u) = [] then False
             else
               let scheme = ToLower (TrimSpace (url_Scheme u))
               in if scheme \<noteq> ''http'' \<and> scheme \<noteq> ''https'' then False
                  else if externalBaseURL \<noteq> [] then
                    (case NormalizeExternalBaseURL externalBaseURL of Inl _ \<Rightarrow> False
                     | Inr baseURL \<Rightarrow>
                         if baseURL = [] then False
                         else case url_Parse baseURL of None \<Rightarrow> False
                         | Some base \<Rightarrow>
                             TrimSpace (url_Host base) \<noteq> []
                             \<and> EqualFold (TrimSpace (url_Scheme u)) (TrimSpace (url_Scheme base))
                             \<and> EqualFold (TrimSpace (url_Host u)) (TrimSpace (url_Host base)))
                  else
                    EqualFold (TrimSpace (url_Scheme u)) (EffectiveRequestScheme (Some r))
                    \<and> EqualFold (TrimSpace (url_Host u)) (TrimSpace (EffectiveRequestHost (Some r))))"

section \<open>Properties\<close>

text \<open>Two requests that differ only in the headers a proxy sets.\<close>

definition same_but_forwarded :: "Request \<Rightarrow> Request \<Rightarrow> bool" where
  "same_but_forwarded r1 r2 \<longleftrightarrow> req_RemoteAddr r1 = req_RemoteAddr r2 \<and> req_Host r1 = req_Host r2
     \<and> req_TLS r1 = req_TLS r2 \<and> Header_Get r1 ''Origin'' = Header_Get r2 ''Origin''"

lemma untrusted_scheme_host:
  assumes "\<not> IsTrustedForwardedSource (NormalizedRemoteAddrIP (req_RemoteAddr r))"
  shows "EffectiveRequestScheme (Some r) = (if req_TLS r then ''https'' else ''http'')"
    and "EffectiveRequestHost (Some r) = TrimSpace (req_Host r)"
  using assms by (simp_all add: EffectiveRequestScheme_def EffectiveRequestHost_def Let_def)

text \<open>
  C39: Forwarding headers count only from a loopback peer: for a request from any other address the
  origin check and the signaling URL do not depend on them.
\<close>

theorem forwarded_headers_need_loopback:
  assumes "same_but_forwarded r1 r2"
    and "\<not> (\<exists>ip. ParseIP (TrimSpace (NormalizedRemoteAddrIP (req_RemoteAddr r1))) = Some ip \<and> IsLoopback ip)"
  shows "OriginAllowedForBaseURL r1 base = OriginAllowedForBaseURL r2 base
    \<and> MakeSignalURLWithBaseURL (Some r1) base = MakeSignalURLWithBaseURL (Some r2) base"
proof -
  have u: "\<not> IsTrustedForwardedSource (NormalizedRemoteAddrIP (req_RemoteAddr r1))"
    using assms(2) by (simp add: IsTrustedForwardedSource_def split: option.split)
  then have u2: "\<not> IsTrustedForwardedSource (NormalizedRemoteAddrIP (req_RemoteAddr r2))"
    using assms(1) by (simp add: same_but_forwarded_def)
  have "EffectiveRequestScheme (Some r1) = EffectiveRequestScheme (Some r2)"
    "EffectiveRequestHost (Some r1) = EffectiveRequestHost (Some r2)"
    using assms(1) by (simp_all add: untrusted_scheme_host [OF u] untrusted_scheme_host [OF u2] same_but_forwarded_def)
  moreover have "Header_Get r1 ''Origin'' = Header_Get r2 ''Origin''"
    using assms(1) by (simp add: same_but_forwarded_def)
  ultimately show ?thesis
    unfolding OriginAllowedForBaseURL_def MakeSignalURLWithBaseURL_def MakeSignalURL_def Let_def
    by (simp only:)
qed

definition demo_request :: Request where
  "demo_request = \<lparr>req_Method = ''GET'', req_Host = ''cp.example'', req_RemoteAddr = ''203.0.113.9:4711'', req_TLS = True,
     req_Header = [(''Origin'', ''https://cp.example''), (''X-Forwarded-Host'', ''evil.example'')], req_Body = []\<rparr>"

lemma forwarded_headers_need_loopback_witness:
  "MakeSignalURLWithBaseURL (Some demo_request) []
     = MakeSignalURLWithBaseURL (Some (demo_request\<lparr>req_Header := [(''Origin'', ''https://cp.example'')]\<rparr>)) []"
proof -
  have "same_but_forwarded demo_request (demo_request\<lparr>req_Header := [(''Origin'', ''https://cp.example'')]\<rparr>)"
    by code_simp
  moreover have "ParseIP (TrimSpace (NormalizedRemoteAddrIP (req_RemoteAddr demo_request)))
      = Some [0, 0, 0, 0, 0, 0, 0, 0, 0, 0, 255, 255, 203, 0, 113, 9]"
    by code_simp
  moreover have "\<not> IsLoopback [0, 0, 0, 0, 0, 0, 0, 0, 0, 0, 255, 255, 203, 0, 113, 9]"
    by code_simp
  ultimately show ?thesis
    using forwarded_headers_need_loopback [of demo_request] by auto
qed

text \<open>
  With an external base URL configured, a browser's WebSocket is admitted only if its origin
  has the scheme and the host of that URL, whatever the request itself says.
\<close>

theorem origin_pinned_to_base:
  assumes "OriginAllowedForBaseURL r base" and "base \<noteq> []" and "TrimSpace (Header_Get r ''Origin'') \<noteq> []"
  shows "\<exists>u norm b. url_Parse (TrimSpace (Header_Get r ''Origin'')) = Some u
    \<and> NormalizeExternalBaseURL base = Inr norm \<and> url_Parse norm = Some b
    \<and> ToLower (TrimSpace (url_Scheme u)) \<in> {''http'', ''https''}
    \<and> EqualFold (TrimSpace (url_Scheme u)) (TrimSpace (url_Scheme b))
    \<and> EqualFold (TrimSpace (url_Host u)) (TrimSpace (url_Host b)) \<and> TrimSpace (url_Host b) \<noteq> []"
  using assms unfolding OriginAllowedForBaseURL_def Let_def
  by (auto split: option.splits sum.splits if_splits)

lemma origin_pinned_to_base_witness:
  "\<exists>u. url_Parse (TrimSpace (Header_Get demo_request ''Origin'')) = Some u"
proof -
  have "OriginAllowedForBaseURL demo_request ''https://CP.example/''" by code_simp
  moreover have "TrimSpace (Header_Get demo_request ''Origin'') \<noteq> []" by code_simp
  ultimately show ?thesis
    using origin_pinned_to_base [of demo_request "''https://CP.example/''"] by blast
qed

text \<open>
  The signaling URL handed to a client is a secure WebSocket unless the host it names is a
  loopback host: it has the form \<^verbatim>\<open>wss://host/v1/agents/signal\<close>, or \<^verbatim>\<open>ws://\<close> with a loopback host.
\<close>

theorem signal_url_secure:
  "\<exists>scheme host. MakeSignalURLWithBaseURL r base = scheme @ ''://'' @ host @ ''/v1/agents/signal''
     \<and> (scheme = ''wss'' \<or> scheme = ''ws'' \<and> IsLoopbackHost (HostWithoutPort host))"
proof -
  have "\<exists>scheme host. MakeSignalURL r = signal_url scheme host
      \<and> (scheme = ''wss'' \<or> scheme = ''ws'' \<and> IsLoopbackHost (HostWithoutPort host))"
    unfolding MakeSignalURL_def Let_def by auto
  moreover have "SignalURLFromExternalBaseURL base = Inr u \<Longrightarrow> u \<noteq> [] \<Longrightarrow> \<exists>scheme host. u = signal_url scheme host
      \<and> (scheme = ''wss'' \<or> scheme = ''ws'' \<and> IsLoopbackHost (HostWithoutPort host))" for u
    unfolding SignalURLFromExternalBaseURL_def by (auto split: sum.splits if_splits option.splits)
  ultimately show ?thesis
    unfolding MakeSignalURLWithBaseURL_def signal_url_def by (auto split: sum.split)
qed

text \<open>
  An accepted external base URL names a host without a path, and is \<^verbatim>\<open>https\<close> unless the host
  is a loopback host; it is empty exactly when nothing but white space and slashes was configured.
\<close>

theorem base_url_normalised:
  assumes "NormalizeExternalBaseURL raw = Inr base"
  shows "base = [] \<and> TrimRight (TrimSpace raw) ''/'' = []
    \<or> (\<exists>u. url_Parse (TrimRight (TrimSpace raw) ''/'') = Some u \<and> TrimSpace (url_Host u) \<noteq> []
         \<and> TrimSpace (url_Path u) = []
         \<and> (base = ''https://'' @ TrimSpace (url_Host u)
            \<or> base = ''http://'' @ TrimSpace (url_Host u) \<and> IsLoopbackHost (HostWithoutPort (url_Host u))))"
  using assms unfolding NormalizeExternalBaseURL_def Let_def
  by (auto split: option.splits if_splits)

lemma base_url_normalised_witness:
  "\<exists>u. url_Parse (TrimRight (TrimSpace '' HTTP://localhost:8090/ '') ''/'') = Some u \<and> TrimSpace (url_Host u) \<noteq> []"
proof -
  have "NormalizeExternalBaseURL '' HTTP://localhost:8090/ '' = Inr ''http://localhost:8090''" by code_simp
  from base_url_normalised [OF this] show ?thesis by auto
qed

end
