(* ===== verification/Server_Config.thy ===== *)
theory Server_Config
  imports Http_Origin Go_Time User_Key_Spec User_Keys
begin

text \<open>
  \<^verbatim>\<open>cmd/shellin-control-plane/config.go\<close> and the seeding of the user keys in \<^verbatim>\<open>tokens.go\<close>.

  The environment is the parameter \<open>getenv\<close>, empty for a variable that is not set.
  \<^verbatim>\<open>time.ParseDuration\<close> is the parameter \<open>parse_duration\<close>, and \<^verbatim>\<open>fs.Parse\<close>, which overwrites the
  defaults with the flags of the command line, is the parameter \<open>flags\<close>; the file system is the
  parameter \<open>read_file\<close>.
\<close>

section \<open>Configuration\<close>

definition defaultCloudflareTURNTTL :: duration where "defaultCloudflareTURNTTL = Hour"
definition maxCloudflareTURNTTL :: duration where "maxCloudflareTURNTTL = 6 * Hour"
definition defaultAuthFailureLimit :: int where "defaultAuthFailureLimit = 10"
definition defaultAuthFailureWindow :: duration where "defaultAuthFailureWindow = 5 * Minute"

record config =
  cfg_Addr :: string
  cfg_UserKeys :: string
  cfg_UserKeysFile :: string
  cfg_DefaultMaxSessions :: int
  cfg_GrantHMACSecret :: string
  cfg_GrantIssuer :: string
  cfg_AccessAudience :: string
  cfg_AccessTTL :: duration
  cfg_RefreshTTL :: duration
  cfg_DeviceLoginKeyTTL :: duration
  cfg_AuthFailureLimit :: int
  cfg_AuthFailureWindow :: duration
  cfg_AgentHeartbeatTimeout :: duration
  cfg_SignalAudience :: string
  cfg_SignalTokenTTL :: duration
  cfg_ExternalBaseURL :: string
  cfg_CloudflareTURNBaseURL :: string
  cfg_CloudflareTURNKeyID :: string
  cfg_CloudflareTURNToken :: string
  cfg_CloudflareTURNTTL :: duration

definition env :: "(string \<Rightarrow> string) \<Rightarrow> string \<Rightarrow> string \<Rightarrow> string" where
  "env getenv key fallback =
     (let value = TrimSpace (getenv key) in if value = [] then fallback else value)"

definition durationEnv ::
  "(string \<Rightarrow> duration option) \<Rightarrow> (string \<Rightarrow> string) \<Rightarrow> string \<Rightarrow> duration \<Rightarrow> duration"
where
  "durationEnv parse_duration getenv key fallback =
     (let raw = TrimSpace (getenv key)
      in if raw = [] then fallback
         else case parse_duration raw of None \<Rightarrow> fallback | Some parsed \<Rightarrow> parsed)"

definition intEnv :: "(string \<Rightarrow> string) \<Rightarrow> string \<Rightarrow> int \<Rightarrow> int" where
  "intEnv getenv key fallback =
     (let raw = TrimSpace (getenv key)
      in if raw = [] then fallback
         else case Atoi raw of None \<Rightarrow> fallback | Some parsed \<Rightarrow> parsed)"

definition config_defaults :: "(string \<Rightarrow> duration option) \<Rightarrow> (string \<Rightarrow> string) \<Rightarrow> config" where
  "config_defaults parse_duration getenv = \<lparr>
     cfg_Addr = env getenv ''SHELLIN_CONTROL_PLANE_ADDR'' ''127.0.0.1:8090'',
     cfg_UserKeys = TrimSpace (getenv ''SHELLIN_USER_KEYS''),
     cfg_UserKeysFile = TrimSpace (getenv ''SHELLIN_USER_KEYS_FILE''),
     cfg_DefaultMaxSessions = 1,
     cfg_GrantHMACSecret = TrimSpace (getenv ''SHELLIN_GRANT_HMAC_SECRET''),
     cfg_GrantIssuer = env getenv ''SHELLIN_GRANT_ISSUER'' ''shellin.dev'',
     cfg_AccessAudience = env getenv ''SHELLIN_ACCESS_AUDIENCE'' ''control.grants'',
     cfg_AccessTTL = durationEnv parse_duration getenv ''SHELLIN_ACCESS_TTL'' (10 * Minute),
     cfg_RefreshTTL = durationEnv parse_duration getenv ''SHELLIN_REFRESH_TTL'' (720 * Hour),
     cfg_DeviceLoginKeyTTL = durationEnv parse_duration getenv ''SHELLIN_DEVICE_LOGIN_KEY_TTL'' (10 * Minute),
     cfg_AuthFailureLimit = intEnv getenv ''SHELLIN_AUTH_FAILURE_LIMIT'' defaultAuthFailureLimit,
     cfg_AuthFailureWindow = durationEnv parse_duration getenv ''SHELLIN_AUTH_FAILURE_WINDOW'' defaultAuthFailureWindow,
     cfg_AgentHeartbeatTimeout = durationEnv parse_duration getenv ''SHELLIN_AGENT_HEARTBEAT_TIMEOUT'' (2 * Minute),
     cfg_SignalAudience = env getenv ''SHELLIN_SIGNAL_AUDIENCE'' ''webrtc.signal'',
     cfg_SignalTokenTTL = durationEnv parse_duration getenv ''SHELLIN_SIGNAL_TOKEN_TTL'' (2 * Minute),
     cfg_ExternalBaseURL = env getenv ''SHELLIN_EXTERNAL_BASE_URL'' [],
     cfg_CloudflareTURNBaseURL = env getenv ''SHELLIN_CLOUDFLARE_TURN_API_BASE_URL'' ''https://rtc.live.cloudflare.com'',
     cfg_CloudflareTURNKeyID = TrimSpace (getenv ''SHELLIN_CLOUDFLARE_TURN_KEY_ID''),
     cfg_CloudflareTURNToken = TrimSpace (getenv ''SHELLIN_CLOUDFLARE_TURN_API_TOKEN''),
     cfg_CloudflareTURNTTL = durationEnv parse_duration getenv ''SHELLIN_CLOUDFLARE_TURN_TTL'' defaultCloudflareTURNTTL\<rparr>"

datatype config_error =
  SecretRequired | ConfigMaxSessionsInvalid | AuthFailureLimitInvalid | DurationsInvalid
| AuthFailureWindowInvalid | TURNTTLInvalid | ExternalBaseURLInvalid origin_error | FlagsInvalid

definition normalizeConfig :: "config \<Rightarrow> config_error + config" where
  "normalizeConfig cfg =
     (if cfg_GrantHMACSecret cfg = [] then Inl SecretRequired
      else if cfg_DefaultMaxSessions cfg \<le> 0 then Inl ConfigMaxSessionsInvalid
      else if cfg_AuthFailureLimit cfg \<le> 0 then Inl AuthFailureLimitInvalid
      else if cfg_AccessTTL cfg \<le> 0 \<or> cfg_RefreshTTL cfg \<le> 0 \<or> cfg_SignalTokenTTL cfg \<le> 0
           \<or> cfg_DeviceLoginKeyTTL cfg \<le> 0 \<or> cfg_AgentHeartbeatTimeout cfg \<le> 0 then Inl DurationsInvalid
      else if cfg_AuthFailureWindow cfg \<le> 0 then Inl AuthFailureWindowInvalid
      else if cfg_CloudflareTURNTTL cfg \<le> 0 \<or> maxCloudflareTURNTTL < cfg_CloudflareTURNTTL cfg
        then Inl TURNTTLInvalid
      else case NormalizeExternalBaseURL (cfg_ExternalBaseURL cfg) of
        Inl e \<Rightarrow> Inl (ExternalBaseURLInvalid e)
      | Inr base \<Rightarrow> Inr (cfg\<lparr>cfg_ExternalBaseURL := base\<rparr>))"

definition parseConfig ::
  "(string \<Rightarrow> duration option) \<Rightarrow> (string \<Rightarrow> string) \<Rightarrow> (config \<Rightarrow> string list \<Rightarrow> config option)
   \<Rightarrow> string list \<Rightarrow> config_error + config"
where
  "parseConfig parse_duration getenv flags args =
     (case flags (config_defaults parse_duration getenv) args of
        None \<Rightarrow> Inl FlagsInvalid
      | Some cfg \<Rightarrow> normalizeConfig cfg)"

section \<open>Seeding the user keys\<close>

datatype seed_error = SeedFile | SeedSpec spec_error | SeedStore userkey_error

fun add_entries ::
  "(string \<Rightarrow> string) \<Rightarrow> gotime \<Rightarrow> UserKeyStore \<Rightarrow> UserKeyEntry list \<Rightarrow> UserKeyStore \<times> seed_error option"
where
  "add_entries sha now s [] = (s, None)"
| "add_entries sha now s (e # es) =
     (case UserKeyStore_Add sha now s (uk_UserKey e) (uk_Entitlement e) of
        (s', Some err) \<Rightarrow> (s', Some (SeedStore err))
      | (s', None) \<Rightarrow> add_entries sha now s' es)"

fun seed_specs ::
  "(string \<Rightarrow> string) \<Rightarrow> gotime \<Rightarrow> int \<Rightarrow> UserKeyStore \<Rightarrow> string list \<Rightarrow> UserKeyStore \<times> seed_error option"
where
  "seed_specs sha now n s [] = (s, None)"
| "seed_specs sha now n s (spec # specs) =
     (case ParseUserKeySpec spec n of
        Inl e \<Rightarrow> (s, Some (SeedSpec e))
      | Inr entries \<Rightarrow>
          (case add_entries sha now s entries of
             (s', Some err) \<Rightarrow> (s', Some err)
           | (s', None) \<Rightarrow> seed_specs sha now n s' specs))"

text \<open>\<^verbatim>\<open>strings.ReplaceAll(data, "\<close>newline\<^verbatim>\<open>", ",")\<close>.\<close>

definition newlines_to_commas :: "string \<Rightarrow> string" where
  "newlines_to_commas s = map (\<lambda>c. if c = CHR 0x0A then CHR '','' else c) s"

definition seedUserKeys ::
  "(string \<Rightarrow> string) \<Rightarrow> (string \<Rightarrow> string option) \<Rightarrow> gotime \<Rightarrow> config \<Rightarrow> UserKeyStore
   \<Rightarrow> UserKeyStore \<times> seed_error option"
where
  "seedUserKeys sha read_file now cfg s =
     (let file = TrimSpace (cfg_UserKeysFile cfg)
      in if file = [] then seed_specs sha now (cfg_DefaultMaxSessions cfg) s [cfg_UserKeys cfg]
         else case read_file file of
           None \<Rightarrow> (s, Some SeedFile)
         | Some data \<Rightarrow> seed_specs sha now (cfg_DefaultMaxSessions cfg) s [cfg_UserKeys cfg, newlines_to_commas data])"

section \<open>Facts about seeding\<close>

lemma Add_success:
  assumes "UserKeyStore_Add sha now s raw e = (s', None)"
  obtains e' where "NormalizeEntitlement now e = Inr e'" "go_get (us_items s) (HashUserKey sha (TrimSpace raw)) = None"
    "us_items s' = go_put (us_items s) (HashUserKey sha (TrimSpace raw)) e'"
  using assms by (auto simp: UserKeyStore_Add_def store_by_key_def upsertLocked_def Let_def
      split: if_splits sum.splits)

lemma Add_reachable: "userkey_reachable sha s \<Longrightarrow> userkey_reachable sha (fst (UserKeyStore_Add sha now s raw e))"
  by (erule userkey_reachable.step) (rule userkey_step.Add)

text \<open>Successful seeding keeps every key that is there, and stores every entry under its key.\<close>

definition seeded :: "(string \<Rightarrow> string) \<Rightarrow> gotime \<Rightarrow> UserKeyStore \<Rightarrow> UserKeyEntry \<Rightarrow> bool" where
  "seeded sha now s e \<longleftrightarrow> (\<exists>e'. NormalizeEntitlement now (uk_Entitlement e) = Inr e'
     \<and> UserKeyStore_Lookup sha s (uk_UserKey e) = Some e')"

definition extends :: "UserKeyStore \<Rightarrow> UserKeyStore \<Rightarrow> bool" where
  "extends s s' \<longleftrightarrow> (\<forall>k e. go_get (us_items s) k = Some e \<longrightarrow> go_get (us_items s') k = Some e)"

lemma extends_refl [simp]: "extends s s"
  by (simp add: extends_def)

lemma extends_trans: "extends s t \<Longrightarrow> extends t u \<Longrightarrow> extends s u"
  by (simp add: extends_def)

lemma seeded_extends: "seeded sha now s e \<Longrightarrow> extends s s' \<Longrightarrow> seeded sha now s' e"
  by (auto simp: seeded_def extends_def UserKeyStore_Lookup_def)

lemma Add_seeds:
  assumes "UserKeyStore_Add sha now s (uk_UserKey e) (uk_Entitlement e) = (s', None)"
  shows "extends s s' \<and> seeded sha now s' e"
  by (rule Add_success [OF assms]) (auto simp: extends_def seeded_def UserKeyStore_Lookup_def)

lemma add_entries_seeds:
  "add_entries sha now s es = (s', None) \<Longrightarrow> extends s s' \<and> (\<forall>e \<in> set es. seeded sha now s' e)"
proof (induction es arbitrary: s)
  case Nil
  then show ?case by simp
next
  case (Cons e es)
  then obtain s1 where s1: "UserKeyStore_Add sha now s (uk_UserKey e) (uk_Entitlement e) = (s1, None)"
    "add_entries sha now s1 es = (s', None)"
    by (auto split: prod.splits option.splits)
  show ?case
    using Add_seeds [OF s1(1)] Cons.IH [OF s1(2)] extends_trans [of s s1 s'] seeded_extends [of sha now s1 _ s']
    by simp
qed

lemma seed_specs_seeds:
  "seed_specs sha now n s specs = (s', None) \<Longrightarrow> extends s s' \<and>
     (\<forall>spec \<in> set specs. \<exists>es. ParseUserKeySpec spec n = Inr es \<and> (\<forall>e \<in> set es. seeded sha now s' e))"
proof (induction specs arbitrary: s)
  case Nil
  then show ?case by simp
next
  case (Cons spec specs)
  then obtain es s1 where s1: "ParseUserKeySpec spec n = Inr es" "add_entries sha now s es = (s1, None)"
    "seed_specs sha now n s1 specs = (s', None)"
    by (auto split: prod.splits option.splits sum.splits)
  show ?case
    using add_entries_seeds [OF s1(2)] Cons.IH [OF s1(3)] s1(1) extends_trans [of s s1 s'] seeded_extends [of sha now s1 _ s']
    by simp
qed

lemma add_entries_reachable:
  "userkey_reachable sha s \<Longrightarrow> userkey_reachable sha (fst (add_entries sha now s es))"
proof (induction es arbitrary: s)
  case Nil
  then show ?case by simp
next
  case (Cons e es)
  then show ?case
    using Add_reachable [OF Cons.prems, of now "uk_UserKey e" "uk_Entitlement e"]
    by (auto split: prod.splits option.splits)
qed

lemma seed_specs_reachable:
  "userkey_reachable sha s \<Longrightarrow> userkey_reachable sha (fst (seed_specs sha now n s specs))"
proof (induction specs arbitrary: s)
  case Nil
  then show ?case by simp
next
  case (Cons spec specs)
  then show ?case
    by (auto split: prod.splits option.splits sum.splits) (metis add_entries_reachable fst_conv)+
qed

lemma seedUserKeys_reachable:
  "userkey_reachable sha s \<Longrightarrow> userkey_reachable sha (fst (seedUserKeys sha read_file now cfg s))"
  by (auto simp: seedUserKeys_def Let_def seed_specs_reachable simp del: seed_specs.simps split: option.split)

section \<open>Properties\<close>

text \<open>
  When seeding succeeds, every entry of the configured list can be used: its key and its subject
  both find the entitlement, with the limit and the activity that the entry states.
\<close>

theorem seeded_keys_usable:
  assumes "seedUserKeys sha read_file now cfg NewUserKeyStore = (s, None)"
    and "ParseUserKeySpec (cfg_UserKeys cfg) (cfg_DefaultMaxSessions cfg) = Inr es" and "e \<in> set es"
  shows "\<exists>e'. UserKeyStore_Lookup sha s (uk_UserKey e) = Some e'
    \<and> UserKeyStore_LookupBySubject s (ue_Subject (uk_Entitlement e)) = Some e'
    \<and> ue_Subject e' = TrimSpace (ue_Subject (uk_Entitlement e))
    \<and> ue_MaxSessions e' = ue_MaxSessions (uk_Entitlement e) \<and> 0 < ue_MaxSessions e'
    \<and> ue_Active e' = ue_Active (uk_Entitlement e)"
proof -
  obtain specs where "seed_specs sha now (cfg_DefaultMaxSessions cfg) NewUserKeyStore (cfg_UserKeys cfg # specs) = (s, None)"
    using assms(1) unfolding seedUserKeys_def Let_def by (auto split: if_splits option.splits)
  from seed_specs_seeds [OF this] assms(2,3) have "seeded sha now s e" by auto
  then obtain e' where e': "NormalizeEntitlement now (uk_Entitlement e) = Inr e'"
    "UserKeyStore_Lookup sha s (uk_UserKey e) = Some e'"
    by (auto simp: seeded_def)
  have "UserKeyStore_ok s"
    using seedUserKeys_reachable [OF userkey_reachable.new, of sha read_file now cfg] assms(1)
    by (simp add: userkey_reachable_ok)
  moreover have "ue_Subject e' = TrimSpace (ue_Subject (uk_Entitlement e))"
    "ue_MaxSessions e' = ue_MaxSessions (uk_Entitlement e)" "0 < ue_MaxSessions e'"
    "ue_Active e' = ue_Active (uk_Entitlement e)"
    using e'(1) by (auto simp: NormalizeEntitlement_def Let_def split: if_splits)
  ultimately show ?thesis
    using e'(2) LookupBySubject_Some [of s] by (auto simp: UserKeyStore_Lookup_def)
qed

definition demo_config :: config where
  "demo_config = \<lparr>cfg_Addr = ''127.0.0.1:0'', cfg_UserKeys = ''k1:alice:2'', cfg_UserKeysFile = [],
     cfg_DefaultMaxSessions = 1, cfg_GrantHMACSecret = ''0123456789abcdef0123456789abcdef'',
     cfg_GrantIssuer = ''shellin.dev'', cfg_AccessAudience = ''control.grants'', cfg_AccessTTL = 10 * Minute,
     cfg_RefreshTTL = Hour, cfg_DeviceLoginKeyTTL = 10 * Minute, cfg_AuthFailureLimit = 2,
     cfg_AuthFailureWindow = Minute, cfg_AgentHeartbeatTimeout = 2 * Minute,
     cfg_SignalAudience = ''webrtc.signal'', cfg_SignalTokenTTL = 2 * Minute,
     cfg_ExternalBaseURL = ''https://api.shellin.dev'',
     cfg_CloudflareTURNBaseURL = ''https://rtc.live.cloudflare.com'', cfg_CloudflareTURNKeyID = [],
     cfg_CloudflareTURNToken = [], cfg_CloudflareTURNTTL = Hour\<rparr>"

definition demo_entry :: UserKeyEntry where
  "demo_entry = \<lparr>uk_UserKey = ''k1'', uk_Entitlement = \<lparr>ue_Subject = ''alice'', ue_MaxSessions = 2, ue_Active = True,
     ue_ProductID = [], ue_OriginalTransactionID = [], ue_ExpiresAt = 0, ue_UpdatedAt = 0\<rparr>\<rparr>"

definition demo_seeded :: UserKeyStore where
  "demo_seeded = fst (seedUserKeys rev (\<lambda>_. None) 7 demo_config NewUserKeyStore)"

lemma demo_seeds: "seedUserKeys rev (\<lambda>_. None) 7 demo_config NewUserKeyStore = (demo_seeded, None)"
proof -
  have "snd (seedUserKeys rev (\<lambda>_. None) 7 demo_config NewUserKeyStore) = None"
    by code_simp
  then show ?thesis unfolding demo_seeded_def by (metis prod.collapse)
qed

theorem seeded_keys_usable_witness:
  "\<exists>e'. UserKeyStore_Lookup rev demo_seeded ''k1'' = Some e' \<and> ue_MaxSessions e' = 2"
proof -
  have "ParseUserKeySpec (cfg_UserKeys demo_config) (cfg_DefaultMaxSessions demo_config) = Inr [demo_entry]"
    by code_simp
  from seeded_keys_usable [OF demo_seeds this, of demo_entry]
  show ?thesis by (auto simp: demo_entry_def)
qed

end
