(* ===== verification/Grant_Auth.thy ===== *)
theory Grant_Auth
  imports Go_Time Go_Base64 Go_Json
begin

text \<open>
  The package \<^verbatim>\<open>grantauth\<close>: the secrets, the signing and the validation of grant tokens (JWTs
  signed with HMAC-SHA256). The replay guard is in \<open>Replay_Guard\<close>.

  HMAC-SHA256 is a parameter \<open>hmac key message\<close> of the operations that use it. The clock that a
  validator reads is an argument \<open>now\<close>. An error that wraps a sentinel is the sentinel with the
  text that was added.
\<close>

section \<open>Types\<close>

datatype grant_error =
  ErrMalformedToken
| ErrBadSignature
| ErrExpired
| ErrNotYetValid
| ErrInvalidClaim string
| ErrReplayDetected
| ErrReplayStoreUnavailable

record Claims =
  cl_Subject :: string
  cl_Issuer :: string
  cl_Audience :: "string list"
  cl_ExpiresAt :: gotime
  cl_NotBefore :: gotime
  cl_MaxSessions :: int
  cl_TokenID :: string
  cl_Role :: string
  cl_SessionID :: string

record Validator =
  v_secret :: string
  v_issuer :: string
  v_audience :: string
  v_clockSkew :: duration

definition MinHMACSecretBytes :: nat where "MinHMACSecretBytes = 32"

section \<open>Secrets\<close>

datatype secret_error = SecretRequired | SecretTooShort | SecretPlaceholder

definition hmacSecretLooksLikePlaceholder :: "string \<Rightarrow> bool" where
  "hmacSecretLooksLikePlaceholder secret =
     (let s = ToLower (TrimSpace secret)
      in list_ex (Contains s) [''replace'', ''change-me'', ''dev-secret'', ''test-secret''])"

definition hmacSecretBytes :: "string \<Rightarrow> secret_error + string" where
  "hmacSecretBytes raw =
     (let secret = TrimSpace raw
      in if secret = [] then Inl SecretRequired
         else if length secret < MinHMACSecretBytes then Inl SecretTooShort
         else if hmacSecretLooksLikePlaceholder secret then Inl SecretPlaceholder
         else Inr secret)"

definition ValidateHMACSecret :: "string \<Rightarrow> secret_error option" where
  "ValidateHMACSecret secret = (case hmacSecretBytes secret of Inl e \<Rightarrow> Some e | Inr _ \<Rightarrow> None)"

definition NewValidator :: "string \<Rightarrow> string \<Rightarrow> string \<Rightarrow> secret_error + Validator" where
  "NewValidator secret issuer audience = (case hmacSecretBytes secret of
     Inl e \<Rightarrow> Inl e
   | Inr b \<Rightarrow> Inr \<lparr>v_secret = b, v_issuer = TrimSpace issuer, v_audience = TrimSpace audience,
                   v_clockSkew = 30 * Second\<rparr>)"

lemma hmacSecretBytes_Inr:
  "hmacSecretBytes raw = Inr b \<longleftrightarrow>
     b = TrimSpace raw \<and> MinHMACSecretBytes \<le> length b \<and> \<not> hmacSecretLooksLikePlaceholder b"
  by (auto simp: hmacSecretBytes_def Let_def MinHMACSecretBytes_def)

section \<open>Claims\<close>

fun trim_nonempty :: "string list \<Rightarrow> string list" where
  "trim_nonempty [] = []"
| "trim_nonempty (c # cs) = (if TrimSpace c = [] then trim_nonempty cs else TrimSpace c # trim_nonempty cs)"

text \<open>
  The raw member \<^verbatim>\<open>aud\<close> is a JSON value, absent when the payload has none. A \<^verbatim>\<open>null\<close> decodes into
  the empty string. \<open>None\<close> is an error.
\<close>

definition parseAudience :: "json option \<Rightarrow> string list option" where
  "parseAudience raw = (case raw of None \<Rightarrow> None
   | Some v \<Rightarrow>
       (case decode_string v [] of
          Some one \<Rightarrow> if TrimSpace one = [] then None else Some [TrimSpace one]
        | None \<Rightarrow>
            (case v of
               JArr vs \<Rightarrow>
                 (case decode_strings vs of None \<Rightarrow> None
                  | Some many \<Rightarrow> if trim_nonempty many = [] then None else Some (trim_nonempty many))
             | _ \<Rightarrow> None)))"

definition containsAudience :: "string list \<Rightarrow> string \<Rightarrow> bool" where
  "containsAudience aud want = list_ex (\<lambda>a. EqualFold (TrimSpace a) (TrimSpace want)) aud"

definition parseUnix :: "string \<Rightarrow> int option" where
  "parseUnix n = (if n = [] then None else Atoi n)"

section \<open>Signing\<close>

datatype sign_error = BadSecret secret_error | ClaimsRequired

definition jwt_header :: string where
  "jwt_header = Marshal_map [(''alg'', JStr ''HS256''), (''typ'', JStr ''JWT'')]"

definition SignHS256 ::
  "(string \<Rightarrow> string \<Rightarrow> string) \<Rightarrow> string \<Rightarrow> (string \<times> json) list option \<Rightarrow> sign_error + string"
where
  "SignHS256 hmac secret claims = (case hmacSecretBytes secret of
     Inl e \<Rightarrow> Inl (BadSecret e)
   | Inr secretBytes \<Rightarrow>
       (case claims of None \<Rightarrow> Inl ClaimsRequired
        | Some m \<Rightarrow>
            let signingInput = RawURL_Encode jwt_header @ ''.'' @ RawURL_Encode (Marshal_map m)
            in Inr (signingInput @ ''.'' @ RawURL_Encode (hmac secretBytes signingInput))))"

section \<open>Validation\<close>

text \<open>The header and the payload are decoded into these structs.\<close>

record jwt_head =
  jh_Alg :: string
  jh_Typ :: string

record raw_claims =
  rc_Sub :: string
  rc_Iss :: string
  rc_Aud :: "json option"
  rc_Exp :: string
  rc_Nbf :: string
  rc_JTI :: string
  rc_MaxSessions :: int
  rc_Role :: string
  rc_SessionID :: string

definition jwt_head_fields :: "string list" where
  "jwt_head_fields = [''alg'', ''typ'']"

definition jwt_head_put :: "string \<Rightarrow> json \<Rightarrow> jwt_head \<Rightarrow> jwt_head option" where
  "jwt_head_put f v r =
     (if f = ''alg'' then map_option (\<lambda>x. r\<lparr>jh_Alg := x\<rparr>) (decode_string v (jh_Alg r))
      else map_option (\<lambda>x. r\<lparr>jh_Typ := x\<rparr>) (decode_string v (jh_Typ r)))"

definition decode_jwt_head :: "json \<Rightarrow> jwt_head option" where
  "decode_jwt_head = decode_struct False jwt_head_fields jwt_head_put \<lparr>jh_Alg = [], jh_Typ = []\<rparr>"

definition raw_claims_fields :: "string list" where
  "raw_claims_fields =
     [''sub'', ''iss'', ''aud'', ''exp'', ''nbf'', ''jti'', ''max_sessions'', ''role'', ''session_id'']"

definition raw_claims_put :: "string \<Rightarrow> json \<Rightarrow> raw_claims \<Rightarrow> raw_claims option" where
  "raw_claims_put f v r =
     (if f = ''sub'' then map_option (\<lambda>x. r\<lparr>rc_Sub := x\<rparr>) (decode_string v (rc_Sub r))
      else if f = ''iss'' then map_option (\<lambda>x. r\<lparr>rc_Iss := x\<rparr>) (decode_string v (rc_Iss r))
      else if f = ''aud'' then Some (r\<lparr>rc_Aud := Some v\<rparr>)
      else if f = ''exp'' then map_option (\<lambda>x. r\<lparr>rc_Exp := x\<rparr>) (decode_number v (rc_Exp r))
      else if f = ''nbf'' then map_option (\<lambda>x. r\<lparr>rc_Nbf := x\<rparr>) (decode_number v (rc_Nbf r))
      else if f = ''jti'' then map_option (\<lambda>x. r\<lparr>rc_JTI := x\<rparr>) (decode_string v (rc_JTI r))
      else if f = ''max_sessions'' then
        map_option (\<lambda>x. r\<lparr>rc_MaxSessions := x\<rparr>) (decode_int v (rc_MaxSessions r))
      else if f = ''role'' then map_option (\<lambda>x. r\<lparr>rc_Role := x\<rparr>) (decode_string v (rc_Role r))
      else map_option (\<lambda>x. r\<lparr>rc_SessionID := x\<rparr>) (decode_string v (rc_SessionID r)))"

definition raw_claims_zero :: raw_claims where
  "raw_claims_zero = \<lparr>rc_Sub = [], rc_Iss = [], rc_Aud = None, rc_Exp = [], rc_Nbf = [], rc_JTI = [],
     rc_MaxSessions = 0, rc_Role = [], rc_SessionID = []\<rparr>"

definition decode_raw_claims :: "json \<Rightarrow> raw_claims option" where
  "decode_raw_claims = decode_struct False raw_claims_fields raw_claims_put raw_claims_zero"

text \<open>The first half of \<^verbatim>\<open>Validate\<close>: the three parts, the signature, the header, the payload.\<close>

definition open_token ::
  "(string \<Rightarrow> string \<Rightarrow> string) \<Rightarrow> string \<Rightarrow> string \<Rightarrow> grant_error + raw_claims"
where
  "open_token hmac secret token = (case split_on CHR ''.'' (TrimSpace token) of
     [h, p, s] \<Rightarrow>
       (case RawURL_Decode s of None \<Rightarrow> Inl ErrMalformedToken
        | Some sig \<Rightarrow>
            if sig \<noteq> hmac secret (h @ ''.'' @ p) then Inl ErrBadSignature
            else
              (case Option.bind (Option.bind (RawURL_Decode h) json_Unmarshal) decode_jwt_head of
                 None \<Rightarrow> Inl ErrMalformedToken
               | Some header \<Rightarrow>
                   if \<not> EqualFold (jh_Alg header) ''HS256'' then Inl (ErrInvalidClaim ''unsupported alg'')
                   else
                     (case Option.bind (Option.bind (RawURL_Decode p) json_Decode) decode_raw_claims of
                        None \<Rightarrow> Inl ErrMalformedToken
                      | Some raw \<Rightarrow> Inr raw)))
   | _ \<Rightarrow> Inl ErrMalformedToken)"

text \<open>The second half, which looks at the claims; \<open>nbf\<close> is the zero time when there is none.\<close>

definition check_nbf :: "Validator \<Rightarrow> gotime \<Rightarrow> string \<Rightarrow> grant_error + gotime" where
  "check_nbf v now n =
     (if n = [] then Inr 0
      else case parseUnix n of
        None \<Rightarrow> Inl (ErrInvalidClaim ''invalid nbf'')
      | Some u \<Rightarrow>
          if now < Time_Add (time_Unix u) (- v_clockSkew v) then Inl ErrNotYetValid
          else Inr (time_Unix u))"

definition check_claims :: "Validator \<Rightarrow> gotime \<Rightarrow> raw_claims \<Rightarrow> grant_error + Claims" where
  "check_claims v now raw =
     (if TrimSpace (rc_Sub raw) = [] then Inl (ErrInvalidClaim ''missing sub'')
      else if TrimSpace (rc_JTI raw) = [] then Inl (ErrInvalidClaim ''missing jti'')
      else case parseUnix (rc_Exp raw) of
        None \<Rightarrow> Inl (ErrInvalidClaim ''invalid exp'')
      | Some expUnix \<Rightarrow>
          let expt = time_Unix expUnix
          in if Time_Add expt (v_clockSkew v) < now then Inl ErrExpired
             else case check_nbf v now (rc_Nbf raw) of
               Inl e \<Rightarrow> Inl e
             | Inr nbf \<Rightarrow>
                 if v_issuer v \<noteq> [] \<and> \<not> EqualFold (v_issuer v) (TrimSpace (rc_Iss raw))
                 then Inl (ErrInvalidClaim ''issuer mismatch'')
                 else case parseAudience (rc_Aud raw) of
                   None \<Rightarrow> Inl (ErrInvalidClaim ''invalid aud'')
                 | Some aud \<Rightarrow>
                     if v_audience v \<noteq> [] \<and> \<not> containsAudience aud (v_audience v)
                     then Inl (ErrInvalidClaim ''audience mismatch'')
                     else Inr \<lparr>cl_Subject = TrimSpace (rc_Sub raw), cl_Issuer = TrimSpace (rc_Iss raw),
                       cl_Audience = aud, cl_ExpiresAt = expt, cl_NotBefore = nbf,
                       cl_MaxSessions = rc_MaxSessions raw, cl_TokenID = TrimSpace (rc_JTI raw),
                       cl_Role = TrimSpace (rc_Role raw), cl_SessionID = TrimSpace (rc_SessionID raw)\<rparr>)"

definition Validate ::
  "(string \<Rightarrow> string \<Rightarrow> string) \<Rightarrow> Validator \<Rightarrow> gotime \<Rightarrow> string \<Rightarrow> grant_error + Claims"
where
  "Validate hmac v now token = (case open_token hmac (v_secret v) token of
     Inl e \<Rightarrow> Inl e | Inr raw \<Rightarrow> check_claims v now raw)"

section \<open>What an accepted token guarantees\<close>

lemma open_token_Inr:
  assumes "open_token hmac secret token = Inr raw"
  obtains h p s header where "split_on CHR ''.'' (TrimSpace token) = [h, p, s]"
    "RawURL_Decode s = Some (hmac secret (h @ ''.'' @ p))"
    "Option.bind (Option.bind (RawURL_Decode h) json_Unmarshal) decode_jwt_head = Some header"
    "EqualFold (jh_Alg header) ''HS256''"
    "Option.bind (Option.bind (RawURL_Decode p) json_Decode) decode_raw_claims = Some raw"
  using assms unfolding open_token_def
  by (auto split: list.splits option.splits if_splits)

lemma check_nbf_Inr:
  "check_nbf v now n = Inr nbf \<longleftrightarrow>
     (n = [] \<and> nbf = 0 \<or>
      n \<noteq> [] \<and> (\<exists>u. parseUnix n = Some u \<and> nbf = time_Unix u \<and> Time_Add nbf (- v_clockSkew v) \<le> now))"
  by (auto simp: check_nbf_def split: option.splits)

lemma check_claims_Inr:
  "check_claims v now raw = Inr c \<longleftrightarrow>
     TrimSpace (rc_Sub raw) \<noteq> [] \<and> TrimSpace (rc_JTI raw) \<noteq> []
     \<and> (\<exists>u nbf aud. parseUnix (rc_Exp raw) = Some u \<and> now \<le> Time_Add (time_Unix u) (v_clockSkew v)
        \<and> check_nbf v now (rc_Nbf raw) = Inr nbf
        \<and> (v_issuer v = [] \<or> EqualFold (v_issuer v) (TrimSpace (rc_Iss raw)))
        \<and> parseAudience (rc_Aud raw) = Some aud
        \<and> (v_audience v = [] \<or> containsAudience aud (v_audience v))
        \<and> c = \<lparr>cl_Subject = TrimSpace (rc_Sub raw), cl_Issuer = TrimSpace (rc_Iss raw),
             cl_Audience = aud, cl_ExpiresAt = time_Unix u, cl_NotBefore = nbf,
             cl_MaxSessions = rc_MaxSessions raw, cl_TokenID = TrimSpace (rc_JTI raw),
             cl_Role = TrimSpace (rc_Role raw), cl_SessionID = TrimSpace (rc_SessionID raw)\<rparr>)"
  unfolding check_claims_def Let_def
  by (cases "parseUnix (rc_Exp raw)"; cases "check_nbf v now (rc_Nbf raw)"; cases "parseAudience (rc_Aud raw)")
     (auto simp: not_less)

lemma Validate_Inr:
  "Validate hmac v now token = Inr c \<longleftrightarrow>
     (\<exists>raw. open_token hmac (v_secret v) token = Inr raw \<and> check_claims v now raw = Inr c)"
  by (auto simp: Validate_def split: sum.splits)

lemma trim_nonempty_spec: "trim_nonempty cs = filter (\<lambda>c. c \<noteq> []) (map TrimSpace cs)"
  by (induction cs) auto

lemma parseAudience_Some:
  "parseAudience raw = Some aud \<Longrightarrow> aud \<noteq> [] \<and> (\<forall>a \<in> set aud. a \<noteq> [] \<and> trimmed a)"
  by (auto simp: parseAudience_def trim_nonempty_spec split: option.splits if_splits json.splits)

lemma containsAudience_iff:
  "containsAudience aud want \<longleftrightarrow> (\<exists>a \<in> set aud. EqualFold (TrimSpace a) (TrimSpace want))"
  by (auto simp: containsAudience_def list_ex_iff)

text \<open>
  The claims of an accepted token: they come from a payload under a valid signature of the
  validator's key, the token is inside its time window (with the skew), names a subject and a
  token id, and satisfies the issuer and audience the validator was configured with.
\<close>

definition inside_window :: "Validator \<Rightarrow> gotime \<Rightarrow> Claims \<Rightarrow> bool" where
  "inside_window v now c \<longleftrightarrow> now \<le> Time_Add (cl_ExpiresAt c) (v_clockSkew v)
     \<and> (cl_NotBefore c = 0 \<or> Time_Add (cl_NotBefore c) (- v_clockSkew v) \<le> now)"

definition claims_for :: "Validator \<Rightarrow> Claims \<Rightarrow> bool" where
  "claims_for v c \<longleftrightarrow>
     cl_Subject c \<noteq> [] \<and> trimmed (cl_Subject c) \<and> cl_TokenID c \<noteq> [] \<and> trimmed (cl_TokenID c)
     \<and> trimmed (cl_Role c) \<and> trimmed (cl_SessionID c) \<and> cl_Audience c \<noteq> []
     \<and> (v_issuer v = [] \<or> EqualFold (v_issuer v) (cl_Issuer c))
     \<and> (v_audience v = [] \<or> (\<exists>a \<in> set (cl_Audience c). EqualFold a (TrimSpace (v_audience v))))"

definition signed_by :: "(string \<Rightarrow> string \<Rightarrow> string) \<Rightarrow> string \<Rightarrow> string \<Rightarrow> bool" where
  "signed_by hmac secret token \<longleftrightarrow> (\<exists>h p s. TrimSpace token = h @ ''.'' @ p @ ''.'' @ s
     \<and> CHR ''.'' \<notin> set h \<and> CHR ''.'' \<notin> set p
     \<and> RawURL_Decode s = Some (hmac secret (h @ ''.'' @ p)))"

lemma check_claims_sound:
  assumes "check_claims v now raw = Inr c"
  shows "inside_window v now c \<and> claims_for v c"
proof -
  from assms obtain u nbf aud where
      names: "TrimSpace (rc_Sub raw) \<noteq> []" "TrimSpace (rc_JTI raw) \<noteq> []"
    and window: "now \<le> Time_Add (time_Unix u) (v_clockSkew v)" "check_nbf v now (rc_Nbf raw) = Inr nbf"
    and issuer: "v_issuer v = [] \<or> EqualFold (v_issuer v) (TrimSpace (rc_Iss raw))"
    and aud: "parseAudience (rc_Aud raw) = Some aud" "v_audience v = [] \<or> containsAudience aud (v_audience v)"
    and c: "c = \<lparr>cl_Subject = TrimSpace (rc_Sub raw), cl_Issuer = TrimSpace (rc_Iss raw),
             cl_Audience = aud, cl_ExpiresAt = time_Unix u, cl_NotBefore = nbf,
             cl_MaxSessions = rc_MaxSessions raw, cl_TokenID = TrimSpace (rc_JTI raw),
             cl_Role = TrimSpace (rc_Role raw), cl_SessionID = TrimSpace (rc_SessionID raw)\<rparr>"
    unfolding check_claims_Inr by blast
  have "inside_window v now c"
    using window by (auto simp: c inside_window_def check_nbf_Inr)
  moreover have "claims_for v c"
    using names issuer aud parseAudience_Some [OF aud(1)]
    by (auto simp: c claims_for_def containsAudience_iff TrimSpace_id)
  ultimately show ?thesis ..
qed

lemma open_token_signed: "open_token hmac secret token = Inr raw \<Longrightarrow> signed_by hmac secret token"
proof (elim open_token_Inr)
  fix h p s
  assume sp: "split_on CHR ''.'' (TrimSpace token) = [h, p, s]"
    and sig: "RawURL_Decode s = Some (hmac secret (h @ ''.'' @ p))"
  have "TrimSpace token = Join [h, p, s] ''.''"
    using Join_split_on [of "CHR ''.''" "TrimSpace token"] sp by simp
  moreover have "CHR ''.'' \<notin> set h" "CHR ''.'' \<notin> set p"
    using split_on_pieces [of _ "CHR ''.''" "TrimSpace token"] sp by auto
  ultimately show "signed_by hmac secret token"
    using sig unfolding signed_by_def by auto
qed

section \<open>Signing, then validating\<close>

lemma split_token: "split_on CHR ''.'' (TrimSpace
     ((RawURL_Encode h @ ''.'' @ RawURL_Encode p) @ ''.'' @ RawURL_Encode s))
   = [RawURL_Encode h, RawURL_Encode p, RawURL_Encode s]"
proof -
  have "trimmed ((RawURL_Encode h @ ''.'' @ RawURL_Encode p) @ ''.'' @ RawURL_Encode s)"
    using RawURL_safe by (intro url_safe_trimmed) (auto simp: ord_def ascii_space_def)
  then show ?thesis
    using RawURL_no_dot by (simp add: TrimSpace_id split_on_append split_on_none)
qed

lemma ascii_literal: "list_all (\<lambda>c. ord c < 128) s \<Longrightarrow> ascii s"
  by (simp add: ascii_def list_all_iff)

lemma jwt_header_decodes:
  "Option.bind (json_Unmarshal jwt_header) decode_jwt_head = Some \<lparr>jh_Alg = ''HS256'', jh_Typ = ''JWT''\<rparr>"
proof -
  have "sort_key fst [(''alg'', JStr ''HS256''), (''typ'', JStr ''JWT'')]
      = [(''alg'', JStr ''HS256''), (''typ'', JStr ''JWT'')]"
    by code_simp
  moreover have "json_Unmarshal (print_json (JObj [(''alg'', JStr ''HS256''), (''typ'', JStr ''JWT'')]))
      = Some (JObj [(''alg'', JStr ''HS256''), (''typ'', JStr ''JWT'')])"
    by (rule Unmarshal_print) (simp add: max_depth_def ascii_def ord_def)
  moreover have "decode_jwt_head (JObj [(''alg'', JStr ''HS256''), (''typ'', JStr ''JWT'')])
      = Some \<lparr>jh_Alg = ''HS256'', jh_Typ = ''JWT''\<rparr>"
    by code_simp
  ultimately show ?thesis
    unfolding jwt_header_def Marshal_map_def by simp
qed

lemma open_SignHS256:
  assumes "SignHS256 hmac secret (Some m) = Inr token" and "hmacSecretBytes secret = Inr key"
    and "printable max_depth (JObj (sort_key fst m))"
    and "decode_raw_claims (JObj (sort_key fst m)) = Some raw"
  shows "open_token hmac key token = Inr raw"
proof -
  have tok: "token = (RawURL_Encode jwt_header @ ''.'' @ RawURL_Encode (Marshal_map m)) @ ''.''
      @ RawURL_Encode (hmac key (RawURL_Encode jwt_header @ ''.'' @ RawURL_Encode (Marshal_map m)))"
    using assms(1,2) by (simp add: SignHS256_def Let_def)
  have "json_Decode (Marshal_map m) = Some (JObj (sort_key fst m))"
    unfolding Marshal_map_def by (rule Decode_print) (rule assms(3))
  with assms(4) jwt_header_decodes show ?thesis
    unfolding open_token_def tok split_token by simp
qed

section \<open>A concrete token\<close>

text \<open>A validator and a signaling token it accepts at a concrete time, under a concrete keyed function.\<close>

definition demo_hmac :: "string \<Rightarrow> string \<Rightarrow> string" where
  "demo_hmac k m = take 4 k @ take 8 (rev m)"

definition demo_key :: string where
  "demo_key = ''0123456789abcdef0123456789abcdef''"

definition demo_members :: "(string \<times> json) list" where
  "demo_members = [(''aud'', JStr ''webrtc.signal''), (''exp'', JNum ''1700000120''), (''jti'', JStr ''t1''),
     (''max_sessions'', JNum ''2''), (''nbf'', JNum ''1700000000''), (''role'', JStr ''agent''),
     (''session_id'', JStr ''s1''), (''sub'', JStr ''alice'')]"

definition demo_token :: string where
  "demo_token = (case SignHS256 demo_hmac demo_key (Some demo_members) of Inr t \<Rightarrow> t | Inl _ \<Rightarrow> [])"

definition demo_validator :: Validator where
  "demo_validator = \<lparr>v_secret = demo_key, v_issuer = [], v_audience = ''webrtc.signal'',
     v_clockSkew = 30 * Second\<rparr>"

definition demo_accepted :: Claims where
  "demo_accepted = \<lparr>cl_Subject = ''alice'', cl_Issuer = [], cl_Audience = [''webrtc.signal''],
     cl_ExpiresAt = time_Unix 1700000120, cl_NotBefore = time_Unix 1700000000, cl_MaxSessions = 2,
     cl_TokenID = ''t1'', cl_Role = ''agent'', cl_SessionID = ''s1''\<rparr>"

definition demo_raw :: raw_claims where
  "demo_raw = \<lparr>rc_Sub = ''alice'', rc_Iss = [], rc_Aud = Some (JStr ''webrtc.signal''), rc_Exp = ''1700000120'',
     rc_Nbf = ''1700000000'', rc_JTI = ''t1'', rc_MaxSessions = 2, rc_Role = ''agent'', rc_SessionID = ''s1''\<rparr>"

lemma demo_key_ok: "hmacSecretBytes demo_key = Inr demo_key"
  by code_simp

lemma demo_token_signed: "SignHS256 demo_hmac demo_key (Some demo_members) = Inr demo_token"
  by (simp add: demo_token_def SignHS256_def demo_key_ok Let_def)

lemma demo_sorted: "sort_key fst demo_members = demo_members"
  by code_simp

lemma demo_numbers: "Itoa 1700000120 = ''1700000120''" "Itoa 1700000000 = ''1700000000''" "Itoa 2 = ''2''"
  by (simp_all add: Itoa_def nat_digits.simps digit_char_def)

lemma demo_printable: "printable max_depth (JObj demo_members)"
proof -
  have "\<exists>i. ''1700000120'' = Itoa i" "\<exists>i. ''1700000000'' = Itoa i" "\<exists>i. ''2'' = Itoa i"
    using demo_numbers by metis+
  then show ?thesis
    by (simp add: demo_members_def max_depth_def ascii_def ord_def)
qed

lemma demo_token_opens: "open_token demo_hmac demo_key demo_token = Inr demo_raw"
proof (rule open_SignHS256 [OF demo_token_signed demo_key_ok])
  show "printable max_depth (JObj (sort_key fst demo_members))"
    unfolding demo_sorted by (rule demo_printable)
  show "decode_raw_claims (JObj (sort_key fst demo_members)) = Some demo_raw"
    unfolding demo_sorted by code_simp
qed

lemma demo_claims_check: "check_claims demo_validator (time_Unix 1700000060) demo_raw = Inr demo_accepted"
  by code_simp

lemma demo_token_accepted:
  "Validate demo_hmac demo_validator (time_Unix 1700000060) demo_token = Inr demo_accepted"
  using demo_token_opens demo_claims_check by (simp add: Validate_def demo_validator_def)

section \<open>Properties\<close>

text \<open>
  C1: A token that \<^verbatim>\<open>Validate\<close> accepts consists of three parts, the last of which is the MAC of the
  first two under the validator's key; the time is inside its window, skew included; the claims
  name a subject, a token id and an audience, all trimmed, and satisfy the issuer and audience the
  validator was configured with.
\<close>

theorem Validate_sound:
  assumes "Validate hmac v now token = Inr c"
  shows "signed_by hmac (v_secret v) token \<and> inside_window v now c \<and> claims_for v c"
  using assms open_token_signed check_claims_sound unfolding Validate_Inr by blast

lemma Validate_sound_witness:
  "signed_by demo_hmac (v_secret demo_validator) demo_token
   \<and> inside_window demo_validator (time_Unix 1700000060) demo_accepted
   \<and> claims_for demo_validator demo_accepted"
  by (rule Validate_sound) (rule demo_token_accepted)

text \<open>
  A validator exists exactly for the secrets that, once trimmed, have 32 bytes or more and
  none of the placeholder markers; it keeps the trimmed secret, issuer and audience and a skew of
  30 seconds.
\<close>

theorem NewValidator_iff:
  "NewValidator secret issuer audience = Inr v \<longleftrightarrow>
     32 \<le> length (TrimSpace secret) \<and> \<not> hmacSecretLooksLikePlaceholder (TrimSpace secret)
     \<and> v = \<lparr>v_secret = TrimSpace secret, v_issuer = TrimSpace issuer, v_audience = TrimSpace audience,
           v_clockSkew = 30000000000\<rparr>"
proof -
  have "NewValidator secret issuer audience = Inr v \<longleftrightarrow> (\<exists>b. hmacSecretBytes secret = Inr b
      \<and> v = \<lparr>v_secret = b, v_issuer = TrimSpace issuer, v_audience = TrimSpace audience,
            v_clockSkew = 30 * Second\<rparr>)"
    by (auto simp: NewValidator_def split: sum.splits)
  then show ?thesis
    by (auto simp: hmacSecretBytes_Inr MinHMACSecretBytes_def)
qed

end
