(* ===== verification/Agent_Registry.thy ===== *)
theory Agent_Registry
  imports Go_Time
begin

text \<open>
  The registry of agent sessions, \<^verbatim>\<open>controlplane/agent_registry*.go\<close>: for each subject the live
  sessions by session id, and the tombstones of the sessions that were terminated, with the time
  of termination. A nil map reads as the empty one. The clock is an argument.

  Go's \<^verbatim>\<open>sort.Slice\<close> orders by \<^verbatim>\<open>LastSeenAt\<close>, latest first; the order of equal elements is that of
  the iteration, which the theorems leave arbitrary.
\<close>

section \<open>State\<close>

record AgentStatus =
  as_Subject :: string
  as_SessionID :: string
  as_AgentLabel :: string
  as_Transport :: string
  as_CreatedAt :: gotime
  as_LastSeenAt :: gotime

definition AgentStatus_zero :: AgentStatus where
  "AgentStatus_zero = \<lparr>as_Subject = [], as_SessionID = [], as_AgentLabel = [], as_Transport = [],
     as_CreatedAt = 0, as_LastSeenAt = 0\<rparr>"

record AgentRegistry =
  reg_items :: "(string, (string, AgentStatus) gomap) gomap"
  reg_terminated :: "(string, (string, gotime) gomap) gomap"

datatype registry_error =
  RegSubjectRequired | RegSessionRequired | RegTransportRequired | RegMaxSessionsInvalid
| ErrAgentSessionLimitReached | ErrAgentSessionTerminated

definition terminatedAgentSessionRetention :: duration where
  "terminatedAgentSessionRetention = 10 * Minute"

definition NewAgentRegistry :: AgentRegistry where
  "NewAgentRegistry = \<lparr>reg_items = [], reg_terminated = []\<rparr>"

definition agentStaleCutoff :: "gotime \<Rightarrow> duration \<Rightarrow> gotime option" where
  "agentStaleCutoff now staleAfter = (if staleAfter \<le> 0 then None else Some (now - staleAfter))"

definition is_stale :: "gotime option \<Rightarrow> AgentStatus \<Rightarrow> bool" where
  "is_stale cutoff item = (case cutoff of None \<Rightarrow> False | Some c \<Rightarrow> as_LastSeenAt item < c)"

text \<open>The inner map of a subject, nil when there is none.\<close>

definition inner :: "(string, ('k, 'v) gomap) gomap \<Rightarrow> string \<Rightarrow> ('k, 'v) gomap" where
  "inner m subject = (case go_get m subject of None \<Rightarrow> [] | Some x \<Rightarrow> x)"

text \<open>\<^verbatim>\<open>delete(subjectItems, id)\<close>, and the subject with it when nothing is left.\<close>

definition put_or_drop ::
  "(string, ('k, 'v) gomap) gomap \<Rightarrow> string \<Rightarrow> ('k, 'v) gomap \<Rightarrow> (string, ('k, 'v) gomap) gomap"
where
  "put_or_drop m subject x = (if x = [] then go_del m subject else go_put m subject x)"

section \<open>Tombstones\<close>

definition isTerminatedLocked :: "AgentRegistry \<Rightarrow> string \<Rightarrow> string \<Rightarrow> bool" where
  "isTerminatedLocked r subject sessionID \<longleftrightarrow> go_get (inner (reg_terminated r) subject) sessionID \<noteq> None"

definition AgentRegistry_IsTerminated :: "AgentRegistry \<Rightarrow> string \<Rightarrow> string \<Rightarrow> bool" where
  "AgentRegistry_IsTerminated r rawSubject rawSession =
     (let subject = TrimSpace rawSubject; sessionID = TrimSpace rawSession
      in if subject = [] \<or> sessionID = [] then False else isTerminatedLocked r subject sessionID)"

definition markTerminatedLocked :: "AgentRegistry \<Rightarrow> string \<Rightarrow> string \<Rightarrow> gotime \<Rightarrow> AgentRegistry" where
  "markTerminatedLocked r subject sessionID now =
     r\<lparr>reg_terminated := go_put (reg_terminated r) subject
        (go_put (inner (reg_terminated r) subject) sessionID now)\<rparr>"

section \<open>Registration\<close>

record agentSessionUpdate =
  up_subject :: string
  up_sessionID :: string
  up_agentLabel :: string
  up_transport :: string

definition newAgentSessionUpdate :: "string \<Rightarrow> string \<Rightarrow> string \<Rightarrow> string \<Rightarrow> agentSessionUpdate" where
  "newAgentSessionUpdate subject sessionID agentLabel transport =
     \<lparr>up_subject = TrimSpace subject, up_sessionID = TrimSpace sessionID,
      up_agentLabel = TrimSpace agentLabel, up_transport = TrimSpace transport\<rparr>"

definition agentSessionUpdate_validate :: "agentSessionUpdate \<Rightarrow> registry_error option" where
  "agentSessionUpdate_validate u =
     (if up_subject u = [] then Some RegSubjectRequired
      else if up_sessionID u = [] then Some RegSessionRequired
      else if up_transport u = [] then Some RegTransportRequired
      else None)"

definition upsertAgentSessionLocked ::
  "(string, AgentStatus) gomap \<Rightarrow> agentSessionUpdate \<Rightarrow> gotime
   \<Rightarrow> (string, AgentStatus) gomap \<times> AgentStatus \<times> bool"
where
  "upsertAgentSessionLocked subjectItems u now =
     (let existing = go_get subjectItems (up_sessionID u);
          base = (case existing of
             None \<Rightarrow> AgentStatus_zero\<lparr>as_CreatedAt := now, as_Subject := up_subject u\<rparr>
           | Some current \<Rightarrow> current);
          item = base\<lparr>as_SessionID := up_sessionID u, as_AgentLabel := up_agentLabel u,
                      as_Transport := up_transport u, as_LastSeenAt := now\<rparr>
      in (go_put subjectItems (up_sessionID u) item, item, existing = None))"

definition upsertLocked_registry ::
  "AgentRegistry \<Rightarrow> agentSessionUpdate \<Rightarrow> gotime \<Rightarrow> AgentRegistry \<times> AgentStatus \<times> bool"
where
  "upsertLocked_registry r u now =
     (let (subjectItems, item, created) = upsertAgentSessionLocked (inner (reg_items r) (up_subject u)) u now
      in (r\<lparr>reg_items := go_put (reg_items r) (up_subject u) subjectItems\<rparr>, item, created))"

definition AgentRegistry_Upsert ::
  "gotime \<Rightarrow> AgentRegistry \<Rightarrow> string \<Rightarrow> string \<Rightarrow> string \<Rightarrow> string
   \<Rightarrow> AgentRegistry \<times> (registry_error + AgentStatus)"
where
  "AgentRegistry_Upsert now r subject sessionID agentLabel transport =
     (let u = newAgentSessionUpdate subject sessionID agentLabel transport
      in case agentSessionUpdate_validate u of Some e \<Rightarrow> (r, Inl e)
      | None \<Rightarrow>
          if isTerminatedLocked r (up_subject u) (up_sessionID u) then (r, Inl ErrAgentSessionTerminated)
          else let (r', item, _) = upsertLocked_registry r u now in (r', Inr item))"

definition AgentRegistry_UpsertLimited ::
  "gotime \<Rightarrow> AgentRegistry \<Rightarrow> string \<Rightarrow> string \<Rightarrow> string \<Rightarrow> string \<Rightarrow> int
   \<Rightarrow> AgentRegistry \<times> (registry_error + AgentStatus \<times> bool)"
where
  "AgentRegistry_UpsertLimited now r subject sessionID agentLabel transport maxSessions =
     (let u = newAgentSessionUpdate subject sessionID agentLabel transport
      in case agentSessionUpdate_validate u of Some e \<Rightarrow> (r, Inl e)
      | None \<Rightarrow>
          if maxSessions \<le> 0 then (r, Inl RegMaxSessionsInvalid)
          else if isTerminatedLocked r (up_subject u) (up_sessionID u) then (r, Inl ErrAgentSessionTerminated)
          else
            let subjectItems = inner (reg_items r) (up_subject u);
                r1 = r\<lparr>reg_items := go_put (reg_items r) (up_subject u) subjectItems\<rparr>
            in if go_get subjectItems (up_sessionID u) = None \<and> maxSessions \<le> go_len subjectItems
               then (r1, Inl ErrAgentSessionLimitReached)
               else
                 let (subjectItems', item, created) = upsertAgentSessionLocked subjectItems u now
                 in (r1\<lparr>reg_items := go_put (reg_items r1) (up_subject u) subjectItems'\<rparr>, Inr (item, created)))"

section \<open>Life cycle\<close>

definition AgentRegistry_Touch ::
  "gotime \<Rightarrow> AgentRegistry \<Rightarrow> string \<Rightarrow> string \<Rightarrow> string \<Rightarrow> AgentRegistry \<times> bool"
where
  "AgentRegistry_Touch now r rawSubject rawSession rawLabel =
     (let subject = TrimSpace rawSubject; sessionID = TrimSpace rawSession; agentLabel = TrimSpace rawLabel
      in if subject = [] \<or> sessionID = [] then (r, False)
         else case go_get (inner (reg_items r) subject) sessionID of
           None \<Rightarrow> (r, False)
         | Some current \<Rightarrow>
             let current1 = (if agentLabel \<noteq> [] then current\<lparr>as_AgentLabel := agentLabel\<rparr> else current);
                 current2 = current1\<lparr>as_LastSeenAt := now\<rparr>
             in (r\<lparr>reg_items := go_put (reg_items r) subject
                    (go_put (inner (reg_items r) subject) sessionID current2)\<rparr>, True))"

definition remove_session :: "AgentRegistry \<Rightarrow> string \<Rightarrow> string \<Rightarrow> AgentRegistry \<times> bool" where
  "remove_session r subject sessionID =
     (case go_get (inner (reg_items r) subject) sessionID of
        None \<Rightarrow> (r, False)
      | Some _ \<Rightarrow> (r\<lparr>reg_items := put_or_drop (reg_items r) subject
                      (go_del (inner (reg_items r) subject) sessionID)\<rparr>, True))"

definition AgentRegistry_Terminate :: "gotime \<Rightarrow> AgentRegistry \<Rightarrow> string \<Rightarrow> string \<Rightarrow> AgentRegistry \<times> bool" where
  "AgentRegistry_Terminate now r rawSubject rawSession =
     (let subject = TrimSpace rawSubject; sessionID = TrimSpace rawSession
      in if subject = [] \<or> sessionID = [] then (r, False)
         else remove_session (markTerminatedLocked r subject sessionID now) subject sessionID)"

definition AgentRegistry_Remove :: "AgentRegistry \<Rightarrow> string \<Rightarrow> string \<Rightarrow> AgentRegistry \<times> bool" where
  "AgentRegistry_Remove r rawSubject rawSession =
     (let subject = TrimSpace rawSubject; sessionID = TrimSpace rawSession
      in if subject = [] \<or> sessionID = [] then (r, False) else remove_session r subject sessionID)"

definition sort_by_last_seen :: "AgentStatus list \<Rightarrow> AgentStatus list" where
  "sort_by_last_seen = sort_key (\<lambda>item. - as_LastSeenAt item)"

text \<open>The loop of \<^verbatim>\<open>TerminateAll\<close> keeps the stale sessions and marks the others.\<close>

definition AgentRegistry_TerminateAll ::
  "gotime \<Rightarrow> AgentRegistry \<Rightarrow> string \<Rightarrow> duration \<Rightarrow> AgentRegistry \<times> AgentStatus list"
where
  "AgentRegistry_TerminateAll now r rawSubject staleAfter =
     (let subject = TrimSpace rawSubject
      in if subject = [] then (r, [])
         else
           let cutoff = agentStaleCutoff now staleAfter;
               subjectItems = inner (reg_items r) subject;
               gone = go_filter (\<lambda>_ item. \<not> is_stale cutoff item) subjectItems;
               kept = go_filter (\<lambda>_ item. is_stale cutoff item) subjectItems;
               r1 = foldl (\<lambda>r (sessionID, _). markTerminatedLocked r subject sessionID now) r gone
           in (r1\<lparr>reg_items := put_or_drop (reg_items r1) subject kept\<rparr>,
               sort_by_last_seen (map snd gone)))"

section \<open>Queries\<close>

definition AgentRegistry_ListBySubject :: "gotime \<Rightarrow> AgentRegistry \<Rightarrow> string \<Rightarrow> duration \<Rightarrow> AgentStatus list" where
  "AgentRegistry_ListBySubject now r rawSubject staleAfter =
     (let subject = TrimSpace rawSubject
      in if subject = [] then []
         else sort_by_last_seen (map snd (go_filter (\<lambda>_ item. \<not> is_stale (agentStaleCutoff now staleAfter) item)
                (inner (reg_items r) subject))))"

definition AgentRegistry_Lookup ::
  "gotime \<Rightarrow> AgentRegistry \<Rightarrow> string \<Rightarrow> string \<Rightarrow> duration \<Rightarrow> AgentStatus option"
where
  "AgentRegistry_Lookup now r rawSubject rawSession staleAfter =
     (let subject = TrimSpace rawSubject; sessionID = TrimSpace rawSession
      in if subject = [] \<or> sessionID = [] then None
         else case go_get (inner (reg_items r) subject) sessionID of
           None \<Rightarrow> None
         | Some item \<Rightarrow> if is_stale (agentStaleCutoff now staleAfter) item then None else Some item)"

text \<open>The two loops of \<^verbatim>\<open>Cleanup\<close>: drop entries of the inner maps, then the inner maps left empty.\<close>

definition clean_inner ::
  "('v \<Rightarrow> bool) \<Rightarrow> (string, (string, 'v) gomap) gomap \<Rightarrow> (string, (string, 'v) gomap) gomap"
where
  "clean_inner drop_it m =
     filter (\<lambda>e. snd e \<noteq> []) (map (\<lambda>(k, x). (k, go_filter (\<lambda>_ v. \<not> drop_it v) x)) m)"

definition AgentRegistry_Cleanup :: "gotime \<Rightarrow> AgentRegistry \<Rightarrow> duration \<Rightarrow> AgentRegistry" where
  "AgentRegistry_Cleanup now r staleAfter =
     \<lparr>reg_items = clean_inner (is_stale (agentStaleCutoff now staleAfter)) (reg_items r),
      reg_terminated = clean_inner (\<lambda>at. at < now - terminatedAgentSessionRetention) (reg_terminated r)\<rparr>"

section \<open>Operations as steps\<close>

datatype registry_op =
  RegUpsert gotime string string string string
| RegUpsertLimited gotime string string string string int
| RegTouch gotime string string string
| RegTerminate gotime string string
| RegRemove gotime string string
| RegTerminateAll gotime string duration
| RegCleanup gotime duration

fun registry_step :: "AgentRegistry \<Rightarrow> registry_op \<Rightarrow> AgentRegistry" where
  "registry_step r (RegUpsert now s i l t) = fst (AgentRegistry_Upsert now r s i l t)"
| "registry_step r (RegUpsertLimited now s i l t m) = fst (AgentRegistry_UpsertLimited now r s i l t m)"
| "registry_step r (RegTouch now s i l) = fst (AgentRegistry_Touch now r s i l)"
| "registry_step r (RegTerminate now s i) = fst (AgentRegistry_Terminate now r s i)"
| "registry_step r (RegRemove now s i) = fst (AgentRegistry_Remove r s i)"
| "registry_step r (RegTerminateAll now s d) = fst (AgentRegistry_TerminateAll now r s d)"
| "registry_step r (RegCleanup now d) = AgentRegistry_Cleanup now r d"

fun registry_time :: "registry_op \<Rightarrow> gotime" where
  "registry_time (RegUpsert now s i l t) = now"
| "registry_time (RegUpsertLimited now s i l t m) = now"
| "registry_time (RegTouch now s i l) = now"
| "registry_time (RegTerminate now s i) = now"
| "registry_time (RegRemove now s i) = now"
| "registry_time (RegTerminateAll now s d) = now"
| "registry_time (RegCleanup now d) = now"

end
