(* ===== verification/Server_Tokens.thy ===== *)
theory Server_Tokens
  imports Server_Config Grant_Auth Refresh_Tokens Agent_Registry Protocol "HOL-Library.Multiset"
begin

text \<open>
  \<^verbatim>\<open>cmd/shellin-control-plane/tokens.go\<close> (without the seeding, which is in \<open>Server_Config\<close>): the
  signed tokens the server issues, the bearer token of a request and when an entitlement counts.

  HMAC-SHA256 and SHA-256 are the parameters \<open>hmac\<close> and \<open>sha\<close>; the token id drawn by the package
  \<^verbatim>\<open>uuid\<close> is the argument \<open>jti\<close>, the random bytes of a refresh token the argument \<open>bytes\<close>.
\<close>

section \<open>Issuing\<close>

record signedTokenOptions =
  to_Subject :: string
  to_MaxSessions :: int
  to_Role :: string
  to_SessionID :: string

definition token_claims ::
  "gotime \<Rightarrow> gotime \<Rightarrow> string \<Rightarrow> string \<Rightarrow> string \<Rightarrow> signedTokenOptions \<Rightarrow> (string \<times> json) list"
where
  "token_claims now expiresAt jti issuer audience opts =
     (let role = TrimSpace (to_Role opts); sessionID = TrimSpace (to_SessionID opts)
      in [(''sub'', JStr (TrimSpace (to_Subject opts))), (''aud'', JStr audience),
          (''exp'', JNum (Itoa (Time_Unix expiresAt))), (''iat'', JNum (Itoa (Time_Unix now))),
          (''nbf'', JNum (Itoa (Time_Unix now))), (''jti'', JStr jti),
          (''max_sessions'', JNum (Itoa (to_MaxSessions opts)))]
         @ (if issuer \<noteq> [] then [(''iss'', JStr issuer)] else [])
         @ (if role \<noteq> [] then [(''role'', JStr role)] else [])
         @ (if sessionID \<noteq> [] then [(''session_id'', JStr sessionID)] else []))"

definition issueSignedToken ::
  "(string \<Rightarrow> string \<Rightarrow> string) \<Rightarrow> gotime \<Rightarrow> string \<Rightarrow> string \<Rightarrow> string \<Rightarrow> string \<Rightarrow> duration \<Rightarrow> signedTokenOptions
   \<Rightarrow> sign_error + string \<times> gotime"
where
  "issueSignedToken hmac now jti secret issuer audience ttl opts =
     (let expiresAt = now + ttl
      in case SignHS256 hmac secret (Some (token_claims now expiresAt jti issuer audience opts)) of
        Inl e \<Rightarrow> Inl e
      | Inr token \<Rightarrow> Inr (token, expiresAt))"

datatype issue_error = IssueSign sign_error | IssueRefresh refresh_error

text \<open>The two readings of the clock: by \<open>issueSignedToken\<close>, then by the refresh token store.\<close>

definition issueAuthTokens ::
  "(string \<Rightarrow> string \<Rightarrow> string) \<Rightarrow> (string \<Rightarrow> string) \<Rightarrow> gotime \<Rightarrow> gotime \<Rightarrow> string \<Rightarrow> string option \<Rightarrow> config
   \<Rightarrow> RefreshTokenStore \<Rightarrow> string \<Rightarrow> int \<Rightarrow> RefreshTokenStore \<times> (issue_error + ExchangeAuthResponse)"
where
  "issueAuthTokens hmac sha now now' jti bytes cfg store subject maxSessions =
     (case issueSignedToken hmac now jti (cfg_GrantHMACSecret cfg) (cfg_GrantIssuer cfg) (cfg_AccessAudience cfg)
             (cfg_AccessTTL cfg) \<lparr>to_Subject = subject, to_MaxSessions = maxSessions, to_Role = [], to_SessionID = []\<rparr> of
        Inl e \<Rightarrow> (store, Inl (IssueSign e))
      | Inr (accessToken, accessExp) \<Rightarrow>
          (case RefreshTokenStore_Issue sha now' bytes store subject (cfg_RefreshTTL cfg) of
             (store', Inl e) \<Rightarrow> (store', Inl (IssueRefresh e))
           | (store', Inr (refreshToken, refreshExp)) \<Rightarrow>
               (store', Inr \<lparr>xr_AccessToken = accessToken, xr_AccessTokenExpiresAt = Format_RFC3339 accessExp,
                  xr_RefreshToken = refreshToken, xr_RefreshTokenExpiresAt = Format_RFC3339 refreshExp\<rparr>)))"

section \<open>Requests\<close>

definition bearerToken :: "Request \<Rightarrow> string" where
  "bearerToken r =
     (let auth = TrimSpace (Header_Get r ''Authorization'')
      in if auth = [] then []
         else if \<not> HasPrefix (ToLower auth) (ToLower ''Bearer '') then []
         else TrimSpace (drop (length ''Bearer '') auth))"

datatype access_error = MissingBearerToken | InvalidToken grant_error | NotEntitled

definition validateAccessRequest ::
  "(string \<Rightarrow> string \<Rightarrow> string) \<Rightarrow> Validator \<Rightarrow> gotime \<Rightarrow> Request \<Rightarrow> access_error + Claims"
where
  "validateAccessRequest hmac v now r =
     (let token = bearerToken r
      in if token = [] then Inl MissingBearerToken
         else case Validate hmac v now token of Inl e \<Rightarrow> Inl (InvalidToken e) | Inr c \<Rightarrow> Inr c)"

definition isEntitlementUsable :: "gotime \<Rightarrow> UserEntitlement \<Rightarrow> bool" where
  "isEntitlementUsable now e \<longleftrightarrow>
     TrimSpace (ue_Subject e) \<noteq> [] \<and> 0 < ue_MaxSessions e \<and> ue_Active e
     \<and> (ue_ExpiresAt e = 0 \<or> now < ue_ExpiresAt e)"

text \<open>\<^verbatim>\<open>entitlement.go\<close>; the two readings of the clock are those of \<open>Validate\<close> and of the entitlement check.\<close>

definition validateEntitlement ::
  "(string \<Rightarrow> string \<Rightarrow> string) \<Rightarrow> Validator \<Rightarrow> UserKeyStore \<Rightarrow> gotime \<Rightarrow> gotime \<Rightarrow> Request \<Rightarrow> access_error + UserEntitlement"
where
  "validateEntitlement hmac v store now now' r = (case validateAccessRequest hmac v now r of
     Inl e \<Rightarrow> Inl e
   | Inr claims \<Rightarrow>
       (case UserKeyStore_LookupBySubject store (cl_Subject claims) of
          None \<Rightarrow> Inl NotEntitled
        | Some e \<Rightarrow> if isEntitlementUsable now' e then Inr e else Inl NotEntitled))"

definition agentStatusResponse :: "AgentStatus \<Rightarrow> ProtocolAgentStatus" where
  "agentStatusResponse item =
     \<lparr>ps_SessionID = as_SessionID item, ps_AgentLabel = as_AgentLabel item, ps_Transport = as_Transport item,
      ps_CreatedAt = Format_RFC3339 (as_CreatedAt item), ps_LastSeenAt = Format_RFC3339 (as_LastSeenAt item)\<rparr>"

definition registry_status :: "registry_error \<Rightarrow> int \<times> string" where
  "registry_status e =
     (if e = ErrAgentSessionLimitReached then (409, ''session limit reached'')
      else if e = ErrAgentSessionTerminated then (410, ''agent session terminated'')
      else (400, ''invalid request''))"

section \<open>A bearer token in a header\<close>

lemma trimmed_ends: "s \<noteq> [] \<Longrightarrow> solid (hd s) \<Longrightarrow> solid (last s) \<Longrightarrow> trimmed s"
proof -
  assume s: "s \<noteq> []" "solid (hd s)" "solid (last s)"
  have "s \<noteq> q @ r \<and> s \<noteq> r @ q" if q: "is_space_seq q" for q r
  proof -
    have "q \<noteq> []" using q by (auto simp: is_space_seq_def)
    moreover have "hd s \<notin> set q" "last s \<notin> set q" using solid_not_space [OF q] s by auto
    ultimately show ?thesis by auto
  qed
  then show "trimmed s" unfolding trimmed_space_seqs by blast
qed

lemma bearerToken_header:
  assumes "Header_Get r ''Authorization'' = ''Bearer '' @ t" and "t \<noteq> []" and "\<forall>c \<in> set t. solid c"
  shows "bearerToken r = t"
proof -
  have ends: "solid (hd t)" "solid (last t)" using assms(2,3) by simp_all
  then have "trimmed t" using assms(2) by (intro trimmed_ends)
  moreover have "trimmed (''Bearer '' @ t)"
    using assms(2) ends by (intro trimmed_ends) (simp_all add: solid_def ascii_space_def ord_def)
  moreover have "HasPrefix (ToLower (''Bearer '' @ t)) (ToLower ''Bearer '')"
    by (simp add: HasPrefix_def lower_char_def)
  ultimately show ?thesis
    using assms(1) by (simp add: bearerToken_def Let_def TrimSpace_id)
qed

lemma SignHS256_solid:
  assumes "SignHS256 hmac secret m = Inr token"
  shows "token \<noteq> [] \<and> (\<forall>c \<in> set token. solid c)"
proof -
  obtain a b c where t: "token = (RawURL_Encode a @ ''.'' @ RawURL_Encode b) @ ''.'' @ RawURL_Encode c"
    using assms by (auto simp: SignHS256_def Let_def split: sum.splits option.splits)
  have "solid (CHR ''.'')" by (simp add: solid_def ascii_space_def ord_def)
  then show ?thesis using RawURL_safe by (auto simp: t solid_def)
qed

section \<open>Issued tokens are accepted\<close>

text \<open>What the payload of an issued token decodes to.\<close>

definition issued_raw :: "gotime \<Rightarrow> gotime \<Rightarrow> string \<Rightarrow> string \<Rightarrow> string \<Rightarrow> signedTokenOptions \<Rightarrow> raw_claims" where
  "issued_raw now expiresAt jti issuer audience opts =
     \<lparr>rc_Sub = TrimSpace (to_Subject opts), rc_Iss = issuer, rc_Aud = Some (JStr audience),
      rc_Exp = Itoa (Time_Unix expiresAt), rc_Nbf = Itoa (Time_Unix now), rc_JTI = jti,
      rc_MaxSessions = to_MaxSessions opts, rc_Role = TrimSpace (to_Role opts),
      rc_SessionID = TrimSpace (to_SessionID opts)\<rparr>"

lemma claim_names:
  "field_of raw_claims_fields ''sub'' = Some ''sub''" "field_of raw_claims_fields ''aud'' = Some ''aud''"
  "field_of raw_claims_fields ''exp'' = Some ''exp''" "field_of raw_claims_fields ''iat'' = None"
  "field_of raw_claims_fields ''nbf'' = Some ''nbf''" "field_of raw_claims_fields ''jti'' = Some ''jti''"
  "field_of raw_claims_fields ''max_sessions'' = Some ''max_sessions''"
  "field_of raw_claims_fields ''iss'' = Some ''iss''" "field_of raw_claims_fields ''role'' = Some ''role''"
  "field_of raw_claims_fields ''session_id'' = Some ''session_id''"
  by code_simp+

text \<open>The members in the order of their names, which is how they are written.\<close>

lemma sort_by_key:
  fixes xs ys :: "(string \<times> json) list"
  assumes "mset ys = mset xs" and "distinct (map fst xs)" and "sorted (map fst ys)"
  shows "sort_key fst xs = ys"
proof (rule properties_for_sort_key)
  show "mset ys = mset xs" by (rule assms(1))
  show "sorted (map fst ys)" by (rule assms(3))
  fix k assume "k \<in> set ys"
  have same: "set ys = set xs" using assms(1) by (metis set_mset_mset)
  have d: "distinct (map fst ys)" using assms(1,2) by (metis mset_eq_imp_distinct_iff mset_map)
  have uniq: "filter (\<lambda>x. fst k = fst x) zs = [k]" if "k \<in> set zs" "distinct (map fst zs)" for zs :: "(string \<times> json) list"
    using that by (induction zs) (auto simp: filter_empty_conv rev_image_eqI)
  show "filter (\<lambda>x. fst k = fst x) ys = filter (\<lambda>x. fst k = fst x) xs"
    using uniq [of ys] uniq [of xs] \<open>k \<in> set ys\<close> same d assms(2) by simp
qed

lemma sorted_token_claims:
  "sort_key fst (token_claims now expiresAt jti issuer audience opts) =
     [(''aud'', JStr audience), (''exp'', JNum (Itoa (Time_Unix expiresAt))), (''iat'', JNum (Itoa (Time_Unix now)))]
     @ (if issuer \<noteq> [] then [(''iss'', JStr issuer)] else [])
     @ [(''jti'', JStr jti), (''max_sessions'', JNum (Itoa (to_MaxSessions opts))),
        (''nbf'', JNum (Itoa (Time_Unix now)))]
     @ (if TrimSpace (to_Role opts) \<noteq> [] then [(''role'', JStr (TrimSpace (to_Role opts)))] else [])
     @ (if TrimSpace (to_SessionID opts) \<noteq> [] then [(''session_id'', JStr (TrimSpace (to_SessionID opts)))] else [])
     @ [(''sub'', JStr (TrimSpace (to_Subject opts)))]"
  (is "_ = ?ys")
proof (rule sort_by_key)
  show "mset ?ys = mset (token_claims now expiresAt jti issuer audience opts)"
    by (simp add: token_claims_def Let_def ac_simps)
  show "distinct (map fst (token_claims now expiresAt jti issuer audience opts))"
    by (simp add: token_claims_def Let_def)
  have full: "sorted [''aud'', ''exp'', ''iat'', ''iss'', ''jti'', ''max_sessions'', ''nbf'', ''role'', ''session_id'', ''sub'']"
    by code_simp
  show "sorted (map fst ?ys)"
    using full by (auto simp: sorted_append)
qed

lemma decode_token_claims:
  assumes "in_int64 (to_MaxSessions opts)"
  shows "decode_raw_claims (JObj (sort_key fst (token_claims now expiresAt jti issuer audience opts)))
    = Some (issued_raw now expiresAt jti issuer audience opts)"
  unfolding sorted_token_claims decode_raw_claims_def decode_struct_JObj
  using assms
  by (auto simp: claim_names raw_claims_put_def issued_raw_def raw_claims_zero_def decode_number_def)

lemma token_claims_printable:
  assumes "ascii issuer" "ascii audience" "ascii jti" "ascii (TrimSpace (to_Subject opts))"
    "ascii (TrimSpace (to_Role opts))" "ascii (TrimSpace (to_SessionID opts))"
  shows "printable max_depth (JObj (sort_key fst (token_claims now expiresAt jti issuer audience opts)))"
  unfolding sorted_token_claims using assms
  by (auto simp: max_depth_def ascii_literal ord_def) 

lemma parseUnix_Itoa: "in_int64 n \<Longrightarrow> parseUnix (Itoa n) = Some n"
  using Itoa_head [of n] by (auto simp: parseUnix_def Atoi_Itoa)

lemma Itoa_nonempty: "Itoa n \<noteq> []"
  using Itoa_head [of n] by auto

lemma clock_time_seconds: "clock_time t \<Longrightarrow> clock_time (t div Second * Second)"
  unfolding clock_time_def by (simp add: pos_imp_zdiv_nonneg_iff, linarith)

definition issued_claims :: "gotime \<Rightarrow> gotime \<Rightarrow> string \<Rightarrow> string \<Rightarrow> string \<Rightarrow> signedTokenOptions \<Rightarrow> Claims" where
  "issued_claims now expiresAt jti issuer audience opts =
     \<lparr>cl_Subject = TrimSpace (to_Subject opts), cl_Issuer = TrimSpace issuer, cl_Audience = [TrimSpace audience],
      cl_ExpiresAt = expiresAt div Second * Second, cl_NotBefore = now div Second * Second,
      cl_MaxSessions = to_MaxSessions opts, cl_TokenID = TrimSpace jti, cl_Role = TrimSpace (to_Role opts),
      cl_SessionID = TrimSpace (to_SessionID opts)\<rparr>"

lemma check_issued:
  assumes "clock_time now" "clock_time e" and "v_issuer v = TrimSpace issuer" "v_audience v = TrimSpace audience"
    and "v_clockSkew v = 30 * Second"
    and "TrimSpace (to_Subject opts) \<noteq> []" "TrimSpace jti \<noteq> []" "TrimSpace audience \<noteq> []"
  shows "check_claims v t (issued_raw now e jti issuer audience opts) =
    (if e div Second * Second + 30 * Second < t then Inl ErrExpired
     else if t < now div Second * Second - 30 * Second then Inl ErrNotYetValid
     else Inr (issued_claims now e jti issuer audience opts))"
proof -
  have unix: "time_Unix (Time_Unix x) = x div Second * Second" "in_int64 (Time_Unix x)" if "clock_time x" for x
    using that time_Unix_Unix by (blast, simp add: Time_Unix_def wrap64_in_range)
  have skew: "Time_Add (x div Second * Second) (30 * Second) = x div Second * Second + 30 * Second"
    "Time_Add (x div Second * Second) (- (30 * Second)) = x div Second * Second - 30 * Second" if "clock_time x" for x
    using Time_Add_clock [OF clock_time_seconds [OF that]]
    by (simp_all add: in_int64_def min_int64_def max_int64_def)
  show ?thesis
    using assms(3-) unix [OF assms(1)] unix [OF assms(2)] skew [OF assms(1)] skew [OF assms(2)]
    by (simp add: check_claims_def issued_raw_def issued_claims_def parseUnix_Itoa check_nbf_def Itoa_nonempty
        parseAudience_def containsAudience_def Let_def)
qed

text \<open>
  What the server issues, its validator accepts, and for exactly as long as promised: until the
  expiry, cut to the second, plus the skew of 30 seconds, and not before the time of issue minus
  the skew. The claims that come back are the ones that were put in.
\<close>

lemma issued_token_valid:
  assumes "issueSignedToken hmac now jti secret issuer audience ttl opts = Inr (token, e)"
    and "NewValidator secret issuer audience = Inr v" and "clock_time now" "clock_time (now + ttl)"
    and "TrimSpace (to_Subject opts) \<noteq> []" "TrimSpace jti \<noteq> []" "TrimSpace audience \<noteq> []"
    and "in_int64 (to_MaxSessions opts)" and "ascii issuer" "ascii audience" "ascii jti"
    "ascii (TrimSpace (to_Subject opts))" "ascii (TrimSpace (to_Role opts))" "ascii (TrimSpace (to_SessionID opts))"
  shows "e = now + ttl \<and> Validate hmac v t token =
    (if e div Second * Second + 30 * Second < t then Inl ErrExpired
     else if t < now div Second * Second - 30 * Second then Inl ErrNotYetValid
     else Inr (issued_claims now e jti issuer audience opts))"
proof -
  obtain key where key: "hmacSecretBytes secret = Inr key" "v = \<lparr>v_secret = key, v_issuer = TrimSpace issuer,
      v_audience = TrimSpace audience, v_clockSkew = 30 * Second\<rparr>"
    using assms(2) by (auto simp: NewValidator_def split: sum.splits)
  have e: "e = now + ttl"
    and sign: "SignHS256 hmac secret (Some (token_claims now e jti issuer audience opts)) = Inr token"
    using assms(1) by (auto simp: issueSignedToken_def Let_def split: sum.splits)
  have "open_token hmac key token = Inr (issued_raw now e jti issuer audience opts)"
    using open_SignHS256 [OF sign key(1) token_claims_printable decode_token_claims] assms(8-) by simp
  then show ?thesis
    using check_issued [of now e v issuer audience opts jti t] assms(3-7) by (simp add: Validate_def key e)
qed

end
