(* ===== verification/Rate_Limiter.thy ===== *)
theory Rate_Limiter
  imports Http_Origin Go_Time
begin

text \<open>
  \<^verbatim>\<open>cmd/shellin-control-plane/auth_rate_limiter.go\<close>: the throttling of failed credential attempts by
  remote address. A nil limiter and a nil request are \<open>None\<close>. The clock is an argument.

  The specification is the log of what happened: an address may try again when fewer than
  \<open>limit\<close> of its failures since its last success lie within the window. The limiter forgets
  attempts as it goes; the theorem shows that this cannot be noticed.
\<close>

section \<open>The limiter\<close>

record authFailureLimiter =
  al_limit :: int
  al_window :: duration
  al_records :: "(string, gotime list) gomap"

definition newAuthFailureLimiter :: "int \<Rightarrow> duration \<Rightarrow> authFailureLimiter" where
  "newAuthFailureLimiter limit window = \<lparr>al_limit = limit, al_window = window, al_records = []\<rparr>"

definition limiter_key :: "Request option \<Rightarrow> string" where
  "limiter_key req = (case req of None \<Rightarrow> ''unknown''
   | Some r \<Rightarrow>
       let ip = TrimSpace (NormalizedRemoteAddrIP (req_RemoteAddr r))
       in if ip = [] then ''unknown'' else ip)"

definition pruneLocked :: "gotime \<Rightarrow> authFailureLimiter \<Rightarrow> authFailureLimiter" where
  "pruneLocked now l =
     (let cutoff = now - al_window l
      in l\<lparr>al_records := filter (\<lambda>e. snd e \<noteq> [])
             (map (\<lambda>(key, attempts). (key, filter (\<lambda>attempt. cutoff < attempt) attempts)) (al_records l))\<rparr>)"

definition attempts_of :: "authFailureLimiter \<Rightarrow> string \<Rightarrow> gotime list" where
  "attempts_of l key = (case go_get (al_records l) key of None \<Rightarrow> [] | Some x \<Rightarrow> x)"

definition limiter_Allow ::
  "gotime \<Rightarrow> authFailureLimiter option \<Rightarrow> Request option \<Rightarrow> authFailureLimiter option \<times> bool"
where
  "limiter_Allow now lim r = (case lim of None \<Rightarrow> (None, True)
   | Some l0 \<Rightarrow>
       let key = limiter_key r; l = pruneLocked now l0
       in (Some l, int (length (attempts_of l key)) < al_limit l))"

definition limiter_RecordFailure ::
  "gotime \<Rightarrow> authFailureLimiter option \<Rightarrow> Request option \<Rightarrow> authFailureLimiter option"
where
  "limiter_RecordFailure now lim r = (case lim of None \<Rightarrow> None
   | Some l0 \<Rightarrow>
       let key = limiter_key r; l = pruneLocked now l0
       in Some (l\<lparr>al_records := go_put (al_records l) key (attempts_of l key @ [now])\<rparr>))"

definition limiter_Reset :: "authFailureLimiter option \<Rightarrow> Request option \<Rightarrow> authFailureLimiter option" where
  "limiter_Reset lim r = (case lim of None \<Rightarrow> None
   | Some l \<Rightarrow> Some (l\<lparr>al_records := go_del (al_records l) (limiter_key r)\<rparr>))"

section \<open>The contract of a throttle\<close>

datatype 'r throttle_op = LookOp gotime | FailOp gotime 'r | ClearOp gotime 'r

fun op_time :: "'r throttle_op \<Rightarrow> gotime" where
  "op_time (LookOp t) = t"
| "op_time (FailOp t r) = t"
| "op_time (ClearOp t r) = t"

text \<open>The log: the failures of an address since it was last cleared.\<close>

fun log_step :: "('r \<Rightarrow> 'k) \<Rightarrow> 'k \<Rightarrow> gotime list \<Rightarrow> 'r throttle_op \<Rightarrow> gotime list" where
  "log_step key k ts (LookOp t) = ts"
| "log_step key k ts (FailOp t r) = (if key r = k then ts @ [t] else ts)"
| "log_step key k ts (ClearOp t r) = (if key r = k then [] else ts)"

text \<open>
  \<open>recent s t k\<close> are the failures of the address \<open>k\<close> that still count at the time \<open>t\<close>. An operation
  may forget failures, but none that counts at its own time or later.
\<close>

locale throttle =
  fixes inv :: "'s \<Rightarrow> bool"
    and key :: "'r \<Rightarrow> 'k"
    and counts :: "gotime \<Rightarrow> gotime \<Rightarrow> bool"
    and recent :: "'s \<Rightarrow> gotime \<Rightarrow> 'k \<Rightarrow> gotime list"
    and step :: "'s \<Rightarrow> 'r throttle_op \<Rightarrow> 's"
  assumes inv_step: "inv s \<Longrightarrow> inv (step s op)"
    and recent_step: "inv s \<Longrightarrow> op_time op \<le> t \<Longrightarrow> recent s t k = filter (counts t) ts \<Longrightarrow>
      recent (step s op) t k = filter (counts t) (log_step key k ts op)"
begin

lemma recent_run:
  "inv s \<Longrightarrow> \<forall>op \<in> set ops. op_time op \<le> t \<Longrightarrow> recent s t k = filter (counts t) ts \<Longrightarrow>
   recent (foldl step s ops) t k = filter (counts t) (foldl (log_step key k) ts ops)"
proof (induction ops arbitrary: s ts)
  case Nil
  then show ?case by simp
next
  case (Cons op ops)
  then show ?case by (simp add: inv_step recent_step)
qed

lemma inv_run: "inv s \<Longrightarrow> inv (foldl step s ops)"
  by (induction ops arbitrary: s) (simp_all add: inv_step)

end

section \<open>The limiter is a throttle\<close>

fun limiter_step :: "authFailureLimiter \<Rightarrow> Request option throttle_op \<Rightarrow> authFailureLimiter" where
  "limiter_step l (LookOp now) = pruneLocked now l"
| "limiter_step l (FailOp now r) = the (limiter_RecordFailure now (Some l) r)"
| "limiter_step l (ClearOp now r) = the (limiter_Reset (Some l) r)"

definition recent_attempts :: "duration \<Rightarrow> authFailureLimiter \<Rightarrow> gotime \<Rightarrow> string \<Rightarrow> gotime list" where
  "recent_attempts w l t k = filter (\<lambda>a. t - w < a) (attempts_of l k)"

lemma prune_get:
  assumes "wf_map m"
  shows "go_get (filter (\<lambda>e. snd e \<noteq> []) (map (\<lambda>(k, xs). (k, filter P xs)) m)) k
    = (case go_get m k of None \<Rightarrow> None | Some xs \<Rightarrow> if filter P xs = [] then None else Some (filter P xs))"
  using assms unfolding go_get_def wf_map_def
proof (induction m)
  case Nil
  then show ?case by simp
next
  case (Cons e m)
  then show ?case
    by (cases e) (auto split: option.splits dest: map_of_SomeD intro: rev_image_eqI)
qed

lemma wf_prune: "wf_map m \<Longrightarrow> wf_map (filter (\<lambda>e. snd e \<noteq> []) (map (\<lambda>(k, xs). (k, filter P xs)) m))"
  unfolding wf_map_def by (rule distinct_map_filter) (simp add: case_prod_beta comp_def)

lemma pruneLocked_facts:
  "al_window (pruneLocked now l) = al_window l" "al_limit (pruneLocked now l) = al_limit l"
  "wf_map (al_records l) \<Longrightarrow> wf_map (al_records (pruneLocked now l))"
  "wf_map (al_records l) \<Longrightarrow>
     attempts_of (pruneLocked now l) k = filter (\<lambda>a. now - al_window l < a) (attempts_of l k)"
  by (auto simp: pruneLocked_def Let_def wf_prune attempts_of_def prune_get split: option.split)

lemma attempts_of_put [simp]:
  "attempts_of (l\<lparr>al_records := go_put m k x\<rparr>) k' = (if k' = k then x else attempts_of (l\<lparr>al_records := m\<rparr>) k')"
  "attempts_of (l\<lparr>al_records := go_del m k\<rparr>) k' = (if k' = k then [] else attempts_of (l\<lparr>al_records := m\<rparr>) k')"
  by (simp_all add: attempts_of_def)

lemma limiter_step_facts:
  "al_window (limiter_step l op) = al_window l" "al_limit (limiter_step l op) = al_limit l"
  "wf_map (al_records l) \<Longrightarrow> wf_map (al_records (limiter_step l op))"
  by (cases op; simp add: limiter_RecordFailure_def limiter_Reset_def Let_def pruneLocked_facts)+

lemma still_counts:
  fixes now t w :: int
  shows "now \<le> t \<Longrightarrow> filter (\<lambda>a. now - w < a \<and> t - w < a) xs = filter (\<lambda>a. t - w < a) xs"
  by (induction xs) auto

interpretation window: throttle "\<lambda>l. wf_map (al_records l) \<and> al_window l = w" limiter_key
  "\<lambda>t a. t - w < a" "recent_attempts w" limiter_step for w
proof
  fix l :: authFailureLimiter and op t k and ts :: "gotime list"
  assume l: "wf_map (al_records l) \<and> al_window l = w"
  then show "wf_map (al_records (limiter_step l op)) \<and> al_window (limiter_step l op) = w"
    by (simp add: limiter_step_facts)
  assume "op_time op \<le> t" and "recent_attempts w l t k = filter (\<lambda>a. t - w < a) ts"
  with l show "recent_attempts w (limiter_step l op) t k = filter (\<lambda>a. t - w < a) (log_step limiter_key k ts op)"
    by (cases op) (simp_all add: recent_attempts_def limiter_RecordFailure_def limiter_Reset_def Let_def
        pruneLocked_facts still_counts)
qed

section \<open>Properties\<close>

lemma Allow_iff:
  assumes "wf_map (al_records l)"
  shows "snd (limiter_Allow now (Some l) r) \<longleftrightarrow>
    int (length (recent_attempts (al_window l) l now (limiter_key r))) < al_limit l"
  using assms by (simp add: limiter_Allow_def Let_def pruneLocked_facts recent_attempts_def)

lemma limiter_run_facts:
  "al_window (foldl limiter_step l ops) = al_window l" "al_limit (foldl limiter_step l ops) = al_limit l"
  by (induction ops arbitrary: l) (simp_all add: limiter_step_facts)

text \<open>
  C35: The limiter implements its specification: after any events up to now, an address may try
  again exactly when fewer than \<open>limit\<close> of the failures logged for it since its last success are
  younger than the window, although the limiter throws old attempts away on the way.
\<close>

theorem limiter_refines_log:
  assumes "\<forall>op \<in> set ops. op_time op \<le> now"
  shows "snd (limiter_Allow now (Some (foldl limiter_step (newAuthFailureLimiter limit w) ops)) r) \<longleftrightarrow>
    int (length (filter (\<lambda>a. now - w < a) (foldl (log_step limiter_key (limiter_key r)) [] ops))) < limit"
proof -
  let ?l0 = "newAuthFailureLimiter limit w"
  have l0: "wf_map (al_records ?l0) \<and> al_window ?l0 = w" "al_limit ?l0 = limit"
    "recent_attempts w ?l0 now (limiter_key r) = []"
    by (simp_all add: newAuthFailureLimiter_def recent_attempts_def attempts_of_def)
  then show ?thesis
    using Allow_iff window.inv_run window.recent_run [OF l0(1) assms, of "limiter_key r" "[]"]
    by (simp add: limiter_run_facts)
qed

theorem limiter_refines_log_witness:
  "\<not> snd (limiter_Allow 9 (Some (foldl limiter_step (newAuthFailureLimiter 2 5) [FailOp 5 None, LookOp 6, FailOp 7 None])) None)"
proof -
  have "\<not> snd (limiter_Allow 9 (Some (foldl limiter_step (newAuthFailureLimiter 2 5)
      [FailOp 5 None, LookOp 6, FailOp 7 None])) None) \<longleftrightarrow>
    \<not> int (length (filter (\<lambda>a. 9 - 5 < a) (foldl (log_step limiter_key (limiter_key None)) []
      [FailOp 5 None, LookOp 6, FailOp 7 None]))) < 2"
    by (subst limiter_refines_log) simp_all
  then show ?thesis by simp
qed

end
