(* ===== verification/Turn.thy ===== *)
theory Turn
  imports Protocol Go_Net Refresh_Tokens
begin

text \<open>
  \<^verbatim>\<open>turn/cloudflare.go\<close>: issuing ICE server credentials from the Cloudflare API, and what is let
  through to the clients.

  The API is a parameter \<open>api\<close>: for a request the status and the body of the answer, or \<open>None\<close>
  when the transport fails. SHA-256 is the parameter \<open>sha\<close>.
\<close>

section \<open>URLs of ICE servers\<close>

definition CloudflareSTUNURL :: string where
  "CloudflareSTUNURL = ''stun:stun.cloudflare.com:3478''"

datatype turn_error =
  TurnNotConfigured | TurnTTLInvalid | TurnRequestInvalid | TurnTransport | TurnStatus int string
| TurnDecode | TurnNoServers | TurnInvalidURL string | TurnNoUsableURLs

definition ValidateICEServerURL :: "string \<Rightarrow> bool" where
  "ValidateICEServerURL raw0 =
     (let raw = TrimSpace raw0; lower = ToLower raw
      in raw \<noteq> [] \<and> (HasPrefix lower ''stun:'' \<or> HasPrefix lower ''stuns:''
                     \<or> HasPrefix lower ''turn:'' \<or> HasPrefix lower ''turns:''))"

definition IsTURNURL :: "string \<Rightarrow> bool" where
  "IsTURNURL raw0 = (let raw = TrimSpace (ToLower raw0) in HasPrefix raw ''turn:'' \<or> HasPrefix raw ''turns:'')"

definition IsSTUNURL :: "string \<Rightarrow> bool" where
  "IsSTUNURL raw0 = (let raw = TrimSpace (ToLower raw0) in HasPrefix raw ''stun:'' \<or> HasPrefix raw ''stuns:'')"

lemma marker_progress:
  assumes "Index raw marker = Some idx" "marker \<noteq> []"
  shows "length raw - (idx + length marker) < length raw"
proof -
  have "0 < length marker" using assms(2) by simp
  moreover have "raw \<noteq> []" using assms by (auto simp: Index_Some_iff HasPrefix_def)
  ultimately show ?thesis by simp
qed

text \<open>The loop over the occurrences of the marker; \<open>raw\<close> is the text from the offset on.\<close>

function hasExactURLPortMarker :: "string \<Rightarrow> string \<Rightarrow> bool" where
  "hasExactURLPortMarker raw marker = (case Index raw marker of
     None \<Rightarrow> False
   | Some idx \<Rightarrow>
       let rest = drop (idx + length marker) raw
       in if rest = [] \<or> hd rest \<in> set ''?/&'' then True
          else if marker = [] then False
          else hasExactURLPortMarker rest marker)"
  by pat_completeness auto
termination
  by (relation "measure (\<lambda>(raw, marker). length raw)")
    (simp_all add: marker_progress)

declare hasExactURLPortMarker.simps [simp del]

definition usesBlockedCloudflarePort :: "string \<Rightarrow> bool" where
  "usesBlockedCloudflarePort raw =
     (let lower = ToLower (TrimSpace raw)
      in hasExactURLPortMarker lower '':53'' \<or> hasExactURLPortMarker lower ''=53'')"

section \<open>Sanitising\<close>

text \<open>The inner loop: the URLs kept, and whether TURN and STUN URLs were seen.\<close>

fun clean_urls :: "string list \<Rightarrow> turn_error + string list \<times> bool \<times> bool" where
  "clean_urls [] = Inr ([], False, False)"
| "clean_urls (raw # urls) =
     (let url = TrimSpace raw
      in if url = [] \<or> usesBlockedCloudflarePort url then clean_urls urls
         else if \<not> ValidateICEServerURL url then Inl (TurnInvalidURL url)
         else case clean_urls urls of Inl e \<Rightarrow> Inl e
           | Inr (us, turn, stun) \<Rightarrow> Inr (url # us, IsTURNURL url \<or> turn, IsSTUNURL url \<or> stun))"

fun clean_servers :: "ICEServer list \<Rightarrow> turn_error + ICEServer list \<times> bool \<times> bool" where
  "clean_servers [] = Inr ([], False, False)"
| "clean_servers (server # servers) =
     (case clean_urls (ice_URLs server) of Inl e \<Rightarrow> Inl e
      | Inr (urls, turn1, stun1) \<Rightarrow>
          (case clean_servers servers of Inl e \<Rightarrow> Inl e
           | Inr (out, turn2, stun2) \<Rightarrow>
               Inr ((if urls = [] then out
                     else \<lparr>ice_URLs = urls, ice_Username = TrimSpace (ice_Username server),
                           ice_Credential = TrimSpace (ice_Credential server)\<rparr> # out),
                    turn1 \<or> turn2, stun1 \<or> stun2)))"

definition stun_server :: ICEServer where
  "stun_server = \<lparr>ice_URLs = [CloudflareSTUNURL], ice_Username = [], ice_Credential = []\<rparr>"

definition SanitizeICEServers :: "ICEServer list \<Rightarrow> turn_error + ICEServer list" where
  "SanitizeICEServers servers =
     (if servers = [] then Inl TurnNoServers
      else case clean_servers servers of Inl e \<Rightarrow> Inl e
      | Inr (out, hasTURN, hasSTUN) \<Rightarrow>
          let out' = (if hasSTUN then out else stun_server # out)
          in if \<not> hasTURN then Inl TurnNoUsableURLs else Inr out')"

section \<open>The API\<close>

record CloudflareConfig =
  cf_APIBaseURL :: string
  cf_KeyID :: string
  cf_APIToken :: string
  cf_TTL :: duration

record api_request =
  api_URL :: string
  api_Authorization :: string
  api_Body :: string

record api_response =
  api_Status :: int
  api_Text :: string

record cloudflareCredentialsResponse =
  cc_ICEServers :: "ICEServer list"
  cc_Result :: "ICEServer list option"

definition cloudflareCredentialsRequest_json :: "int \<Rightarrow> string \<Rightarrow> json" where
  "cloudflareCredentialsRequest_json ttl customIdentifier =
     JObj ([(''ttl'', JNum (Itoa ttl))]
           @ (if customIdentifier = [] then [] else [(''customIdentifier'', JStr customIdentifier)]))"

definition result_put :: "string \<Rightarrow> json \<Rightarrow> ICEServer list \<Rightarrow> ICEServer list option" where
  "result_put f v r = decode_slice (decode_ICEServer False) v"

definition cloudflareCredentialsResponse_put ::
  "string \<Rightarrow> json \<Rightarrow> cloudflareCredentialsResponse \<Rightarrow> cloudflareCredentialsResponse option"
where
  "cloudflareCredentialsResponse_put f v r =
     (if f = ''iceServers'' then
        map_option (\<lambda>x. r\<lparr>cc_ICEServers := x\<rparr>) (decode_slice (decode_ICEServer False) v)
      else
        map_option (\<lambda>x. r\<lparr>cc_Result := x\<rparr>)
          (decode_pointer (\<lambda>e old. decode_struct False [''iceServers''] result_put old e) [] v (cc_Result r)))"

definition decode_cloudflareCredentialsResponse :: "json \<Rightarrow> cloudflareCredentialsResponse option" where
  "decode_cloudflareCredentialsResponse =
     decode_struct False [''iceServers'', ''result''] cloudflareCredentialsResponse_put
       \<lparr>cc_ICEServers = [], cc_Result = None\<rparr>"

definition extractCloudflareICEServers :: "cloudflareCredentialsResponse \<Rightarrow> ICEServer list" where
  "extractCloudflareICEServers r =
     (let servers = (if cc_ICEServers r = [] then (case cc_Result r of Some s \<Rightarrow> s | None \<Rightarrow> cc_ICEServers r)
                     else cc_ICEServers r)
      in stun_server # map (\<lambda>s. \<lparr>ice_URLs = map TrimSpace (ice_URLs s), ice_Username = TrimSpace (ice_Username s),
                                  ice_Credential = TrimSpace (ice_Credential s)\<rparr>) servers)"

definition shortHash :: "(string \<Rightarrow> string) \<Rightarrow> string \<Rightarrow> string" where
  "shortHash sha raw =
     (let encoded = RawURL_Encode (sha raw)
      in if 16 < length encoded then take 16 encoded else encoded)"

definition upper_hex :: "nat \<Rightarrow> char" where
  "upper_hex n = ''0123456789ABCDEF'' ! n"

text \<open>\<^verbatim>\<open>url.PathEscape\<close>.\<close>

definition PathEscape :: "string \<Rightarrow> string" where
  "PathEscape s = concat (map (\<lambda>c. if is_alnum c \<or> c \<in> set ''-_.~$&+:=@'' then [c]
     else [CHR ''%'', upper_hex (ord c div 16), upper_hex (ord c mod 16)]) s)"

definition CloudflareEnabled :: "CloudflareConfig \<Rightarrow> bool" where
  "CloudflareEnabled cfg \<longleftrightarrow> TrimSpace (cf_KeyID cfg) \<noteq> [] \<and> TrimSpace (cf_APIToken cfg) \<noteq> []"

definition cloudflare_request :: "(string \<Rightarrow> string) \<Rightarrow> CloudflareConfig \<Rightarrow> string \<Rightarrow> api_request" where
  "cloudflare_request sha cfg subject =
     \<lparr>api_URL = TrimRight (TrimSpace (cf_APIBaseURL cfg)) ''/'' @ ''/v1/turn/keys/''
        @ PathEscape (TrimSpace (cf_KeyID cfg)) @ ''/credentials/generate-ice-servers'',
      api_Authorization = ''Bearer '' @ TrimSpace (cf_APIToken cfg),
      api_Body = print_json (cloudflareCredentialsRequest_json (quot (cf_TTL cfg) Second)
        (if TrimSpace subject = [] then [] else ''sub:'' @ shortHash sha subject))\<rparr>"

definition IssueCloudflareCredentials ::
  "(string \<Rightarrow> string) \<Rightarrow> (api_request \<Rightarrow> api_response option) \<Rightarrow> CloudflareConfig \<Rightarrow> string
   \<Rightarrow> turn_error + ICEServer list"
where
  "IssueCloudflareCredentials sha api cfg subject =
     (if \<not> CloudflareEnabled cfg then Inl TurnNotConfigured
      else if quot (cf_TTL cfg) Second \<le> 0 then Inl TurnTTLInvalid
      else
        let req = cloudflare_request sha cfg subject
        in case url_Parse (api_URL req) of None \<Rightarrow> Inl TurnRequestInvalid
           | Some _ \<Rightarrow> case api req of None \<Rightarrow> Inl TurnTransport
           | Some resp \<Rightarrow>
               if api_Status resp < 200 \<or> 300 \<le> api_Status resp
               then Inl (TurnStatus (api_Status resp) (take 8192 (api_Text resp)))
               else case Option.bind (json_Decode (take 65536 (api_Text resp))) decode_cloudflareCredentialsResponse of
                 None \<Rightarrow> Inl TurnDecode
               | Some out \<Rightarrow> SanitizeICEServers (extractCloudflareICEServers out))"

section \<open>The port marker\<close>

definition port_marked :: "string \<Rightarrow> string \<Rightarrow> bool" where
  "port_marked raw marker \<longleftrightarrow>
     (\<exists>a b. raw = a @ marker @ b \<and> (b = [] \<or> hd b \<in> {CHR ''?'', CHR ''/'', CHR ''&''}))"

lemma port_marker_skip:
  assumes i: "Index raw m = Some i" and m: "m = c # m'" "c \<notin> set m'"
    and occ: "raw = a @ m @ b" and later: "length a \<noteq> i"
  shows "\<exists>a'. drop (i + length m) raw = a' @ m @ b"
proof -
  have pre: "\<not> HasPrefix (drop j raw) m" if "j < i" for j
    using i that by (simp add: Index_Some_iff)
  have "HasPrefix (drop (length a) raw) m" by (simp add: occ)
  then have "\<not> length a < i" using pre by blast
  then have gt: "i < length a" using later by simp
  have split: "raw = take i raw @ m @ drop (i + length m) raw" using i by (rule Index_split)
  have il: "i \<le> length raw" using i by (simp add: Index_Some_iff)
  have far: "i + length m \<le> length a"
  proof (rule ccontr)
    assume "\<not> i + length m \<le> length a"
    then have k: "0 < length a - i" "length a - i < length m" using gt by auto
    have "raw ! length a = m ! (length a - i)"
      using split il k by (metis gt le_add_diff_inverse length_take less_imp_le min.absorb2 nth_append nth_append_length_plus)
    moreover have "raw ! length a = c" by (simp add: occ m)
    ultimately have "m ! (length a - i) = c" by simp
    then have "m' ! (length a - i - 1) = c" using k m(1) by (cases "length a - i") auto
    then show False using k m by (auto simp: in_set_conv_nth)
  qed
  then have "drop (i + length m) raw = drop (i + length m) a @ m @ b"
    by (simp add: occ)
  then show ?thesis by blast
qed

lemma hasExactURLPortMarker_iff:
  assumes "m = c # m'" "c \<notin> set m'"
  shows "hasExactURLPortMarker raw m \<longleftrightarrow> port_marked raw m"
proof (induction "length raw" arbitrary: raw rule: less_induct)
  case less
  show ?case
  proof (cases "Index raw m")
    case None
    then have "\<not> Contains raw m" by (simp add: Contains_def)
    then have "\<not> port_marked raw m" unfolding port_marked_def Contains_iff by blast
    with None show ?thesis by (simp add: hasExactURLPortMarker.simps [of raw])
  next
    case (Some i)
    let ?rest = "drop (i + length m) raw"
    have split: "raw = take i raw @ m @ ?rest" using Some by (rule Index_split)
    show ?thesis
    proof (cases "?rest = [] \<or> hd ?rest \<in> {CHR ''?'', CHR ''/'', CHR ''&''}")
      case True
      with split have "port_marked raw m" unfolding port_marked_def by blast
      with Some True show ?thesis by (auto simp: hasExactURLPortMarker.simps [of raw] Let_def)
    next
      case False
      have "hasExactURLPortMarker raw m \<longleftrightarrow> hasExactURLPortMarker ?rest m"
        using Some False assms(1) by (subst hasExactURLPortMarker.simps) (simp add: Let_def)
      also have "\<dots> \<longleftrightarrow> port_marked ?rest m"
        using marker_progress [OF Some] assms(1) by (intro less) simp
      also have "\<dots> \<longleftrightarrow> port_marked raw m"
      proof
        assume "port_marked ?rest m"
        then obtain a b where "?rest = a @ m @ b" "b = [] \<or> hd b \<in> {CHR ''?'', CHR ''/'', CHR ''&''}"
          unfolding port_marked_def by blast
        with split show "port_marked raw m" unfolding port_marked_def by (metis append.assoc)
      next
        assume "port_marked raw m"
        then obtain a b where ab: "raw = a @ m @ b" "b = [] \<or> hd b \<in> {CHR ''?'', CHR ''/'', CHR ''&''}"
          unfolding port_marked_def by blast
        have "length a \<noteq> i"
        proof
          assume "length a = i"
          then have "?rest = b" using ab(1) by simp
          with False ab(2) show False by simp
        qed
        with port_marker_skip [OF Some assms ab(1)] ab(2) show "port_marked ?rest m"
          unfolding port_marked_def by blast
      qed
      finally show ?thesis .
    qed
  qed
qed

text \<open>
  A URL counts as using the blocked port 53 exactly when, after trimming and lower-casing, it
  contains \<open>:53\<close> or \<open>=53\<close> at its very end or before one of the characters \<open>?\<close>, \<open>/\<close> and \<open>&\<close>; the
  scan over the occurrences of the marker misses none of them.
\<close>
theorem blocked_port_exact:
  "usesBlockedCloudflarePort raw \<longleftrightarrow>
     (\<exists>m a b. (m = '':53'' \<or> m = ''=53'') \<and> ToLower (TrimSpace raw) = a @ m @ b
        \<and> (b = [] \<or> hd b \<in> {CHR ''?'', CHR ''/'', CHR ''&''}))"
proof -
  have colon: "hasExactURLPortMarker s '':53'' \<longleftrightarrow> port_marked s '':53''" for s
    by (rule hasExactURLPortMarker_iff [of _ "CHR '':''" "''53''"]) simp_all
  have equals: "hasExactURLPortMarker s ''=53'' \<longleftrightarrow> port_marked s ''=53''" for s
    by (rule hasExactURLPortMarker_iff [of _ "CHR ''=''" "''53''"]) simp_all
  show ?thesis
    unfolding usesBlockedCloudflarePort_def Let_def colon equals port_marked_def by blast
qed

section \<open>What sanitising lets through\<close>

text \<open>The URLs of one server that are kept, were they all valid.\<close>

definition kept_urls :: "string list \<Rightarrow> string list" where
  "kept_urls urls = filter (\<lambda>u. u \<noteq> [] \<and> \<not> usesBlockedCloudflarePort u) (map TrimSpace urls)"

definition sanitized :: "ICEServer \<Rightarrow> ICEServer" where
  "sanitized s = \<lparr>ice_URLs = kept_urls (ice_URLs s), ice_Username = TrimSpace (ice_Username s),
                  ice_Credential = TrimSpace (ice_Credential s)\<rparr>"

lemma kept_urls_simps [simp]:
  "kept_urls [] = []"
  "kept_urls (u # us) = (if TrimSpace u = [] \<or> usesBlockedCloudflarePort (TrimSpace u) then kept_urls us
                         else TrimSpace u # kept_urls us)"
  by (simp_all add: kept_urls_def)

lemma in_kept_urls:
  "u \<in> set (kept_urls us) \<longleftrightarrow> u \<in> TrimSpace ` set us \<and> u \<noteq> [] \<and> \<not> usesBlockedCloudflarePort u"
  by (auto simp: kept_urls_def)

text \<open>The first URL, in the order of the servers, that is kept but has another scheme ends the scan.\<close>

definition bad_url :: "string list \<Rightarrow> string option" where
  "bad_url us = find (\<lambda>u. \<not> ValidateICEServerURL u) us"

lemma bad_url_simps [simp]:
  "bad_url [] = None"
  "bad_url (u # us) = (if ValidateICEServerURL u then bad_url us else Some u)"
  by (simp_all add: bad_url_def)

lemma bad_url_append:
  "bad_url (us @ vs) = (case bad_url us of None \<Rightarrow> bad_url vs | Some u \<Rightarrow> Some u)"
  by (induction us) auto

lemma bad_url_None: "bad_url us = None \<longleftrightarrow> (\<forall>u \<in> set us. ValidateICEServerURL u)"
  by (induction us) auto

lemma clean_urls_eq:
  "clean_urls urls = (case bad_url (kept_urls urls) of Some u \<Rightarrow> Inl (TurnInvalidURL u)
     | None \<Rightarrow> Inr (kept_urls urls, \<exists>u \<in> set (kept_urls urls). IsTURNURL u,
                    \<exists>u \<in> set (kept_urls urls). IsSTUNURL u))"
  by (induction urls) (auto simp: Let_def split: option.splits)

definition all_kept :: "ICEServer list \<Rightarrow> string list" where
  "all_kept servers = concat (map (\<lambda>s. kept_urls (ice_URLs s)) servers)"

lemma clean_servers_eq:
  "clean_servers servers = (case bad_url (all_kept servers) of Some u \<Rightarrow> Inl (TurnInvalidURL u)
     | None \<Rightarrow> Inr (filter (\<lambda>s. ice_URLs s \<noteq> []) (map sanitized servers),
                    \<exists>u \<in> set (all_kept servers). IsTURNURL u, \<exists>u \<in> set (all_kept servers). IsSTUNURL u))"
proof (induction servers)
  case Nil
  then show ?case by (simp add: all_kept_def)
next
  case (Cons s servers)
  have un: "all_kept (s # servers) = kept_urls (ice_URLs s) @ all_kept servers"
    by (simp add: all_kept_def)
  show ?case
    by (auto simp: un bad_url_append clean_urls_eq Cons.IH bex_Un sanitized_def [of s] split: option.splits)
qed

lemma sanitize_equation:
  "SanitizeICEServers servers = Inr out \<longleftrightarrow>
     (\<forall>u \<in> set (all_kept servers). ValidateICEServerURL u) \<and> (\<exists>u \<in> set (all_kept servers). IsTURNURL u) \<and>
     out = (if \<exists>u \<in> set (all_kept servers). IsSTUNURL u then [] else [stun_server])
           @ filter (\<lambda>s. ice_URLs s \<noteq> []) (map sanitized servers)"
proof (cases "servers = []")
  case True
  then show ?thesis by (simp add: SanitizeICEServers_def all_kept_def)
next
  case False
  show ?thesis
    unfolding SanitizeICEServers_def clean_servers_eq if_not_P [OF False]
    by (cases "bad_url (all_kept servers)") (auto simp: Let_def bad_url_None [symmetric])
qed

text \<open>
  Sanitising succeeds exactly when there is a server, every URL that is neither empty nor on the
  blocked port has one of the schemes stun, stuns, turn and turns, and one of them is a TURN URL; the
  answer is then the list of the servers with those URLs and trimmed credentials, servers without
  a URL left out, with the public STUN server in front when no STUN URL was given.
\<close>
theorem sanitize_exact:
  "SanitizeICEServers servers = Inr out \<longleftrightarrow>
     (\<forall>u \<in> set (all_kept servers). ValidateICEServerURL u) \<and> (\<exists>u \<in> set (all_kept servers). IsTURNURL u) \<and>
     out = (if \<exists>u \<in> set (all_kept servers). IsSTUNURL u then [] else [stun_server])
           @ filter (\<lambda>s. ice_URLs s \<noteq> []) (map sanitized servers)"
  by (rule sanitize_equation)

text \<open>What the clients get: the part of the guarantee they rely on.\<close>

definition client_safe :: "ICEServer list \<Rightarrow> bool" where
  "client_safe out \<longleftrightarrow>
     (\<forall>s \<in> set out. ice_URLs s \<noteq> [] \<and> (\<forall>u \<in> set (ice_URLs s).
        ValidateICEServerURL u \<and> trimmed u \<and> \<not> usesBlockedCloudflarePort u))
     \<and> (\<exists>s \<in> set out. \<exists>u \<in> set (ice_URLs s). IsSTUNURL u)"

lemma stun_server_facts:
  "ValidateICEServerURL CloudflareSTUNURL" "trimmed CloudflareSTUNURL"
  "\<not> usesBlockedCloudflarePort CloudflareSTUNURL" "IsSTUNURL CloudflareSTUNURL"
  by code_simp+

lemma in_all_kept: "u \<in> set (all_kept servers) \<longleftrightarrow> (\<exists>s \<in> set servers. u \<in> set (kept_urls (ice_URLs s)))"
  by (simp add: all_kept_def)

lemma SanitizeICEServers_safe:
  assumes "SanitizeICEServers servers = Inr out"
  shows "client_safe out"
proof -
  have valid: "\<And>u. u \<in> set (all_kept servers) \<Longrightarrow> ValidateICEServerURL u"
    and out: "out = (if \<exists>u \<in> set (all_kept servers). IsSTUNURL u then [] else [stun_server])
                    @ filter (\<lambda>s. ice_URLs s \<noteq> []) (map sanitized servers)"
    using assms by (simp_all add: sanitize_equation)
  have "\<exists>s \<in> set out. \<exists>u \<in> set (ice_URLs s). IsSTUNURL u"
  proof (cases "\<exists>u \<in> set (all_kept servers). IsSTUNURL u")
    case True
    then obtain s u where "s \<in> set servers" "u \<in> set (kept_urls (ice_URLs s))" "IsSTUNURL u"
      by (auto simp: in_all_kept)
    then show ?thesis
      by (intro bexI [of _ "sanitized s"] bexI [of _ u]) (auto simp: out sanitized_def)
  next
    case False
    then show ?thesis by (simp add: out stun_server_def stun_server_facts)
  qed
  moreover have "ice_URLs s \<noteq> [] \<and> (\<forall>u \<in> set (ice_URLs s).
      ValidateICEServerURL u \<and> trimmed u \<and> \<not> usesBlockedCloudflarePort u)" if "s \<in> set out" for s
  proof (cases "s = stun_server")
    case True
    then show ?thesis by (simp add: stun_server_def stun_server_facts)
  next
    case False
    with that obtain s0 where "s0 \<in> set servers" "s = sanitized s0" "ice_URLs s \<noteq> []"
      by (auto simp: out split: if_splits)
    then have "u \<in> set (all_kept servers)" "u \<in> set (kept_urls (ice_URLs s0))" if "u \<in> set (ice_URLs s)" for u
      using that by (auto simp: sanitized_def in_all_kept)
    with \<open>ice_URLs s \<noteq> []\<close> show ?thesis using valid trimmed_TrimSpace by (fastforce simp: in_kept_urls)
  qed
  ultimately show ?thesis unfolding client_safe_def by blast
qed

text \<open>
  C40: Credentials that the API issued reach a client only sanitised: whatever the API answers, every
  URL handed out is trimmed, has one of the four schemes, is not on the blocked port, no server is
  without a URL, and there is a STUN URL.
\<close>
theorem issued_servers_safe:
  "IssueCloudflareCredentials sha api cfg subject = Inr out \<Longrightarrow> client_safe out"
  by (auto simp: IssueCloudflareCredentials_def Let_def split: if_splits option.splits
      intro: SanitizeICEServers_safe)

definition demo_turn_given :: "ICEServer list" where
  "demo_turn_given =
     [\<lparr>ice_URLs = ['' turn:a:3478'', ''turn:a:53''], ice_Username = ''u'', ice_Credential = ''c''\<rparr>]"

definition demo_turn_json :: json where
  "demo_turn_json = JObj [(''iceServers'', JArr (map ICEServer_json demo_turn_given))]"

definition demo_turn_body :: string where
  "demo_turn_body = print_json demo_turn_json"

definition demo_turn_api :: "api_request \<Rightarrow> api_response option" where
  "demo_turn_api req = Some \<lparr>api_Status = 201, api_Text = demo_turn_body\<rparr>"

definition demo_turn_config :: CloudflareConfig where
  "demo_turn_config = \<lparr>cf_APIBaseURL = ''https://api'', cf_KeyID = ''k'', cf_APIToken = ''t'', cf_TTL = Hour\<rparr>"

definition demo_turn_servers :: "ICEServer list" where
  "demo_turn_servers = [stun_server,
     \<lparr>ice_URLs = [''turn:a:3478''], ice_Username = ''u'', ice_Credential = ''c''\<rparr>]"

theorem issued_servers_safe_witness: "client_safe demo_turn_servers"
proof -
  have conf: "CloudflareEnabled demo_turn_config" "quot (cf_TTL demo_turn_config) Second = 3600"
    by code_simp (simp add: demo_turn_config_def quot_def)
  have "api_URL (cloudflare_request (\<lambda>_. []) demo_turn_config [])
      = ''https://api/v1/turn/keys/k/credentials/generate-ice-servers''"
    unfolding cloudflare_request_def api_request.simps by code_simp
  moreover have "\<not> Option.is_none (url_Parse ''https://api/v1/turn/keys/k/credentials/generate-ice-servers'')"
    by code_simp
  ultimately obtain u where req:
    "url_Parse (api_URL (cloudflare_request (\<lambda>_. []) demo_turn_config [])) = Some u"
    by (auto simp: Option.is_none_def)
  have body: "demo_turn_body = ''{\"iceServers\":[{\"urls\":[\" turn:a:3478\",\"turn:a:53\"],\"username\":\"u\",\"credential\":\"c\"}]}''"
    by code_simp
  have "printable max_depth demo_turn_json"
    by (simp add: demo_turn_json_def demo_turn_given_def ICEServer_json_def max_depth_def ascii_def ord_def)
  then have "json_Decode (take 65536 demo_turn_body) = Some demo_turn_json"
    using Decode_print [of demo_turn_json] body by (simp add: demo_turn_body_def)
  moreover have "decode_cloudflareCredentialsResponse demo_turn_json
      = Some \<lparr>cc_ICEServers = demo_turn_given, cc_Result = None\<rparr>"
    by code_simp
  ultimately have answer: "Option.bind (json_Decode (take 65536 demo_turn_body)) decode_cloudflareCredentialsResponse
      = Some \<lparr>cc_ICEServers = demo_turn_given, cc_Result = None\<rparr>"
    by simp
  have clean: "SanitizeICEServers (extractCloudflareICEServers \<lparr>cc_ICEServers = demo_turn_given, cc_Result = None\<rparr>)
      = Inr demo_turn_servers"
    by code_simp
  have "IssueCloudflareCredentials (\<lambda>_. []) demo_turn_api demo_turn_config [] = Inr demo_turn_servers"
    unfolding IssueCloudflareCredentials_def Let_def using conf req answer clean
    by (simp add: demo_turn_api_def)
  then show ?thesis by (rule issued_servers_safe)
qed

theorem sanitize_exact_witness:
  "SanitizeICEServers demo_turn_given = Inr demo_turn_servers"
  unfolding sanitize_exact by code_simp

end
