(* ===== verification/Build_Info.thy ===== *)
theory Build_Info
  imports Http_Server
begin

text \<open>
  \<^verbatim>\<open>buildinfo/buildinfo.go\<close>: what the version endpoint reports. What the linker sets, and what the
  runtime and the operating system know about the binary, are fields of \<open>build\<close>; SHA-256 is the
  parameter \<open>sha\<close>.
\<close>

record module =
  md_Path :: string
  md_Version :: string
  md_Sum :: string

record debug_info =
  dbg_Main :: module
  dbg_Deps :: "(module \<times> module option) list"
  dbg_Settings :: "(string \<times> string) list"

text \<open>A dependency comes with the module that replaces it, if any.\<close>

record build =
  b_ServiceReleaseID :: string
  b_Version :: string
  b_Commit :: string
  b_BuildTime :: string
  b_SourceRepo :: string
  b_GoVersion :: string
  b_Info :: "debug_info option"
  b_Executable :: "string option"

definition CoreModulePath :: string where
  "CoreModulePath = ''github.com/jaycho46/shellin-core''"

record VersionResponse =
  vr_Service :: string
  vr_ServiceReleaseID :: string
  vr_CoreModule :: string
  vr_CoreVersion :: string
  vr_CoreSum :: string
  vr_BuildTime :: string
  vr_GoVersion :: string
  vr_VCSRevision :: string
  vr_VCSModified :: string
  vr_BinarySHA256 :: string
  vr_SourceRepo :: string

definition buildVersion :: "build \<Rightarrow> string \<Rightarrow> string" where
  "buildVersion b version0 =
     (let version = TrimSpace version0
      in if version = [] \<or> version = ''(devel)'' then
           (if TrimSpace (b_Version b) \<noteq> [] then TrimSpace (b_Version b) else ''dev'')
         else version)"

definition find_core :: "(module \<times> module option) list \<Rightarrow> module option" where
  "find_core deps = map_option (\<lambda>(dep, replace). case replace of None \<Rightarrow> dep | Some m \<Rightarrow> m)
     (find (\<lambda>(dep, _). md_Path dep = CoreModulePath) deps)"

definition coreModuleVersion :: "build \<Rightarrow> string \<times> string" where
  "coreModuleVersion b = (case b_Info b of
     None \<Rightarrow> (TrimSpace (b_Version b), [])
   | Some info \<Rightarrow>
       if md_Path (dbg_Main info) = CoreModulePath
       then (buildVersion b (md_Version (dbg_Main info)), md_Sum (dbg_Main info))
       else (case find_core (dbg_Deps info) of
               None \<Rightarrow> (TrimSpace (b_Version b), [])
             | Some m \<Rightarrow> (buildVersion b (md_Version m), md_Sum m)))"

text \<open>The last setting with a key counts.\<close>

definition last_setting :: "string \<Rightarrow> (string \<times> string) list \<Rightarrow> string" where
  "last_setting key settings = foldl (\<lambda>old (k, v). if k = key then v else old) [] settings"

definition vcsInfo :: "build \<Rightarrow> string \<times> string" where
  "vcsInfo b = (case b_Info b of None \<Rightarrow> ([], [])
   | Some info \<Rightarrow> (last_setting ''vcs.revision'' (dbg_Settings info), last_setting ''vcs.modified'' (dbg_Settings info)))"

definition hex_EncodeToString :: "string \<Rightarrow> string" where
  "hex_EncodeToString s = concat (map (\<lambda>c. [hex_char (ord c div 16), hex_char (ord c mod 16)]) s)"

definition executableSHA256 :: "(string \<Rightarrow> string) \<Rightarrow> build \<Rightarrow> string option" where
  "executableSHA256 sha b = map_option (\<lambda>data. hex_EncodeToString (sha data)) (b_Executable b)"

definition Snapshot :: "(string \<Rightarrow> string) \<Rightarrow> build \<Rightarrow> string \<Rightarrow> VersionResponse" where
  "Snapshot sha b service =
     (let (coreVersion, coreSum) = coreModuleVersion b;
          (vcsRevision, vcsModified) = vcsInfo b;
          releaseID = TrimSpace (b_ServiceReleaseID b)
      in \<lparr>vr_Service = TrimSpace service,
          vr_ServiceReleaseID = (if releaseID = [] then TrimSpace (b_Version b) else releaseID),
          vr_CoreModule = CoreModulePath, vr_CoreVersion = coreVersion, vr_CoreSum = coreSum,
          vr_BuildTime = TrimSpace (b_BuildTime b), vr_GoVersion = b_GoVersion b,
          vr_VCSRevision = (if TrimSpace (b_Commit b) \<noteq> [] then TrimSpace (b_Commit b) else vcsRevision),
          vr_VCSModified = vcsModified,
          vr_BinarySHA256 = (case executableSHA256 sha b of None \<Rightarrow> [] | Some h \<Rightarrow> h),
          vr_SourceRepo = TrimSpace (b_SourceRepo b)\<rparr>)"

definition omit_empty :: "string \<Rightarrow> string \<Rightarrow> (string \<times> json) list" where
  "omit_empty k v = (if v = [] then [] else [(k, JStr v)])"

definition VersionResponse_json :: "VersionResponse \<Rightarrow> json" where
  "VersionResponse_json r = JObj
     ([(''service'', JStr (vr_Service r))] @ omit_empty ''service_release_id'' (vr_ServiceReleaseID r)
      @ [(''core_module'', JStr (vr_CoreModule r)), (''core_version'', JStr (vr_CoreVersion r))]
      @ omit_empty ''core_sum'' (vr_CoreSum r) @ omit_empty ''build_time'' (vr_BuildTime r)
      @ [(''go_version'', JStr (vr_GoVersion r))] @ omit_empty ''vcs_revision'' (vr_VCSRevision r)
      @ omit_empty ''vcs_modified'' (vr_VCSModified r) @ omit_empty ''binary_sha256'' (vr_BinarySHA256 r)
      @ omit_empty ''source_repo'' (vr_SourceRepo r))"

definition version_Handler :: "(string \<Rightarrow> string) \<Rightarrow> build \<Rightarrow> string \<Rightarrow> Request \<Rightarrow> Response" where
  "version_Handler sha b service r =
     (if req_Method r \<noteq> ''GET'' then http_Error ''method not allowed'' 405
      else writeJSON 200 (VersionResponse_json (Snapshot sha b service)))"

section \<open>Facts\<close>

text \<open>The core version is never blank unless the linker set a blank version.\<close>

lemma buildVersion_nonempty: "buildVersion b v \<noteq> []"
  by (simp add: buildVersion_def Let_def)

lemma hex_EncodeToString_length: "length (hex_EncodeToString s) = 2 * length s"
  unfolding hex_EncodeToString_def by (induction s) auto

end
