(* ===== verification/Signal_Hub.thy ===== *)
theory Signal_Hub
  imports Protocol
begin

text \<open>
  \<^verbatim>\<open>controlplane/signal_hub.go\<close>: the hub that pairs the agent and the viewer of a session and
  relays their signaling messages.

  A peer is a pointer in Go; \<open>sp_id\<close> is its identity. Its callbacks \<^verbatim>\<open>Send\<close> and \<^verbatim>\<open>Close\<close>, either of
  which may be nil, are called after the lock is released, so an operation returns the calls it
  makes, in order, as a list of events. Whether a \<^verbatim>\<open>Send\<close> succeeds is up to the connection:
  \<open>sends\<close> is an argument of \<open>Forward\<close>.
\<close>

section \<open>State\<close>

definition SignalRoleAgent :: string where "SignalRoleAgent = ''agent''"
definition SignalRoleViewer :: string where "SignalRoleViewer = ''viewer''"

record SignalPeer =
  sp_id :: nat
  sp_Subject :: string
  sp_SessionID :: string
  sp_Role :: string
  sp_Send :: bool
  sp_Close :: bool

type_synonym signalSessionKey = "string \<times> string"

record signalSession =
  sg_agent :: "SignalPeer option"
  sg_viewer :: "SignalPeer option"

type_synonym SignalHub = "(signalSessionKey, signalSession) gomap"

datatype hub_event =
  SendEvent nat SignalMessage
| CloseEvent nat int string

definition NewSignalHub :: SignalHub where
  "NewSignalHub = []"

definition no_session :: signalSession where
  "no_session = \<lparr>sg_agent = None, sg_viewer = None\<rparr>"

definition hub_session :: "SignalHub \<Rightarrow> signalSessionKey \<Rightarrow> signalSession" where
  "hub_session h key = (case go_get h key of None \<Rightarrow> no_session | Some s \<Rightarrow> s)"

definition signal :: "string \<Rightarrow> SignalMessage" where
  "signal t = SignalMessage_zero\<lparr>sm_Type := t\<rparr>"

text \<open>The calls of a peer's callbacks; a nil peer or a nil callback is not called.\<close>

definition call_send :: "SignalPeer option \<Rightarrow> string \<Rightarrow> hub_event list" where
  "call_send p t = (case p of None \<Rightarrow> [] | Some q \<Rightarrow> if sp_Send q then [SendEvent (sp_id q) (signal t)] else [])"

definition call_close :: "SignalPeer option \<Rightarrow> int \<Rightarrow> string \<Rightarrow> hub_event list" where
  "call_close p code reason =
     (case p of None \<Rightarrow> [] | Some q \<Rightarrow> if sp_Close q then [CloseEvent (sp_id q) code reason] else [])"

text \<open>\<open>p\<close> if it is a pointer to another peer than \<open>q\<close>.\<close>

definition other_than :: "SignalPeer \<Rightarrow> SignalPeer option \<Rightarrow> SignalPeer option" where
  "other_than q p = (case p of None \<Rightarrow> None | Some x \<Rightarrow> if sp_id x = sp_id q then None else Some x)"

definition same_peer :: "SignalPeer option \<Rightarrow> SignalPeer \<Rightarrow> bool" where
  "same_peer p q = (case p of None \<Rightarrow> False | Some x \<Rightarrow> sp_id x = sp_id q)"

definition peer_key :: "SignalPeer \<Rightarrow> signalSessionKey" where
  "peer_key p = (TrimSpace (sp_Subject p), TrimSpace (sp_SessionID p))"

section \<open>Operations\<close>

definition SignalHub_Register :: "SignalHub \<Rightarrow> SignalPeer option \<Rightarrow> SignalHub \<times> hub_event list" where
  "SignalHub_Register h peer = (case peer of None \<Rightarrow> (h, [])
   | Some p \<Rightarrow>
       let key = peer_key p
       in if fst key = [] \<or> snd key = [] then (h, [])
          else
            let session = hub_session h key;
                oldAgent = (if sp_Role p = SignalRoleAgent then sg_agent session else None);
                oldViewer = (if sp_Role p = SignalRoleViewer then sg_viewer session else None);
                session' = (if sp_Role p = SignalRoleAgent then session\<lparr>sg_agent := Some p\<rparr>
                            else if sp_Role p = SignalRoleViewer then session\<lparr>sg_viewer := Some p\<rparr>
                            else session);
                notifyAgentDetach = (if oldViewer \<noteq> None then sg_agent session' else None)
            in (go_put h key session',
                call_close (other_than p oldAgent) 4001 ''agent replaced''
                @ call_send (other_than p oldViewer) SignalMessageTypeViewerReplaced
                @ call_close (other_than p oldViewer) 4002 ''viewer replaced''
                @ call_send notifyAgentDetach SignalMessageTypeDetach))"

definition SignalHub_Unregister :: "SignalHub \<Rightarrow> SignalPeer option \<Rightarrow> SignalHub \<times> hub_event list" where
  "SignalHub_Unregister h peer = (case peer of None \<Rightarrow> (h, [])
   | Some p \<Rightarrow>
       let key = peer_key p
       in if fst key = [] \<or> snd key = [] then (h, [])
          else case go_get h key of None \<Rightarrow> (h, [])
          | Some session \<Rightarrow>
              let agentLeaves = (sp_Role p = SignalRoleAgent \<and> same_peer (sg_agent session) p);
                  viewerLeaves = (sp_Role p = SignalRoleViewer \<and> same_peer (sg_viewer session) p);
                  session' = (if agentLeaves then session\<lparr>sg_agent := None, sg_viewer := None\<rparr>
                              else if viewerLeaves then session\<lparr>sg_viewer := None\<rparr> else session);
                  h' = (if sg_agent session' = None \<and> sg_viewer session' = None
                        then go_del h key else go_put h key session')
              in (h', (if viewerLeaves then call_send (sg_agent session) SignalMessageTypeDetach else [])
                      @ (if agentLeaves then call_close (sg_viewer session) 4003 ''agent disconnected'' else [])))"

definition forward_target :: "SignalHub \<Rightarrow> SignalPeer \<Rightarrow> SignalPeer option" where
  "forward_target h p =
     (let session = hub_session h (peer_key p)
      in if sp_Role p = SignalRoleAgent then sg_viewer session
         else if sp_Role p = SignalRoleViewer then sg_agent session else None)"

definition SignalHub_Forward ::
  "(nat \<Rightarrow> SignalMessage \<Rightarrow> bool) \<Rightarrow> SignalHub \<Rightarrow> SignalPeer option \<Rightarrow> SignalMessage \<Rightarrow> hub_event list \<times> bool"
where
  "SignalHub_Forward sends h peer msg = (case peer of None \<Rightarrow> ([], False)
   | Some p \<Rightarrow>
       let key = peer_key p
       in if fst key = [] \<or> snd key = [] then ([], False)
          else case forward_target h p of None \<Rightarrow> ([], False)
          | Some target \<Rightarrow>
              if \<not> sp_Send target then ([], False)
              else ([SendEvent (sp_id target) msg], sends (sp_id target) msg))"

section \<open>Slots\<close>

text \<open>\<open>slot h key role\<close> is the peer that holds a role of a session.\<close>

definition slot :: "SignalHub \<Rightarrow> signalSessionKey \<Rightarrow> string \<Rightarrow> SignalPeer option" where
  "slot h key role = (if role = SignalRoleAgent then sg_agent (hub_session h key)
     else if role = SignalRoleViewer then sg_viewer (hub_session h key) else None)"

definition proper_peer :: "SignalPeer \<Rightarrow> bool" where
  "proper_peer p \<longleftrightarrow> TrimSpace (sp_Subject p) \<noteq> [] \<and> TrimSpace (sp_SessionID p) \<noteq> []
     \<and> (sp_Role p = SignalRoleAgent \<or> sp_Role p = SignalRoleViewer)"

datatype hub_op = HubRegister SignalPeer | HubUnregister SignalPeer

fun hub_peer :: "hub_op \<Rightarrow> SignalPeer" where
  "hub_peer (HubRegister p) = p"
| "hub_peer (HubUnregister p) = p"

text \<open>A step of the hub on a connection's peer, with the callbacks it makes.\<close>

inductive hub_step :: "SignalHub \<Rightarrow> hub_op \<Rightarrow> hub_event list \<Rightarrow> SignalHub \<Rightarrow> bool" where
  register: "proper_peer p \<Longrightarrow> SignalHub_Register h (Some p) = (h', evs) \<Longrightarrow> hub_step h (HubRegister p) evs h'"
| unregister: "proper_peer p \<Longrightarrow> SignalHub_Unregister h (Some p) = (h', evs) \<Longrightarrow> hub_step h (HubUnregister p) evs h'"

inductive_cases hub_stepE: "hub_step h op evs h'"
inductive_simps hub_step_register: "hub_step h (HubRegister p) evs h'"
inductive_simps hub_step_unregister: "hub_step h (HubUnregister p) evs h'"

inductive hub_reachable :: "SignalHub \<Rightarrow> bool" where
  new: "hub_reachable NewSignalHub"
| step: "hub_reachable h \<Longrightarrow> hub_step h op evs h' \<Longrightarrow> hub_reachable h'"

lemma roles_differ [simp]: "SignalRoleAgent \<noteq> SignalRoleViewer" "SignalRoleViewer \<noteq> SignalRoleAgent"
  by (simp_all add: SignalRoleAgent_def SignalRoleViewer_def)

lemma hub_session_put [simp]: "hub_session (go_put h k s) k' = (if k' = k then s else hub_session h k')"
  by (simp add: hub_session_def)

lemma hub_session_del [simp]: "hub_session (go_del h k) k' = (if k' = k then no_session else hub_session h k')"
  by (simp add: hub_session_def)

lemma hub_session_None: "go_get h k = None \<Longrightarrow> hub_session h k = no_session"
  by (simp add: hub_session_def)

lemma slot_Register:
  "proper_peer p \<Longrightarrow> slot (fst (SignalHub_Register h (Some p))) key role
     = (if key = peer_key p \<and> role = sp_Role p then Some p else slot h key role)"
  by (auto simp: slot_def SignalHub_Register_def Let_def proper_peer_def peer_key_def)

lemma slot_Unregister:
  "proper_peer p \<Longrightarrow> slot (fst (SignalHub_Unregister h (Some p))) key role
     = (if key = peer_key p \<and> same_peer (slot h key (sp_Role p)) p
           \<and> (role = sp_Role p \<or> sp_Role p = SignalRoleAgent \<and> role = SignalRoleViewer)
        then None else slot h key role)"
  by (auto simp: slot_def SignalHub_Unregister_def Let_def proper_peer_def peer_key_def hub_session_def
      no_session_def same_peer_def split: option.split)

text \<open>The invariant: a slot holds a proper peer of its session and role, and no session is empty.\<close>

definition hub_ok :: "SignalHub \<Rightarrow> bool" where
  "hub_ok h \<longleftrightarrow> wf_map h
     \<and> (\<forall>key role p. slot h key role = Some p \<longrightarrow> proper_peer p \<and> peer_key p = key \<and> sp_Role p = role)
     \<and> (\<forall>key s. go_get h key = Some s \<longrightarrow> sg_agent s \<noteq> None \<or> sg_viewer s \<noteq> None)"

lemma hub_Register_get:
  "proper_peer p \<Longrightarrow> go_get (fst (SignalHub_Register h (Some p))) key = Some s \<Longrightarrow>
     key = peer_key p \<and> (sg_agent s \<noteq> None \<or> sg_viewer s \<noteq> None) \<or> go_get h key = Some s"
  by (auto simp: SignalHub_Register_def Let_def proper_peer_def peer_key_def split: if_splits)

lemma hub_Unregister_get:
  "proper_peer p \<Longrightarrow> go_get (fst (SignalHub_Unregister h (Some p))) key = Some s \<Longrightarrow>
     key = peer_key p \<and> (sg_agent s \<noteq> None \<or> sg_viewer s \<noteq> None) \<or> go_get h key = Some s"
  by (auto simp: SignalHub_Unregister_def Let_def proper_peer_def peer_key_def split: if_splits option.splits)

lemma hub_Register_ok: "hub_ok h \<Longrightarrow> proper_peer p \<Longrightarrow> hub_ok (fst (SignalHub_Register h (Some p)))"
  unfolding hub_ok_def
proof (intro conjI allI impI)
  fix key s
  assume h: "wf_map h \<and> (\<forall>key role p. slot h key role = Some p \<longrightarrow> proper_peer p \<and> peer_key p = key \<and> sp_Role p = role)
     \<and> (\<forall>key s. go_get h key = Some s \<longrightarrow> sg_agent s \<noteq> None \<or> sg_viewer s \<noteq> None)" and p: "proper_peer p"
  show "wf_map (fst (SignalHub_Register h (Some p)))"
    using h by (simp add: SignalHub_Register_def Let_def)
  show "go_get (fst (SignalHub_Register h (Some p))) key = Some s \<Longrightarrow> sg_agent s \<noteq> None \<or> sg_viewer s \<noteq> None"
    using h hub_Register_get [OF p, of h key s] by blast
qed (auto simp: slot_Register split: if_splits)

lemma hub_Unregister_ok: "hub_ok h \<Longrightarrow> proper_peer p \<Longrightarrow> hub_ok (fst (SignalHub_Unregister h (Some p)))"
  unfolding hub_ok_def
proof (intro conjI allI impI)
  fix key s
  assume h: "wf_map h \<and> (\<forall>key role p. slot h key role = Some p \<longrightarrow> proper_peer p \<and> peer_key p = key \<and> sp_Role p = role)
     \<and> (\<forall>key s. go_get h key = Some s \<longrightarrow> sg_agent s \<noteq> None \<or> sg_viewer s \<noteq> None)" and p: "proper_peer p"
  show "wf_map (fst (SignalHub_Unregister h (Some p)))"
    using h by (auto simp: SignalHub_Unregister_def Let_def split: option.split)
  show "go_get (fst (SignalHub_Unregister h (Some p))) key = Some s \<Longrightarrow> sg_agent s \<noteq> None \<or> sg_viewer s \<noteq> None"
    using h hub_Unregister_get [OF p, of h key s] by blast
qed (auto simp: slot_Unregister split: if_splits)

lemma hub_step_ok: "hub_step h op evs h' \<Longrightarrow> hub_ok h \<Longrightarrow> hub_ok h'"
  by (elim hub_stepE) (metis fst_conv hub_Register_ok, metis fst_conv hub_Unregister_ok)

lemma NewSignalHub_ok: "hub_ok NewSignalHub"
  by (simp add: hub_ok_def NewSignalHub_def slot_def hub_session_def no_session_def)

lemma hub_reachable_ok: "hub_reachable h \<Longrightarrow> hub_ok h"
proof (induction rule: hub_reachable.induct)
  case new
  show ?case by (rule NewSignalHub_ok)
next
  case (step h op evs h')
  then show ?case using hub_step_ok by blast
qed

section \<open>Sessions do not interfere\<close>

text \<open>
  The contract of a relay for many sessions: an operation on one session leaves the slots of every
  other as they are.
\<close>

locale session_relay =
  fixes step :: "'s \<Rightarrow> 'op \<Rightarrow> 's"
    and key_of :: "'op \<Rightarrow> 'k"
    and holder :: "'s \<Rightarrow> 'k \<Rightarrow> 'r \<Rightarrow> 'p option"
  assumes other_session: "key_of op \<noteq> k \<Longrightarrow> holder (step s op) k r = holder s k r"
begin

lemma untouched:
  "\<forall>op \<in> set ops. key_of op \<noteq> k \<Longrightarrow> holder (foldl step s ops) k r = holder s k r"
  by (induction ops arbitrary: s) (simp_all add: other_session)

text \<open>What a session sees of a history is what its own operations did.\<close>

lemma own_history:
  assumes "\<And>s1 s2 op r. (\<And>r. holder s1 k r = holder s2 k r) \<Longrightarrow> key_of op = k \<Longrightarrow>
      holder (step s1 op) k r = holder (step s2 op) k r"
  shows "(\<And>r. holder s1 k r = holder s2 k r) \<Longrightarrow>
    holder (foldl step s1 ops) k r = holder (foldl step s2 (filter (\<lambda>op. key_of op = k) ops)) k r"
proof (induction ops arbitrary: s1 s2)
  case Nil
  then show ?case by simp
next
  case (Cons op ops)
  show ?case
  proof (cases "key_of op = k")
    case True
    have "holder (step s1 op) k r = holder (step s2 op) k r" for r
      using assms Cons.prems True by blast
    with Cons.IH True show ?thesis by simp
  next
    case False
    have "holder (step s1 op) k r = holder s2 k r" for r
      using Cons.prems False other_session by metis
    with Cons.IH False show ?thesis by simp
  qed
qed

end

fun hub_apply :: "SignalHub \<Rightarrow> hub_op \<Rightarrow> SignalHub" where
  "hub_apply h (HubRegister p) = fst (SignalHub_Register h (Some p))"
| "hub_apply h (HubUnregister p) = fst (SignalHub_Unregister h (Some p))"

lemma slot_other_session: "peer_key (hub_peer op) \<noteq> k \<Longrightarrow> slot (hub_apply h op) k r = slot h k r"
proof (cases op)
  case (HubRegister p)
  assume "peer_key (hub_peer op) \<noteq> k"
  with HubRegister show ?thesis by (simp add: slot_def SignalHub_Register_def Let_def)
next
  case (HubUnregister p)
  assume "peer_key (hub_peer op) \<noteq> k"
  with HubUnregister show ?thesis by (simp add: slot_def SignalHub_Unregister_def Let_def split: option.split)
qed

interpretation hub: session_relay hub_apply "\<lambda>op. peer_key (hub_peer op)" slot
  by unfold_locales (rule slot_other_session)

section \<open>Properties\<close>

text \<open>
  Messages stay inside their session: whatever \<^verbatim>\<open>Forward\<close> delivers goes to a single peer, the
  one that holds the other role of the same subject and session, unchanged, and it reports success
  only if it delivered.
\<close>

theorem forward_isolation:
  assumes "hub_reachable h" and "SignalHub_Forward sends h (Some p) msg = (evs, delivered)"
  shows "evs = [] \<and> \<not> delivered
    \<or> (\<exists>q. evs = [SendEvent (sp_id q) msg] \<and> delivered = sends (sp_id q) msg
        \<and> peer_key q = peer_key p \<and> {sp_Role q, sp_Role p} = {SignalRoleAgent, SignalRoleViewer}
        \<and> slot h (peer_key p) (sp_Role q) = Some q)"
proof (cases "evs = []")
  case True
  with assms(2) show ?thesis
    by (auto simp: SignalHub_Forward_def Let_def split: if_splits option.splits)
next
  case False
  then obtain q where q: "forward_target h p = Some q" "evs = [SendEvent (sp_id q) msg]"
    "delivered = sends (sp_id q) msg"
    using assms(2) by (auto simp: SignalHub_Forward_def Let_def split: if_splits option.splits)
  have "\<exists>role. slot h (peer_key p) role = Some q \<and> {role, sp_Role p} = {SignalRoleAgent, SignalRoleViewer}"
    using q(1) by (auto simp: forward_target_def slot_def Let_def split: if_splits)
      (metis roles_differ(1))
  then show ?thesis
    using hub_reachable_ok [OF assms(1)] q unfolding hub_ok_def by blast
qed

definition demo_agent :: SignalPeer where
  "demo_agent = \<lparr>sp_id = 1, sp_Subject = ''alice'', sp_SessionID = ''s1'', sp_Role = ''agent'', sp_Send = True, sp_Close = True\<rparr>"

definition demo_viewer :: SignalPeer where
  "demo_viewer = \<lparr>sp_id = 2, sp_Subject = ''alice'', sp_SessionID = ''s1'', sp_Role = ''viewer'', sp_Send = True, sp_Close = True\<rparr>"

definition demo_hub :: SignalHub where
  "demo_hub = fst (SignalHub_Register (fst (SignalHub_Register NewSignalHub (Some demo_agent))) (Some demo_viewer))"

lemma demo_peers: "proper_peer demo_agent" "proper_peer demo_viewer"
  by code_simp+

lemma demo_hub_reachable: "hub_reachable demo_hub"
proof -
  have "hub_reachable (fst (SignalHub_Register NewSignalHub (Some demo_agent)))"
    by (rule hub_reachable.step [OF hub_reachable.new]) (rule hub_step.register [OF demo_peers(1) surjective_pairing])
  then show ?thesis
    unfolding demo_hub_def
    by (rule hub_reachable.step) (rule hub_step.register [OF demo_peers(2) surjective_pairing])
qed

lemma forward_isolation_witness:
  "\<exists>q. fst (SignalHub_Forward (\<lambda>_ _. True) demo_hub (Some demo_viewer) (signal ''offer'')) = [SendEvent (sp_id q) (signal ''offer'')]
     \<and> peer_key q = peer_key demo_viewer"
proof -
  have "fst (SignalHub_Forward (\<lambda>_ _. True) demo_hub (Some demo_viewer) (signal ''offer'')) \<noteq> []"
    by code_simp
  with forward_isolation [OF demo_hub_reachable surjective_pairing] show ?thesis by blast
qed

text \<open>
  The traffic of other sessions cannot disturb a session: what holds its two roles after any
  history of registrations and departures depends only on the operations of the session itself.
\<close>

theorem sessions_independent:
  "slot (foldl hub_apply h ops) k r
     = slot (foldl hub_apply h (filter (\<lambda>op. peer_key (hub_peer op) = k) ops)) k r"
proof (rule hub.own_history)
  fix s1 s2 :: SignalHub and op r
  assume eq: "\<And>r. slot s1 k r = slot s2 k r" and key: "peer_key (hub_peer op) = k"
  have sess: "hub_session s1 k = hub_session s2 k"
    using eq [of SignalRoleAgent] eq [of SignalRoleViewer] by (simp add: slot_def)
  show "slot (hub_apply s1 op) k r = slot (hub_apply s2 op) k r"
  proof (cases op)
    case (HubRegister p)
    with key sess eq show ?thesis by (simp add: slot_def SignalHub_Register_def Let_def)
  next
    case (HubUnregister p)
    with key sess eq show ?thesis
      by (auto simp: slot_def SignalHub_Unregister_def Let_def hub_session_def no_session_def same_peer_def
          split: option.splits if_splits)
  qed
qed simp

text \<open>
  A connection that was replaced does no harm when it goes: unregistering a peer that does not
  hold its slot changes nothing and calls nobody.
\<close>

theorem stale_unregister_harmless:
  assumes "hub_reachable h" and "proper_peer p"
    and "\<not> same_peer (slot h (peer_key p) (sp_Role p)) p"
  shows "SignalHub_Unregister h (Some p) = (h, [])"
proof (cases "go_get h (peer_key p)")
  case None
  then show ?thesis by (simp add: SignalHub_Unregister_def Let_def)
next
  case (Some s)
  then have sess: "hub_session h (peer_key p) = s" by (simp add: hub_session_def)
  have full: "sg_agent s \<noteq> None \<or> sg_viewer s \<noteq> None"
    using hub_reachable_ok [OF assms(1)] Some unfolding hub_ok_def by blast
  have "go_put m k v = m" if "go_get m k = Some v" for m :: SignalHub and k v
    using that unfolding go_put_def go_get_def by (induction m) (auto split: if_splits)
  then have same: "go_put h (peer_key p) s = h" using Some by blast
  have stale: "\<not> (sp_Role p = SignalRoleAgent \<and> same_peer (sg_agent s) p)"
    "\<not> (sp_Role p = SignalRoleViewer \<and> same_peer (sg_viewer s) p)"
    using assms(3) sess by (auto simp: slot_def)
  have kept: "\<not> (sg_agent s = None \<and> sg_viewer s = None)" using full by blast
  show ?thesis
    unfolding SignalHub_Unregister_def Let_def option.case Some if_not_P [OF stale(1)] if_not_P [OF stale(2)]
      if_not_P [OF kept] same by simp
qed

lemma stale_unregister_harmless_witness:
  "SignalHub_Unregister demo_hub (Some (demo_viewer\<lparr>sp_id := 9\<rparr>)) = (demo_hub, [])"
proof (rule stale_unregister_harmless [OF demo_hub_reachable])
  show "proper_peer (demo_viewer\<lparr>sp_id := 9\<rparr>)" by code_simp
  show "\<not> same_peer (slot demo_hub (peer_key (demo_viewer\<lparr>sp_id := 9\<rparr>)) (sp_Role (demo_viewer\<lparr>sp_id := 9\<rparr>))) (demo_viewer\<lparr>sp_id := 9\<rparr>)"
    by code_simp
qed

text \<open>
  When the agent that holds a session leaves, the session is gone, its viewer is closed with
  code 4003 and nobody else is called.
\<close>

theorem agent_leaving_ends_session:
  assumes "hub_reachable h" and "slot h (peer_key p) SignalRoleAgent = Some p"
    and "SignalHub_Unregister h (Some p) = (h', evs)"
  shows "go_get h' (peer_key p) = None
    \<and> evs = call_close (slot h (peer_key p) SignalRoleViewer) 4003 ''agent disconnected''"
proof -
  have p: "proper_peer p" "sp_Role p = SignalRoleAgent"
    using hub_reachable_ok [OF assms(1)] assms(2) unfolding hub_ok_def by blast+
  then have "fst (peer_key p) \<noteq> []" "snd (peer_key p) \<noteq> []"
    by (simp_all add: proper_peer_def peer_key_def)
  moreover obtain s where "go_get h (peer_key p) = Some s" "sg_agent s = Some p"
    using assms(2) by (auto simp: slot_def hub_session_def no_session_def split: option.splits)
  ultimately show ?thesis
    using assms(3) p(2)
    by (auto simp: SignalHub_Unregister_def Let_def same_peer_def slot_def hub_session_def)
qed

lemma agent_leaving_ends_session_witness:
  "snd (SignalHub_Unregister demo_hub (Some demo_agent)) = [CloseEvent 2 4003 ''agent disconnected'']"
proof -
  have "slot demo_hub (peer_key demo_agent) SignalRoleAgent = Some demo_agent" by code_simp
  from agent_leaving_ends_session [OF demo_hub_reachable this surjective_pairing] show ?thesis
    by code_simp
qed

text \<open>
  A registration takes its slot at once and leaves the other role alone. A different agent that
  held it is closed with code 4001; a different viewer is told it was replaced and closed with code
  4002, and the agent is told that the viewer detached.
\<close>

theorem register_takes_slot:
  assumes "proper_peer p" and "SignalHub_Register h (Some p) = (h', evs)"
    and "old = other_than p (slot h (peer_key p) (sp_Role p))"
  shows "slot h' (peer_key p) (sp_Role p) = Some p
    \<and> (\<forall>role. role \<noteq> sp_Role p \<longrightarrow> slot h' (peer_key p) role = slot h (peer_key p) role)
    \<and> (sp_Role p = SignalRoleAgent \<longrightarrow> evs = call_close old 4001 ''agent replaced'')
    \<and> (sp_Role p = SignalRoleViewer \<longrightarrow>
         evs = call_send old SignalMessageTypeViewerReplaced @ call_close old 4002 ''viewer replaced''
           @ (if slot h (peer_key p) SignalRoleViewer = None then []
              else call_send (slot h (peer_key p) SignalRoleAgent) SignalMessageTypeDetach))"
proof -
  have h': "h' = fst (SignalHub_Register h (Some p))" using assms(2) by simp
  have key: "fst (peer_key p) \<noteq> []" "snd (peer_key p) \<noteq> []"
    using assms(1) by (simp_all add: proper_peer_def peer_key_def)
  have nil: "call_close (other_than p None) c r = []" "call_send (other_than p None) t = []" "call_send None t = []" for c r t
    by (simp_all add: call_close_def call_send_def other_than_def)
  have "sp_Role p = SignalRoleAgent \<or> sp_Role p = SignalRoleViewer"
    using assms(1) by (simp add: proper_peer_def)
  then have "(sp_Role p = SignalRoleAgent \<longrightarrow> evs = call_close old 4001 ''agent replaced'')
    \<and> (sp_Role p = SignalRoleViewer \<longrightarrow>
         evs = call_send old SignalMessageTypeViewerReplaced @ call_close old 4002 ''viewer replaced''
           @ (if slot h (peer_key p) SignalRoleViewer = None then []
              else call_send (slot h (peer_key p) SignalRoleAgent) SignalMessageTypeDetach))"
    using assms(2,3) key by (elim disjE) (auto simp: SignalHub_Register_def Let_def slot_def nil)
  then show ?thesis unfolding h' slot_Register [OF assms(1)] by simp
qed

lemma register_takes_slot_witness:
  "snd (SignalHub_Register demo_hub (Some (demo_viewer\<lparr>sp_id := 9\<rparr>)))
     = [SendEvent 2 (signal ''viewer_replaced''), CloseEvent 2 4002 ''viewer replaced'', SendEvent 1 (signal ''detach'')]"
proof -
  have "proper_peer (demo_viewer\<lparr>sp_id := 9\<rparr>)" by code_simp
  note effect = register_takes_slot [OF this surjective_pairing [of "SignalHub_Register demo_hub (Some (demo_viewer\<lparr>sp_id := 9\<rparr>))"] refl]
  have "sp_Role (demo_viewer\<lparr>sp_id := 9\<rparr>) = SignalRoleViewer" by code_simp
  with effect have "snd (SignalHub_Register demo_hub (Some (demo_viewer\<lparr>sp_id := 9\<rparr>)))
    = (let q = demo_viewer\<lparr>sp_id := 9\<rparr>; old = other_than q (slot demo_hub (peer_key q) (sp_Role q))
       in call_send old SignalMessageTypeViewerReplaced @ call_close old 4002 ''viewer replaced''
          @ (if slot demo_hub (peer_key q) SignalRoleViewer = None then []
             else call_send (slot demo_hub (peer_key q) SignalRoleAgent) SignalMessageTypeDetach))"
    unfolding Let_def by blast
  also have "\<dots> = [SendEvent 2 (signal ''viewer_replaced''), CloseEvent 2 4002 ''viewer replaced'', SendEvent 1 (signal ''detach'')]"
    by code_simp
  finally show ?thesis .
qed

end
