(* ===== verification/Replay_Guard.thy ===== *)
theory Replay_Guard
  imports Grant_Auth One_Time_Store
begin

text \<open>
  \<^verbatim>\<open>grantauth/replay_guard.go\<close>: the in-memory store of the token ids that have been used, and the
  guard in front of it. An \<^verbatim>\<open>error\<close> is an option. The clock is an argument; the guard and the
  store read it one after the other, so \<open>ReplayGuard_Consume\<close> takes two readings.
\<close>

type_synonym MemoryReplayStore = "(string, gotime) gomap"

definition NewMemoryReplayStore :: MemoryReplayStore where
  "NewMemoryReplayStore = []"

definition MemoryReplayStore_Consume ::
  "gotime \<Rightarrow> MemoryReplayStore \<Rightarrow> string \<Rightarrow> gotime \<Rightarrow> MemoryReplayStore \<times> grant_error option"
where
  "MemoryReplayStore_Consume now seen rawID expiresAt =
     (let tokenID = TrimSpace rawID
      in if tokenID = [] then (seen, Some (ErrInvalidClaim []))
         else
           let expt = (if expiresAt < now then now else expiresAt);
               kept = go_filter (\<lambda>_ existing. now < existing) seen
           in if (case go_get kept tokenID of None \<Rightarrow> False | Some existing \<Rightarrow> now < existing)
              then (kept, Some ErrReplayDetected)
              else (go_put kept tokenID expt, None))"

text \<open>A guard holds a store or nothing.\<close>

type_synonym ReplayGuard = "MemoryReplayStore option"

definition NewReplayGuard :: ReplayGuard where
  "NewReplayGuard = Some NewMemoryReplayStore"

definition ReplayGuard_Consume ::
  "gotime \<Rightarrow> gotime \<Rightarrow> ReplayGuard \<Rightarrow> string \<Rightarrow> gotime \<Rightarrow> ReplayGuard \<times> grant_error option"
where
  "ReplayGuard_Consume now0 now g rawID expiresAt = (case g of
     None \<Rightarrow> (g, Some ErrReplayStoreUnavailable)
   | Some seen \<Rightarrow>
       let tokenID = TrimSpace rawID
       in if tokenID = [] then (g, Some (ErrInvalidClaim []))
          else
            let expt = (if expiresAt < now0 then now0 else expiresAt);
                (seen', err) = MemoryReplayStore_Consume now seen tokenID expt
            in (Some seen', err))"

section \<open>The contract\<close>

definition replay_live :: "MemoryReplayStore \<Rightarrow> gotime \<Rightarrow> string \<Rightarrow> bool" where
  "replay_live seen now k \<longleftrightarrow> (case go_get seen k of None \<Rightarrow> False | Some e \<Rightarrow> now < e)"

lemma wf_MemoryReplayStore_Consume [inv_intros]:
  "wf_map seen \<Longrightarrow> wf_map (fst (MemoryReplayStore_Consume now seen k e))"
  by (simp add: MemoryReplayStore_Consume_def Let_def)

lemma replay_live_filter:
  "wf_map seen \<Longrightarrow> now \<le> t \<Longrightarrow>
     replay_live (go_filter (\<lambda>_ existing. now < existing) seen) t k \<longleftrightarrow> replay_live seen t k"
  by (auto simp: replay_live_def go_get_filter split: option.splits)

lemma Consume_accepts_iff:
  "wf_map seen \<Longrightarrow> snd (MemoryReplayStore_Consume now seen k e) = None \<longleftrightarrow>
     TrimSpace k \<noteq> [] \<and> \<not> replay_live seen now (TrimSpace k)"
  using replay_live_filter [of seen now now "TrimSpace k"]
  by (simp add: MemoryReplayStore_Consume_def Let_def replay_live_def)

lemma Consume_live:
  "wf_map seen \<Longrightarrow> now \<le> t \<Longrightarrow>
     replay_live (fst (MemoryReplayStore_Consume now seen k e)) t k' \<longleftrightarrow>
     (if snd (MemoryReplayStore_Consume now seen k e) = None \<and> k' = TrimSpace k then t < e
      else replay_live seen t k')"
  using replay_live_filter [of seen now t k']
  by (auto simp: MemoryReplayStore_Consume_def Let_def replay_live_def split: option.splits)

interpretation memory_replay: replay_store wf_map
  "\<lambda>now s k e. fst (MemoryReplayStore_Consume now s k e)"
  "\<lambda>now s k e. snd (MemoryReplayStore_Consume now s k e) = None" replay_live
  by unfold_locales (auto simp: Consume_accepts_iff Consume_live intro: inv_intros)

section \<open>Properties\<close>

definition MemoryReplayStore_calls ::
  "MemoryReplayStore \<Rightarrow> (gotime \<times> string \<times> gotime) list \<Rightarrow> MemoryReplayStore"
where
  "MemoryReplayStore_calls = foldl (\<lambda>s (now, k, e). fst (MemoryReplayStore_Consume now s k e))"

text \<open>
  The contract of \<^verbatim>\<open>ReplayStore\<close>: once a token id has been consumed with the expiry \<open>e\<close>,
  every later \<^verbatim>\<open>Consume\<close> of the same id before \<open>e\<close> is refused, whatever calls the store has
  received in between.
\<close>

theorem replay_refused_until_expiry:
  assumes "wf_map s" and "snd (MemoryReplayStore_Consume now s k e) = None"
    and "sorted (now # map fst cs @ [t])" and "t < e" and "TrimSpace k' = TrimSpace k"
  shows "snd (MemoryReplayStore_Consume t
      (MemoryReplayStore_calls (fst (MemoryReplayStore_Consume now s k e)) cs) k' e') \<noteq> None"
  using memory_replay.refused_until_expiry [OF assms, of e']
  by (simp add: MemoryReplayStore_calls_def memory_replay.calls_def)

lemma replay_refused_until_expiry_witness:
  "snd (MemoryReplayStore_Consume 9
     (MemoryReplayStore_calls (fst (MemoryReplayStore_Consume 1 NewMemoryReplayStore ''a'' 10)) [(3, ''b'', 5)])
     '' a'' 20) \<noteq> None"
proof (rule replay_refused_until_expiry)
  show "wf_map NewMemoryReplayStore" by (simp add: NewMemoryReplayStore_def)
  show "snd (MemoryReplayStore_Consume 1 NewMemoryReplayStore ''a'' 10) = None" by code_simp
  show "TrimSpace '' a'' = TrimSpace ''a''" by code_simp
qed simp_all

end
