(* ===== verification/Signaling.thy ===== *)
theory Signaling
  imports Signal_Hub Agent_Registry Replay_Guard Http_Origin Http_Server Server_Tokens
begin

text \<open>
  \<^verbatim>\<open>signaling/websocket.go\<close>: who may open the signaling WebSocket, and the life of a connection.

  The WebSocket library is a parameter: \<open>upgrade check r\<close> tells whether the handshake of the
  request \<open>r\<close> succeeds when \<open>check\<close> is the configured origin check. Its documented behaviour, that
  a handshake fails when the origin check does, is a hypothesis where it is needed.
\<close>

section \<open>Admission\<close>

definition MaxSignalMessageBytes :: nat where "MaxSignalMessageBytes = 64 * 1024"

record signal_options =
  so_Validator :: "Validator option"
  so_ReplayStore :: "ReplayGuard option"
  so_ReplayGuard :: "ReplayGuard option"
  so_Registry :: "AgentRegistry option"
  so_StaleAfter :: duration
  so_Hub :: "SignalHub option"
  so_ExternalURL :: string

definition options_replayStore :: "signal_options \<Rightarrow> ReplayGuard option" where
  "options_replayStore opts = (case so_ReplayStore opts of Some s \<Rightarrow> Some s | None \<Rightarrow> so_ReplayGuard opts)"

definition unauthorized :: Response where
  "unauthorized = http_Error ''unauthorized'' 401"

definition OriginAllowed :: "Request \<Rightarrow> bool" where
  "OriginAllowed r = OriginAllowedForBaseURL r []"

text \<open>
  The checks before the handshake. \<open>clk n\<close> is the clock read by the \<open>n\<close>-th call that reads it: by
  \<^verbatim>\<open>Validate\<close>, twice by the replay guard, by \<^verbatim>\<open>Lookup\<close>. The result is the replay store as it is
  afterwards with the response that refuses, or the claims.
\<close>

definition admit ::
  "(string \<Rightarrow> string \<Rightarrow> string) \<Rightarrow> (nat \<Rightarrow> gotime) \<Rightarrow> signal_options \<Rightarrow> Request
   \<Rightarrow> ReplayGuard option \<times> (Response + Claims)"
where
  "admit hmac clk opts r =
     (case (so_Validator opts, options_replayStore opts, so_Registry opts, so_Hub opts) of
        (Some v, Some guard, Some registry, Some hub) \<Rightarrow>
          let token = bearerToken r
          in if token = [] then (Some guard, Inl unauthorized)
             else (case Validate hmac v (clk 0) token of
               Inl _ \<Rightarrow> (Some guard, Inl unauthorized)
             | Inr claims \<Rightarrow>
                 (case ReplayGuard_Consume (clk 1) (clk 2) guard (cl_TokenID claims) (cl_ExpiresAt claims) of
                    (guard', Some _) \<Rightarrow> (Some guard', Inl unauthorized)
                  | (guard', None) \<Rightarrow>
                      (Some guard',
                       if cl_Role claims \<noteq> SignalRoleAgent \<and> cl_Role claims \<noteq> SignalRoleViewer then Inl unauthorized
                       else if cl_SessionID claims = [] \<or> cl_Subject claims = [] then Inl unauthorized
                       else if cl_Role claims = SignalRoleViewer
                            \<and> AgentRegistry_Lookup (clk 3) registry (cl_Subject claims) (cl_SessionID claims)
                                (so_StaleAfter opts) = None
                         then Inl (http_Error ''agent session not found'' 404)
                       else Inr claims)))
      | (_, replay, _, _) \<Rightarrow> (replay, Inl (http_Error ''signaling unavailable'' 503)))"

definition new_peer :: "nat \<Rightarrow> Claims \<Rightarrow> SignalPeer" where
  "new_peer i claims = \<lparr>sp_id = i, sp_Subject = cl_Subject claims, sp_SessionID = cl_SessionID claims,
     sp_Role = cl_Role claims, sp_Send = True, sp_Close = True\<rparr>"

text \<open>
  \<^verbatim>\<open>HandleWebSocket\<close> up to the registration: \<open>i\<close> identifies the new peer. The result is the replay
  store, and the refusal, or nothing (the library has answered), or the peer to register.
\<close>

definition open_WebSocket ::
  "(string \<Rightarrow> string \<Rightarrow> string) \<Rightarrow> ((Request \<Rightarrow> bool) \<Rightarrow> Request \<Rightarrow> bool) \<Rightarrow> (nat \<Rightarrow> gotime) \<Rightarrow> nat
   \<Rightarrow> signal_options \<Rightarrow> Request \<Rightarrow> ReplayGuard option \<times> (Response + SignalPeer option)"
where
  "open_WebSocket hmac upgrade clk i opts r = (case admit hmac clk opts r of
     (replay, Inl resp) \<Rightarrow> (replay, Inl resp)
   | (replay, Inr claims) \<Rightarrow>
       (replay, Inr (if upgrade (\<lambda>r. OriginAllowedForBaseURL r (so_ExternalURL opts)) r
                     then Some (new_peer i claims) else None)))"

section \<open>Connections\<close>

text \<open>
  A connection: its peer, the channel of messages to send (of capacity 128), what has been written
  to the socket, the code and reason it was closed with, whether the writing goroutine runs and
  whether the handler has returned.
\<close>

record connection =
  cn_peer :: SignalPeer
  cn_outbound :: "SignalMessage list"
  cn_written :: "SignalMessage list"
  cn_closed :: "(int \<times> string) option"
  cn_writing :: bool
  cn_done :: bool

definition outbound_capacity :: nat where "outbound_capacity = 128"

definition new_connection :: "SignalPeer \<Rightarrow> connection" where
  "new_connection p = \<lparr>cn_peer = p, cn_outbound = [], cn_written = [], cn_closed = None, cn_writing = True, cn_done = False\<rparr>"

text \<open>
  The \<^verbatim>\<open>select\<close> of \<^verbatim>\<open>Send\<close>: on a closed connection with room in the channel both cases are ready, and
  \<open>pick\<close> is the choice the runtime makes.
\<close>

definition conn_Send :: "bool \<Rightarrow> connection \<Rightarrow> SignalMessage \<Rightarrow> connection \<times> bool" where
  "conn_Send pick c msg =
     (let room = length (cn_outbound c) < outbound_capacity
      in if cn_closed c \<noteq> None \<and> (\<not> room \<or> pick) then (c, False)
         else if room then (c\<lparr>cn_outbound := cn_outbound c @ [msg]\<rparr>, True)
         else (c, False))"

definition closeConn :: "connection \<Rightarrow> int \<Rightarrow> string \<Rightarrow> connection" where
  "closeConn c code reason = (if cn_closed c = None then c\<lparr>cn_closed := Some (code, reason)\<rparr> else c)"

record relay =
  ry_hub :: SignalHub
  ry_conns :: "(nat, connection) gomap"

definition update_conn :: "(nat, connection) gomap \<Rightarrow> nat \<Rightarrow> (connection \<Rightarrow> connection) \<Rightarrow> (nat, connection) gomap" where
  "update_conn conns i f = (case go_get conns i of None \<Rightarrow> conns | Some c \<Rightarrow> go_put conns i (f c))"

text \<open>A callback of the hub runs on the connection it belongs to.\<close>

fun on_event :: "(nat \<Rightarrow> bool) \<Rightarrow> (nat, connection) gomap \<Rightarrow> hub_event \<Rightarrow> (nat, connection) gomap" where
  "on_event pick conns (SendEvent i msg) = update_conn conns i (\<lambda>c. fst (conn_Send (pick i) c msg))"
| "on_event pick conns (CloseEvent i code reason) = update_conn conns i (\<lambda>c. closeConn c code reason)"

text \<open>Registration of a peer with a fresh identity, at the end of a successful handshake.\<close>

definition relay_connect :: "(nat \<Rightarrow> bool) \<Rightarrow> relay \<Rightarrow> SignalPeer \<Rightarrow> relay" where
  "relay_connect pick rl p =
     (let (hub, evs) = SignalHub_Register (ry_hub rl) (Some p)
      in \<lparr>ry_hub = hub,
          ry_conns = foldl (on_event pick) (go_put (ry_conns rl) (sp_id p) (new_connection p)) evs\<rparr>)"

text \<open>The deferred clean-up of the handler.\<close>

definition relay_leave :: "(nat \<Rightarrow> bool) \<Rightarrow> relay \<Rightarrow> SignalPeer \<Rightarrow> relay" where
  "relay_leave pick rl p =
     (let (hub, evs) = SignalHub_Unregister (ry_hub rl) (Some p)
      in \<lparr>ry_hub = hub,
          ry_conns = update_conn (foldl (on_event pick) (ry_conns rl) evs) (sp_id p)
            (\<lambda>c. (closeConn c 1000 ''closing'')\<lparr>cn_done := True\<rparr>)\<rparr>)"

definition decode_payload :: "string \<Rightarrow> SignalMessage option" where
  "decode_payload payload = Option.bind (json_Unmarshal payload) (decode_SignalMessage False)"

text \<open>
  One round of the read loop: \<open>None\<close> is an error of the socket, and a message above the read limit is
  one too. A message that is not JSON is skipped.
\<close>

definition relay_read :: "(nat \<Rightarrow> bool) \<Rightarrow> relay \<Rightarrow> nat \<Rightarrow> string option \<Rightarrow> relay" where
  "relay_read pick rl i input = (case go_get (ry_conns rl) i of
     None \<Rightarrow> rl
   | Some c \<Rightarrow>
       if cn_done c then rl
       else if cn_closed c \<noteq> None then relay_leave pick rl (cn_peer c)
       else case input of
         None \<Rightarrow> relay_leave pick rl (cn_peer c)
       | Some payload \<Rightarrow>
           if MaxSignalMessageBytes < length payload then relay_leave pick rl (cn_peer c)
           else case decode_payload payload of
             None \<Rightarrow> rl
           | Some msg \<Rightarrow>
               rl\<lparr>ry_conns := foldl (on_event pick) (ry_conns rl)
                    (fst (SignalHub_Forward (\<lambda>_ _. True) (ry_hub rl) (Some (cn_peer c)) msg))\<rparr>)"

text \<open>
  One round of the writing goroutine. On a closed connection with messages in the channel both cases
  of its \<^verbatim>\<open>select\<close> are ready, and \<open>pick\<close> chooses to stop; \<open>ok\<close> tells whether \<^verbatim>\<open>WriteJSON\<close> succeeded.
\<close>

definition write_round :: "bool \<Rightarrow> bool \<Rightarrow> connection \<Rightarrow> connection" where
  "write_round pick ok c =
     (if \<not> cn_writing c then c
      else if cn_closed c \<noteq> None \<and> (cn_outbound c = [] \<or> pick) then c\<lparr>cn_writing := False\<rparr>
      else case cn_outbound c of
        [] \<Rightarrow> c
      | msg # rest \<Rightarrow>
          if ok then c\<lparr>cn_outbound := rest, cn_written := cn_written c @ [msg]\<rparr>
          else c\<lparr>cn_outbound := rest, cn_writing := False\<rparr>)"

definition relay_write :: "relay \<Rightarrow> nat \<Rightarrow> bool \<Rightarrow> bool \<Rightarrow> relay" where
  "relay_write rl i pick ok = rl\<lparr>ry_conns := update_conn (ry_conns rl) i (write_round pick ok)\<rparr>"

datatype relay_op =
  OpConnect "nat \<Rightarrow> bool" SignalPeer
| OpRead "nat \<Rightarrow> bool" nat "string option"
| OpWrite nat bool bool

text \<open>The peers that connect come from \<open>new_peer\<close>; a peer is a new object, so its identity is fresh.\<close>

definition fresh_peer :: "relay \<Rightarrow> SignalPeer \<Rightarrow> bool" where
  "fresh_peer rl p \<longleftrightarrow> go_get (ry_conns rl) (sp_id p) = None \<and> proper_peer p"

fun relay_step :: "relay \<Rightarrow> relay_op \<Rightarrow> relay" where
  "relay_step rl (OpConnect pick p) = (if fresh_peer rl p then relay_connect pick rl p else rl)"
| "relay_step rl (OpRead pick i input) = relay_read pick rl i input"
| "relay_step rl (OpWrite i pick ok) = relay_write rl i pick ok"

definition new_relay :: relay where
  "new_relay = \<lparr>ry_hub = NewSignalHub, ry_conns = []\<rparr>"

section \<open>The invariant of the relay\<close>

definition peers :: "(nat, connection) gomap \<Rightarrow> nat \<Rightarrow> SignalPeer option" where
  "peers conns i = map_option cn_peer (go_get conns i)"

definition partners :: "SignalPeer \<Rightarrow> SignalPeer \<Rightarrow> bool" where
  "partners p q \<longleftrightarrow> peer_key p = peer_key q \<and> {sp_Role p, sp_Role q} = {SignalRoleAgent, SignalRoleViewer}"

text \<open>
  A message for the peer \<open>p\<close> is accounted for if it is a notice of the hub, or was read from the
  connection of the other role of the same session.
\<close>

definition accounted :: "relay_op list \<Rightarrow> (nat \<Rightarrow> SignalPeer option) \<Rightarrow> SignalPeer \<Rightarrow> SignalMessage \<Rightarrow> bool" where
  "accounted ops ps p msg \<longleftrightarrow>
     msg \<in> {signal SignalMessageTypeDetach, signal SignalMessageTypeViewerReplaced}
     \<or> (\<exists>pick i payload q. OpRead pick i (Some payload) \<in> set ops \<and> decode_payload payload = Some msg
          \<and> length payload \<le> MaxSignalMessageBytes \<and> ps i = Some q \<and> partners p q)"

definition conn_ok :: "relay_op list \<Rightarrow> (nat \<Rightarrow> SignalPeer option) \<Rightarrow> nat \<Rightarrow> connection \<Rightarrow> bool" where
  "conn_ok ops ps i c \<longleftrightarrow> sp_id (cn_peer c) = i \<and> proper_peer (cn_peer c)
     \<and> length (cn_outbound c) \<le> outbound_capacity
     \<and> (\<forall>msg \<in> set (cn_written c) \<union> set (cn_outbound c). accounted ops ps (cn_peer c) msg)"

definition relay_ok :: "relay_op list \<Rightarrow> relay \<Rightarrow> bool" where
  "relay_ok ops rl \<longleftrightarrow> hub_ok (ry_hub rl)
     \<and> (\<forall>key role p. slot (ry_hub rl) key role = Some p \<longrightarrow> peers (ry_conns rl) (sp_id p) = Some p)
     \<and> (\<forall>i c. go_get (ry_conns rl) i = Some c \<longrightarrow> conn_ok ops (peers (ry_conns rl)) i c)"

definition event_ok :: "relay_op list \<Rightarrow> (nat \<Rightarrow> SignalPeer option) \<Rightarrow> hub_event \<Rightarrow> bool" where
  "event_ok ops ps ev = (case ev of
     SendEvent i msg \<Rightarrow> (\<forall>p. ps i = Some p \<longrightarrow> accounted ops ps p msg)
   | CloseEvent i code reason \<Rightarrow> True)"

lemma go_get_update_conn [simp]:
  "go_get (update_conn conns i f) k = (if k = i then map_option f (go_get conns i) else go_get conns k)"
  by (auto simp: update_conn_def split: option.split)

lemma conn_Send_facts:
  "cn_peer (fst (conn_Send pick c msg)) = cn_peer c" "cn_written (fst (conn_Send pick c msg)) = cn_written c"
  "set (cn_outbound (fst (conn_Send pick c msg))) \<subseteq> insert msg (set (cn_outbound c))"
  "length (cn_outbound c) \<le> outbound_capacity \<Longrightarrow> length (cn_outbound (fst (conn_Send pick c msg))) \<le> outbound_capacity"
  by (auto simp: conn_Send_def Let_def)

lemma closeConn_facts [simp]:
  "cn_peer (closeConn c code reason) = cn_peer c" "cn_written (closeConn c code reason) = cn_written c"
  "cn_outbound (closeConn c code reason) = cn_outbound c"
  by (simp_all add: closeConn_def)

lemma peers_update_conn:
  "(\<And>c. cn_peer (f c) = cn_peer c) \<Longrightarrow> peers (update_conn conns i f) = peers conns"
  by (auto simp: peers_def fun_eq_iff option.map_comp comp_def)

lemma peers_on_event [simp]: "peers (on_event pick conns ev) = peers conns"
  by (cases ev) (simp_all add: peers_update_conn conn_Send_facts)

lemma peers_on_events [simp]: "peers (foldl (on_event pick) conns evs) = peers conns"
  by (induction evs arbitrary: conns) simp_all

lemma conn_ok_Send:
  "conn_ok ops ps i c \<Longrightarrow> accounted ops ps (cn_peer c) msg \<Longrightarrow> conn_ok ops ps i (fst (conn_Send pick c msg))"
  using conn_Send_facts(1-3) [of pick c msg] conn_Send_facts(4) [of c pick msg] by (auto simp: conn_ok_def)

lemma conn_ok_close: "conn_ok ops ps i (closeConn c code reason) \<longleftrightarrow> conn_ok ops ps i c"
  by (simp add: conn_ok_def)

lemma on_event_ok:
  assumes "\<forall>i c. go_get conns i = Some c \<longrightarrow> conn_ok ops (peers conns) i c" and "event_ok ops (peers conns) ev"
  shows "\<forall>i c. go_get (on_event pick conns ev) i = Some c \<longrightarrow> conn_ok ops (peers conns) i c"
  using assms by (cases ev) (auto simp: event_ok_def conn_ok_close peers_def intro!: conn_ok_Send split: if_splits)

lemma on_events_ok:
  "\<forall>i c. go_get conns i = Some c \<longrightarrow> conn_ok ops (peers conns) i c \<Longrightarrow> \<forall>ev \<in> set evs. event_ok ops (peers conns) ev \<Longrightarrow>
   \<forall>i c. go_get (foldl (on_event pick) conns evs) i = Some c \<longrightarrow> conn_ok ops (peers conns) i c"
proof (induction evs arbitrary: conns)
  case Nil
  then show ?case by simp
next
  case (Cons ev evs)
  from Cons.IH [of "on_event pick conns ev"] Cons.prems on_event_ok [of conns ops ev pick] show ?case by simp
qed

text \<open>What the hub sends on its own account are the two notices.\<close>

lemma hub_notices:
  "ev \<in> set (snd (SignalHub_Register h (Some p))) \<Longrightarrow> event_ok ops ps ev"
  "ev \<in> set (snd (SignalHub_Unregister h (Some p))) \<Longrightarrow> event_ok ops ps ev"
  by (auto simp: SignalHub_Register_def SignalHub_Unregister_def Let_def call_send_def call_close_def event_ok_def
      accounted_def split: if_splits option.splits)

lemma hub_ok_slot: "hub_ok h \<Longrightarrow> slot h key role = Some q \<Longrightarrow> proper_peer q \<and> peer_key q = key \<and> sp_Role q = role"
  unfolding hub_ok_def by blast

lemma relay_ok_slot: "relay_ok ops rl \<Longrightarrow> slot (ry_hub rl) key role = Some q \<Longrightarrow> peers (ry_conns rl) (sp_id q) = Some q"
  unfolding relay_ok_def by blast

lemma forward_events:
  assumes "hub_ok h" and "ev \<in> set (fst (SignalHub_Forward sends h (Some p) msg))"
  obtains q where "ev = SendEvent (sp_id q) msg" "slot h (peer_key p) (sp_Role q) = Some q" "partners q p"
proof -
  obtain q where q: "forward_target h p = Some q" "ev = SendEvent (sp_id q) msg"
    using assms(2) by (auto simp: SignalHub_Forward_def Let_def split: if_splits option.splits)
  have "slot h (peer_key p) SignalRoleViewer = Some q \<and> sp_Role p = SignalRoleAgent
      \<or> slot h (peer_key p) SignalRoleAgent = Some q \<and> sp_Role p = SignalRoleViewer"
    using q(1) by (auto simp: forward_target_def slot_def Let_def split: if_splits)
  moreover have "sp_Role q = role \<and> peer_key q = peer_key p" if "slot h (peer_key p) role = Some q" for role
    using hub_ok_slot [OF assms(1) that] by simp
  ultimately have "slot h (peer_key p) (sp_Role q) = Some q" "partners q p"
    by (auto simp: partners_def)
  then show ?thesis using that q(2) by simp
qed

lemma accounted_mono:
  "accounted ops ps p msg \<Longrightarrow> set ops \<subseteq> set ops' \<Longrightarrow> (\<And>i q. ps i = Some q \<Longrightarrow> ps' i = Some q) \<Longrightarrow> accounted ops' ps' p msg"
  unfolding accounted_def by blast

lemma conn_ok_mono:
  "conn_ok ops ps i c \<Longrightarrow> set ops \<subseteq> set ops' \<Longrightarrow> (\<And>i q. ps i = Some q \<Longrightarrow> ps' i = Some q) \<Longrightarrow> conn_ok ops' ps' i c"
  unfolding conn_ok_def using accounted_mono by blast

lemma conn_ok_append: "conn_ok ops ps i c \<Longrightarrow> conn_ok (ops @ ops') ps i c"
  by (rule conn_ok_mono) auto

lemma relay_ok_mono: "relay_ok ops rl \<Longrightarrow> relay_ok (ops @ ops') rl"
  unfolding relay_ok_def by (simp add: conn_ok_append)

lemma relay_connect_ok:
  assumes "relay_ok ops rl" and "fresh_peer rl p"
  shows "relay_ok ops (relay_connect pick rl p)"
proof -
  obtain hub evs where reg: "SignalHub_Register (ry_hub rl) (Some p) = (hub, evs)" by fastforce
  have p: "proper_peer p" "go_get (ry_conns rl) (sp_id p) = None"
    using assms(2) by (simp_all add: fresh_peer_def)
  define conns where "conns = go_put (ry_conns rl) (sp_id p) (new_connection p)"
  have ps: "peers conns = (peers (ry_conns rl))(sp_id p := Some p)"
    by (auto simp: conns_def peers_def new_connection_def)
  have grow: "peers (ry_conns rl) i = Some q \<Longrightarrow> peers conns i = Some q" for i q
    using p(2) by (auto simp: ps peers_def)
  have "conn_ok ops (peers conns) i c" if "go_get conns i = Some c" for i c
    using that assms(1) p(1) grow conn_ok_mono [of ops "peers (ry_conns rl)" i c ops "peers conns"]
    by (auto simp: conns_def relay_ok_def conn_ok_def new_connection_def outbound_capacity_def split: if_splits)
  then have conns: "\<forall>i c. go_get (foldl (on_event pick) conns evs) i = Some c \<longrightarrow> conn_ok ops (peers conns) i c"
    using hub_notices(1) [of _ "ry_hub rl" p] reg by (intro on_events_ok) auto
  have slots: "peers conns (sp_id q) = Some q" if q: "slot hub key role = Some q" for key role q
  proof (cases "key = peer_key p \<and> role = sp_Role p")
    case True
    then have "q = p" using slot_Register [OF p(1), of "ry_hub rl" key role] reg q by simp
    then show ?thesis by (simp add: ps)
  next
    case False
    then have "slot (ry_hub rl) key role = Some q"
      using slot_Register [OF p(1), of "ry_hub rl" key role] reg q by (auto split: if_split_asm)
    then show ?thesis using relay_ok_slot [OF assms(1)] grow by blast
  qed
  have "hub_ok hub" using hub_Register_ok [of "ry_hub rl" p] reg p(1) assms(1) by (simp add: relay_ok_def)
  with conns slots show ?thesis
    unfolding relay_ok_def relay_connect_def reg by (simp add: conns_def)
qed

lemma relay_leave_ok:
  assumes "relay_ok ops rl" and "go_get (ry_conns rl) i = Some c"
  shows "relay_ok ops (relay_leave pick rl (cn_peer c))"
proof -
  let ?p = "cn_peer c" and ?gone = "\<lambda>c. (closeConn c 1000 ''closing'')\<lparr>cn_done := True\<rparr>"
  obtain hub evs where unreg: "SignalHub_Unregister (ry_hub rl) (Some ?p) = (hub, evs)" by fastforce
  have p: "proper_peer ?p" using assms by (simp add: relay_ok_def conn_ok_def)
  have conns: "\<forall>i c. go_get (foldl (on_event pick) (ry_conns rl) evs) i = Some c \<longrightarrow> conn_ok ops (peers (ry_conns rl)) i c"
    using hub_notices(2) [of _ "ry_hub rl" ?p] unreg assms(1) by (intro on_events_ok) (auto simp: relay_ok_def)
  have ps: "peers (update_conn cs (sp_id ?p) ?gone) = peers cs" for cs
    by (rule peers_update_conn) simp
  have slots: "peers (ry_conns rl) (sp_id q) = Some q" if q: "slot hub key role = Some q" for key role q
  proof -
    have "slot (ry_hub rl) key role = Some q"
      using slot_Unregister [OF p, of "ry_hub rl" key role] unreg q by (auto split: if_split_asm)
    then show ?thesis by (rule relay_ok_slot [OF assms(1)])
  qed
  have ended: "conn_ok ops psx i (?gone c) \<longleftrightarrow> conn_ok ops psx i c" for psx i c
    by (simp add: conn_ok_def)
  have "hub_ok hub" using hub_Unregister_ok [of "ry_hub rl" ?p] unreg p assms(1) by (simp add: relay_ok_def)
  with conns slots show ?thesis
    unfolding relay_ok_def relay_leave_def unreg Let_def by (auto simp: ps ended split: if_splits)
qed

lemma relay_forward_ok:
  assumes "relay_ok ops rl" and "go_get (ry_conns rl) i = Some c" and "OpRead pick' i (Some payload) \<in> set ops"
    and "decode_payload payload = Some msg" "length payload \<le> MaxSignalMessageBytes"
  shows "relay_ok ops (rl\<lparr>ry_conns := foldl (on_event pick) (ry_conns rl)
    (fst (SignalHub_Forward sends (ry_hub rl) (Some (cn_peer c)) msg))\<rparr>)"
proof -
  let ?evs = "fst (SignalHub_Forward sends (ry_hub rl) (Some (cn_peer c)) msg)"
  have c: "peers (ry_conns rl) i = Some (cn_peer c)" using assms(2) by (simp add: peers_def)
  have "event_ok ops (peers (ry_conns rl)) ev" if ev: "ev \<in> set ?evs" for ev
  proof -
    have "hub_ok (ry_hub rl)" using assms(1) by (simp add: relay_ok_def)
    from this ev obtain q where q: "ev = SendEvent (sp_id q) msg"
      "slot (ry_hub rl) (peer_key (cn_peer c)) (sp_Role q) = Some q" "partners q (cn_peer c)"
      by (rule forward_events)
    have "peers (ry_conns rl) (sp_id q) = Some q" using q(2) by (rule relay_ok_slot [OF assms(1)])
    moreover have "accounted ops (peers (ry_conns rl)) q msg"
      using assms(3-5) c q(3) unfolding accounted_def by blast
    ultimately show ?thesis using q(1) by (simp add: event_ok_def)
  qed
  then have "\<forall>j d. go_get (foldl (on_event pick) (ry_conns rl) ?evs) j = Some d \<longrightarrow> conn_ok ops (peers (ry_conns rl)) j d"
    using assms(1) by (intro on_events_ok) (auto simp: relay_ok_def)
  with assms(1) show ?thesis by (simp add: relay_ok_def)
qed

lemma write_round_facts:
  "cn_peer (write_round pick ok c) = cn_peer c"
  "set (cn_written (write_round pick ok c)) \<union> set (cn_outbound (write_round pick ok c)) \<subseteq> set (cn_written c) \<union> set (cn_outbound c)"
  "length (cn_outbound (write_round pick ok c)) \<le> length (cn_outbound c)"
  by (cases "cn_outbound c"; simp add: write_round_def; blast)+

lemma conn_ok_write: "conn_ok ops ps i c \<Longrightarrow> conn_ok ops ps i (write_round pick ok c)"
  using write_round_facts [of pick ok c] unfolding conn_ok_def by (auto 0 3)

lemma relay_write_ok:
  assumes "relay_ok ops rl"
  shows "relay_ok ops (relay_write rl i pick ok)"
proof -
  have ps: "peers (update_conn cs i (write_round pick ok)) = peers cs" for cs
    by (rule peers_update_conn) (rule write_round_facts)
  with assms conn_ok_write show ?thesis
    unfolding relay_ok_def relay_write_def by (auto split: if_splits)
qed

lemma relay_step_ok:
  assumes "relay_ok ops rl"
  shows "relay_ok (ops @ [op]) (relay_step rl op)"
proof (cases op)
  case (OpConnect pick p)
  then show ?thesis using relay_ok_mono [OF assms] relay_connect_ok by simp
next
  case (OpWrite i pick ok)
  then show ?thesis using relay_ok_mono [OF assms] relay_write_ok by simp
next
  case (OpRead pick i input)
  note ok = relay_ok_mono [OF assms, of "[op]"]
  show ?thesis
  proof (cases "go_get (ry_conns rl) i")
    case None
    then show ?thesis using ok OpRead by (simp add: relay_read_def)
  next
    case (Some c)
    show ?thesis
    proof (cases "\<exists>payload msg. input = Some payload \<and> decode_payload payload = Some msg
        \<and> length payload \<le> MaxSignalMessageBytes")
      case True
      then obtain payload msg where "input = Some payload" "decode_payload payload = Some msg"
        "length payload \<le> MaxSignalMessageBytes" by blast
      then show ?thesis
        using ok OpRead Some relay_leave_ok [OF ok Some] relay_forward_ok [OF ok Some, of pick payload msg]
        by (auto simp: relay_read_def)
    next
      case False
      then show ?thesis
        using ok OpRead Some relay_leave_ok [OF ok Some]
        by (auto simp: relay_read_def split: option.split)
    qed
  qed
qed

lemma relay_run_ok: "relay_ok ops rl \<Longrightarrow> relay_ok (ops @ ops') (foldl relay_step rl ops')"
proof (induction ops' arbitrary: ops rl)
  case Nil
  then show ?case by simp
next
  case (Cons op ops')
  then show ?case using Cons.IH [OF relay_step_ok [OF Cons.prems]] by simp
qed

lemma new_relay_ok: "relay_ok [] new_relay"
  using NewSignalHub_ok by (simp add: relay_ok_def new_relay_def NewSignalHub_def slot_def hub_session_def no_session_def)

section \<open>Properties of the relay\<close>


definition demo_relay_ops :: "relay_op list" where
  "demo_relay_ops = [OpConnect (\<lambda>_. False) demo_agent, OpConnect (\<lambda>_. False) demo_viewer,
     OpRead (\<lambda>_. False) (sp_id demo_viewer) None]"


section \<open>Properties of admission\<close>

lemma admit_Inr:
  assumes "admit hmac clk opts r = (replay, Inr claims)"
  obtains v guard guard' registry where "so_Validator opts = Some v" "options_replayStore opts = Some guard"
    "so_Registry opts = Some registry" "bearerToken r \<noteq> []" "Validate hmac v (clk 0) (bearerToken r) = Inr claims"
    "ReplayGuard_Consume (clk 1) (clk 2) guard (cl_TokenID claims) (cl_ExpiresAt claims) = (guard', None)"
    "replay = Some guard'" "cl_Role claims = SignalRoleAgent \<or> cl_Role claims = SignalRoleViewer"
    "cl_SessionID claims \<noteq> []" "cl_Subject claims \<noteq> []"
    "cl_Role claims = SignalRoleViewer \<longrightarrow> AgentRegistry_Lookup (clk 3) registry (cl_Subject claims)
        (cl_SessionID claims) (so_StaleAfter opts) \<noteq> None"
  using assms unfolding admit_def
  by (auto simp: Let_def split: option.splits sum.splits prod.splits if_splits)

definition demo_options :: "ReplayGuard \<Rightarrow> signal_options" where
  "demo_options guard = \<lparr>so_Validator = Some demo_validator, so_ReplayStore = Some guard, so_ReplayGuard = None,
     so_Registry = Some NewAgentRegistry, so_StaleAfter = 120 * Second, so_Hub = Some NewSignalHub, so_ExternalURL = []\<rparr>"

definition demo_ws_request :: Request where
  "demo_ws_request = \<lparr>req_Method = ''GET'', req_Host = ''h'', req_RemoteAddr = ''192.0.2.1:1'', req_TLS = True,
     req_Header = [(''Authorization'', ''Bearer '' @ demo_token)], req_Body = []\<rparr>"

lemma demo_bearer: "bearerToken demo_ws_request = demo_token"
  using SignHS256_solid [OF demo_token_signed]
  by (intro bearerToken_header) (simp_all add: demo_ws_request_def Header_Get_def go_get_def)

lemma demo_clock: "time_Unix 1700000000 = 63835596800 * Second" "time_Unix 1700000120 = 63835596920 * Second"
  by (simp_all add: time_Unix_def unix_offset_def wrap64_def)

text \<open>The concrete token is accepted from 30 seconds before its time of issue to 30 seconds after its expiry.\<close>

lemma demo_token_at:
  assumes "63835596770 * Second \<le> t" and "t \<le> 63835596950 * Second"
  shows "Validate demo_hmac demo_validator t demo_token = Inr demo_accepted"
proof -
  have numbers: "parseUnix ''1700000120'' = Some 1700000120" "parseUnix ''1700000000'' = Some 1700000000"
    by code_simp+
  have names: "TrimSpace ''alice'' = ''alice''" "TrimSpace ''t1'' = ''t1''" "TrimSpace ''agent'' = ''agent''"
    "TrimSpace ''s1'' = ''s1''" "TrimSpace [] = []"
    "parseAudience (Some (JStr ''webrtc.signal'')) = Some [''webrtc.signal'']"
    "containsAudience [''webrtc.signal''] ''webrtc.signal''"
    by code_simp+
  have skew: "Time_Add (63835596920 * Second) (30 * Second) = 63835596950 * Second"
    "Time_Add (63835596800 * Second) (- (30 * Second)) = 63835596770 * Second"
    by (simp_all add: Time_Add_def max_int64_def min_int64_def)
  have "check_claims demo_validator t demo_raw = Inr demo_accepted"
    using assms by (simp add: check_claims_def check_nbf_def demo_validator_def demo_raw_def demo_accepted_def
        numbers names demo_clock skew [simplified] Let_def)
  then show ?thesis using demo_token_opens by (simp add: Validate_def demo_validator_def)
qed

lemma demo_claims:
  "cl_TokenID demo_accepted = ''t1''" "cl_ExpiresAt demo_accepted = 63835596920 * Second"
  "cl_Role demo_accepted = SignalRoleAgent" "cl_SessionID demo_accepted = ''s1''" "cl_Subject demo_accepted = ''alice''"
  by (simp_all add: demo_accepted_def demo_clock SignalRoleAgent_def)

lemma demo_url [simp]: "so_ExternalURL (demo_options g) = []"
  by (simp add: demo_options_def)

lemma demo_admitted:
  assumes "63835596770 * Second \<le> t" "t \<le> 63835596950 * Second"
    and "ReplayGuard_Consume t t (Some seen) ''t1'' (63835596920 * Second) = (Some seen', None)"
  shows "admit demo_hmac (\<lambda>_. t) (demo_options (Some seen)) demo_ws_request = (Some (Some seen'), Inr demo_accepted)"
  using SignHS256_solid [OF demo_token_signed] demo_token_at [OF assms(1,2)] assms(3)
  by (simp add: admit_def demo_options_def options_replayStore_def demo_bearer demo_claims)

lemma demo_fresh_token:
  "ReplayGuard_Consume t t (Some []) ''t1'' e = (Some [(''t1'', max t e)], None)"
proof -
  have "TrimSpace ''t1'' = ''t1''" by code_simp
  then show ?thesis by (simp add: ReplayGuard_Consume_def MemoryReplayStore_Consume_def go_filter_def go_put_def)
qed

lemma demo_first_admission:
  "admit demo_hmac (\<lambda>_. 63835596860 * Second) (demo_options (Some [])) demo_ws_request
    = (Some (Some [(''t1'', 63835596920 * Second)]), Inr demo_accepted)"
  by (rule demo_admitted) (simp_all add: demo_fresh_token)

text \<open>
  C10: Who is let in: with a library that honours the origin check, a WebSocket is opened only for a
  request whose origin is allowed and whose bearer token the validator accepts at that time; the
  peer has the token's subject, session and role, the role is agent or viewer, and for a viewer the
  session of the agent is registered and fresh.
\<close>

theorem admission_requires:
  assumes "\<And>check r. upgrade check r \<Longrightarrow> check r"
    and "open_WebSocket hmac upgrade clk i opts r = (replay, Inr (Some p))"
  shows "proper_peer p \<and> OriginAllowedForBaseURL r (so_ExternalURL opts)
    \<and> (\<exists>v registry claims. so_Validator opts = Some v \<and> so_Registry opts = Some registry
         \<and> Validate hmac v (clk 0) (bearerToken r) = Inr claims \<and> p = new_peer i claims
         \<and> (sp_Role p = SignalRoleViewer \<longrightarrow>
              AgentRegistry_Lookup (clk 3) registry (sp_Subject p) (sp_SessionID p) (so_StaleAfter opts) \<noteq> None))"
proof -
  obtain claims where adm: "admit hmac clk opts r = (replay, Inr claims)" and p: "p = new_peer i claims"
    and up: "upgrade (\<lambda>r. OriginAllowedForBaseURL r (so_ExternalURL opts)) r"
    using assms(2) by (auto simp: open_WebSocket_def split: prod.splits sum.splits if_splits)
  show ?thesis
  proof (rule admit_Inr [OF adm])
    fix v guard guard' registry
    assume v: "so_Validator opts = Some v" "so_Registry opts = Some registry"
      "Validate hmac v (clk 0) (bearerToken r) = Inr claims"
      and role: "cl_Role claims = SignalRoleAgent \<or> cl_Role claims = SignalRoleViewer"
      and names: "cl_SessionID claims \<noteq> []" "cl_Subject claims \<noteq> []"
      and look: "cl_Role claims = SignalRoleViewer \<longrightarrow> AgentRegistry_Lookup (clk 3) registry (cl_Subject claims)
        (cl_SessionID claims) (so_StaleAfter opts) \<noteq> None"
    have "trimmed (cl_Subject claims)" "trimmed (cl_SessionID claims)"
      using v(3) check_claims_sound by (auto simp: Validate_Inr claims_for_def)
    then have "proper_peer p" using role names by (simp add: p new_peer_def proper_peer_def TrimSpace_id)
    then show ?thesis using assms(1) [OF up] v look p by (auto simp: new_peer_def)
  qed
qed

theorem admission_requires_witness:
  "proper_peer (new_peer 1 demo_accepted) \<and> OriginAllowedForBaseURL demo_ws_request []"
proof -
  have "OriginAllowedForBaseURL demo_ws_request []"
    by (simp add: OriginAllowedForBaseURL_def demo_ws_request_def Header_Get_def go_get_def)
  then have "open_WebSocket demo_hmac (\<lambda>check. check) (\<lambda>_. 63835596860 * Second) 1 (demo_options (Some [])) demo_ws_request
      = (Some (Some [(''t1'', 63835596920 * Second)]), Inr (Some (new_peer 1 demo_accepted)))"
    using demo_first_admission by (simp add: open_WebSocket_def)
  from admission_requires [of "\<lambda>check. check", OF _ this] show ?thesis
    by simp
qed

text \<open>
  C11: A signaling token opens one WebSocket until it expires: after an admission, whatever else the
  replay store is asked in the meantime, a second request with the same token is refused at any
  later time before the expiry that the token states.
\<close>

theorem token_admitted_once:
  assumes "admit hmac clk opts r = (Some (Some seen), Inr claims)"
    and "options_replayStore opts = Some (Some seen0)" "wf_map seen0"
    and "options_replayStore opts' = Some (Some (MemoryReplayStore_calls seen cs))"
    and "so_Validator opts' = so_Validator opts" "bearerToken r' = bearerToken r"
    and "sorted (clk 2 # map fst cs @ [clk' 2])" and "clk' 2 < cl_ExpiresAt claims"
  shows "\<not> is_ok (snd (admit hmac clk' opts' r'))"
proof
  assume "is_ok (snd (admit hmac clk' opts' r'))"
  then obtain replay' claims' where again: "admit hmac clk' opts' r' = (replay', Inr claims')"
    by (auto simp: is_ok_iff) (metis prod.collapse)
  from assms(1) obtain v where v: "so_Validator opts = Some v" "Validate hmac v (clk 0) (bearerToken r) = Inr claims"
    and first: "ReplayGuard_Consume (clk 1) (clk 2) (Some seen0) (cl_TokenID claims) (cl_ExpiresAt claims) = (Some seen, None)"
    by (rule admit_Inr) (use assms(2) in auto)
  from again obtain v' seen'' where v': "so_Validator opts' = Some v'" "Validate hmac v' (clk' 0) (bearerToken r') = Inr claims'"
    and second: "ReplayGuard_Consume (clk' 1) (clk' 2) (Some (MemoryReplayStore_calls seen cs)) (cl_TokenID claims')
        (cl_ExpiresAt claims') = (seen'', None)"
    by (rule admit_Inr) (use assms(4) in auto)
  have "v' = v" using v(1) v'(1) assms(5) by simp
  then have "cl_TokenID claims' = cl_TokenID claims"
    using v(2) v'(2) assms(6) by (auto simp: Validate_Inr check_claims_Inr)
  then have id: "TrimSpace (cl_TokenID claims') = TrimSpace (cl_TokenID claims)" by simp
  define e where "e = (if cl_ExpiresAt claims < clk 1 then clk 1 else cl_ExpiresAt claims)"
  have e: "cl_ExpiresAt claims \<le> e"
    "MemoryReplayStore_Consume (clk 2) seen0 (TrimSpace (cl_TokenID claims)) e = (seen, None)"
    using first by (auto simp: e_def ReplayGuard_Consume_def Let_def split: if_splits prod.splits)
  obtain e' where e': "snd (MemoryReplayStore_Consume (clk' 2) (MemoryReplayStore_calls seen cs)
      (TrimSpace (cl_TokenID claims')) e') = None"
    using second by (auto simp: ReplayGuard_Consume_def Let_def split: if_splits prod.splits) (metis snd_conv)+
  have "snd (MemoryReplayStore_Consume (clk' 2) (memory_replay.calls
      (fst (MemoryReplayStore_Consume (clk 2) seen0 (TrimSpace (cl_TokenID claims)) e)) cs) (TrimSpace (cl_TokenID claims')) e') \<noteq> None"
    using assms(3,7,8) e id by (intro memory_replay.refused_until_expiry) auto
  then show False
    using e' e(2) by (simp add: MemoryReplayStore_calls_def memory_replay.calls_def)
qed

theorem token_admitted_once_witness:
  "\<not> is_ok (snd (admit demo_hmac (\<lambda>_. 63835596870 * Second)
     (demo_options (Some (MemoryReplayStore_calls [(''t1'', 63835596920 * Second)] []))) demo_ws_request))"
proof (rule token_admitted_once [OF demo_first_admission])
  show "wf_map []" by (rule wf_map_empty)
  show "sorted (63835596860 * Second # map fst [] @ [63835596870 * Second])"
    unfolding list.map append_Nil by simp
qed (simp_all add: demo_options_def options_replayStore_def demo_claims)

text \<open>
  C12: The guarantee ends at the expiry, but \<^verbatim>\<open>Validate\<close> accepts a token for another 30 seconds: a
  token that was issued with the expiry 1700000120 is admitted one second after it, and once more
  two seconds after it, with the replay store that the first admission has left.
\<close>

theorem token_admitted_twice:
  "\<exists>seen seen'. admit demo_hmac (\<lambda>_. 63835596921 * Second) (demo_options (Some [])) demo_ws_request
       = (Some (Some seen), Inr demo_accepted)
     \<and> admit demo_hmac (\<lambda>_. 63835596922 * Second) (demo_options (Some seen)) demo_ws_request
       = (Some (Some seen'), Inr demo_accepted)"
proof -
  let ?t1 = "63835596921 * Second" and ?t2 = "63835596922 * Second"
  have id: "TrimSpace ''t1'' = ''t1''" by code_simp
  have "admit demo_hmac (\<lambda>_. ?t1) (demo_options (Some [])) demo_ws_request
      = (Some (Some [(''t1'', ?t1)]), Inr demo_accepted)"
    by (rule demo_admitted) (simp_all add: demo_fresh_token)
  moreover have "admit demo_hmac (\<lambda>_. ?t2) (demo_options (Some [(''t1'', ?t1)])) demo_ws_request
      = (Some (Some [(''t1'', ?t2)]), Inr demo_accepted)"
    by (rule demo_admitted) (simp_all add: ReplayGuard_Consume_def MemoryReplayStore_Consume_def id go_filter_def go_put_def)
  ultimately show ?thesis by blast
qed

end
