(* ===== verification/Control_Server.thy ===== *)
theory Control_Server
  imports Server_Tokens Login_Keys Rate_Limiter Turn Build_Info Signaling
begin

text \<open>
  The HTTP server of \<^verbatim>\<open>cmd/shellin-control-plane\<close>: the handlers of \<^verbatim>\<open>auth_handlers.go\<close>,
  \<^verbatim>\<open>agent_connect_handlers.go\<close>, \<^verbatim>\<open>agent_registry_handlers.go\<close> and \<^verbatim>\<open>agent_status_handlers.go\<close>, the
  wiring of \<^verbatim>\<open>server.go\<close> and \<^verbatim>\<open>main.go\<close>.

  A handler is a function from the stores to the stores and the response. What it gets from outside
  is in two records: \<open>platform\<close> holds the cryptographic functions, the word list, the TURN API, the
  WebSocket library and the build information; \<open>inputs\<close> what one request draws: the clock, where
  \<open>in_clk n\<close> is read by the \<open>n\<close>-th call of the handler that reads it, the token id, the random bytes
  and words, and the identity of a new peer.
\<close>

section \<open>State\<close>

record platform =
  pl_hmac :: "string \<Rightarrow> string \<Rightarrow> string"
  pl_sha :: "string \<Rightarrow> string"
  pl_words :: "string list"
  pl_api :: "api_request \<Rightarrow> api_response option"
  pl_build :: build
  pl_upgrade :: "(Request \<Rightarrow> bool) \<Rightarrow> Request \<Rightarrow> bool"
  pl_upgrade_reply :: "Request \<Rightarrow> Response"

record inputs =
  in_clk :: "nat \<Rightarrow> gotime"
  in_jti :: string
  in_bytes :: "string option"
  in_draws :: "nat option list"
  in_peer :: nat
  in_pick :: "nat \<Rightarrow> bool"

text \<open>The signal hub is kept with its connections.\<close>

record serverDeps =
  sd_store :: UserKeyStore
  sd_refreshStore :: RefreshTokenStore
  sd_loginKeyStore :: LoginKeyStore
  sd_authFailureLimiter :: "authFailureLimiter option"
  sd_agentRegistry :: AgentRegistry
  sd_relay :: relay
  sd_signalReplayGuard :: ReplayGuard
  sd_accessValidator :: Validator
  sd_signalValidator :: Validator

datatype deps_error = AccessValidatorFailed secret_error | SignalValidatorFailed secret_error

definition newServerDeps :: "config \<Rightarrow> UserKeyStore \<Rightarrow> deps_error + serverDeps" where
  "newServerDeps cfg store =
     (case NewValidator (cfg_GrantHMACSecret cfg) (cfg_GrantIssuer cfg) (cfg_AccessAudience cfg) of
        Inl e \<Rightarrow> Inl (AccessValidatorFailed e)
      | Inr access \<Rightarrow>
          (case NewValidator (cfg_GrantHMACSecret cfg) (cfg_GrantIssuer cfg) (cfg_SignalAudience cfg) of
             Inl e \<Rightarrow> Inl (SignalValidatorFailed e)
           | Inr sig \<Rightarrow> Inr
               \<lparr>sd_store = store, sd_refreshStore = NewRefreshTokenStore, sd_loginKeyStore = NewLoginKeyStore,
                sd_authFailureLimiter = Some (newAuthFailureLimiter (cfg_AuthFailureLimit cfg) (cfg_AuthFailureWindow cfg)),
                sd_agentRegistry = NewAgentRegistry, sd_relay = new_relay, sd_signalReplayGuard = NewReplayGuard,
                sd_accessValidator = access, sd_signalValidator = sig\<rparr>))"

section \<open>Authentication\<close>

text \<open>How a handler for authenticated callers begins; \<open>k\<close> is the rest of it.\<close>

definition authenticated ::
  "platform \<Rightarrow> inputs \<Rightarrow> serverDeps \<Rightarrow> string \<Rightarrow> Request \<Rightarrow> (UserEntitlement \<Rightarrow> serverDeps \<times> Response) \<Rightarrow> serverDeps \<times> Response"
where
  "authenticated pl inp d method r k = (case requireMethod r method of
     Some refusal \<Rightarrow> (d, refusal)
   | None \<Rightarrow>
       (case validateEntitlement (pl_hmac pl) (sd_accessValidator d) (sd_store d) (in_clk inp 0) (in_clk inp 1) r of
          Inl _ \<Rightarrow> (d, unauthorized)
        | Inr entitlement \<Rightarrow> k entitlement))"

text \<open>How a handler goes on that reads a body; the limit is in bytes.\<close>

definition with_body ::
  "(bool \<Rightarrow> json \<Rightarrow> 'a option) \<Rightarrow> nat \<Rightarrow> serverDeps \<Rightarrow> Request \<Rightarrow> ('a \<Rightarrow> serverDeps \<times> Response) \<Rightarrow> serverDeps \<times> Response"
where
  "with_body dec limit d r k = (case decodeJSON dec r limit of
     None \<Rightarrow> (d, http_Error ''invalid request body'' 400)
   | Some x \<Rightarrow> k x)"

definition RecordFailure_at :: "gotime \<Rightarrow> Request \<Rightarrow> serverDeps \<Rightarrow> serverDeps" where
  "RecordFailure_at now r d =
     d\<lparr>sd_authFailureLimiter := limiter_RecordFailure now (sd_authFailureLimiter d) (Some r)\<rparr>"

definition Reset_limiter :: "Request \<Rightarrow> serverDeps \<Rightarrow> serverDeps" where
  "Reset_limiter r d = d\<lparr>sd_authFailureLimiter := limiter_Reset (sd_authFailureLimiter d) (Some r)\<rparr>"

definition allowCredentialAuth :: "gotime \<Rightarrow> serverDeps \<Rightarrow> Request \<Rightarrow> serverDeps \<times> Response option" where
  "allowCredentialAuth now d r =
     (let (l, allowed) = limiter_Allow now (sd_authFailureLimiter d) (Some r);
          d' = d\<lparr>sd_authFailureLimiter := l\<rparr>
      in if allowed then (d', None) else (d', Some (http_Error ''too many auth attempts'' 429)))"

text \<open>The tokens that a successful credential check hands out.\<close>

definition tokens_response ::
  "platform \<Rightarrow> config \<Rightarrow> inputs \<Rightarrow> gotime \<Rightarrow> gotime \<Rightarrow> serverDeps \<Rightarrow> string \<Rightarrow> int \<Rightarrow> (ExchangeAuthResponse \<Rightarrow> json)
   \<Rightarrow> serverDeps \<times> Response"
where
  "tokens_response pl cfg inp now now' d subject maxSessions enc =
     (case issueAuthTokens (pl_hmac pl) (pl_sha pl) now now' (in_jti inp) (in_bytes inp) cfg (sd_refreshStore d)
             subject maxSessions of
        (store, Inl _) \<Rightarrow> (d\<lparr>sd_refreshStore := store\<rparr>, http_Error ''failed to issue tokens'' 500)
      | (store, Inr out) \<Rightarrow> (d\<lparr>sd_refreshStore := store\<rparr>, writeJSON 200 (enc out)))"

definition handleAuthExchange :: "platform \<Rightarrow> config \<Rightarrow> inputs \<Rightarrow> serverDeps \<Rightarrow> Request \<Rightarrow> serverDeps \<times> Response" where
  "handleAuthExchange pl cfg inp d r = (case requireMethod r ''POST'' of
     Some refusal \<Rightarrow> (d, refusal)
   | None \<Rightarrow> with_body decode_ExchangeAuthRequest (32 * 1024) d r (\<lambda>body.
       case allowCredentialAuth (in_clk inp 0) d r of
         (d1, Some refusal) \<Rightarrow> (d1, refusal)
       | (d1, None) \<Rightarrow>
           (let entitlement = UserKeyStore_Lookup (pl_sha pl) (sd_store d1) (xq_UserKey body)
            in case entitlement of
                 None \<Rightarrow> (RecordFailure_at (in_clk inp 2) r d1, unauthorized)
               | Some e \<Rightarrow>
                   if \<not> isEntitlementUsable (in_clk inp 1) e
                   then (RecordFailure_at (in_clk inp 2) r d1, unauthorized)
                   else tokens_response pl cfg inp (in_clk inp 3) (in_clk inp 4) (Reset_limiter r d1)
                          (ue_Subject e) (ue_MaxSessions e) ExchangeAuthResponse_json)))"

definition RefreshAuthResponse_of :: "ExchangeAuthResponse \<Rightarrow> RefreshAuthResponse" where
  "RefreshAuthResponse_of x = \<lparr>fr_AccessToken = xr_AccessToken x, fr_AccessTokenExpiresAt = xr_AccessTokenExpiresAt x,
     fr_RefreshToken = xr_RefreshToken x, fr_RefreshTokenExpiresAt = xr_RefreshTokenExpiresAt x\<rparr>"

definition handleAuthRefresh :: "platform \<Rightarrow> config \<Rightarrow> inputs \<Rightarrow> serverDeps \<Rightarrow> Request \<Rightarrow> serverDeps \<times> Response" where
  "handleAuthRefresh pl cfg inp d r = (case requireMethod r ''POST'' of
     Some refusal \<Rightarrow> (d, refusal)
   | None \<Rightarrow> with_body decode_RefreshAuthRequest (32 * 1024) d r (\<lambda>body.
       case RefreshTokenStore_Peek (pl_sha pl) (in_clk inp 0) (sd_refreshStore d) (fq_RefreshToken body) of
         Inl _ \<Rightarrow> (d, unauthorized)
       | Inr subject \<Rightarrow>
           (case UserKeyStore_LookupBySubject (sd_store d) subject of
              None \<Rightarrow> (d, unauthorized)
            | Some e \<Rightarrow>
                if \<not> isEntitlementUsable (in_clk inp 1) e then (d, unauthorized)
                else (case RefreshTokenStore_Consume (pl_sha pl) (in_clk inp 2) (sd_refreshStore d) (fq_RefreshToken body) of
                    (store, Inl _) \<Rightarrow> (d\<lparr>sd_refreshStore := store\<rparr>, unauthorized)
                  | (store, Inr consumedSubject) \<Rightarrow>
                      let d1 = d\<lparr>sd_refreshStore := store\<rparr>
                      in if consumedSubject \<noteq> subject then (d1, unauthorized)
                         else tokens_response pl cfg inp (in_clk inp 3) (in_clk inp 4) d1 subject (ue_MaxSessions e)
                                (\<lambda>out. RefreshAuthResponse_json (RefreshAuthResponse_of out))))))"

text \<open>\<^verbatim>\<open>time.Duration(n) * time.Second\<close> is a 64-bit product.\<close>

definition login_ttl :: "config \<Rightarrow> int \<Rightarrow> duration" where
  "login_ttl cfg n = (if 0 < n then wrap64 (n * Second) else cfg_DeviceLoginKeyTTL cfg)"

definition handleLoginKeys :: "platform \<Rightarrow> config \<Rightarrow> inputs \<Rightarrow> serverDeps \<Rightarrow> Request \<Rightarrow> serverDeps \<times> Response" where
  "handleLoginKeys pl cfg inp d r = authenticated pl inp d ''POST'' r (\<lambda>e.
     with_body decode_IssueLoginKeyRequest (16 * 1024) d r (\<lambda>body.
       let ttl = login_ttl cfg (kq_TTLSeconds body)
       in if ttl < 30 * Second \<or> 24 * Hour < ttl
          then (d, http_Error ''ttl_seconds must be between 30 and 86400'' 400)
          else case LoginKeyStore_Issue (pl_sha pl) (pl_words pl) (in_clk inp 2) (in_draws inp) (sd_loginKeyStore d)
                      (ue_Subject e) (ue_MaxSessions e) ttl of
            (store, Inl _, _) \<Rightarrow> (d\<lparr>sd_loginKeyStore := store\<rparr>, http_Error ''failed to issue login key'' 500)
          | (store, Inr (loginKey, expiresAt), _) \<Rightarrow>
              (d\<lparr>sd_loginKeyStore := store\<rparr>, writeJSON 200 (IssueLoginKeyResponse_json
                 \<lparr>kr_LoginKey = loginKey, kr_ExpiresAt = Format_RFC3339 expiresAt\<rparr>))))"

definition handleDeviceLogin :: "platform \<Rightarrow> config \<Rightarrow> inputs \<Rightarrow> serverDeps \<Rightarrow> Request \<Rightarrow> serverDeps \<times> Response" where
  "handleDeviceLogin pl cfg inp d r = (case requireMethod r ''POST'' of
     Some refusal \<Rightarrow> (d, refusal)
   | None \<Rightarrow> with_body decode_DeviceLoginRequest (16 * 1024) d r (\<lambda>body.
       case allowCredentialAuth (in_clk inp 0) d r of
         (d1, Some refusal) \<Rightarrow> (d1, refusal)
       | (d1, None) \<Rightarrow>
           (case LoginKeyStore_Consume (pl_sha pl) (in_clk inp 1) (sd_loginKeyStore d1) (dq_LoginKey body) of
              (store, Inl _) \<Rightarrow>
                (RecordFailure_at (in_clk inp 3) r (d1\<lparr>sd_loginKeyStore := store\<rparr>), unauthorized)
            | (store, Inr loginClaims) \<Rightarrow>
                let d2 = d1\<lparr>sd_loginKeyStore := store\<rparr>
                in case UserKeyStore_LookupBySubject (sd_store d2) (lk_Subject loginClaims) of
                     None \<Rightarrow> (RecordFailure_at (in_clk inp 3) r d2, unauthorized)
                   | Some e \<Rightarrow>
                       if \<not> isEntitlementUsable (in_clk inp 2) e
                       then (RecordFailure_at (in_clk inp 3) r d2, unauthorized)
                       else tokens_response pl cfg inp (in_clk inp 4) (in_clk inp 5) (Reset_limiter r d2) (ue_Subject e)
                              (if ue_MaxSessions e \<le> 0 then lk_MaxSessions loginClaims else ue_MaxSessions e)
                              ExchangeAuthResponse_json)))"

section \<open>Agents\<close>

definition turn_config :: "config \<Rightarrow> CloudflareConfig" where
  "turn_config cfg = \<lparr>cf_APIBaseURL = cfg_CloudflareTURNBaseURL cfg, cf_KeyID = cfg_CloudflareTURNKeyID cfg,
     cf_APIToken = cfg_CloudflareTURNToken cfg, cf_TTL = cfg_CloudflareTURNTTL cfg\<rparr>"

definition issueICE :: "platform \<Rightarrow> config \<Rightarrow> string \<Rightarrow> turn_error + ICEServer list" where
  "issueICE pl cfg subject =
     (if \<not> CloudflareEnabled (turn_config cfg) then Inr [stun_server]
      else IssueCloudflareCredentials (pl_sha pl) (pl_api pl) (turn_config cfg) subject)"

definition writeAgentRegistryError :: "registry_error \<Rightarrow> Response" where
  "writeAgentRegistryError e = (case registry_status e of (code, msg) \<Rightarrow> http_Error msg code)"

definition signal_token ::
  "platform \<Rightarrow> config \<Rightarrow> inputs \<Rightarrow> gotime \<Rightarrow> UserEntitlement \<Rightarrow> string \<Rightarrow> string \<Rightarrow> sign_error + string \<times> gotime"
where
  "signal_token pl cfg inp now e role sessionID =
     issueSignedToken (pl_hmac pl) now (in_jti inp) (cfg_GrantHMACSecret cfg) (cfg_GrantIssuer cfg)
       (cfg_SignalAudience cfg) (cfg_SignalTokenTTL cfg)
       \<lparr>to_Subject = ue_Subject e, to_MaxSessions = ue_MaxSessions e, to_Role = role, to_SessionID = sessionID\<rparr>"

text \<open>A session that the request created is removed again when the rest of it fails.\<close>

definition undo_created :: "bool \<Rightarrow> serverDeps \<Rightarrow> string \<Rightarrow> string \<Rightarrow> serverDeps" where
  "undo_created created d subject sessionID =
     (if created then d\<lparr>sd_agentRegistry := fst (AgentRegistry_Remove (sd_agentRegistry d) subject sessionID)\<rparr> else d)"

definition handleAgentConnect :: "platform \<Rightarrow> config \<Rightarrow> inputs \<Rightarrow> serverDeps \<Rightarrow> Request \<Rightarrow> serverDeps \<times> Response" where
  "handleAgentConnect pl cfg inp d r = authenticated pl inp d ''POST'' r (\<lambda>e.
     with_body decode_AgentConnectRequest (16 * 1024) d r (\<lambda>body.
       let sessionID = TrimSpace (cq_SessionID body)
       in if sessionID = [] then (d, http_Error ''session_id is required'' 400)
          else case AgentRegistry_UpsertLimited (in_clk inp 2) (sd_agentRegistry d) (ue_Subject e) sessionID
                      (cq_AgentLabel body) TransportWebRTCTURN (ue_MaxSessions e) of
            (registry, Inl err) \<Rightarrow> (d\<lparr>sd_agentRegistry := registry\<rparr>, writeAgentRegistryError err)
          | (registry, Inr (_, created)) \<Rightarrow>
              let d1 = d\<lparr>sd_agentRegistry := registry\<rparr>
              in case issueICE pl cfg (ue_Subject e) of
                   Inl _ \<Rightarrow> (undo_created created d1 (ue_Subject e) sessionID,
                             http_Error ''failed to issue turn credentials'' 502)
                 | Inr iceServers \<Rightarrow>
                     (case signal_token pl cfg inp (in_clk inp 3) e SignalRoleAgent sessionID of
                        Inl _ \<Rightarrow> (undo_created created d1 (ue_Subject e) sessionID,
                                  http_Error ''failed to issue signal token'' 500)
                      | Inr (signalToken, expiresAt) \<Rightarrow>
                          (d1, writeJSON 200 (AgentConnectResponse_json
                             \<lparr>cr_SessionID = sessionID,
                              cr_SignalURL = MakeSignalURLWithBaseURL (Some r) (cfg_ExternalBaseURL cfg),
                              cr_SignalToken = signalToken, cr_ICEServers = iceServers,
                              cr_ICEPolicy = ICEPolicyAll, cr_ExpiresAt = Format_RFC3339 expiresAt\<rparr>)))))"

definition handleAgentAttach :: "platform \<Rightarrow> config \<Rightarrow> inputs \<Rightarrow> serverDeps \<Rightarrow> Request \<Rightarrow> serverDeps \<times> Response" where
  "handleAgentAttach pl cfg inp d r = authenticated pl inp d ''POST'' r (\<lambda>e.
     with_body decode_AgentAttachRequest (16 * 1024) d r (\<lambda>body.
       let sessionID = TrimSpace (aq_SessionID body)
       in if sessionID = [] then (d, http_Error ''session_id is required'' 400)
          else if AgentRegistry_Lookup (in_clk inp 2) (sd_agentRegistry d) (ue_Subject e) sessionID
                    (cfg_AgentHeartbeatTimeout cfg) = None
          then (d, http_Error ''agent session not found'' 404)
          else case issueICE pl cfg (ue_Subject e) of
            Inl _ \<Rightarrow> (d, http_Error ''failed to issue turn credentials'' 502)
          | Inr iceServers \<Rightarrow>
              (case signal_token pl cfg inp (in_clk inp 3) e SignalRoleViewer sessionID of
                 Inl _ \<Rightarrow> (d, http_Error ''failed to issue signal token'' 500)
               | Inr (signalToken, expiresAt) \<Rightarrow>
                   (d, writeJSON 200 (AgentAttachResponse_json
                      \<lparr>ar_SessionID = sessionID,
                       ar_SignalURL = MakeSignalURLWithBaseURL (Some r) (cfg_ExternalBaseURL cfg),
                       ar_SignalToken = signalToken, ar_ICEServers = iceServers,
                       ar_ICEPolicy = ICEPolicyAll, ar_ExpiresAt = Format_RFC3339 expiresAt\<rparr>)))))"

definition handleAgentRegister :: "platform \<Rightarrow> config \<Rightarrow> inputs \<Rightarrow> serverDeps \<Rightarrow> Request \<Rightarrow> serverDeps \<times> Response" where
  "handleAgentRegister pl cfg inp d r = authenticated pl inp d ''POST'' r (\<lambda>e.
     with_body decode_AgentRegisterRequest (16 * 1024) d r (\<lambda>body.
       if gq_Transport body \<noteq> TransportWebRTCTURN then (d, http_Error ''invalid transport'' 400)
       else case AgentRegistry_UpsertLimited (in_clk inp 2) (sd_agentRegistry d) (ue_Subject e) (gq_SessionID body)
                   (gq_AgentLabel body) (gq_Transport body) (ue_MaxSessions e) of
         (registry, Inl err) \<Rightarrow> (d\<lparr>sd_agentRegistry := registry\<rparr>, writeAgentRegistryError err)
       | (registry, Inr (item, _)) \<Rightarrow>
           (d\<lparr>sd_agentRegistry := registry\<rparr>, writeJSON 200 (ProtocolAgentStatus_json (agentStatusResponse item)))))"

definition handleAgentHeartbeat :: "platform \<Rightarrow> config \<Rightarrow> inputs \<Rightarrow> serverDeps \<Rightarrow> Request \<Rightarrow> serverDeps \<times> Response" where
  "handleAgentHeartbeat pl cfg inp d r = authenticated pl inp d ''POST'' r (\<lambda>e.
     with_body decode_AgentHeartbeatRequest (16 * 1024) d r (\<lambda>body.
       case AgentRegistry_Touch (in_clk inp 2) (sd_agentRegistry d) (ue_Subject e) (hq_SessionID body) (hq_AgentLabel body) of
         (registry, touched) \<Rightarrow>
           (d\<lparr>sd_agentRegistry := registry\<rparr>,
            if touched then no_content else http_Error ''agent session not found'' 404)))"

definition handleAgentUnregister :: "platform \<Rightarrow> config \<Rightarrow> inputs \<Rightarrow> serverDeps \<Rightarrow> Request \<Rightarrow> serverDeps \<times> Response" where
  "handleAgentUnregister pl cfg inp d r = authenticated pl inp d ''POST'' r (\<lambda>e.
     with_body decode_AgentUnregisterRequest (16 * 1024) d r (\<lambda>body.
       (d\<lparr>sd_agentRegistry := fst (AgentRegistry_Remove (sd_agentRegistry d) (ue_Subject e) (uq_SessionID body))\<rparr>, no_content)))"

definition handleAgentTerminateAll :: "platform \<Rightarrow> config \<Rightarrow> inputs \<Rightarrow> serverDeps \<Rightarrow> Request \<Rightarrow> serverDeps \<times> Response" where
  "handleAgentTerminateAll pl cfg inp d r = authenticated pl inp d ''POST'' r (\<lambda>e.
     case AgentRegistry_TerminateAll (in_clk inp 2) (sd_agentRegistry d) (ue_Subject e) (cfg_AgentHeartbeatTimeout cfg) of
       (registry, terminated) \<Rightarrow>
         (d\<lparr>sd_agentRegistry := registry\<rparr>, writeJSON 200 (AgentTerminateAllResponse_json
            \<lparr>tr_TerminatedSessions = int (length terminated)\<rparr>)))"

definition handleAgentList :: "platform \<Rightarrow> config \<Rightarrow> inputs \<Rightarrow> serverDeps \<Rightarrow> Request \<Rightarrow> serverDeps \<times> Response" where
  "handleAgentList pl cfg inp d r = authenticated pl inp d ''GET'' r (\<lambda>e.
     (d, writeJSON 200 (ListAgentsResponse_json \<lparr>la_Agents = map agentStatusResponse
        (AgentRegistry_ListBySubject (in_clk inp 2) (sd_agentRegistry d) (ue_Subject e) (cfg_AgentHeartbeatTimeout cfg))\<rparr>)))"

definition handleStatus :: "platform \<Rightarrow> config \<Rightarrow> inputs \<Rightarrow> serverDeps \<Rightarrow> Request \<Rightarrow> serverDeps \<times> Response" where
  "handleStatus pl cfg inp d r = authenticated pl inp d ''GET'' r (\<lambda>e.
     (d, writeJSON 200 (SessionStatusResponse_json
        (SessionStatusResponse_zero\<lparr>ss_Subject := ue_Subject e,
           ss_ActiveSessions := int (length (AgentRegistry_ListBySubject (in_clk inp 2) (sd_agentRegistry d)
              (ue_Subject e) (cfg_AgentHeartbeatTimeout cfg))),
           ss_MaxSessions := ue_MaxSessions e, ss_SubscriptionStatus := ''active''\<rparr>))))"

definition handleHealth :: Response where
  "handleHealth = \<lparr>rs_Status = 200, rs_Header = [], rs_Body = ''ok''\<rparr>"

definition signal_options_of :: "config \<Rightarrow> serverDeps \<Rightarrow> signal_options" where
  "signal_options_of cfg d = \<lparr>so_Validator = Some (sd_signalValidator d), so_ReplayStore = Some (sd_signalReplayGuard d),
     so_ReplayGuard = None, so_Registry = Some (sd_agentRegistry d), so_StaleAfter = cfg_AgentHeartbeatTimeout cfg,
     so_Hub = Some (ry_hub (sd_relay d)), so_ExternalURL = cfg_ExternalBaseURL cfg\<rparr>"

text \<open>The signaling endpoint up to the registration of the peer; what follows are steps of the relay.\<close>

definition handleSignal :: "platform \<Rightarrow> config \<Rightarrow> inputs \<Rightarrow> serverDeps \<Rightarrow> Request \<Rightarrow> serverDeps \<times> Response" where
  "handleSignal pl cfg inp d r =
     (case open_WebSocket (pl_hmac pl) (pl_upgrade pl) (in_clk inp) (in_peer inp) (signal_options_of cfg d) r of
        (replay, result) \<Rightarrow>
          let d1 = d\<lparr>sd_signalReplayGuard := (case replay of None \<Rightarrow> sd_signalReplayGuard d | Some g \<Rightarrow> g)\<rparr>
          in case result of
               Inl resp \<Rightarrow> (d1, resp)
             | Inr None \<Rightarrow> (d1, pl_upgrade_reply pl r)
             | Inr (Some p) \<Rightarrow> (d1\<lparr>sd_relay := relay_step (sd_relay d1) (OpConnect (in_pick inp) p)\<rparr>, pl_upgrade_reply pl r))"

section \<open>Routes\<close>

definition registerRoutes ::
  "platform \<Rightarrow> (string \<times> (config \<Rightarrow> inputs \<Rightarrow> serverDeps \<Rightarrow> Request \<Rightarrow> serverDeps \<times> Response)) list"
where
  "registerRoutes pl =
     [(''/healthz'', \<lambda>cfg inp d r. (d, handleHealth)),
      (''/version'', \<lambda>cfg inp d r. (d, version_Handler (pl_sha pl) (pl_build pl) ''shellin-control-plane'' r)),
      (''/v1/auth/exchange'', handleAuthExchange pl), (''/v1/auth/refresh'', handleAuthRefresh pl),
      (''/v1/login-keys'', handleLoginKeys pl), (''/v1/auth/device-login'', handleDeviceLogin pl),
      (''/v1/agents/connect'', handleAgentConnect pl), (''/v1/agents/attach'', handleAgentAttach pl),
      (''/v1/agents/signal'', handleSignal pl), (''/v1/agents/register'', handleAgentRegister pl),
      (''/v1/agents/heartbeat'', handleAgentHeartbeat pl), (''/v1/agents/unregister'', handleAgentUnregister pl),
      (''/v1/agents/terminate-all'', handleAgentTerminateAll pl), (''/v1/agents'', handleAgentList pl),
      (''/v1/status'', handleStatus pl)]"

text \<open>The handler of \<^verbatim>\<open>NewServer\<close>, for a path in canonical form (the multiplexer redirects the others).\<close>

definition serve :: "platform \<Rightarrow> config \<Rightarrow> inputs \<Rightarrow> serverDeps \<Rightarrow> string \<Rightarrow> Request \<Rightarrow> serverDeps \<times> Response" where
  "serve pl cfg inp d path r =
     (case map_of (registerRoutes pl) path of
        None \<Rightarrow> (d, withSecurityHeaders (http_Error ''404 page not found'' 404))
      | Some handler \<Rightarrow> (case handler cfg inp d r of (d', resp) \<Rightarrow> (d', withSecurityHeaders resp)))"

text \<open>One round of the clean-up loop, with its three readings of the clock.\<close>

definition cleanup_round :: "config \<Rightarrow> gotime \<Rightarrow> gotime \<Rightarrow> gotime \<Rightarrow> serverDeps \<Rightarrow> serverDeps" where
  "cleanup_round cfg t1 t2 t3 d =
     d\<lparr>sd_refreshStore := RefreshTokenStore_Cleanup t1 (sd_refreshStore d),
       sd_loginKeyStore := LoginKeyStore_Cleanup t2 (sd_loginKeyStore d),
       sd_agentRegistry := AgentRegistry_Cleanup t3 (sd_agentRegistry d) (cfg_AgentHeartbeatTimeout cfg)\<rparr>"

datatype start_error = ConfigFailed config_error | SeedFailed seed_error | NoUserKeys | DepsFailed deps_error

text \<open>\<^verbatim>\<open>main\<close> up to the point where it listens.\<close>

definition start_server ::
  "platform \<Rightarrow> (string \<Rightarrow> duration option) \<Rightarrow> (string \<Rightarrow> string) \<Rightarrow> (config \<Rightarrow> string list \<Rightarrow> config option)
   \<Rightarrow> (string \<Rightarrow> string option) \<Rightarrow> gotime \<Rightarrow> string list \<Rightarrow> start_error + config \<times> serverDeps"
where
  "start_server pl parse_duration getenv flags read_file now args =
     (case parseConfig parse_duration getenv flags args of
        Inl e \<Rightarrow> Inl (ConfigFailed e)
      | Inr cfg \<Rightarrow>
          (case seedUserKeys (pl_sha pl) read_file now cfg NewUserKeyStore of
             (_, Some e) \<Rightarrow> Inl (SeedFailed e)
           | (store, None) \<Rightarrow>
               if UserKeyStore_Count store = 0 then Inl NoUserKeys
               else (case newServerDeps cfg store of
                   Inl e \<Rightarrow> Inl (DepsFailed e)
                 | Inr d \<Rightarrow> Inr (cfg, d))))"

end
