(* ===== verification/Agent_Registry_Facts.thy ===== *)
theory Agent_Registry_Facts
  imports Agent_Registry "HOL-Library.Multiset"
begin

text \<open>
  What the operations of the registry do, seen through two observations: \<open>session r s i\<close>, the
  session \<open>i\<close> of the subject \<open>s\<close>, and \<open>tomb r s i\<close>, its time of termination. The invariant
  \<open>registry_ok\<close> and its preservation, the locale \<open>tombstones\<close> of registries that remember
  terminated sessions, and the properties of the registry.
\<close>

section \<open>Observations\<close>

definition session :: "AgentRegistry \<Rightarrow> string \<Rightarrow> string \<Rightarrow> AgentStatus option" where
  "session r s i = go_get (inner (reg_items r) s) i"

definition tomb :: "AgentRegistry \<Rightarrow> string \<Rightarrow> string \<Rightarrow> gotime option" where
  "tomb r s i = go_get (inner (reg_terminated r) s) i"

definition nested_ok :: "(string, ('k, 'v) gomap) gomap \<Rightarrow> bool" where
  "nested_ok m \<longleftrightarrow> wf_map m \<and> (\<forall>s x. go_get m s = Some x \<longrightarrow> wf_map x \<and> x \<noteq> [])"

lemma inner_put [simp]: "inner (go_put m s x) s' = (if s' = s then x else inner m s')"
  by (simp add: inner_def)

lemma inner_put_or_drop [simp]: "inner (put_or_drop m s x) s' = (if s' = s then x else inner m s')"
  by (simp add: inner_def put_or_drop_def)

lemma wf_inner [simp]: "nested_ok m \<Longrightarrow> wf_map (inner m s)"
  by (simp add: inner_def nested_ok_def split: option.split)

lemma nested_ok_empty [simp]: "nested_ok []"
  by (simp add: nested_ok_def)

lemma nested_ok_put [simp]: "nested_ok m \<Longrightarrow> wf_map x \<Longrightarrow> x \<noteq> [] \<Longrightarrow> nested_ok (go_put m s x)"
  by (simp add: nested_ok_def)

lemma nested_ok_put_or_drop [simp]: "nested_ok m \<Longrightarrow> wf_map x \<Longrightarrow> nested_ok (put_or_drop m s x)"
  by (simp add: nested_ok_def put_or_drop_def)

lemma fst_clean: "fst \<circ> (\<lambda>(k, x). (k, f x)) = fst"
  by auto

lemma go_get_clean_inner:
  assumes "wf_map m"
  shows "go_get (clean_inner P m) s = (case go_get m s of None \<Rightarrow> None
    | Some x \<Rightarrow> if go_filter (\<lambda>_ v. \<not> P v) x = [] then None else Some (go_filter (\<lambda>_ v. \<not> P v) x))"
proof -
  let ?m = "map (\<lambda>(k, x). (k, go_filter (\<lambda>_ v. \<not> P v) x)) m"
  have "wf_map ?m" using assms by (simp add: wf_map_def fst_clean)
  then have "go_get (go_filter (\<lambda>_ x. x \<noteq> []) ?m) s
      = (case go_get ?m s of None \<Rightarrow> None | Some x \<Rightarrow> if x \<noteq> [] then Some x else None)"
    by (rule go_get_filter)
  moreover have "go_get ?m s = map_option (go_filter (\<lambda>_ v. \<not> P v)) (go_get m s)"
    unfolding go_get_def by (induction m) auto
  ultimately show ?thesis
    by (simp add: clean_inner_def go_filter_def split: option.split)
qed

lemma inner_clean_inner:
  "wf_map m \<Longrightarrow> inner (clean_inner P m) s = go_filter (\<lambda>_ v. \<not> P v) (inner m s)"
  by (auto simp: inner_def go_get_clean_inner go_filter_def split: option.split)

lemma nested_ok_clean [simp]: "nested_ok m \<Longrightarrow> nested_ok (clean_inner P m)"
proof -
  assume m: "nested_ok m"
  have "wf_map (clean_inner P m)"
    using m unfolding clean_inner_def nested_ok_def wf_map_def
    by (intro distinct_map_filter) (simp add: fst_clean)
  with m show ?thesis
    by (auto simp: nested_ok_def go_get_clean_inner split: option.splits if_splits)
qed

section \<open>Effects of the operations\<close>

lemma tomb_mark: "tomb (markTerminatedLocked r s i now) s' i' = (if s' = s \<and> i' = i then Some now else tomb r s' i')"
  by (simp add: tomb_def markTerminatedLocked_def)

lemma items_mark [simp]: "reg_items (markTerminatedLocked r s i now) = reg_items r"
  by (simp add: markTerminatedLocked_def)

lemma session_mark [simp]: "session (markTerminatedLocked r s i now) s' i' = session r s' i'"
  by (simp add: session_def)

lemma nested_mark [simp]:
  "nested_ok (reg_terminated r) \<Longrightarrow> nested_ok (reg_terminated (markTerminatedLocked r s i now))"
  by (simp add: markTerminatedLocked_def)

lemma marks:
  "tomb (foldl (\<lambda>r (i, _). markTerminatedLocked r s i now) r es) s' i'
     = (if s' = s \<and> i' \<in> fst ` set es then Some now else tomb r s' i')"
  "reg_items (foldl (\<lambda>r (i, _). markTerminatedLocked r s i now) r es) = reg_items r"
  "nested_ok (reg_terminated r) \<Longrightarrow>
     nested_ok (reg_terminated (foldl (\<lambda>r (i, _). markTerminatedLocked r s i now) r es))"
  by (induction es arbitrary: r) (auto simp: tomb_mark)

lemma isTerminated_tomb: "isTerminatedLocked r s i \<longleftrightarrow> tomb r s i \<noteq> None"
  by (simp add: isTerminatedLocked_def tomb_def)

text \<open>The item that an update leaves, and the update it is made of.\<close>

definition updated :: "AgentRegistry \<Rightarrow> agentSessionUpdate \<Rightarrow> gotime \<Rightarrow> AgentStatus" where
  "updated r u now = fst (snd (upsertAgentSessionLocked (inner (reg_items r) (up_subject u)) u now))"

lemma upsertAgentSessionLocked_eq:
  "upsertAgentSessionLocked (inner (reg_items r) (up_subject u)) u now =
     (go_put (inner (reg_items r) (up_subject u)) (up_sessionID u) (updated r u now), updated r u now,
      session r (up_subject u) (up_sessionID u) = None)"
  by (simp add: updated_def upsertAgentSessionLocked_def session_def Let_def)

lemma updated_fields:
  "as_SessionID (updated r u now) = up_sessionID u" "as_AgentLabel (updated r u now) = up_agentLabel u"
  "as_Transport (updated r u now) = up_transport u" "as_LastSeenAt (updated r u now) = now"
  "as_Subject (updated r u now) = (case session r (up_subject u) (up_sessionID u) of
      None \<Rightarrow> up_subject u | Some a \<Rightarrow> as_Subject a)"
  "as_CreatedAt (updated r u now) = (case session r (up_subject u) (up_sessionID u) of
      None \<Rightarrow> now | Some a \<Rightarrow> as_CreatedAt a)"
  by (simp_all add: updated_def upsertAgentSessionLocked_def session_def Let_def split: option.split)

definition with_session :: "AgentRegistry \<Rightarrow> string \<Rightarrow> string \<Rightarrow> AgentStatus \<Rightarrow> AgentRegistry" where
  "with_session r s i a = r\<lparr>reg_items := go_put (reg_items r) s (go_put (inner (reg_items r) s) i a)\<rparr>"

lemma session_with [simp]:
  "session (with_session r s i a) s' i' = (if s' = s \<and> i' = i then Some a else session r s' i')"
  by (simp add: session_def with_session_def)

lemma tomb_with [simp]: "tomb (with_session r s i a) = tomb r"
  by (intro ext) (simp add: tomb_def with_session_def)

definition update_of :: "string \<Rightarrow> string \<Rightarrow> string \<Rightarrow> string \<Rightarrow> agentSessionUpdate \<Rightarrow> bool" where
  "update_of s i l t u \<longleftrightarrow> u = newAgentSessionUpdate s i l t \<and> agentSessionUpdate_validate u = None"

lemma Upsert_cases:
  obtains (refused) e where "AgentRegistry_Upsert now r s i l t = (r, Inl e)"
  | (stored) u where "update_of s i l t u" "tomb r (up_subject u) (up_sessionID u) = None"
      "AgentRegistry_Upsert now r s i l t
         = (with_session r (up_subject u) (up_sessionID u) (updated r u now), Inr (updated r u now))"
proof -
  let ?u = "newAgentSessionUpdate s i l t"
  show ?thesis
  proof (cases "agentSessionUpdate_validate ?u = None \<and> tomb r (up_subject ?u) (up_sessionID ?u) = None")
    case True
    then have "AgentRegistry_Upsert now r s i l t
        = (with_session r (up_subject ?u) (up_sessionID ?u) (updated r ?u now), Inr (updated r ?u now))"
      by (simp add: AgentRegistry_Upsert_def Let_def isTerminated_tomb upsertLocked_registry_def
          upsertAgentSessionLocked_eq with_session_def)
    with True show ?thesis by (intro stored [of ?u]) (auto simp: update_of_def)
  next
    case False
    then have "\<exists>e. AgentRegistry_Upsert now r s i l t = (r, Inl e)"
      by (auto simp: AgentRegistry_Upsert_def Let_def isTerminated_tomb split: option.split)
    then show ?thesis using refused by blast
  qed
qed

text \<open>A refusal for the limit leaves the subject's sessions as they were.\<close>

definition ensured :: "AgentRegistry \<Rightarrow> string \<Rightarrow> AgentRegistry" where
  "ensured r s = r\<lparr>reg_items := go_put (reg_items r) s (inner (reg_items r) s)\<rparr>"

lemma session_ensured [simp]: "session (ensured r s) = session r"
  by (intro ext) (simp add: session_def ensured_def)

lemma tomb_ensured [simp]: "tomb (ensured r s) = tomb r"
  by (intro ext) (simp add: tomb_def ensured_def)

lemma go_put_twice: "go_put (go_put m k v) k w = go_put m k w"
  unfolding go_put_def by (induction m) auto

definition sessions_of :: "AgentRegistry \<Rightarrow> string \<Rightarrow> int" where
  "sessions_of r s = go_len (inner (reg_items r) s)"

lemma validate_error: "agentSessionUpdate_validate u = Some e \<Longrightarrow> e \<noteq> ErrAgentSessionLimitReached"
  by (auto simp: agentSessionUpdate_validate_def split: if_splits)

lemma UpsertLimited_cases:
  obtains (refused) e where "AgentRegistry_UpsertLimited now r s i l t m = (r, Inl e)"
      "e \<noteq> ErrAgentSessionLimitReached"
      "agentSessionUpdate_validate (newAgentSessionUpdate s i l t) \<noteq> None \<or> m \<le> 0
       \<or> tomb r (up_subject (newAgentSessionUpdate s i l t)) (up_sessionID (newAgentSessionUpdate s i l t)) \<noteq> None"
  | (full) u where "update_of s i l t u" "0 < m" "session r (up_subject u) (up_sessionID u) = None"
      "tomb r (up_subject u) (up_sessionID u) = None" "m \<le> sessions_of r (up_subject u)"
      "AgentRegistry_UpsertLimited now r s i l t m = (ensured r (up_subject u), Inl ErrAgentSessionLimitReached)"
  | (stored) u where "update_of s i l t u" "0 < m" "tomb r (up_subject u) (up_sessionID u) = None"
      "session r (up_subject u) (up_sessionID u) = None \<Longrightarrow> sessions_of r (up_subject u) < m"
      "AgentRegistry_UpsertLimited now r s i l t m
         = (with_session r (up_subject u) (up_sessionID u) (updated r u now),
            Inr (updated r u now, session r (up_subject u) (up_sessionID u) = None))"
proof -
  let ?u = "newAgentSessionUpdate s i l t"
  let ?s = "up_subject ?u" and ?i = "up_sessionID ?u"
  show ?thesis
  proof (cases "agentSessionUpdate_validate ?u = None \<and> 0 < m \<and> tomb r ?s ?i = None")
    case False
    then have "\<exists>e. AgentRegistry_UpsertLimited now r s i l t m = (r, Inl e) \<and> e \<noteq> ErrAgentSessionLimitReached"
      by (auto simp: AgentRegistry_UpsertLimited_def Let_def isTerminated_tomb validate_error split: option.split)
    then show ?thesis using refused False by (metis not_less)
  next
    case True
    show ?thesis
    proof (cases "session r ?s ?i = None \<and> m \<le> sessions_of r ?s")
      case limit: True
      with True show ?thesis
        by (intro full [of ?u]) (simp_all add: update_of_def AgentRegistry_UpsertLimited_def Let_def
            isTerminated_tomb session_def sessions_of_def ensured_def)
    next
      case limit: False
      with True show ?thesis
        by (intro stored [of ?u]) (auto simp: update_of_def AgentRegistry_UpsertLimited_def Let_def
            isTerminated_tomb session_def sessions_of_def with_session_def go_put_twice upsertAgentSessionLocked_eq)
    qed
  qed
qed

lemma Touch_cases:
  obtains (missing) "AgentRegistry_Touch now r s i l = (r, False)"
  | (touched) a where "session r (TrimSpace s) (TrimSpace i) = Some a" "TrimSpace s \<noteq> []" "TrimSpace i \<noteq> []"
      "AgentRegistry_Touch now r s i l = (with_session r (TrimSpace s) (TrimSpace i)
         (a\<lparr>as_AgentLabel := (if TrimSpace l = [] then as_AgentLabel a else TrimSpace l), as_LastSeenAt := now\<rparr>), True)"
proof (cases "session r (TrimSpace s) (TrimSpace i) = None \<or> TrimSpace s = [] \<or> TrimSpace i = []")
  case True
  then have "AgentRegistry_Touch now r s i l = (r, False)"
    by (auto simp: AgentRegistry_Touch_def session_def Let_def)
  then show ?thesis by (rule missing)
next
  case False
  then obtain a where "session r (TrimSpace s) (TrimSpace i) = Some a" by auto
  with False show ?thesis
    by (intro touched [of a]) (auto simp: AgentRegistry_Touch_def session_def Let_def with_session_def)
qed

definition without_session :: "AgentRegistry \<Rightarrow> string \<Rightarrow> string \<Rightarrow> AgentRegistry" where
  "without_session r s i = r\<lparr>reg_items := put_or_drop (reg_items r) s (go_del (inner (reg_items r) s) i)\<rparr>"

lemma session_without [simp]:
  "session (without_session r s i) s' i' = (if s' = s \<and> i' = i then None else session r s' i')"
  by (simp add: session_def without_session_def)

lemma tomb_without [simp]: "tomb (without_session r s i) = tomb r"
  by (intro ext) (simp add: tomb_def without_session_def)

lemma remove_session_eq:
  "remove_session r s i = (if session r s i = None then (r, False) else (without_session r s i, True))"
  by (auto simp: remove_session_def session_def without_session_def split: option.split)

lemma TerminateAll_eq:
  assumes "TrimSpace s \<noteq> []"
  shows "AgentRegistry_TerminateAll now r s d =
     (let live = go_filter (\<lambda>_ a. \<not> is_stale (agentStaleCutoff now d) a) (inner (reg_items r) (TrimSpace s));
          r1 = foldl (\<lambda>r (i, _). markTerminatedLocked r (TrimSpace s) i now) r live
      in (r1\<lparr>reg_items := put_or_drop (reg_items r) (TrimSpace s)
             (go_filter (\<lambda>_ a. is_stale (agentStaleCutoff now d) a) (inner (reg_items r) (TrimSpace s)))\<rparr>,
          sort_by_last_seen (map snd live)))"
  using assms by (simp add: AgentRegistry_TerminateAll_def Let_def marks)

section \<open>The invariant\<close>

definition names_ok :: "string \<Rightarrow> string \<Rightarrow> AgentStatus \<Rightarrow> bool" where
  "names_ok s i a \<longleftrightarrow> as_Subject a = s \<and> as_SessionID a = i \<and> s \<noteq> [] \<and> i \<noteq> [] \<and> trimmed s \<and> trimmed i
     \<and> as_Transport a \<noteq> []"

definition registry_ok :: "AgentRegistry \<Rightarrow> bool" where
  "registry_ok r \<longleftrightarrow> nested_ok (reg_items r) \<and> nested_ok (reg_terminated r)
     \<and> (\<forall>s i a. session r s i = Some a \<longrightarrow> names_ok s i a \<and> tomb r s i = None)"

lemma update_of_fields:
  assumes "update_of s i l t u"
  shows "up_subject u = TrimSpace s" "up_sessionID u = TrimSpace i" "up_agentLabel u = TrimSpace l"
    "up_transport u = TrimSpace t" "TrimSpace s \<noteq> []" "TrimSpace i \<noteq> []" "TrimSpace t \<noteq> []"
  using assms
  by (auto simp: update_of_def newAgentSessionUpdate_def agentSessionUpdate_validate_def split: if_splits)

lemma update_of_names:
  "update_of s i l t u \<Longrightarrow> up_subject u = TrimSpace s \<and> up_sessionID u = TrimSpace i"
  using update_of_fields by blast

lemma with_session_ok:
  assumes "registry_ok r" "names_ok s i a" "tomb r s i = None"
  shows "registry_ok (with_session r s i a)"
proof -
  have "nested_ok (reg_items (with_session r s i a))" "reg_terminated (with_session r s i a) = reg_terminated r"
    using assms(1) by (simp_all add: with_session_def registry_ok_def)
  with assms show ?thesis unfolding registry_ok_def by auto
qed

lemma updated_names:
  "registry_ok r \<Longrightarrow> update_of s i l t u \<Longrightarrow> names_ok (up_subject u) (up_sessionID u) (updated r u now)"
  using update_of_fields [of s i l t u]
  by (auto simp: names_ok_def updated_fields registry_ok_def split: option.split)

lemma ensured_ok: "registry_ok r \<Longrightarrow> inner (reg_items r) s \<noteq> [] \<Longrightarrow> registry_ok (ensured r s)"
proof -
  assume r: "registry_ok r" "inner (reg_items r) s \<noteq> []"
  then have "nested_ok (reg_items (ensured r s))" "reg_terminated (ensured r s) = reg_terminated r"
    by (simp_all add: ensured_def registry_ok_def)
  with r show ?thesis unfolding registry_ok_def by simp
qed

lemma sessions_of_pos: "0 < sessions_of r s \<Longrightarrow> inner (reg_items r) s \<noteq> []"
  by (auto simp: sessions_of_def go_len_def)

lemma without_session_nested:
  "registry_ok r \<Longrightarrow> nested_ok (reg_items (without_session r s i)) \<and> reg_terminated (without_session r s i) = reg_terminated r"
  by (simp add: without_session_def registry_ok_def)

lemma Terminate_eq:
  "AgentRegistry_Terminate now r s i =
     (if TrimSpace s = [] \<or> TrimSpace i = [] then (r, False)
      else let r1 = markTerminatedLocked r (TrimSpace s) (TrimSpace i) now
           in if session r (TrimSpace s) (TrimSpace i) = None then (r1, False)
              else (without_session r1 (TrimSpace s) (TrimSpace i), True))"
  by (simp add: AgentRegistry_Terminate_def Let_def remove_session_eq)

lemma Terminate_ok:
  assumes "registry_ok r"
  shows "registry_ok (fst (AgentRegistry_Terminate now r s i))"
proof (cases "TrimSpace s = [] \<or> TrimSpace i = []")
  case True
  with assms show ?thesis by (simp add: Terminate_eq)
next
  case False
  let ?r1 = "markTerminatedLocked r (TrimSpace s) (TrimSpace i) now"
  have n: "nested_ok (reg_items ?r1)" "nested_ok (reg_terminated ?r1)"
    using assms by (simp_all add: registry_ok_def)
  have "nested_ok (reg_items (without_session ?r1 (TrimSpace s) (TrimSpace i)))"
    "reg_terminated (without_session ?r1 (TrimSpace s) (TrimSpace i)) = reg_terminated ?r1"
    using n by (simp_all add: without_session_def)
  with n False assms show ?thesis
    by (auto simp: Terminate_eq Let_def registry_ok_def tomb_mark)
qed

lemma Remove_ok: "registry_ok r \<Longrightarrow> registry_ok (fst (AgentRegistry_Remove r s i))"
  using without_session_nested [of r "TrimSpace s" "TrimSpace i"]
  by (auto simp: AgentRegistry_Remove_def Let_def remove_session_eq registry_ok_def)

lemma session_Cleanup:
  "registry_ok r \<Longrightarrow> session (AgentRegistry_Cleanup now r d) s i =
     (case session r s i of None \<Rightarrow> None
      | Some a \<Rightarrow> if is_stale (agentStaleCutoff now d) a then None else Some a)"
  by (auto simp: session_def AgentRegistry_Cleanup_def registry_ok_def nested_ok_def inner_clean_inner
      go_get_filter wf_inner [unfolded nested_ok_def] split: option.split)

lemma tomb_Cleanup:
  "registry_ok r \<Longrightarrow> tomb (AgentRegistry_Cleanup now r d) s i =
     (case tomb r s i of None \<Rightarrow> None
      | Some at \<Rightarrow> if at < now - terminatedAgentSessionRetention then None else Some at)"
  by (auto simp: tomb_def AgentRegistry_Cleanup_def registry_ok_def nested_ok_def inner_clean_inner
      go_get_filter wf_inner [unfolded nested_ok_def] split: option.split)

lemma Cleanup_ok: "registry_ok r \<Longrightarrow> registry_ok (AgentRegistry_Cleanup now r d)"
proof -
  assume r: "registry_ok r"
  then have "nested_ok (reg_items (AgentRegistry_Cleanup now r d))"
    "nested_ok (reg_terminated (AgentRegistry_Cleanup now r d))"
    by (simp_all add: AgentRegistry_Cleanup_def registry_ok_def)
  with r session_Cleanup [OF r] tomb_Cleanup [OF r] show ?thesis
    unfolding registry_ok_def by (auto split: option.splits if_splits)
qed

text \<open>The sessions that \<^verbatim>\<open>TerminateAll\<close> ends are those that are not stale.\<close>

definition live_session :: "gotime \<Rightarrow> duration \<Rightarrow> AgentRegistry \<Rightarrow> string \<Rightarrow> string \<Rightarrow> AgentStatus \<Rightarrow> bool" where
  "live_session now d r s i a \<longleftrightarrow> session r s i = Some a \<and> \<not> is_stale (agentStaleCutoff now d) a"

lemma TerminateAll_obs:
  assumes "registry_ok r" "TrimSpace s \<noteq> []"
  shows "session (fst (AgentRegistry_TerminateAll now r s d)) s' i =
      (if s' = TrimSpace s \<and> (\<exists>a. live_session now d r s' i a) then None else session r s' i)"
    and "tomb (fst (AgentRegistry_TerminateAll now r s d)) s' i =
      (if s' = TrimSpace s \<and> (\<exists>a. live_session now d r s' i a) then Some now else tomb r s' i)"
    and "nested_ok (reg_items (fst (AgentRegistry_TerminateAll now r s d)))"
    and "nested_ok (reg_terminated (fst (AgentRegistry_TerminateAll now r s d)))"
proof -
  let ?c = "agentStaleCutoff now d" and ?m = "inner (reg_items r) (TrimSpace s)"
  let ?live = "go_filter (\<lambda>_ a. \<not> is_stale ?c a) ?m"
  have wf: "wf_map ?m" "nested_ok (reg_items r)" "nested_ok (reg_terminated r)"
    using assms(1) by (simp_all add: registry_ok_def)
  show "session (fst (AgentRegistry_TerminateAll now r s d)) s' i =
      (if s' = TrimSpace s \<and> (\<exists>a. live_session now d r s' i a) then None else session r s' i)"
    using wf by (auto simp: TerminateAll_eq [OF assms(2)] session_def Let_def live_session_def go_get_filter
        split: option.split)
  have "i \<in> fst ` set ?live \<longleftrightarrow> (\<exists>a. live_session now d r (TrimSpace s) i a)"
    using wf(1) by (force simp: live_session_def session_def go_get_set [OF wf(1)])
  moreover have "tomb (r1\<lparr>reg_items := m\<rparr>) s' i = tomb r1 s' i" for r1 m by (simp add: tomb_def)
  ultimately show "tomb (fst (AgentRegistry_TerminateAll now r s d)) s' i =
      (if s' = TrimSpace s \<and> (\<exists>a. live_session now d r s' i a) then Some now else tomb r s' i)"
    by (auto simp: TerminateAll_eq [OF assms(2)] Let_def marks)
  show "nested_ok (reg_items (fst (AgentRegistry_TerminateAll now r s d)))"
    "nested_ok (reg_terminated (fst (AgentRegistry_TerminateAll now r s d)))"
    using wf by (simp_all add: TerminateAll_eq [OF assms(2)] Let_def marks)
qed

lemma TerminateAll_ok:
  assumes "registry_ok r"
  shows "registry_ok (fst (AgentRegistry_TerminateAll now r s d))"
proof (cases "TrimSpace s = []")
  case True
  with assms show ?thesis by (simp add: AgentRegistry_TerminateAll_def)
next
  case False
  show ?thesis
    using assms TerminateAll_obs [OF assms False] unfolding registry_ok_def by auto
qed

lemma Upsert_ok: "registry_ok r \<Longrightarrow> registry_ok (fst (AgentRegistry_Upsert now r s i l t))"
  by (cases rule: Upsert_cases [of now r s i l t]) (auto intro: with_session_ok updated_names)

lemma UpsertLimited_ok: "registry_ok r \<Longrightarrow> registry_ok (fst (AgentRegistry_UpsertLimited now r s i l t m))"
  by (cases rule: UpsertLimited_cases [of now r s i l t m])
     (auto intro: with_session_ok updated_names ensured_ok [OF _ sessions_of_pos])

lemma Touch_ok: "registry_ok r \<Longrightarrow> registry_ok (fst (AgentRegistry_Touch now r s i l))"
proof (cases rule: Touch_cases [of now r s i l])
  case (touched a)
  assume r: "registry_ok r"
  with touched(1) have "names_ok (TrimSpace s) (TrimSpace i) a" "tomb r (TrimSpace s) (TrimSpace i) = None"
    by (simp_all add: registry_ok_def)
  with r touched(4) show ?thesis by (auto intro!: with_session_ok simp: names_ok_def)
qed simp

lemma registry_step_ok [inv_intros]: "registry_ok r \<Longrightarrow> registry_ok (registry_step r op)"
  by (cases op) (simp_all add: Upsert_ok UpsertLimited_ok Touch_ok Terminate_ok Remove_ok TerminateAll_ok Cleanup_ok)

lemma NewAgentRegistry_ok: "registry_ok NewAgentRegistry"
  by (simp add: registry_ok_def NewAgentRegistry_def session_def inner_def)

lemma registry_run_ok [inv_intros]: "registry_ok r \<Longrightarrow> registry_ok (foldl registry_step r ops)"
  by (induction ops arbitrary: r) (auto intro: inv_intros)

section \<open>Tombstones over time\<close>

text \<open>
  The contract of a registry that remembers what was terminated: a tombstone set at \<open>t0\<close> or later
  survives every operation whose clock reads between \<open>t0\<close> and \<open>t0\<close> plus the retention.
\<close>

locale tombstones =
  fixes inv :: "'s \<Rightarrow> bool"
    and step :: "'s \<Rightarrow> 'op \<Rightarrow> 's"
    and clock :: "'op \<Rightarrow> gotime"
    and tombstone :: "'s \<Rightarrow> 'k \<Rightarrow> gotime option"
    and retention :: duration
  assumes inv_step: "inv s \<Longrightarrow> inv (step s op)"
    and kept: "inv s \<Longrightarrow> tombstone s k = Some t \<Longrightarrow> t0 \<le> t \<Longrightarrow> t0 \<le> clock op \<Longrightarrow> clock op \<le> t0 + retention
          \<Longrightarrow> \<exists>t' \<ge> t0. tombstone (step s op) k = Some t'"
begin

lemma kept_along:
  "inv s \<Longrightarrow> tombstone s k = Some t \<Longrightarrow> t0 \<le> t \<Longrightarrow>
   \<forall>op \<in> set ops. t0 \<le> clock op \<and> clock op \<le> t0 + retention \<Longrightarrow>
   \<exists>t' \<ge> t0. tombstone (foldl step s ops) k = Some t'"
proof (induction ops arbitrary: s t)
  case Nil
  then show ?case by auto
next
  case (Cons op ops)
  have "\<exists>t' \<ge> t0. tombstone (step s op) k = Some t'"
    using Cons.prems by (intro kept [of s k t t0]) auto
  then obtain t' where "t0 \<le> t'" "tombstone (step s op) k = Some t'" by blast
  with Cons show ?case by (simp add: inv_step)
qed

end

lemma tomb_step:
  assumes "registry_ok r" "tomb r s i = Some t" "t0 \<le> t" "t0 \<le> registry_time op"
    "registry_time op \<le> t0 + terminatedAgentSessionRetention"
  shows "\<exists>t' \<ge> t0. tomb (registry_step r op) s i = Some t'"
proof (cases op)
  case (RegUpsert now s' i' l t')
  with assms show ?thesis by (cases rule: Upsert_cases [of now r s' i' l t']) auto
next
  case (RegUpsertLimited now s' i' l t' m)
  with assms show ?thesis by (cases rule: UpsertLimited_cases [of now r s' i' l t' m]) auto
next
  case (RegTouch now s' i' l)
  with assms show ?thesis by (cases rule: Touch_cases [of now r s' i' l]) auto
next
  case (RegTerminate now s' i')
  with assms show ?thesis by (auto simp: Terminate_eq Let_def tomb_mark)
next
  case (RegRemove now s' i')
  with assms show ?thesis by (auto simp: AgentRegistry_Remove_def Let_def remove_session_eq)
next
  case (RegTerminateAll now s' d)
  show ?thesis
  proof (cases "TrimSpace s' = []")
    case True
    with assms RegTerminateAll show ?thesis by (simp add: AgentRegistry_TerminateAll_def)
  next
    case False
    with assms RegTerminateAll show ?thesis by (simp add: TerminateAll_obs)
  qed
next
  case (RegCleanup now d)
  with assms show ?thesis by (simp add: tomb_Cleanup)
qed

interpretation registry: tombstones registry_ok registry_step registry_time "\<lambda>r (s, i). tomb r s i"
  terminatedAgentSessionRetention
  by unfold_locales (auto intro: inv_intros dest: tomb_step)

section \<open>Properties\<close>

text \<open>
  C37: Every sequence of operations on a new registry leaves it consistent: no session is both
  registered and terminated, every session is stored under its own trimmed subject and id, and no
  subject keeps an empty map.
\<close>

theorem registry_invariant: "registry_ok (foldl registry_step NewAgentRegistry ops)"
  by (rule registry_run_ok) (rule NewAgentRegistry_ok)

text \<open>
  C38: A terminated session does not come back: for ten minutes after \<^verbatim>\<open>Terminate\<close>, whatever
  operations run, it can be neither registered nor found.
\<close>

theorem terminated_session_stays_away:
  assumes "registry_ok r" and "TrimSpace s \<noteq> []" and "TrimSpace i \<noteq> []"
    and "\<forall>op \<in> set ops. t0 \<le> registry_time op \<and> registry_time op \<le> t0 + 600 * Second"
    and "r' = foldl registry_step (fst (AgentRegistry_Terminate t0 r s i)) ops"
  shows "\<not> is_ok (snd (AgentRegistry_UpsertLimited now r' s i l t m))
    \<and> \<not> is_ok (snd (AgentRegistry_Upsert now r' s i l t))
    \<and> AgentRegistry_Lookup now r' s i d = None \<and> AgentRegistry_IsTerminated r' s i"
proof -
  let ?r0 = "fst (AgentRegistry_Terminate t0 r s i)"
  have "registry_ok ?r0" using assms(1) by (rule Terminate_ok)
  moreover have "tomb ?r0 (TrimSpace s) (TrimSpace i) = Some t0"
    using assms(2,3) by (simp add: Terminate_eq Let_def tomb_mark)
  ultimately obtain t' where "tomb r' (TrimSpace s) (TrimSpace i) = Some t'"
    using registry.kept_along [of ?r0 "(TrimSpace s, TrimSpace i)" t0 t0 ops] assms(4,5)
    by (auto simp: terminatedAgentSessionRetention_def)
  moreover have ok: "registry_ok r'"
    unfolding assms(5) using \<open>registry_ok ?r0\<close> by (rule registry_run_ok)
  ultimately have dead: "tomb r' (TrimSpace s) (TrimSpace i) \<noteq> None" "session r' (TrimSpace s) (TrimSpace i) = None"
    by (auto simp: registry_ok_def) (metis not_None_eq option.distinct(1))
  have "\<not> is_ok (snd (AgentRegistry_UpsertLimited now r' s i l t m))"
    using dead by (cases rule: UpsertLimited_cases [of now r' s i l t m]) (auto dest!: update_of_names)
  moreover have "\<not> is_ok (snd (AgentRegistry_Upsert now r' s i l t))"
    using dead by (cases rule: Upsert_cases [of now r' s i l t]) (auto dest!: update_of_names)
  moreover have "AgentRegistry_Lookup now r' s i d = None \<and> AgentRegistry_IsTerminated r' s i"
    using dead assms(2,3)
    by (simp add: AgentRegistry_Lookup_def AgentRegistry_IsTerminated_def isTerminated_tomb session_def Let_def)
  ultimately show ?thesis by blast
qed

lemma terminated_session_stays_away_witness:
  "\<not> is_ok (snd (AgentRegistry_UpsertLimited 900
     (foldl registry_step (fst (AgentRegistry_Terminate 100 NewAgentRegistry ''alice'' ''s1'')) [RegCleanup 500 60])
     ''alice'' ''s1'' ''laptop'' ''webrtc_turn'' 3))"
proof -
  have "TrimSpace ''alice'' \<noteq> []" "TrimSpace ''s1'' \<noteq> []" by code_simp+
  moreover have "\<forall>op \<in> set [RegCleanup 500 60]. 100 \<le> registry_time op \<and> registry_time op \<le> 100 + 600 * Second"
    by simp
  ultimately show ?thesis
    using terminated_session_stays_away [OF NewAgentRegistry_ok] by blast
qed

section \<open>Limits\<close>

lemma sessions_of_with:
  "sessions_of (with_session r s i a) s' =
     (if s' = s \<and> session r s i = None then sessions_of r s' + 1 else sessions_of r s')"
  by (auto simp: sessions_of_def with_session_def session_def go_len_put split: option.split)

lemma sessions_of_ensured: "sessions_of (ensured r s) s' = sessions_of r s'"
  by (simp add: sessions_of_def ensured_def)

lemma sessions_of_without: "sessions_of (without_session r s i) s' \<le> sessions_of r s'"
  by (simp add: sessions_of_def without_session_def go_len_del_le)

text \<open>The operation does not register the subject with a limit above \<open>m\<close>, or without a limit.\<close>

fun registers_within :: "string \<Rightarrow> int \<Rightarrow> registry_op \<Rightarrow> bool" where
  "registers_within s m (RegUpsert now s' i l t) = (TrimSpace s' \<noteq> s)"
| "registers_within s m (RegUpsertLimited now s' i l t k) = (TrimSpace s' \<noteq> s \<or> k \<le> m)"
| "registers_within s m _ = True"

lemma sessions_of_step:
  assumes r: "registry_ok r" and m: "sessions_of r s \<le> m" and op: "registers_within s m op"
  shows "sessions_of (registry_step r op) s \<le> m"
proof (cases op)
  case (RegUpsert now s' i l t)
  with m op show ?thesis
    by (cases rule: Upsert_cases [of now r s' i l t]) (auto dest!: update_of_names simp: sessions_of_with)
next
  case (RegUpsertLimited now s' i l t k)
  with m op show ?thesis
    by (cases rule: UpsertLimited_cases [of now r s' i l t k])
       (auto dest!: update_of_names simp: sessions_of_with sessions_of_ensured)
next
  case (RegTouch now s' i l)
  with m show ?thesis
    by (cases rule: Touch_cases [of now r s' i l]) (auto simp: sessions_of_with)
next
  case (RegTerminate now s' i)
  have "sessions_of (markTerminatedLocked r a b now) s = sessions_of r s" for a b
    by (simp add: sessions_of_def)
  then have "sessions_of (without_session (markTerminatedLocked r a b now) a b) s \<le> sessions_of r s" for a b
    using sessions_of_without [of "markTerminatedLocked r a b now" a b s] by simp
  with RegTerminate m show ?thesis
    by (auto simp: Terminate_eq Let_def sessions_of_def intro: order_trans)
next
  case (RegRemove now s' i)
  with m sessions_of_without [of r "TrimSpace s'" "TrimSpace i" s] show ?thesis
    by (auto simp: AgentRegistry_Remove_def Let_def remove_session_eq)
next
  case (RegTerminateAll now s' d)
  show ?thesis
  proof (cases "TrimSpace s' = []")
    case True
    with m RegTerminateAll show ?thesis by (simp add: AgentRegistry_TerminateAll_def)
  next
    case False
    have "sessions_of (fst (AgentRegistry_TerminateAll now r s' d)) s \<le> sessions_of r s"
      by (simp add: TerminateAll_eq [OF False] Let_def sessions_of_def go_len_filter_le)
    with m RegTerminateAll show ?thesis by simp
  qed
next
  case (RegCleanup now d)
  have "sessions_of (AgentRegistry_Cleanup now r d) s \<le> sessions_of r s"
    using r by (simp add: AgentRegistry_Cleanup_def sessions_of_def registry_ok_def nested_ok_def
        inner_clean_inner go_len_filter_le)
  with m RegCleanup show ?thesis by simp
qed

text \<open>
  The session limit is never exceeded: if every registration of a subject states a limit of at
  most \<open>m\<close>, the subject never has more than \<open>m\<close> sessions, whatever the other operations are.
\<close>

theorem session_limit:
  assumes "\<forall>op \<in> set ops. registers_within s m op" and "0 \<le> m"
  shows "sessions_of (foldl registry_step NewAgentRegistry ops) s \<le> m"
proof -
  have "registry_ok r \<Longrightarrow> sessions_of r s \<le> m \<Longrightarrow> sessions_of (foldl registry_step r ops) s \<le> m" for r
    using assms(1) by (induction ops arbitrary: r) (auto intro: sessions_of_step inv_intros)
  moreover have "sessions_of NewAgentRegistry s \<le> m"
    using assms(2) by (simp add: sessions_of_def NewAgentRegistry_def inner_def go_len_def)
  ultimately show ?thesis using NewAgentRegistry_ok by blast
qed

lemma session_limit_witness:
  "sessions_of (foldl registry_step NewAgentRegistry
     [RegUpsertLimited 1 ''a'' ''x'' [] ''t'' 1, RegUpsertLimited 2 ''a'' ''y'' [] ''t'' 1]) ''a'' \<le> 1"
  by (rule session_limit) simp_all

text \<open>
  The outcome of \<^verbatim>\<open>UpsertLimited\<close> for a named session and a positive limit: refused as
  terminated if the session has a tombstone; refused for the limit if it is new and the subject
  already has as many sessions as allowed; otherwise stored, with the creation time kept for a
  session that was there, and found by \<^verbatim>\<open>Lookup\<close> at once.
\<close>

theorem UpsertLimited_outcome:
  assumes "registry_ok r" and "TrimSpace s \<noteq> []" "TrimSpace i \<noteq> []" "TrimSpace t \<noteq> []" and "0 < m"
  shows "case AgentRegistry_UpsertLimited now r s i l t m of (r', res) \<Rightarrow>
    (if AgentRegistry_IsTerminated r s i then res = Inl ErrAgentSessionTerminated \<and> r' = r
     else if session r (TrimSpace s) (TrimSpace i) = None \<and> m \<le> sessions_of r (TrimSpace s)
       then res = Inl ErrAgentSessionLimitReached \<and> session r' = session r
     else \<exists>a. res = Inr (a, session r (TrimSpace s) (TrimSpace i) = None)
       \<and> AgentRegistry_Lookup now r' s i d = Some a \<and> as_LastSeenAt a = now
       \<and> as_CreatedAt a = (case session r (TrimSpace s) (TrimSpace i) of None \<Rightarrow> now | Some b \<Rightarrow> as_CreatedAt b))"
proof -
  define u where "u = newAgentSessionUpdate s i l t"
  have v: "agentSessionUpdate_validate u = None" "up_subject u = TrimSpace s" "up_sessionID u = TrimSpace i"
    using assms(2-4) by (simp_all add: u_def newAgentSessionUpdate_def agentSessionUpdate_validate_def)
  have dead_iff: "AgentRegistry_IsTerminated r s i \<longleftrightarrow> tomb r (TrimSpace s) (TrimSpace i) \<noteq> None"
    using assms(2,3) by (simp add: AgentRegistry_IsTerminated_def isTerminated_tomb Let_def)
  have fresh: "\<not> is_stale (agentStaleCutoff now d) (updated r u now)"
    by (simp add: is_stale_def agentStaleCutoff_def updated_fields)
  show ?thesis
  proof (cases "tomb r (TrimSpace s) (TrimSpace i) = None")
    case False
    then have "AgentRegistry_UpsertLimited now r s i l t m = (r, Inl ErrAgentSessionTerminated)"
      using v assms(5) by (simp add: AgentRegistry_UpsertLimited_def u_def [symmetric] Let_def isTerminated_tomb)
    with False dead_iff show ?thesis by simp
  next
    case True
    show ?thesis
    proof (cases rule: UpsertLimited_cases [of now r s i l t m])
      case (refused e)
      with True v assms(5) show ?thesis by (simp add: u_def)
    next
      case (full w)
      with True dead_iff show ?thesis by (auto dest!: update_of_names)
    next
      case (stored w)
      then have w: "w = u" by (simp add: update_of_def u_def)
      have "\<not> (session r (TrimSpace s) (TrimSpace i) = None \<and> m \<le> sessions_of r (TrimSpace s))"
        using stored(4) w v by (auto simp: not_le)
      with w stored v assms(2,3) fresh True dead_iff show ?thesis
        by (simp add: AgentRegistry_Lookup_def Let_def updated_fields) (simp add: session_def [symmetric])
    qed
  qed
qed

lemma UpsertLimited_outcome_witness:
  "\<exists>a. snd (AgentRegistry_UpsertLimited 5 NewAgentRegistry ''alice'' ''s1'' ''laptop'' ''webrtc_turn'' 2) = Inr (a, True)
     \<and> as_CreatedAt a = 5"
proof -
  have t: "TrimSpace ''alice'' \<noteq> []" "TrimSpace ''s1'' \<noteq> []" "TrimSpace ''webrtc_turn'' \<noteq> []" by code_simp+
  have e: "\<not> AgentRegistry_IsTerminated NewAgentRegistry ''alice'' ''s1''" by code_simp
  have n: "session NewAgentRegistry x y = None" "sessions_of NewAgentRegistry x = 0" for x y
    by (simp_all add: session_def sessions_of_def NewAgentRegistry_def inner_def go_len_def)
  show ?thesis
    using UpsertLimited_outcome [OF NewAgentRegistry_ok t, where m = 2 and now = 5 and l = "''laptop''" and d = 0] e n
    by auto
qed

section \<open>Lists\<close>

lemma sort_by_last_seen_facts:
  "mset (sort_by_last_seen xs) = mset xs"
  "sorted_wrt (\<lambda>a b. as_LastSeenAt b \<le> as_LastSeenAt a) (sort_by_last_seen xs)"
proof -
  have "sorted (map (\<lambda>a. - as_LastSeenAt a) (sort_by_last_seen xs))"
    by (simp add: sort_by_last_seen_def)
  then show "sorted_wrt (\<lambda>a b. as_LastSeenAt b \<le> as_LastSeenAt a) (sort_by_last_seen xs)"
    by (simp add: sorted_map)
qed (simp add: sort_by_last_seen_def)

lemma set_live_values:
  assumes "registry_ok r"
  shows "a \<in> snd ` set (go_filter (\<lambda>_ a. \<not> is_stale c a) (inner (reg_items r) s)) \<longleftrightarrow>
    session r s (as_SessionID a) = Some a \<and> \<not> is_stale c a"
proof -
  have wf: "wf_map (inner (reg_items r) s)" using assms by (simp add: registry_ok_def)
  have n: "session r s i = Some a \<Longrightarrow> i = as_SessionID a" for i
    using assms by (simp add: registry_ok_def names_ok_def)
  show ?thesis
    using n by (force simp: session_def go_get_set [OF wf])
qed

lemma distinct_session_ids:
  assumes "registry_ok r"
  shows "distinct (map as_SessionID (map snd (go_filter P (inner (reg_items r) s))))"
proof -
  have wf: "wf_map (go_filter P (inner (reg_items r) s))" using assms by (simp add: registry_ok_def)
  have "map as_SessionID (map snd (go_filter P (inner (reg_items r) s))) = map fst (go_filter P (inner (reg_items r) s))"
    using assms by (auto simp: registry_ok_def names_ok_def session_def go_get_set go_filter_def)
  then show ?thesis using wf unfolding wf_map_def by (simp only:)
qed

text \<open>
  \<^verbatim>\<open>TerminateAll\<close> returns exactly the sessions of the subject that \<^verbatim>\<open>ListBySubject\<close> shows, most
  recently seen first and each once; it leaves tombstones for these and for nothing else, removes
  them, and keeps the stale sessions and the sessions of every other subject.
\<close>

theorem TerminateAll_effect:
  assumes "registry_ok r" and "TrimSpace s \<noteq> []"
    and "AgentRegistry_TerminateAll now r s d = (r', ended)"
  shows "set ended = set (AgentRegistry_ListBySubject now r s d)
    \<and> sorted_wrt (\<lambda>a b. as_LastSeenAt b \<le> as_LastSeenAt a) ended \<and> distinct (map as_SessionID ended)
    \<and> (\<forall>a. a \<in> set ended \<longleftrightarrow> AgentRegistry_Lookup now r s (as_SessionID a) d = Some a)
    \<and> (\<forall>s' i. session r' s' i = (if s' = TrimSpace s \<and> i \<in> as_SessionID ` set ended then None else session r s' i))
    \<and> (\<forall>s' i. tomb r' s' i = (if s' = TrimSpace s \<and> i \<in> as_SessionID ` set ended then Some now else tomb r s' i))"
proof -
  let ?c = "agentStaleCutoff now d"
  let ?live = "go_filter (\<lambda>_ a. \<not> is_stale ?c a) (inner (reg_items r) (TrimSpace s))"
  have ended: "ended = sort_by_last_seen (map snd ?live)"
    using assms(3) by (simp add: TerminateAll_eq [OF assms(2)] Let_def)
  then have list: "ended = AgentRegistry_ListBySubject now r s d"
    using assms(2) by (simp add: AgentRegistry_ListBySubject_def Let_def)
  have set: "a \<in> set ended \<longleftrightarrow> session r (TrimSpace s) (as_SessionID a) = Some a \<and> \<not> is_stale ?c a" for a
    using set_live_values [OF assms(1), of a ?c "TrimSpace s"] sort_by_last_seen_facts(1) [of "map snd ?live"]
    by (metis ended list.set_map set_mset_mset)
  have ids: "i \<in> as_SessionID ` set ended \<longleftrightarrow> (\<exists>a. live_session now d r (TrimSpace s) i a)" for i
  proof
    assume "i \<in> as_SessionID ` set ended"
    then show "\<exists>a. live_session now d r (TrimSpace s) i a" by (auto simp: set live_session_def)
  next
    assume "\<exists>a. live_session now d r (TrimSpace s) i a"
    then obtain a where a: "session r (TrimSpace s) i = Some a" "\<not> is_stale ?c a"
      by (auto simp: live_session_def)
    then have "as_SessionID a = i" using assms(1) by (simp add: registry_ok_def names_ok_def)
    with a have "a \<in> set ended" by (simp add: set)
    with \<open>as_SessionID a = i\<close> show "i \<in> as_SessionID ` set ended" by blast
  qed
  have dist: "distinct (map as_SessionID ended)"
    using distinct_session_ids [OF assms(1)] sort_by_last_seen_facts(1) [of "map snd ?live"] ended
    by (metis mset_eq_imp_distinct_iff mset_map)
  have look: "AgentRegistry_Lookup now r s (as_SessionID a) d = Some a \<longleftrightarrow> a \<in> set ended" for a
  proof (cases "trimmed (as_SessionID a) \<and> as_SessionID a \<noteq> []")
    case True
    then show ?thesis
      using assms(2) by (auto simp: set AgentRegistry_Lookup_def Let_def TrimSpace_id session_def split: option.split)
  next
    case False
    then have "a \<notin> set ended" using assms(1) by (auto simp: set registry_ok_def names_ok_def)
    moreover have "AgentRegistry_Lookup now r s (as_SessionID a) d \<noteq> Some a"
    proof
      assume "AgentRegistry_Lookup now r s (as_SessionID a) d = Some a"
      then have "session r (TrimSpace s) (TrimSpace (as_SessionID a)) = Some a"
        by (simp add: AgentRegistry_Lookup_def Let_def session_def split: if_splits option.splits)
      then have "names_ok (TrimSpace s) (TrimSpace (as_SessionID a)) a"
        using assms(1) by (simp add: registry_ok_def)
      with False show False by (simp add: names_ok_def) (metis trimmed_TrimSpace)
    qed
    ultimately show ?thesis by simp
  qed
  have r': "r' = fst (AgentRegistry_TerminateAll now r s d)" using assms(3) by simp
  show ?thesis
    using list dist look TerminateAll_obs(1,2) [OF assms(1,2)] sort_by_last_seen_facts(2) [of "map snd ?live"]
    unfolding r' ended [symmetric] ids by auto
qed

lemma TerminateAll_effect_witness:
  "set (snd (AgentRegistry_TerminateAll 9
     (fst (AgentRegistry_Upsert 5 NewAgentRegistry ''alice'' ''s1'' ''laptop'' ''webrtc_turn'')) ''alice'' 120))
   = set (AgentRegistry_ListBySubject 9
     (fst (AgentRegistry_Upsert 5 NewAgentRegistry ''alice'' ''s1'' ''laptop'' ''webrtc_turn'')) ''alice'' 120)"
proof -
  have t: "TrimSpace ''alice'' \<noteq> []" by code_simp
  show ?thesis
    by (rule TerminateAll_effect [OF Upsert_ok [OF NewAgentRegistry_ok] t surjective_pairing, THEN conjunct1])
qed

end
