(* ===== verification/Control_Server_Facts.thy ===== *)
theory Control_Server_Facts
  imports Control_Server Agent_Registry_Facts
begin

text \<open>
  What requests can do to the stores of the server. Every request is shown to be a short sequence of
  operations of the registry and of the refresh token store, under the name of the caller; the
  properties of these stores then carry over to the server.
\<close>

section \<open>The kinds of handlers\<close>

definition credential_handlers ::
  "platform \<Rightarrow> (config \<Rightarrow> inputs \<Rightarrow> serverDeps \<Rightarrow> Request \<Rightarrow> serverDeps \<times> Response) set"
where
  "credential_handlers pl = {handleAuthExchange pl, handleAuthRefresh pl, handleDeviceLogin pl}"

definition authenticated_handlers ::
  "platform \<Rightarrow> (config \<Rightarrow> inputs \<Rightarrow> serverDeps \<Rightarrow> Request \<Rightarrow> serverDeps \<times> Response) set"
where
  "authenticated_handlers pl = {handleAgentConnect pl, handleAgentAttach pl, handleAgentRegister pl,
     handleAgentHeartbeat pl, handleAgentUnregister pl, handleAgentTerminateAll pl, handleAgentList pl,
     handleStatus pl, handleLoginKeys pl}"

lemma route_cases:
  assumes "h \<in> snd ` set (registerRoutes pl)"
  obtains (health) "h = (\<lambda>cfg inp d r. (d, handleHealth))"
  | (version) "h = (\<lambda>cfg inp d r. (d, version_Handler (pl_sha pl) (pl_build pl) ''shellin-control-plane'' r))"
  | (signaling) "h = handleSignal pl"
  | (credential) "h \<in> credential_handlers pl"
  | (authenticated) "h \<in> authenticated_handlers pl"
  using assms unfolding registerRoutes_def credential_handlers_def authenticated_handlers_def by auto

section \<open>Rules for the beginnings of handlers\<close>

lemma authenticated_rule:
  assumes "\<And>resp. rs_Status resp = 401 \<or> rs_Status resp = 405 \<Longrightarrow> P (d, resp)"
    and "\<And>e. req_Method r = method \<Longrightarrow>
      validateEntitlement (pl_hmac pl) (sd_accessValidator d) (sd_store d) (in_clk inp 0) (in_clk inp 1) r = Inr e \<Longrightarrow> P (k e)"
  shows "P (authenticated pl inp d method r k)"
  using assms by (auto simp: authenticated_def requireMethod_def unauthorized_def split: sum.split)

lemma with_body_rule:
  assumes "P (d, http_Error ''invalid request body'' 400)" and "\<And>x. P (k x)"
  shows "P (with_body dec limit d r k)"
  using assms by (simp add: with_body_def split: option.split)

lemmas handler_defs = handleAgentConnect_def handleAgentAttach_def handleAgentRegister_def
  handleAgentHeartbeat_def handleAgentUnregister_def handleAgentTerminateAll_def handleAgentList_def
  handleStatus_def handleLoginKeys_def

lemmas credential_defs = handleAuthExchange_def handleAuthRefresh_def handleDeviceLogin_def

text \<open>\<open>serve\<close> by cases of the path.\<close>

lemma serve_rule:
  assumes "\<And>h. h \<in> snd ` set (registerRoutes pl) \<Longrightarrow> P (h cfg inp d r)" and "\<And>resp. P (d, resp)"
    and "\<And>d' resp. P (d', resp) \<Longrightarrow> P (d', withSecurityHeaders resp)"
  shows "P (serve pl cfg inp d path r)"
proof (cases "map_of (registerRoutes pl) path")
  case None
  then show ?thesis using assms(2) by (simp add: serve_def)
next
  case (Some h)
  then have "h \<in> snd ` set (registerRoutes pl)" by (metis image_eqI map_of_SomeD snd_conv)
  with assms(1) have "P (h cfg inp d r)" by blast
  with Some assms(3) show ?thesis by (cases "h cfg inp d r") (simp add: serve_def)
qed

section \<open>The parts of the state no request changes\<close>

lemma limiter_parts [simp]:
  "sd_store (RecordFailure_at now r d) = sd_store d" "sd_store (Reset_limiter r d) = sd_store d"
  "sd_refreshStore (RecordFailure_at now r d) = sd_refreshStore d" "sd_refreshStore (Reset_limiter r d) = sd_refreshStore d"
  "sd_agentRegistry (RecordFailure_at now r d) = sd_agentRegistry d" "sd_agentRegistry (Reset_limiter r d) = sd_agentRegistry d"
  "sd_accessValidator (RecordFailure_at now r d) = sd_accessValidator d" "sd_accessValidator (Reset_limiter r d) = sd_accessValidator d"
  "sd_signalValidator (RecordFailure_at now r d) = sd_signalValidator d" "sd_signalValidator (Reset_limiter r d) = sd_signalValidator d"
  "sd_relay (RecordFailure_at now r d) = sd_relay d" "sd_relay (Reset_limiter r d) = sd_relay d"
  by (simp_all add: RecordFailure_at_def Reset_limiter_def)

lemma allow_parts:
  assumes "allowCredentialAuth now d r = (d', res)"
  shows "sd_store d' = sd_store d" "sd_refreshStore d' = sd_refreshStore d" "sd_agentRegistry d' = sd_agentRegistry d"
    "sd_accessValidator d' = sd_accessValidator d" "sd_relay d' = sd_relay d" "sd_loginKeyStore d' = sd_loginKeyStore d"
    "sd_signalValidator d' = sd_signalValidator d"
  using assms by (auto simp: allowCredentialAuth_def Let_def split: prod.splits if_splits)

lemma tokens_parts [simp]:
  "sd_store (fst (tokens_response pl cfg inp t t' d s m enc)) = sd_store d"
  "sd_agentRegistry (fst (tokens_response pl cfg inp t t' d s m enc)) = sd_agentRegistry d"
  "sd_accessValidator (fst (tokens_response pl cfg inp t t' d s m enc)) = sd_accessValidator d"
  "sd_signalValidator (fst (tokens_response pl cfg inp t t' d s m enc)) = sd_signalValidator d"
  "sd_relay (fst (tokens_response pl cfg inp t t' d s m enc)) = sd_relay d"
  by (auto simp: tokens_response_def split: prod.split sum.split)

definition same_identity :: "serverDeps \<Rightarrow> serverDeps \<Rightarrow> bool" where
  "same_identity d d' \<longleftrightarrow> sd_store d' = sd_store d \<and> sd_accessValidator d' = sd_accessValidator d
     \<and> sd_signalValidator d' = sd_signalValidator d"

lemma same_identity_refl [simp]: "same_identity d d"
  by (simp add: same_identity_def)

lemma credential_identity:
  "h \<in> credential_handlers pl \<Longrightarrow> same_identity d (fst (h cfg inp d r))
     \<and> sd_agentRegistry (fst (h cfg inp d r)) = sd_agentRegistry d"
  unfolding credential_defs credential_handlers_def
  by (elim insertE; simp add: requireMethod_def; intro conjI impI; rule with_body_rule)
     (auto simp: same_identity_def Let_def split: option.split prod.split sum.split dest: allow_parts)

lemma authenticated_identity:
  "h \<in> authenticated_handlers pl
   \<Longrightarrow> same_identity d (fst (h cfg inp d r))"
  unfolding handler_defs authenticated_handlers_def
  by (elim insertE; simp; rule authenticated_rule; simp?; rule with_body_rule)
     (auto simp: same_identity_def Let_def undo_created_def split: option.split prod.split sum.split)

section \<open>Requests as registry operations\<close>

fun own_op :: "string \<Rightarrow> int \<Rightarrow> registry_op \<Rightarrow> bool" where
  "own_op s m (RegUpsertLimited now s' i l t k) = (s' = s \<and> k = m)"
| "own_op s m (RegTouch now s' i l) = (s' = s)"
| "own_op s m (RegRemove now s' i) = (s' = s)"
| "own_op s m (RegTerminateAll now s' d) = (s' = s)"
| "own_op s m _ = False"

text \<open>The request acts on the registry through operations in the name of the entitlement \<open>e\<close>.\<close>

definition acts_as :: "UserEntitlement \<Rightarrow> AgentRegistry \<Rightarrow> AgentRegistry \<Rightarrow> bool" where
  "acts_as e r r' \<longleftrightarrow> (\<exists>ops. r' = foldl registry_step r ops \<and> (\<forall>op \<in> set ops. own_op (ue_Subject e) (ue_MaxSessions e) op))"

lemma acts_as_refl [simp]: "acts_as e r r"
  unfolding acts_as_def by (rule exI [of _ "[]"]) simp

lemma acts_as_step: "own_op (ue_Subject e) (ue_MaxSessions e) op \<Longrightarrow> acts_as e r (registry_step r op)"
  unfolding acts_as_def by (rule exI [of _ "[op]"]) simp

lemma acts_as_trans: "acts_as e r1 r2 \<Longrightarrow> acts_as e r2 r3 \<Longrightarrow> acts_as e r1 r3"
  unfolding acts_as_def by (elim exE conjE) (metis foldl_append Un_iff set_append)

lemma acts_as_ops:
  "AgentRegistry_UpsertLimited now r (ue_Subject e) i l t (ue_MaxSessions e) = (r', res) \<Longrightarrow> acts_as e r r'"
  "AgentRegistry_Touch now r (ue_Subject e) i l = (r', touched) \<Longrightarrow> acts_as e r r'"
  "AgentRegistry_TerminateAll now r (ue_Subject e) d = (r', ended) \<Longrightarrow> acts_as e r r'"
  "acts_as e r (fst (AgentRegistry_Remove r (ue_Subject e) i))"
  using acts_as_step [of e "RegUpsertLimited now (ue_Subject e) i l t (ue_MaxSessions e)" r]
    acts_as_step [of e "RegTouch now (ue_Subject e) i l" r] acts_as_step [of e "RegTerminateAll now (ue_Subject e) d" r]
    acts_as_step [of e "RegRemove now (ue_Subject e) i" r]
  by simp_all

lemma acts_as_undo:
  "AgentRegistry_UpsertLimited now r (ue_Subject e) i l t (ue_MaxSessions e) = (r', res) \<Longrightarrow>
   acts_as e r (sd_agentRegistry (undo_created created (d\<lparr>sd_agentRegistry := r'\<rparr>) (ue_Subject e) i'))"
  using acts_as_trans [OF acts_as_ops(1) acts_as_ops(4)] acts_as_ops(1) [of now r e i l t r' res]
  by (simp add: undo_created_def)

definition caller :: "platform \<Rightarrow> inputs \<Rightarrow> serverDeps \<Rightarrow> Request \<Rightarrow> access_error + UserEntitlement" where
  "caller pl inp d r = validateEntitlement (pl_hmac pl) (sd_accessValidator d) (sd_store d) (in_clk inp 0) (in_clk inp 1) r"

definition acts_for_caller :: "platform \<Rightarrow> inputs \<Rightarrow> serverDeps \<Rightarrow> Request \<Rightarrow> serverDeps \<times> Response \<Rightarrow> bool" where
  "acts_for_caller pl inp d r res \<longleftrightarrow> sd_agentRegistry (fst res) = sd_agentRegistry d
     \<or> (\<exists>e. caller pl inp d r = Inr e \<and> acts_as e (sd_agentRegistry d) (sd_agentRegistry (fst res)))"

lemma authenticated_acts:
  assumes "\<And>e. acts_as e (sd_agentRegistry d) (sd_agentRegistry (fst (k e)))"
  shows "acts_for_caller pl inp d r (authenticated pl inp d method r k)"
  by (rule authenticated_rule [where P = "acts_for_caller pl inp d r"])
    (auto simp: acts_for_caller_def caller_def assms)

lemma body_acts:
  assumes "\<And>x. acts_as e (sd_agentRegistry d) (sd_agentRegistry (fst (k x)))"
  shows "acts_as e (sd_agentRegistry d) (sd_agentRegistry (fst (with_body dec limit d r k)))"
  by (rule with_body_rule [where P = "\<lambda>res. acts_as e (sd_agentRegistry d) (sd_agentRegistry (fst res))"])
    (simp_all add: assms)

lemma handleAgentConnect_acts: "acts_for_caller pl inp d r (handleAgentConnect pl cfg inp d r)"
  unfolding handleAgentConnect_def
  by (intro authenticated_acts body_acts)
     (auto simp: Let_def intro: acts_as_ops acts_as_undo split: prod.split sum.split)

lemma handleAgentRegister_acts: "acts_for_caller pl inp d r (handleAgentRegister pl cfg inp d r)"
  unfolding handleAgentRegister_def
  by (intro authenticated_acts body_acts) (auto intro: acts_as_ops split: prod.split sum.split)

lemma handleAgentHeartbeat_acts: "acts_for_caller pl inp d r (handleAgentHeartbeat pl cfg inp d r)"
  unfolding handleAgentHeartbeat_def
  by (intro authenticated_acts body_acts) (auto intro: acts_as_ops split: prod.split)

lemma handleAgentUnregister_acts: "acts_for_caller pl inp d r (handleAgentUnregister pl cfg inp d r)"
  unfolding handleAgentUnregister_def by (intro authenticated_acts body_acts) (auto intro: acts_as_ops)

lemma handleAgentTerminateAll_acts: "acts_for_caller pl inp d r (handleAgentTerminateAll pl cfg inp d r)"
  unfolding handleAgentTerminateAll_def by (intro authenticated_acts) (auto intro: acts_as_ops split: prod.split)

lemma quiet_acts:
  "acts_for_caller pl inp d r (handleAgentAttach pl cfg inp d r)"
  "acts_for_caller pl inp d r (handleAgentList pl cfg inp d r)"
  "acts_for_caller pl inp d r (handleStatus pl cfg inp d r)"
  "acts_for_caller pl inp d r (handleLoginKeys pl cfg inp d r)"
  unfolding handleAgentAttach_def handleAgentList_def handleStatus_def handleLoginKeys_def
  by (intro authenticated_acts body_acts; auto simp: Let_def split: prod.split sum.split option.split)+

lemma handleSignal_parts:
  "sd_agentRegistry (fst (handleSignal pl cfg inp d r)) = sd_agentRegistry d"
  "same_identity d (fst (handleSignal pl cfg inp d r))"
  "sd_refreshStore (fst (handleSignal pl cfg inp d r)) = sd_refreshStore d"
  by (auto simp: handleSignal_def Let_def same_identity_def split: prod.split sum.split option.split)

lemma serve_acts: "acts_for_caller pl inp d r (serve pl cfg inp d path r)"
proof (rule serve_rule [of pl "acts_for_caller pl inp d r"])
  fix h assume "h \<in> snd ` set (registerRoutes pl)"
  then show "acts_for_caller pl inp d r (h cfg inp d r)"
  proof (cases rule: route_cases)
    case credential
    then show ?thesis using credential_identity [OF credential] by (simp add: acts_for_caller_def)
  next
    case authenticated
    then show ?thesis
      using handleAgentConnect_acts handleAgentRegister_acts handleAgentHeartbeat_acts handleAgentUnregister_acts
        handleAgentTerminateAll_acts quiet_acts by (auto simp: authenticated_handlers_def)
  qed (simp_all add: acts_for_caller_def handleSignal_parts)
qed (simp_all add: acts_for_caller_def)

lemma serve_identity: "same_identity d (fst (serve pl cfg inp d path r))"
proof (rule serve_rule [of pl "\<lambda>res. same_identity d (fst res)"])
  fix h assume "h \<in> snd ` set (registerRoutes pl)"
  then show "same_identity d (fst (h cfg inp d r))"
    by (cases rule: route_cases) (simp_all add: credential_identity authenticated_identity handleSignal_parts)
qed simp_all

section \<open>Requests as refresh token operations\<close>

text \<open>Every token an operation issues is made of the given bytes.\<close>

fun draws_only :: "string option \<Rightarrow> refresh_op \<Rightarrow> bool" where
  "draws_only bytes (RefreshIssue now b subject ttl) = (b = bytes)"
| "draws_only bytes _ = True"

definition refreshes :: "(string \<Rightarrow> string) \<Rightarrow> string option \<Rightarrow> RefreshTokenStore \<Rightarrow> RefreshTokenStore \<Rightarrow> bool" where
  "refreshes sha bytes s s' \<longleftrightarrow> (\<exists>ops. s' = foldl (refresh_step sha) s ops \<and> (\<forall>op \<in> set ops. draws_only bytes op))"

lemma refreshes_refl [simp]: "refreshes sha bytes s s"
  unfolding refreshes_def by (rule exI [of _ "[]"]) simp

lemma refreshes_step: "draws_only bytes op \<Longrightarrow> refreshes sha bytes s (refresh_step sha s op)"
  unfolding refreshes_def by (rule exI [of _ "[op]"]) simp

lemma refreshes_trans: "refreshes sha bytes s1 s2 \<Longrightarrow> refreshes sha bytes s2 s3 \<Longrightarrow> refreshes sha bytes s1 s3"
  unfolding refreshes_def by (elim exE conjE) (metis foldl_append Un_iff set_append)

lemma issueAuthTokens_store:
  "fst (issueAuthTokens hmac sha t t' jti bytes cfg s subject m) \<in>
     {s, refresh_step sha s (RefreshIssue t' bytes subject (cfg_RefreshTTL cfg))}"
  by (auto simp: issueAuthTokens_def split: sum.splits prod.splits)

lemma tokens_refreshes:
  "refreshes (pl_sha pl) (in_bytes inp) (sd_refreshStore d) (sd_refreshStore (fst (tokens_response pl cfg inp t t' d s m enc)))"
proof -
  have "sd_refreshStore (fst (tokens_response pl cfg inp t t' d s m enc)) =
      fst (issueAuthTokens (pl_hmac pl) (pl_sha pl) t t' (in_jti inp) (in_bytes inp) cfg (sd_refreshStore d) s m)"
    by (auto simp: tokens_response_def split: prod.split sum.split)
  moreover have "draws_only (in_bytes inp) (RefreshIssue t' (in_bytes inp) s (cfg_RefreshTTL cfg))" by simp
  ultimately show ?thesis
    using issueAuthTokens_store [of "pl_hmac pl" "pl_sha pl" t t' "in_jti inp" "in_bytes inp" cfg "sd_refreshStore d" s m]
      refreshes_step [of "in_bytes inp" "RefreshIssue t' (in_bytes inp) s (cfg_RefreshTTL cfg)"]
    by auto
qed

definition req_refreshes :: "platform \<Rightarrow> inputs \<Rightarrow> serverDeps \<Rightarrow> serverDeps \<times> Response \<Rightarrow> bool" where
  "req_refreshes pl inp d res \<longleftrightarrow> refreshes (pl_sha pl) (in_bytes inp) (sd_refreshStore d) (sd_refreshStore (fst res))"

lemma req_refreshes_same [simp]: "sd_refreshStore (fst res) = sd_refreshStore d \<Longrightarrow> req_refreshes pl inp d res"
  by (simp add: req_refreshes_def)

lemma tokens_req_refreshes:
  "sd_refreshStore d1 = sd_refreshStore d \<Longrightarrow> req_refreshes pl inp d (tokens_response pl cfg inp t t' d1 s m enc)"
  using tokens_refreshes [of pl inp d1] by (simp add: req_refreshes_def)

lemma consume_tokens_refreshes:
  assumes "RefreshTokenStore_Consume (pl_sha pl) now (sd_refreshStore d) raw = (store, res)"
  shows "req_refreshes pl inp d (tokens_response pl cfg inp t t' (d\<lparr>sd_refreshStore := store\<rparr>) s m enc)"
    and "req_refreshes pl inp d (d\<lparr>sd_refreshStore := store\<rparr>, resp)"
proof -
  have step: "refreshes (pl_sha pl) (in_bytes inp) (sd_refreshStore d) store"
    using refreshes_step [of "in_bytes inp" "RefreshConsume now raw" "pl_sha pl" "sd_refreshStore d"] assms by simp
  then show "req_refreshes pl inp d (d\<lparr>sd_refreshStore := store\<rparr>, resp)" by (simp add: req_refreshes_def)
  show "req_refreshes pl inp d (tokens_response pl cfg inp t t' (d\<lparr>sd_refreshStore := store\<rparr>) s m enc)"
    unfolding req_refreshes_def using refreshes_trans [OF step tokens_refreshes [of pl inp "d\<lparr>sd_refreshStore := store\<rparr>", simplified]]
    by simp
qed

lemma credential_refreshes:
  "req_refreshes pl inp d (handleAuthExchange pl cfg inp d r)"
  "req_refreshes pl inp d (handleDeviceLogin pl cfg inp d r)"
  "req_refreshes pl inp d (handleAuthRefresh pl cfg inp d r)"
proof -
  show "req_refreshes pl inp d (handleAuthExchange pl cfg inp d r)"
    unfolding handleAuthExchange_def requireMethod_def
    by (simp, intro impI with_body_rule [where P = "req_refreshes pl inp d"])
       (auto simp: Let_def intro!: tokens_req_refreshes split: prod.split option.split dest: allow_parts)
  show "req_refreshes pl inp d (handleDeviceLogin pl cfg inp d r)"
    unfolding handleDeviceLogin_def requireMethod_def
    by (simp, intro impI with_body_rule [where P = "req_refreshes pl inp d"])
       (auto simp: Let_def intro!: tokens_req_refreshes split: prod.split option.split sum.split dest: allow_parts)
  show "req_refreshes pl inp d (handleAuthRefresh pl cfg inp d r)"
    unfolding handleAuthRefresh_def requireMethod_def
    by (simp, intro impI with_body_rule [where P = "req_refreshes pl inp d"])
       (auto simp: Let_def intro: consume_tokens_refreshes split: prod.split option.split sum.split)
qed

lemma authenticated_refreshes:
  "h \<in> authenticated_handlers pl
   \<Longrightarrow> sd_refreshStore (fst (h cfg inp d r)) = sd_refreshStore d"
  unfolding handler_defs authenticated_handlers_def
  by (elim insertE; simp; rule authenticated_rule; simp?; rule with_body_rule)
     (auto simp: Let_def undo_created_def split: option.split prod.split sum.split)

lemma serve_refreshes: "req_refreshes pl inp d (serve pl cfg inp d path r)"
proof (rule serve_rule [of pl "req_refreshes pl inp d"])
  fix h assume "h \<in> snd ` set (registerRoutes pl)"
  then show "req_refreshes pl inp d (h cfg inp d r)"
    by (cases rule: route_cases) (auto simp: credential_handlers_def credential_refreshes authenticated_refreshes handleSignal_parts)
qed (simp_all add: req_refreshes_def)

end
