(* ===== verification/Control_Server_Demo.thy ===== *)
theory Control_Server_Demo
  imports Control_Server_Facts
begin

text \<open>
  A concrete server on which the properties of the server are exercised: the configuration
  \<open>demo_config\<close>, whose one user key \<open>k1\<close> belongs to \<open>alice\<close>, and requests to it.
\<close>

definition demo_platform :: platform where
  "demo_platform = \<lparr>pl_hmac = demo_hmac, pl_sha = rev, pl_words = [''able'', ''acid''], pl_api = (\<lambda>_. None),
     pl_build = \<lparr>b_ServiceReleaseID = [], b_Version = [], b_Commit = [], b_BuildTime = [], b_SourceRepo = [],
       b_GoVersion = [], b_Info = None, b_Executable = None\<rparr>,
     pl_upgrade = (\<lambda>check. check), pl_upgrade_reply = (\<lambda>_. no_content)\<rparr>"

definition demo_start :: gotime where "demo_start = 63835596800 * Second"

definition demo_inputs :: "gotime \<Rightarrow> string \<Rightarrow> inputs" where
  "demo_inputs now bytes = \<lparr>in_clk = (\<lambda>_. now), in_jti = ''t1'', in_bytes = Some bytes, in_draws = [],
     in_peer = 0, in_pick = (\<lambda>_. False)\<rparr>"

lemma demo_inputs_sel [simp]:
  "in_clk (demo_inputs now bytes) = (\<lambda>_. now)" "in_jti (demo_inputs now bytes) = ''t1''"
  "in_bytes (demo_inputs now bytes) = Some bytes"
  by (simp_all add: demo_inputs_def)

definition demo_request :: "string \<Rightarrow> (string, string) gomap \<Rightarrow> string \<Rightarrow> Request" where
  "demo_request method header body = \<lparr>req_Method = method, req_Host = ''h'', req_RemoteAddr = ''192.0.2.1:1'',
     req_TLS = True, req_Header = header, req_Body = body\<rparr>"

lemma demo_request_sel [simp]:
  "req_Method (demo_request method header body) = method" "req_Body (demo_request method header body) = body"
  "req_Header (demo_request method header body) = header"
  by (simp_all add: demo_request_def)

definition demo_anonymous :: Request where
  "demo_anonymous = demo_request ''GET'' [] []"

lemma demo_secret: "cfg_GrantHMACSecret demo_config = demo_key"
  by (simp add: demo_config_def demo_key_def)

definition demo_access_validator :: Validator where
  "demo_access_validator = \<lparr>v_secret = demo_key, v_issuer = ''shellin.dev'', v_audience = ''control.grants'',
     v_clockSkew = 30 * Second\<rparr>"

definition demo_signal_validator :: Validator where
  "demo_signal_validator = demo_access_validator\<lparr>v_audience := ''webrtc.signal''\<rparr>"

definition demo_deps :: serverDeps where
  "demo_deps = \<lparr>sd_store = demo_seeded, sd_refreshStore = NewRefreshTokenStore, sd_loginKeyStore = NewLoginKeyStore,
     sd_authFailureLimiter = Some (newAuthFailureLimiter 2 Minute), sd_agentRegistry = NewAgentRegistry,
     sd_relay = new_relay, sd_signalReplayGuard = NewReplayGuard, sd_accessValidator = demo_access_validator,
     sd_signalValidator = demo_signal_validator\<rparr>"

lemma demo_validators:
  "NewValidator demo_key ''shellin.dev'' ''control.grants'' = Inr demo_access_validator"
  "NewValidator demo_key ''shellin.dev'' ''webrtc.signal'' = Inr demo_signal_validator"
proof -
  have "TrimSpace ''shellin.dev'' = ''shellin.dev''" "TrimSpace ''control.grants'' = ''control.grants''"
    "TrimSpace ''webrtc.signal'' = ''webrtc.signal''"
    by code_simp+
  then show "NewValidator demo_key ''shellin.dev'' ''control.grants'' = Inr demo_access_validator"
    "NewValidator demo_key ''shellin.dev'' ''webrtc.signal'' = Inr demo_signal_validator"
    by (simp_all add: NewValidator_def demo_key_ok demo_access_validator_def demo_signal_validator_def)
qed

lemma demo_new: "newServerDeps demo_config demo_seeded = Inr demo_deps"
proof -
  have "newServerDeps demo_config demo_seeded =
      (case NewValidator demo_key ''shellin.dev'' ''control.grants'' of
         Inl e \<Rightarrow> Inl (AccessValidatorFailed e)
       | Inr access \<Rightarrow> (case NewValidator demo_key ''shellin.dev'' ''webrtc.signal'' of
            Inl e \<Rightarrow> Inl (SignalValidatorFailed e)
          | Inr sig \<Rightarrow> Inr (demo_deps\<lparr>sd_accessValidator := access, sd_signalValidator := sig\<rparr>)))"
    unfolding newServerDeps_def demo_secret demo_deps_def
    by (simp add: demo_config_def split: sum.split)
  then show ?thesis by (simp add: demo_validators demo_deps_def)
qed

lemma demo_reachable: "userkey_reachable rev demo_seeded"
  using seedUserKeys_reachable [OF userkey_reachable.new, of rev "\<lambda>_. None" 7 demo_config]
  by (simp add: demo_seeded_def)

definition demo_holder :: UserEntitlement where
  "demo_holder = \<lparr>ue_Subject = ''alice'', ue_MaxSessions = 2, ue_Active = True,
     ue_ProductID = [], ue_OriginalTransactionID = [], ue_ExpiresAt = 0, ue_UpdatedAt = 7\<rparr>"

lemma demo_lookup:
  "UserKeyStore_Lookup rev demo_seeded ''k1'' = Some demo_holder"
  "UserKeyStore_LookupBySubject demo_seeded ''alice'' = Some demo_holder"
  by code_simp+

lemma demo_anonymous_caller: "caller demo_platform (demo_inputs now bytes) demo_deps demo_anonymous = Inl MissingBearerToken"
  by (simp add: caller_def validateEntitlement_def validateAccessRequest_def bearerToken_def demo_anonymous_def
      demo_request_def Header_Get_def go_get_def)

text \<open>A request that exchanges the key, and one that presents the refresh token made of the byte \<open>b\<close>.\<close>

definition demo_exchange :: Request where
  "demo_exchange = demo_request ''POST'' [] (print_json (ExchangeAuthRequest_json \<lparr>xq_UserKey = ''k1''\<rparr>))"

definition demo_refresh_body :: RefreshAuthRequest where
  "demo_refresh_body = \<lparr>fq_RefreshToken = ''Yg''\<rparr>"

definition demo_refresh :: Request where
  "demo_refresh = demo_request ''POST'' [] (print_json (RefreshAuthRequest_json demo_refresh_body))"

lemma demo_exchange_body:
  "decodeJSON decode_ExchangeAuthRequest demo_exchange (32 * 1024) = Some \<lparr>xq_UserKey = ''k1''\<rparr>"
proof -
  have len: "length (print_json (ExchangeAuthRequest_json \<lparr>xq_UserKey = ''k1''\<rparr>)) = 17" by code_simp
  have "printable max_depth (ExchangeAuthRequest_json \<lparr>xq_UserKey = ''k1''\<rparr>)"
    by (simp add: ExchangeAuthRequest_json_def max_depth_def ascii_literal ord_def)
  moreover have "req_Body demo_exchange = print_json (ExchangeAuthRequest_json \<lparr>xq_UserKey = ''k1''\<rparr>)"
    by (simp add: demo_exchange_def)
  moreover have "length (print_json (ExchangeAuthRequest_json \<lparr>xq_UserKey = ''k1''\<rparr>)) \<le> 32 * 1024"
    unfolding len by simp
  ultimately have "decodeJSON decode_ExchangeAuthRequest demo_exchange (32 * 1024) = decode_ExchangeAuthRequest True (ExchangeAuthRequest_json \<lparr>xq_UserKey = ''k1''\<rparr>)"
    by (intro decodeJSON_print)
  then show ?thesis by (simp only: decode_ExchangeAuthRequest_json)
qed

lemma demo_refresh_decodes:
  "decodeJSON decode_RefreshAuthRequest demo_refresh (32 * 1024) = Some demo_refresh_body"
proof -
  have len: "length (print_json (RefreshAuthRequest_json demo_refresh_body)) = 22" by code_simp
  have "printable max_depth (RefreshAuthRequest_json demo_refresh_body)"
    by (simp add: RefreshAuthRequest_json_def demo_refresh_body_def max_depth_def ascii_literal ord_def)
  moreover have "req_Body demo_refresh = print_json (RefreshAuthRequest_json demo_refresh_body)"
    by (simp add: demo_refresh_def)
  moreover have "length (print_json (RefreshAuthRequest_json demo_refresh_body)) \<le> 32 * 1024"
    unfolding len by simp
  ultimately have "decodeJSON decode_RefreshAuthRequest demo_refresh (32 * 1024) = decode_RefreshAuthRequest True (RefreshAuthRequest_json demo_refresh_body)"
    by (intro decodeJSON_print)
  then show ?thesis by (simp only: decode_RefreshAuthRequest_json)
qed

lemma demo_sel [simp]:
  "pl_hmac demo_platform = demo_hmac" "pl_sha demo_platform = rev"
  "sd_store demo_deps = demo_seeded" "sd_refreshStore demo_deps = NewRefreshTokenStore"
  "sd_agentRegistry demo_deps = NewAgentRegistry" "sd_accessValidator demo_deps = demo_access_validator"
  "cfg_RefreshTTL demo_config = Hour" "ue_Subject demo_holder = ''alice''" "ue_MaxSessions demo_holder = 2"
  "cfg_AccessTTL demo_config = 10 * Minute" "cfg_GrantIssuer demo_config = ''shellin.dev''"
  "cfg_AccessAudience demo_config = ''control.grants''"
  by (simp_all add: demo_platform_def demo_deps_def demo_config_def demo_holder_def)

lemma demo_trim [simp]:
  "TrimSpace ''alice'' = ''alice''" "TrimSpace ''t1'' = ''t1''" "TrimSpace ''control.grants'' = ''control.grants''"
  by code_simp+

lemma demo_tokens:
  "TrimSpace s \<noteq> [] \<Longrightarrow> rs_Status (snd (tokens_response demo_platform demo_config (demo_inputs now bytes) t t' d s m enc)) = 200"
  by (auto simp: tokens_response_def issueAuthTokens_def issueSignedToken_def SignHS256_def demo_secret demo_key_ok
      RefreshTokenStore_Issue_def RandomToken_def Let_def split: prod.split sum.split option.split)

lemma demo_usable: "isEntitlementUsable now demo_holder"
  by (simp add: isEntitlementUsable_def demo_holder_def)

lemma demo_exchanges_any:
  assumes "req_Method r = ''POST''" and "decodeJSON decode_ExchangeAuthRequest r (32 * 1024) = Some \<lparr>xq_UserKey = ''k1''\<rparr>"
  shows "rs_Status (snd (serve demo_platform demo_config (demo_inputs now bytes) demo_deps ''/v1/auth/exchange'' r)) = 200"
proof -
  have "allowCredentialAuth now demo_deps r = (demo_deps, None)"
    by (simp add: allowCredentialAuth_def demo_deps_def limiter_Allow_def pruneLocked_def newAuthFailureLimiter_def
        attempts_of_def go_get_def go_filter_def Let_def)
  then have "rs_Status (snd (handleAuthExchange demo_platform demo_config (demo_inputs now bytes) demo_deps r)) = 200"
    using assms demo_tokens [of "''alice''" now bytes now now "Reset_limiter r demo_deps" 2 ExchangeAuthResponse_json]
    by (simp add: handleAuthExchange_def with_body_def demo_usable demo_lookup)
  then show ?thesis
    by (auto simp: serve_def registerRoutes_def split: prod.splits)
qed

lemma demo_exchanges:
  "rs_Status (snd (serve demo_platform demo_config (demo_inputs now bytes) demo_deps ''/v1/auth/exchange'' demo_exchange)) = 200"
  by (rule demo_exchanges_any [OF _ demo_exchange_body]) (simp add: demo_exchange_def)

definition demo_logged_in :: serverDeps where
  "demo_logged_in = demo_deps\<lparr>sd_refreshStore := fst (RefreshTokenStore_Issue rev demo_start (Some ''b'') [] ''alice'' Hour)\<rparr>"

end
