(* ===== verification/Control_Server_Props.thy ===== *)
theory Control_Server_Props
  imports Control_Server_Demo
begin

text \<open>
  The properties of the server as a whole: who may do what, what a request can change, the session
  limit over every history of requests, the rotation of refresh tokens, and that the tokens the
  server hands out are the ones it accepts.
\<close>

section \<open>Histories\<close>

datatype server_op = Serve inputs string Request | CleanRound gotime gotime gotime | RelayStep relay_op

text \<open>Requests, rounds of the clean-up and activity on open WebSockets, in any order.\<close>

fun server_step :: "platform \<Rightarrow> config \<Rightarrow> serverDeps \<Rightarrow> server_op \<Rightarrow> serverDeps" where
  "server_step pl cfg d (Serve inp path r) = fst (serve pl cfg inp d path r)"
| "server_step pl cfg d (CleanRound t1 t2 t3) = cleanup_round cfg t1 t2 t3 d"
| "server_step pl cfg d (RelayStep op) = d\<lparr>sd_relay := relay_step (sd_relay d) op\<rparr>"

lemma caller_entitled:
  assumes "caller pl inp d r = Inr e" and "UserKeyStore_ok (sd_store d)"
  shows "TrimSpace (ue_Subject e) = ue_Subject e"
    "TrimSpace s = ue_Subject e \<Longrightarrow> UserKeyStore_LookupBySubject (sd_store d) s = Some e"
proof -
  obtain raw where "UserKeyStore_LookupBySubject (sd_store d) raw = Some e"
    using assms(1) by (auto simp: caller_def validateEntitlement_def split: sum.splits option.splits if_splits)
  then have e: "\<exists>k. go_get (us_items (sd_store d)) k = Some e" "ue_Subject e = TrimSpace raw"
    using LookupBySubject_Some [OF assms(2)] by auto
  then show "TrimSpace (ue_Subject e) = ue_Subject e" by simp
  show "TrimSpace s = ue_Subject e \<Longrightarrow> UserKeyStore_LookupBySubject (sd_store d) s = Some e"
    using e LookupBySubject_Some [OF assms(2)] by auto
qed

section \<open>Only authenticated callers\<close>

definition protected_paths :: "string set" where
  "protected_paths = {''/v1/login-keys'', ''/v1/agents/connect'', ''/v1/agents/attach'', ''/v1/agents/register'',
     ''/v1/agents/heartbeat'', ''/v1/agents/unregister'', ''/v1/agents/terminate-all'', ''/v1/agents'', ''/v1/status''}"

lemma authenticated_refuses:
  assumes "caller pl inp d r = Inl err"
  shows "fst (authenticated pl inp d method r k) = d \<and> rs_Status (snd (authenticated pl inp d method r k)) \<in> {401, 405}"
  using assms by (auto simp: authenticated_def caller_def requireMethod_def unauthorized_def)

text \<open>
  C2: The endpoints for agents, viewers, status and login keys do nothing for a caller without a valid
  access token of a usable entitlement: the request is refused with 401 (or 405 for the wrong
  method), and the state of the server is exactly what it was.
\<close>

theorem protected_endpoints:
  assumes "path \<in> protected_paths" and "caller pl inp d r = Inl err"
  shows "fst (serve pl cfg inp d path r) = d \<and> rs_Status (snd (serve pl cfg inp d path r)) \<in> {401, 405}"
proof -
  have "map_of (registerRoutes pl) path \<in> Some ` authenticated_handlers pl"
    using assms(1) by (auto simp: protected_paths_def registerRoutes_def authenticated_handlers_def)
  then obtain h where h: "map_of (registerRoutes pl) path = Some h" "h \<in> authenticated_handlers pl" by blast
  have "fst (h cfg inp d r) = d \<and> rs_Status (snd (h cfg inp d r)) \<in> {401, 405}"
    using h(2) authenticated_refuses [OF assms(2)] unfolding authenticated_handlers_def handler_defs by auto
  with h(1) show ?thesis by (cases "h cfg inp d r") (simp add: serve_def)
qed

theorem protected_endpoints_witness:
  "fst (serve demo_platform demo_config (demo_inputs demo_start ''b'') demo_deps ''/v1/agents'' demo_anonymous) = demo_deps"
  using protected_endpoints [OF _ demo_anonymous_caller, of "''/v1/agents''"] by (simp add: protected_paths_def)

section \<open>Only the caller's sessions\<close>

lemma own_op_other:
  assumes "registry_ok r" "own_op s m op" "TrimSpace s = s" "s' \<noteq> s"
  shows "session (registry_step r op) s' i = session r s' i \<and> tomb (registry_step r op) s' i = tomb r s' i"
  using assms(2)
proof (cases op)
  case (RegUpsertLimited now s0 i0 l t k)
  then have "s0 = s" using assms(2) by simp
  then show ?thesis
    using RegUpsertLimited assms(3,4)
    by (cases rule: UpsertLimited_cases [of now r s0 i0 l t k]) (auto dest!: update_of_names)
next
  case (RegTouch now s0 i0 l)
  then have "s0 = s" using assms(2) by simp
  then show ?thesis
    using RegTouch assms(3,4) by (cases rule: Touch_cases [of now r s0 i0 l]) auto
next
  case (RegRemove now s0 i0)
  then show ?thesis
    using assms by (auto simp: AgentRegistry_Remove_def Let_def remove_session_eq)
next
  case (RegTerminateAll now s0 d)
  then have s0: "s0 = s" using assms(2) by simp
  show ?thesis
  proof (cases "TrimSpace s0 = []")
    case True
    then show ?thesis using RegTerminateAll by (simp add: AgentRegistry_TerminateAll_def)
  next
    case False
    then show ?thesis
      using RegTerminateAll TerminateAll_obs(1,2) [OF assms(1) False, of now d s' i] s0 assms(3,4) by simp
  qed
qed simp_all

lemma own_ops_other:
  "registry_ok r \<Longrightarrow> \<forall>op \<in> set ops. own_op s m op \<Longrightarrow> TrimSpace s = s \<Longrightarrow> s' \<noteq> s \<Longrightarrow>
   session (foldl registry_step r ops) s' i = session r s' i \<and> tomb (foldl registry_step r ops) s' i = tomb r s' i"
proof (induction ops arbitrary: r)
  case Nil
  then show ?case by simp
next
  case (Cons op ops)
  then show ?case using own_op_other [of r s m op s' i] registry_step_ok [of r op] by simp
qed

text \<open>
  C3: A request changes the registry only within the subject it is authenticated for: without
  authentication not at all, otherwise neither a session nor a tombstone of another subject.
\<close>

theorem request_scope:
  assumes "registry_ok (sd_agentRegistry d)" and "UserKeyStore_ok (sd_store d)"
    and "d' = fst (serve pl cfg inp d path r)"
  shows "case caller pl inp d r of
      Inl _ \<Rightarrow> sd_agentRegistry d' = sd_agentRegistry d
    | Inr e \<Rightarrow> (\<forall>s i. s \<noteq> ue_Subject e \<longrightarrow> session (sd_agentRegistry d') s i = session (sd_agentRegistry d) s i
        \<and> tomb (sd_agentRegistry d') s i = tomb (sd_agentRegistry d) s i)"
  using serve_acts [of pl inp d r cfg path] assms own_ops_other caller_entitled(1) [of pl inp d r]
  by (auto simp: acts_for_caller_def acts_as_def split: sum.split)

theorem request_scope_witness:
  "sd_agentRegistry (fst (serve demo_platform demo_config (demo_inputs demo_start ''b'') demo_deps ''/v1/agents'' demo_anonymous))
   = NewAgentRegistry"
  using request_scope [of demo_deps _ demo_platform demo_config "demo_inputs demo_start ''b''" "''/v1/agents''" demo_anonymous,
      OF _ _ refl] NewAgentRegistry_ok userkey_reachable_ok [OF demo_reachable]
  by (simp add: demo_anonymous_caller)

section \<open>The session limit of the server\<close>

definition allowance :: "UserKeyStore \<Rightarrow> string \<Rightarrow> int" where
  "allowance store s = (case UserKeyStore_LookupBySubject store s of None \<Rightarrow> 0 | Some e \<Rightarrow> ue_MaxSessions e)"

definition bounded_state :: "UserKeyStore \<Rightarrow> serverDeps \<Rightarrow> bool" where
  "bounded_state store d \<longleftrightarrow> sd_store d = store \<and> registry_ok (sd_agentRegistry d)
     \<and> (\<forall>s. sessions_of (sd_agentRegistry d) (TrimSpace s) \<le> allowance store s)"

lemma sessions_of_ops:
  "registry_ok r \<Longrightarrow> sessions_of r s \<le> m \<Longrightarrow> \<forall>op \<in> set ops. registers_within s m op \<Longrightarrow>
   registry_ok (foldl registry_step r ops) \<and> sessions_of (foldl registry_step r ops) s \<le> m"
proof (induction ops arbitrary: r)
  case Nil
  then show ?case by simp
next
  case (Cons op ops)
  then show ?case using registry_step_ok [of r op] sessions_of_step [of r s m op] by simp
qed

lemma own_op_within:
  assumes "caller pl inp d r = Inr e" "UserKeyStore_ok (sd_store d)" "own_op (ue_Subject e) (ue_MaxSessions e) op"
  shows "registers_within (TrimSpace s) (allowance (sd_store d) s) op"
  using caller_entitled(1) [OF assms(1,2)] caller_entitled(2) [OF assms(1,2), of s] assms(3) by (cases op) (auto simp: allowance_def)

lemma bounded_step:
  assumes "bounded_state store d" and "UserKeyStore_ok store"
  shows "bounded_state store (server_step pl cfg d op)"
proof (cases op)
  case (Serve inp path r)
  have store: "sd_store d = store" "UserKeyStore_ok (sd_store d)" using assms by (simp_all add: bounded_state_def)
  have same: "sd_store (fst (serve pl cfg inp d path r)) = store"
    using serve_identity [of d pl cfg inp path r] store by (simp add: same_identity_def)
  show ?thesis
  proof (cases "sd_agentRegistry (fst (serve pl cfg inp d path r)) = sd_agentRegistry d")
    case True
    then show ?thesis using assms(1) same Serve by (simp add: bounded_state_def)
  next
    case False
    then obtain e ops where e: "caller pl inp d r = Inr e"
      "sd_agentRegistry (fst (serve pl cfg inp d path r)) = foldl registry_step (sd_agentRegistry d) ops"
      "\<forall>op \<in> set ops. own_op (ue_Subject e) (ue_MaxSessions e) op"
      using serve_acts [of pl inp d r cfg path] by (auto simp: acts_for_caller_def acts_as_def)
    have "registry_ok (foldl registry_step (sd_agentRegistry d) ops) \<and>
        sessions_of (foldl registry_step (sd_agentRegistry d) ops) (TrimSpace s) \<le> allowance store s" for s
      using assms(1) e(3) own_op_within [OF e(1) store(2)] store(1)
      by (intro sessions_of_ops) (auto simp: bounded_state_def)
    then show ?thesis using same Serve e(2) by (simp add: bounded_state_def)
  qed
next
  case (CleanRound t1 t2 t3)
  then show ?thesis
    using assms(1) sessions_of_step [of "sd_agentRegistry d" _ _ "RegCleanup t3 (cfg_AgentHeartbeatTimeout cfg)"]
    by (simp add: bounded_state_def cleanup_round_def Cleanup_ok)
qed (use assms(1) in \<open>simp add: bounded_state_def\<close>)

lemma no_sessions: "sessions_of NewAgentRegistry s = 0"
  by (simp add: sessions_of_def NewAgentRegistry_def inner_def go_len_def)

lemma bounded_new:
  assumes "newServerDeps cfg store = Inr d" and "UserKeyStore_ok store"
  shows "bounded_state store d"
proof -
  have "0 \<le> allowance store s" for s
    using assms(2) LookupBySubject_Some [OF assms(2), of s]
    by (auto simp: allowance_def UserKeyStore_ok_def entitlement_ok_def split: option.split) force
  moreover have "sd_store d = store" "sd_agentRegistry d = NewAgentRegistry"
    using assms(1) by (auto simp: newServerDeps_def split: sum.splits)
  ultimately show ?thesis
    using NewAgentRegistry_ok by (simp add: bounded_state_def no_sessions)
qed

text \<open>
  C4: Over every history of requests, clean-ups and WebSocket traffic on a new server, a subject never
  has more sessions than the entitlement configured for it allows, and a subject without an
  entitlement has none.
\<close>

theorem server_session_limit:
  assumes "userkey_reachable sha store" and "newServerDeps cfg store = Inr d0"
  shows "sessions_of (sd_agentRegistry (foldl (server_step pl cfg) d0 ops)) (TrimSpace s) \<le>
    (case UserKeyStore_LookupBySubject store s of None \<Rightarrow> 0 | Some e \<Rightarrow> ue_MaxSessions e)"
proof -
  have ok: "UserKeyStore_ok store" using assms(1) by (rule userkey_reachable_ok)
  have "bounded_state store d \<Longrightarrow> bounded_state store (foldl (server_step pl cfg) d ops)" for d
    by (induction ops arbitrary: d) (simp_all add: bounded_step [OF _ ok])
  from this [OF bounded_new [OF assms(2) ok]] show ?thesis
    by (simp add: bounded_state_def allowance_def)
qed

theorem server_session_limit_witness:
  "sessions_of (sd_agentRegistry (foldl (server_step demo_platform demo_config) demo_deps
     [Serve (demo_inputs demo_start ''b'') ''/v1/agents'' demo_anonymous])) ''alice'' \<le> 2"
  using server_session_limit [OF demo_reachable demo_new, of demo_platform "[Serve (demo_inputs demo_start ''b'') ''/v1/agents'' demo_anonymous]" "''alice''"]
  by (simp add: demo_lookup)

section \<open>Refresh tokens rotate\<close>

text \<open>The bytes the operation draws do not make the refresh token \<open>raw\<close>, not even up to a collision of the hash.\<close>

fun fresh_draw :: "(string \<Rightarrow> string) \<Rightarrow> string \<Rightarrow> server_op \<Rightarrow> bool" where
  "fresh_draw sha raw (Serve inp path r) = (case RandomToken (in_bytes inp) of None \<Rightarrow> True
     | Some token \<Rightarrow> HashToken sha token \<noteq> HashToken sha (TrimSpace raw))"
| "fresh_draw sha raw _ = True"

definition spent :: "(string \<Rightarrow> string) \<Rightarrow> string \<Rightarrow> RefreshTokenStore \<Rightarrow> bool" where
  "spent sha raw s \<longleftrightarrow> wf_map s \<and> (\<forall>t. refresh_accepts sha s t raw = None)"

lemma wf_refresh_steps [inv_intros]: "wf_map s \<Longrightarrow> wf_map (foldl (refresh_step sha) s ops)"
  by (induction ops arbitrary: s) (simp_all add: wf_refresh_step)

lemma spent_refuses:
  assumes "spent sha raw s" and "TrimSpace raw2 = TrimSpace raw"
  shows "refresh_accepts sha s t raw2 = None"
proof -
  have "refresh_accepts sha s t raw2 = refresh_accepts sha s t raw"
    using assms(2) by (simp add: refresh_accepts_unfold)
  then show ?thesis using assms(1) by (simp add: spent_def)
qed

lemma spent_ops:
  assumes "spent sha raw s" and "\<forall>op \<in> set ops. draws_only (in_bytes inp) op" and "fresh_draw sha raw (Serve inp path r)"
  shows "spent sha raw (foldl (refresh_step sha) s ops)"
proof -
  have "\<not> refresh_issues sha op raw" if "op \<in> set ops" for op
    using assms(2,3) that by (cases op) (auto split: option.splits)
  then have "refresh.never_issued sha s ops raw" by (intro refresh_never_issued) blast
  then have "refresh_accepts sha (foldl (refresh_step sha) s ops) t raw = None" for t
    using assms(1) by (intro refresh.stays_dead) (simp_all add: spent_def)
  moreover have "wf_map (foldl (refresh_step sha) s ops)"
    using assms(1) by (simp add: spent_def wf_refresh_steps)
  ultimately show ?thesis by (simp add: spent_def)
qed

lemma spent_step:
  assumes "spent (pl_sha pl) raw (sd_refreshStore d)" and "fresh_draw (pl_sha pl) raw op"
  shows "spent (pl_sha pl) raw (sd_refreshStore (server_step pl cfg d op))"
proof (cases op)
  case (Serve inp path r)
  then show ?thesis
    using serve_refreshes [of pl inp d cfg path r] spent_ops [OF assms(1), of _ inp path r] assms(2)
    by (auto simp: req_refreshes_def refreshes_def)
next
  case (CleanRound t1 t2 t3)
  have "spent (pl_sha pl) raw (foldl (refresh_step (pl_sha pl)) (sd_refreshStore d) [RefreshCleanup t1])"
    by (rule spent_ops [OF assms(1), of _ "\<lparr>in_clk = \<lambda>_. 0, in_jti = [], in_bytes = None, in_draws = [], in_peer = 0, in_pick = \<lambda>_. False\<rparr>"])
       (simp_all add: RandomToken_def)
  then show ?thesis using CleanRound by (simp add: cleanup_round_def)
qed (use assms(1) in simp)

lemma spent_run:
  "spent (pl_sha pl) raw (sd_refreshStore d) \<Longrightarrow> \<forall>op \<in> set ops. fresh_draw (pl_sha pl) raw op \<Longrightarrow>
   spent (pl_sha pl) raw (sd_refreshStore (foldl (server_step pl cfg) d ops))"
  by (induction ops arbitrary: d) (simp_all add: spent_step)

lemma refresh_success:
  assumes "handleAuthRefresh pl cfg inp d r = (d1, resp)" and "rs_Status resp = 200"
    and "decodeJSON decode_RefreshAuthRequest r (32 * 1024) = Some body"
  shows "\<exists>d0 t t' s m enc. sd_refreshStore d0 =
      refresh_step (pl_sha pl) (sd_refreshStore d) (RefreshConsume (in_clk inp 2) (fq_RefreshToken body))
    \<and> d1 = fst (tokens_response pl cfg inp t t' d0 s m enc)"
proof -
  obtain subject e where peek:
      "RefreshTokenStore_Peek (pl_sha pl) (in_clk inp 0) (sd_refreshStore d) (fq_RefreshToken body) = Inr subject"
      "UserKeyStore_LookupBySubject (sd_store d) subject = Some e" "isEntitlementUsable (in_clk inp 1) e"
    and posted: "req_Method r = ''POST''"
    using assms by (auto simp: handleAuthRefresh_def requireMethod_def with_body_def unauthorized_def
        split: if_splits sum.splits option.splits)
  obtain store res where c: "RefreshTokenStore_Consume (pl_sha pl) (in_clk inp 2) (sd_refreshStore d) (fq_RefreshToken body) = (store, res)"
    by fastforce
  have "res = Inr subject"
    using assms peek posted c by (auto simp: handleAuthRefresh_def with_body_def unauthorized_def Let_def
        split: if_splits sum.splits)
  then have "handleAuthRefresh pl cfg inp d r = tokens_response pl cfg inp (in_clk inp 3) (in_clk inp 4)
      (d\<lparr>sd_refreshStore := store\<rparr>) subject (ue_MaxSessions e) (\<lambda>out. RefreshAuthResponse_json (RefreshAuthResponse_of out))"
    using assms(3) peek posted c by (simp add: handleAuthRefresh_def with_body_def)
  then have "d1 = fst (tokens_response pl cfg inp (in_clk inp 3) (in_clk inp 4) (d\<lparr>sd_refreshStore := store\<rparr>) subject
      (ue_MaxSessions e) (\<lambda>out. RefreshAuthResponse_json (RefreshAuthResponse_of out)))"
    using assms(1) by (metis fst_conv)
  moreover have "sd_refreshStore (d\<lparr>sd_refreshStore := store\<rparr>) =
      refresh_step (pl_sha pl) (sd_refreshStore d) (RefreshConsume (in_clk inp 2) (fq_RefreshToken body))"
    using c by simp
  ultimately show ?thesis by blast
qed

text \<open>
  C5: Refresh tokens rotate: once a refresh request has been answered with new tokens, its refresh
  token is worth nothing. After any further history, every request that presents it again is
  refused with 401, unless the random source has produced a token with the same hash.
\<close>

theorem refresh_rotation:
  assumes "wf_map (sd_refreshStore d)" and "serve pl cfg inp d ''/v1/auth/refresh'' r = (d1, resp)" "rs_Status resp = 200"
    and "decodeJSON decode_RefreshAuthRequest r (32 * 1024) = Some body"
    and "\<forall>op \<in> set (Serve inp ''/v1/auth/refresh'' r # ops). fresh_draw (pl_sha pl) (fq_RefreshToken body) op"
    and "decodeJSON decode_RefreshAuthRequest r2 (32 * 1024) = Some body2" "req_Method r2 = ''POST''"
    and "TrimSpace (fq_RefreshToken body2) = TrimSpace (fq_RefreshToken body)"
  shows "rs_Status (snd (serve pl cfg inp2 (foldl (server_step pl cfg) d1 ops) ''/v1/auth/refresh'' r2)) = 401"
proof -
  let ?raw = "fq_RefreshToken body" and ?sha = "pl_sha pl"
  have route: "serve pl cfg inp d ''/v1/auth/refresh'' r = (case handleAuthRefresh pl cfg inp d r of (d', resp) \<Rightarrow> (d', withSecurityHeaders resp))"
    for inp d r by (simp add: serve_def registerRoutes_def)
  obtain resp0 where "handleAuthRefresh pl cfg inp d r = (d1, resp0)" "rs_Status resp0 = 200"
    using assms(2,3) by (auto simp: route split: prod.splits)
  from refresh_success [OF this assms(4)] obtain d0 t t' s m enc where d0: "sd_refreshStore d0 =
      refresh_step ?sha (sd_refreshStore d) (RefreshConsume (in_clk inp 2) ?raw)"
    "d1 = fst (tokens_response pl cfg inp t t' d0 s m enc)"
    by blast
  have "spent ?sha ?raw (sd_refreshStore d0)"
    unfolding d0(1) spent_def using assms(1) refresh.consumed wf_refresh_step by blast
  then have "spent ?sha ?raw (sd_refreshStore d1)"
    using tokens_refreshes [of pl inp d0 cfg t t' s m enc] assms(5) spent_ops [of ?sha ?raw "sd_refreshStore d0" _ inp]
    by (auto simp: d0(2) refreshes_def)
  then have "spent ?sha ?raw (sd_refreshStore (foldl (server_step pl cfg) d1 ops))"
    using assms(5) by (intro spent_run) simp_all
  then have "refresh_accepts ?sha (sd_refreshStore (foldl (server_step pl cfg) d1 ops)) (in_clk inp2 0) (fq_RefreshToken body2) = None"
    using assms(8) by (rule spent_refuses)
  then show ?thesis
    using assms(6,7) by (auto simp: route handleAuthRefresh_def with_body_def refresh_accepts_def unauthorized_def split: sum.splits)
qed

lemma demo_refreshes:
  "rs_Status (snd (serve demo_platform demo_config (demo_inputs demo_start ''c'') demo_logged_in ''/v1/auth/refresh'' demo_refresh)) = 200"
proof -
  let ?s = "fst (RefreshTokenStore_Issue rev demo_start (Some ''b'') [] ''alice'' Hour)"
  have "RefreshTokenStore_Peek rev demo_start ?s ''Yg'' = Inr ''alice''" by code_simp
  moreover from this obtain s where "RefreshTokenStore_Consume rev demo_start ?s ''Yg'' = (s, Inr ''alice'')"
    by (metis Consume_as_Peek prod.collapse)
  moreover have "req_Method demo_refresh = ''POST''" by (simp add: demo_refresh_def)
  moreover have "fq_RefreshToken demo_refresh_body = ''Yg''" by (simp add: demo_refresh_body_def)
  ultimately have "rs_Status (snd (handleAuthRefresh demo_platform demo_config (demo_inputs demo_start ''c'') demo_logged_in demo_refresh)) = 200"
    by (simp add: handleAuthRefresh_def with_body_def demo_refresh_decodes [simplified] demo_logged_in_def demo_lookup
        demo_usable demo_tokens)
  then show ?thesis by (auto simp: serve_def registerRoutes_def split: prod.splits)
qed

theorem refresh_rotation_witness:
  "rs_Status (snd (serve demo_platform demo_config (demo_inputs demo_start ''d'')
     (fst (serve demo_platform demo_config (demo_inputs demo_start ''c'') demo_logged_in ''/v1/auth/refresh'' demo_refresh))
     ''/v1/auth/refresh'' demo_refresh)) = 401"
proof -
  have "wf_map (sd_refreshStore demo_logged_in)"
    using wf_refresh_step [of "[]" rev "RefreshIssue demo_start (Some ''b'') ''alice'' Hour"]
    by (simp add: demo_logged_in_def)
  moreover have "req_Method demo_refresh = ''POST''" by (simp add: demo_refresh_def)
  moreover have "HashToken rev (RawURL_Encode ''c'') \<noteq> HashToken rev (TrimSpace ''Yg'')"
    by code_simp
  then have "\<forall>op \<in> set [Serve (demo_inputs demo_start ''c'') ''/v1/auth/refresh'' demo_refresh].
      fresh_draw (pl_sha demo_platform) (fq_RefreshToken demo_refresh_body) op"
    by (simp add: demo_refresh_body_def RandomToken_def)
  ultimately show ?thesis
    using refresh_rotation [OF _ prod.collapse [symmetric] demo_refreshes demo_refresh_decodes, of "[]", OF _ _ demo_refresh_decodes]
    by simp
qed

end
