(* ===== verification/Control_Server_Access.thy ===== *)
theory Control_Server_Access
  imports Control_Server_Props Go_Ascii
begin

text \<open>
  Two properties that follow a client through the server: the access token of an exchange is accepted
  by every later request for as long as promised, and a failed connect leaves no session behind.
\<close>

section \<open>From the exchange to authenticated requests\<close>

lemma serve_route:
  assumes "map_of (registerRoutes pl) path = Some h" and "serve pl cfg inp d path r = (d1, resp)"
  obtains resp0 where "h cfg inp d r = (d1, resp0)" "rs_Status resp = rs_Status resp0" "rs_Body resp = rs_Body resp0"
  using assms by (auto simp: serve_def split: prod.splits)

lemma tokens_success:
  assumes "tokens_response pl cfg inp t t' d s m enc = (d1, resp)" and "rs_Status resp = 200"
  obtains out ends bytes where
    "issueSignedToken (pl_hmac pl) t (in_jti inp) (cfg_GrantHMACSecret cfg) (cfg_GrantIssuer cfg) (cfg_AccessAudience cfg)
       (cfg_AccessTTL cfg) \<lparr>to_Subject = s, to_MaxSessions = m, to_Role = [], to_SessionID = []\<rparr>
     = Inr (xr_AccessToken out, ends)"
    "resp = writeJSON 200 (enc out)" "printable max_depth (ExchangeAuthResponse_json out)"
    "in_bytes inp = Some (bytes :: string)" "xr_RefreshToken out = RawURL_Encode bytes"
proof -
  obtain access ends bytes rends where raw:
    "issueSignedToken (pl_hmac pl) t (in_jti inp) (cfg_GrantHMACSecret cfg) (cfg_GrantIssuer cfg) (cfg_AccessAudience cfg)
       (cfg_AccessTTL cfg) \<lparr>to_Subject = s, to_MaxSessions = m, to_Role = [], to_SessionID = []\<rparr> = Inr (access, ends)"
    "resp = writeJSON 200 (enc \<lparr>xr_AccessToken = access, xr_AccessTokenExpiresAt = Format_RFC3339 ends,
       xr_RefreshToken = RawURL_Encode bytes, xr_RefreshTokenExpiresAt = Format_RFC3339 rends\<rparr>)"
    "in_bytes inp = Some bytes"
    using assms by (auto simp: tokens_response_def issueAuthTokens_def RefreshTokenStore_Issue_def RandomToken_def Let_def
        split: prod.splits sum.splits if_splits option.splits)
  define out :: ExchangeAuthResponse where "out = \<lparr>xr_AccessToken = access, xr_AccessTokenExpiresAt = Format_RFC3339 ends,
       xr_RefreshToken = RawURL_Encode bytes, xr_RefreshTokenExpiresAt = Format_RFC3339 rends\<rparr>"
  have issued: "issueSignedToken (pl_hmac pl) t (in_jti inp) (cfg_GrantHMACSecret cfg) (cfg_GrantIssuer cfg)
       (cfg_AccessAudience cfg) (cfg_AccessTTL cfg) \<lparr>to_Subject = s, to_MaxSessions = m, to_Role = [], to_SessionID = []\<rparr>
       = Inr (xr_AccessToken out, ends)"
    "resp = writeJSON 200 (enc out)" "xr_RefreshToken out = RawURL_Encode bytes"
    "xr_AccessTokenExpiresAt out = Format_RFC3339 ends" "xr_RefreshTokenExpiresAt out = Format_RFC3339 rends"
    unfolding out_def by (simp_all add: raw(1,2))
  have "ascii (xr_AccessToken out)"
    using issued(1) SignHS256_solid
    by (fastforce simp: issueSignedToken_def ascii_def solid_def Let_def split: sum.splits)
  moreover have "ascii (RawURL_Encode bytes)"
    using RawURL_safe by (auto simp: ascii_def)
  ultimately have "printable max_depth (ExchangeAuthResponse_json out)"
    using issued(3-) by (simp add: ExchangeAuthResponse_json_def max_depth_def ascii_Format ord_def)
  then show ?thesis using issued raw(3) by (intro that)
qed

lemma exchange_success:
  assumes "handleAuthExchange pl cfg inp d r = (d1, resp)" and "rs_Status resp = 200"
    and "decodeJSON decode_ExchangeAuthRequest r (32 * 1024) = Some body"
  obtains d' e where "UserKeyStore_Lookup (pl_sha pl) (sd_store d) (xq_UserKey body) = Some e"
    "tokens_response pl cfg inp (in_clk inp 3) (in_clk inp 4) d' (ue_Subject e) (ue_MaxSessions e) ExchangeAuthResponse_json
      = (d1, resp)"
proof -
  obtain d' res where allow: "allowCredentialAuth (in_clk inp 0) d r = (d', res)" by fastforce
  have "req_Method r = ''POST''"
    using assms(1,2) by (cases "req_Method r = ''POST''") (auto simp: handleAuthExchange_def)
  then have "res = None"
    using assms allow by (auto simp: handleAuthExchange_def with_body_def allowCredentialAuth_def Let_def split: prod.splits if_splits)
  with \<open>req_Method r = ''POST''\<close> show ?thesis
    using assms allow allow_parts(1) [OF allow] that
    by (auto simp: handleAuthExchange_def with_body_def unauthorized_def Let_def split: option.splits if_splits)
qed

lemma identity_run: "same_identity d (foldl (server_step pl cfg) d ops)"
proof (induction ops arbitrary: d)
  case Nil
  then show ?case by simp
next
  case (Cons op ops)
  have "same_identity d (server_step pl cfg d op)"
    by (cases op) (simp_all add: serve_identity, simp_all add: same_identity_def cleanup_round_def)
  with Cons.IH [of "server_step pl cfg d op"] show ?case by (simp add: same_identity_def)
qed

lemma caller_with_token:
  assumes "Header_Get r ''Authorization'' = ''Bearer '' @ token" and "SignHS256 hmac secret m = Inr token"
  shows "validateAccessRequest hmac v now r = (case Validate hmac v now token of Inl e \<Rightarrow> Inl (InvalidToken e) | Inr c \<Rightarrow> Inr c)"
  using SignHS256_solid [OF assms(2)] bearerToken_header [OF assms(1)] by (simp add: validateAccessRequest_def Let_def)

lemma stored_entitlement:
  assumes "UserKeyStore_ok store" and "UserKeyStore_Lookup sha store k = Some e"
  shows "TrimSpace (ue_Subject e) = ue_Subject e" "ue_Subject e \<noteq> []"
    "UserKeyStore_LookupBySubject store (ue_Subject e) = Some e"
proof -
  have e: "go_get (us_items store) (HashUserKey sha (TrimSpace k)) = Some e" using assms(2) by (simp add: UserKeyStore_Lookup_def)
  then show s: "TrimSpace (ue_Subject e) = ue_Subject e" "ue_Subject e \<noteq> []"
    using assms(1) by (auto simp: UserKeyStore_ok_def entitlement_ok_def TrimSpace_id)
  show "UserKeyStore_LookupBySubject store (ue_Subject e) = Some e"
    using LookupBySubject_Some [OF assms(1), of "ue_Subject e" e] e s by auto
qed

text \<open>Who presents a token that the server has issued for the access audience is its subject.\<close>

lemma issued_token_caller:
  assumes "issueSignedToken (pl_hmac pl) issued jti (cfg_GrantHMACSecret cfg) (cfg_GrantIssuer cfg) (cfg_AccessAudience cfg) ttl
      \<lparr>to_Subject = ue_Subject e, to_MaxSessions = m, to_Role = [], to_SessionID = []\<rparr> = Inr (token, ends)"
    and "NewValidator (cfg_GrantHMACSecret cfg) (cfg_GrantIssuer cfg) (cfg_AccessAudience cfg) = Inr (sd_accessValidator d)"
    and "TrimSpace (ue_Subject e) = ue_Subject e" "ue_Subject e \<noteq> []"
    and "UserKeyStore_LookupBySubject (sd_store d) (ue_Subject e) = Some e"
    and "ascii (ue_Subject e)" "in_int64 m" "ascii jti" "TrimSpace jti \<noteq> []"
    and "ascii (cfg_GrantIssuer cfg)" "ascii (cfg_AccessAudience cfg)" "TrimSpace (cfg_AccessAudience cfg) \<noteq> []"
    and "clock_time issued" "clock_time (issued + ttl)"
    and "Header_Get r ''Authorization'' = ''Bearer '' @ token"
  shows "caller pl inp d r = Inr e \<longleftrightarrow> issued div Second * Second - 30 * Second \<le> in_clk inp 0
    \<and> in_clk inp 0 \<le> (issued + ttl) div Second * Second + 30 * Second \<and> isEntitlementUsable (in_clk inp 1) e"
proof -
  have ends: "ends = issued + ttl"
    using assms(1) by (auto simp: issueSignedToken_def Let_def split: sum.splits)
  obtain claims where sign: "SignHS256 (pl_hmac pl) (cfg_GrantHMACSecret cfg) claims = Inr token"
    using assms(1) by (auto simp: issueSignedToken_def Let_def split: sum.splits)
  have valid: "Validate (pl_hmac pl) (sd_accessValidator d) t token =
      (if (issued + ttl) div Second * Second + 30 * Second < t then Inl ErrExpired
       else if t < issued div Second * Second - 30 * Second then Inl ErrNotYetValid
       else Inr (issued_claims issued (issued + ttl) jti (cfg_GrantIssuer cfg) (cfg_AccessAudience cfg)
         \<lparr>to_Subject = ue_Subject e, to_MaxSessions = m, to_Role = [], to_SessionID = []\<rparr>))" for t
    using ends assms(3,4,6-14)
    by (subst issued_token_valid [OF assms(1,2), THEN conjunct2]) (simp_all add: ascii_def)
  show ?thesis
    unfolding caller_def validateEntitlement_def caller_with_token [OF assms(15) sign] valid
    using assms(3-5) by (auto simp: issued_claims_def)
qed

text \<open>The two sides of an exchange: the response, and who presents its access token later.\<close>

lemma exchange_issues:
  assumes "userkey_reachable sha store" "newServerDeps cfg store = Inr d0" "d = foldl (server_step pl cfg) d0 before"
    and "serve pl cfg inp d ''/v1/auth/exchange'' r = (d1, resp)" "rs_Status resp = 200"
    and "decodeJSON decode_ExchangeAuthRequest r (32 * 1024) = Some body"
    and "\<And>e. UserKeyStore_Lookup (pl_sha pl) store (xq_UserKey body) = Some e \<Longrightarrow> ascii (ue_Subject e) \<and> in_int64 (ue_MaxSessions e)"
    and "ascii (in_jti inp)" "TrimSpace (in_jti inp) \<noteq> []"
    and "ascii (cfg_GrantIssuer cfg)" "ascii (cfg_AccessAudience cfg)" "TrimSpace (cfg_AccessAudience cfg) \<noteq> []"
    and "issued = in_clk inp 3" "clock_time issued" "clock_time (issued + cfg_AccessTTL cfg)"
  obtains e out bytes where "UserKeyStore_Lookup (pl_sha pl) store (xq_UserKey body) = Some e"
    "rs_Body resp = print_json (ExchangeAuthResponse_json out) @ newline" "printable max_depth (ExchangeAuthResponse_json out)"
    "xr_AccessToken out \<noteq> []" "\<forall>c \<in> set (xr_AccessToken out). solid c"
    "in_bytes inp = Some (bytes :: string)" "xr_RefreshToken out = RawURL_Encode bytes"
    "\<And>ops inp2 r2. Header_Get r2 ''Authorization'' = ''Bearer '' @ xr_AccessToken out \<Longrightarrow>
        caller pl inp2 (foldl (server_step pl cfg) d1 ops) r2 = Inr e \<longleftrightarrow>
           issued div Second * Second - 30 * Second \<le> in_clk inp2 0
           \<and> in_clk inp2 0 \<le> (issued + cfg_AccessTTL cfg) div Second * Second + 30 * Second
           \<and> isEntitlementUsable (in_clk inp2 1) e"
proof -
  have ok: "UserKeyStore_ok store" using assms(1) by (rule userkey_reachable_ok)
  obtain v where v: "NewValidator (cfg_GrantHMACSecret cfg) (cfg_GrantIssuer cfg) (cfg_AccessAudience cfg) = Inr v"
    and d0: "sd_accessValidator d0 = v" "sd_store d0 = store"
    using assms(2) by (auto simp: newServerDeps_def split: sum.splits)
  have d: "sd_accessValidator d = v" "sd_store d = store"
    using identity_run [of d0 pl cfg before] assms(3) d0 by (simp_all add: same_identity_def)
  have "map_of (registerRoutes pl) ''/v1/auth/exchange'' = Some (handleAuthExchange pl)"
    by (simp add: registerRoutes_def)
  from serve_route [OF this assms(4)] obtain resp0 where resp0: "handleAuthExchange pl cfg inp d r = (d1, resp0)"
    "rs_Status resp0 = 200" "rs_Body resp = rs_Body resp0"
    using assms(5) by metis
  obtain d' e where e: "UserKeyStore_Lookup (pl_sha pl) store (xq_UserKey body) = Some e"
    and issue: "tokens_response pl cfg inp (in_clk inp 3) (in_clk inp 4) d' (ue_Subject e) (ue_MaxSessions e)
      ExchangeAuthResponse_json = (d1, resp0)"
    using exchange_success [OF resp0(1,2) assms(6)] d(2) by metis
  from tokens_success [OF issue resp0(2)] obtain out ends bytes where
    token: "issueSignedToken (pl_hmac pl) (in_clk inp 3) (in_jti inp) (cfg_GrantHMACSecret cfg) (cfg_GrantIssuer cfg)
        (cfg_AccessAudience cfg) (cfg_AccessTTL cfg)
        \<lparr>to_Subject = ue_Subject e, to_MaxSessions = ue_MaxSessions e, to_Role = [], to_SessionID = []\<rparr>
      = Inr (xr_AccessToken out, ends)"
    and out: "resp0 = writeJSON 200 (ExchangeAuthResponse_json out)" "printable max_depth (ExchangeAuthResponse_json out)"
      "in_bytes inp = Some bytes" "xr_RefreshToken out = RawURL_Encode bytes"
    by metis
  have run: "sd_accessValidator (foldl (server_step pl cfg) d1 ops) = v" "sd_store (foldl (server_step pl cfg) d1 ops) = store" for ops
    using identity_run [of d1 pl cfg ops] serve_identity [of d pl cfg inp "''/v1/auth/exchange''" r] assms(4) d
    by (simp_all add: same_identity_def)
  have solid: "xr_AccessToken out \<noteq> []" "\<forall>c \<in> set (xr_AccessToken out). solid c"
    using token SignHS256_solid by (auto simp: issueSignedToken_def Let_def split: sum.splits)
  show ?thesis
  proof (rule that [OF e _ out(2) solid out(3,4)])
    fix ops inp2 r2 assume "Header_Get r2 ''Authorization'' = ''Bearer '' @ xr_AccessToken out"
    then show "caller pl inp2 (foldl (server_step pl cfg) d1 ops) r2 = Inr e \<longleftrightarrow>
         issued div Second * Second - 30 * Second \<le> in_clk inp2 0
         \<and> in_clk inp2 0 \<le> (issued + cfg_AccessTTL cfg) div Second * Second + 30 * Second
         \<and> isEntitlementUsable (in_clk inp2 1) e"
      using assms(7) [OF e] assms(8-12,14,15) stored_entitlement [OF ok e] run v
      by (intro issued_token_caller [OF token [folded assms(13)]]) simp_all
  qed (use resp0(3) out(1) in simp)
qed

text \<open>
  A client that has exchanged a user key can use the server: after any further history, a request
  with the access token of the response is a request of the key's entitlement exactly while the
  token is within its life time (up to the clock skew) and the entitlement is usable.
\<close>

theorem exchange_then_access:
  assumes "userkey_reachable sha store" "newServerDeps cfg store = Inr d0" "d = foldl (server_step pl cfg) d0 before"
    and "serve pl cfg inp d ''/v1/auth/exchange'' r = (d1, resp)" "rs_Status resp = 200"
    and "decodeJSON decode_ExchangeAuthRequest r (32 * 1024) = Some body"
    and "UserKeyStore_Lookup (pl_sha pl) store (xq_UserKey body) = Some e"
    and "ascii (ue_Subject e)" "in_int64 (ue_MaxSessions e)" "ascii (in_jti inp)" "TrimSpace (in_jti inp) \<noteq> []"
    and "ascii (cfg_GrantIssuer cfg)" "ascii (cfg_AccessAudience cfg)" "TrimSpace (cfg_AccessAudience cfg) \<noteq> []"
    and "issued = in_clk inp 3" "clock_time issued" "clock_time (issued + cfg_AccessTTL cfg)"
  shows "\<exists>out. rs_Body resp = print_json (ExchangeAuthResponse_json out) @ newline
    \<and> (\<forall>ops inp2 r2. Header_Get r2 ''Authorization'' = ''Bearer '' @ xr_AccessToken out \<longrightarrow>
        (caller pl inp2 (foldl (server_step pl cfg) d1 ops) r2 = Inr e \<longleftrightarrow>
           issued div Second * Second - 30 * Second \<le> in_clk inp2 0
           \<and> in_clk inp2 0 \<le> (issued + cfg_AccessTTL cfg) div Second * Second + 30 * Second
           \<and> isEntitlementUsable (in_clk inp2 1) e))"
proof -
  have names: "ascii (ue_Subject e') \<and> in_int64 (ue_MaxSessions e')"
    if "UserKeyStore_Lookup (pl_sha pl) store (xq_UserKey body) = Some e'" for e'
    using that assms(7-9) by simp
  show ?thesis
  proof (rule exchange_issues [OF assms(1-6) names assms(10-17)])
    fix e' out
    assume "UserKeyStore_Lookup (pl_sha pl) store (xq_UserKey body) = Some e'"
      and out: "rs_Body resp = print_json (ExchangeAuthResponse_json out) @ newline"
      and use: "\<And>ops inp2 r2. Header_Get r2 ''Authorization'' = ''Bearer '' @ xr_AccessToken out \<Longrightarrow>
        caller pl inp2 (foldl (server_step pl cfg) d1 ops) r2 = Inr e' \<longleftrightarrow>
           issued div Second * Second - 30 * Second \<le> in_clk inp2 0
           \<and> in_clk inp2 0 \<le> (issued + cfg_AccessTTL cfg) div Second * Second + 30 * Second
           \<and> isEntitlementUsable (in_clk inp2 1) e'"
    moreover from this have "e' = e" using assms(7) by simp
    ultimately show ?thesis using out use by (intro exI [of _ out] conjI allI impI) simp_all
  qed
qed

definition demo_bearer_request :: "string \<Rightarrow> Request" where
  "demo_bearer_request token = demo_request ''GET'' [(''Authorization'', ''Bearer '' @ token)] []"

theorem exchange_then_access_witness:
  "\<exists>token d1. caller demo_platform (demo_inputs (demo_start + Minute) ''x'') d1 (demo_bearer_request token) = Inr demo_holder"
proof -
  let ?inp = "demo_inputs demo_start ''b''"
  obtain d1 resp where serve: "serve demo_platform demo_config ?inp demo_deps ''/v1/auth/exchange'' demo_exchange
      = (d1, resp)" "rs_Status resp = 200"
    using demo_exchanges by (metis prod.collapse)
  have new: "demo_deps = foldl (server_step demo_platform demo_config) demo_deps []" by simp
  have entitled: "UserKeyStore_Lookup (pl_sha demo_platform) demo_seeded (xq_UserKey \<lparr>xq_UserKey = ''k1''\<rparr>) = Some demo_holder"
    by (simp add: demo_lookup)
  have names: "ascii (ue_Subject demo_holder)" "in_int64 (ue_MaxSessions demo_holder)" "ascii (in_jti ?inp)"
    "TrimSpace (in_jti ?inp) \<noteq> []" "ascii (cfg_GrantIssuer demo_config)" "ascii (cfg_AccessAudience demo_config)"
    "TrimSpace (cfg_AccessAudience demo_config) \<noteq> []"
    by (simp_all add: ascii_literal ord_def in_int64_def min_int64_def max_int64_def)
  have clocks: "demo_start = in_clk ?inp 3" "clock_time demo_start" "clock_time (demo_start + cfg_AccessTTL demo_config)"
    by (simp_all add: clock_time_def demo_start_def)
  obtain out :: ExchangeAuthResponse where out: "\<forall>ops inp2 r2. Header_Get r2 ''Authorization'' = ''Bearer '' @ xr_AccessToken out \<longrightarrow>
        (caller demo_platform inp2 (foldl (server_step demo_platform demo_config) d1 ops) r2 = Inr demo_holder \<longleftrightarrow>
           demo_start div Second * Second - 30 * Second \<le> in_clk inp2 0
           \<and> in_clk inp2 0 \<le> (demo_start + cfg_AccessTTL demo_config) div Second * Second + 30 * Second
           \<and> isEntitlementUsable (in_clk inp2 1) demo_holder)"
    using exchange_then_access [OF demo_reachable demo_new new serve demo_exchange_body entitled names clocks]
    by (elim exE conjE) (rule that)
  from out [rule_format, of "demo_bearer_request (xr_AccessToken out)" "demo_inputs (demo_start + Minute) ''x''" "[]"]
  have "caller demo_platform (demo_inputs (demo_start + Minute) ''x'') d1 (demo_bearer_request (xr_AccessToken out)) = Inr demo_holder"
    by (simp add: demo_bearer_request_def Header_Get_def go_get_def demo_usable demo_start_def)
  then show ?thesis by blast
qed

section \<open>A connect leaves a session or none\<close>

text \<open>The same sessions are registered, whatever has changed in them.\<close>

definition same_sessions :: "AgentRegistry \<Rightarrow> AgentRegistry \<Rightarrow> bool" where
  "same_sessions r r' \<longleftrightarrow> (\<forall>s i. (session r' s i = None) = (session r s i = None))"

lemma same_sessions_refl [simp]: "same_sessions r r"
  by (simp add: same_sessions_def)

lemma UpsertLimited_failed:
  assumes "AgentRegistry_UpsertLimited now r s i l t m = (r', Inl e)"
  shows "same_sessions r r'"
  using assms by (cases rule: UpsertLimited_cases [of now r s i l t m]) (auto simp: same_sessions_def)

lemma UpsertLimited_undone:
  assumes "AgentRegistry_UpsertLimited now (sd_agentRegistry d) s i l t m = (r', Inr (item, created))"
    and "TrimSpace s = s" "TrimSpace i = i" "d1 = d\<lparr>sd_agentRegistry := r'\<rparr>"
  shows "same_sessions (sd_agentRegistry d) (sd_agentRegistry (undo_created created d1 s i))" (is ?undone)
    and "session r' s i = Some item" (is ?stored)
proof -
  have "?undone \<and> ?stored"
    using assms
  proof (cases rule: UpsertLimited_cases [of now "sd_agentRegistry d" s i l t m])
    case (stored u)
    have u: "up_subject u = s" "up_sessionID u = i" "s \<noteq> []" "i \<noteq> []"
      using update_of_fields [OF stored(1)] assms(2,3) by metis+
    have r': "r' = with_session (sd_agentRegistry d) s i item" "created = (session (sd_agentRegistry d) s i = None)"
      using stored(5) assms(1) unfolding u(1,2) by simp_all
    show ?thesis
      using u(3,4) assms(2-4) by (auto simp: r' same_sessions_def undo_created_def AgentRegistry_Remove_def remove_session_eq)
  qed simp_all
  then show ?undone ?stored by simp_all
qed

definition connected :: "platform \<Rightarrow> config \<Rightarrow> inputs \<Rightarrow> serverDeps \<Rightarrow> Request \<Rightarrow> UserEntitlement \<Rightarrow> string \<Rightarrow> string \<Rightarrow> bool" where
  "connected pl cfg inp d r e i reply \<longleftrightarrow> i \<noteq> [] \<and> session (sd_agentRegistry d) (ue_Subject e) i \<noteq> None
     \<and> (\<exists>out ends ice. reply = print_json (AgentConnectResponse_json out) @ newline
          \<and> signal_token pl cfg inp (in_clk inp 3) e SignalRoleAgent i = Inr (cr_SignalToken out, ends)
          \<and> issueICE pl cfg (ue_Subject e) = Inr ice
          \<and> out = \<lparr>cr_SessionID = i, cr_SignalURL = MakeSignalURLWithBaseURL (Some r) (cfg_ExternalBaseURL cfg),
               cr_SignalToken = cr_SignalToken out, cr_ICEServers = ice, cr_ICEPolicy = ICEPolicyAll,
               cr_ExpiresAt = Format_RFC3339 ends\<rparr>)"

lemma connect_authorised:
  assumes "UserKeyStore_ok (sd_store d)" and "handleAgentConnect pl cfg inp d r = (d1, resp)"
    and "req_Method r = ''POST''" "caller pl inp d r = Inr e"
    and "decodeJSON decode_AgentConnectRequest r (16 * 1024) = Some body"
  shows "if rs_Status resp = 200 then connected pl cfg inp d1 r e (TrimSpace (cq_SessionID body)) (rs_Body resp)
    else same_sessions (sd_agentRegistry d) (sd_agentRegistry d1)"
proof -
  let ?id = "TrimSpace (cq_SessionID body)" and ?s = "ue_Subject e"
  note trims = caller_entitled(1) [OF assms(4,1)] TrimSpace_idem [of "cq_SessionID body"]
  obtain r' res where up: "AgentRegistry_UpsertLimited (in_clk inp 2) (sd_agentRegistry d) ?s ?id (cq_AgentLabel body)
      TransportWebRTCTURN (ue_MaxSessions e) = (r', res)" by fastforce
  show ?thesis
  proof (cases res)
    case (Inl err)
    then show ?thesis
      using assms(2-5) up UpsertLimited_failed [of "in_clk inp 2" "sd_agentRegistry d" ?s ?id]
      by (auto simp: handleAgentConnect_def connected_def authenticated_def caller_def with_body_def writeAgentRegistryError_def
          registry_status_def Let_def split: if_splits)
  next
    case (Inr x)
    obtain item created where x: "x = (item, created)" by fastforce
    note undone = UpsertLimited_undone [OF up [unfolded Inr x] trims refl]
    show ?thesis
      using assms(2-5) up Inr x undone
      by (auto simp: handleAgentConnect_def connected_def authenticated_def caller_def with_body_def Let_def
          split: if_splits sum.splits prod.splits)
  qed
qed

lemma connect_outcome:
  assumes "UserKeyStore_ok (sd_store d)" and "serve pl cfg inp d ''/v1/agents/connect'' r = (d1, resp)"
  shows "if rs_Status resp = 200
    then \<exists>e body. caller pl inp d r = Inr e
      \<and> decodeJSON decode_AgentConnectRequest r (16 * 1024) = Some body
      \<and> connected pl cfg inp d1 r e (TrimSpace (cq_SessionID body)) (rs_Body resp)
    else same_sessions (sd_agentRegistry d) (sd_agentRegistry d1)"
proof -
  have "map_of (registerRoutes pl) ''/v1/agents/connect'' = Some (handleAgentConnect pl)"
    by (simp add: registerRoutes_def)
  from serve_route [OF this assms(2)] obtain resp0 where h: "handleAgentConnect pl cfg inp d r = (d1, resp0)"
    "rs_Status resp = rs_Status resp0" "rs_Body resp = rs_Body resp0" by metis
  show ?thesis
  proof (cases "req_Method r = ''POST''")
    case False
    then show ?thesis using h by (auto simp: handleAgentConnect_def authenticated_def)
  next
    case posted: True
    show ?thesis
    proof (cases "caller pl inp d r")
      case (Inl err)
      then show ?thesis using h posted by (auto simp: handleAgentConnect_def authenticated_def unauthorized_def caller_def)
    next
      case e: (Inr e)
      show ?thesis
      proof (cases "decodeJSON decode_AgentConnectRequest r (16 * 1024)")
        case None
        then show ?thesis
          using h posted e by (auto simp: handleAgentConnect_def authenticated_def caller_def with_body_def)
      next
        case (Some body)
        with h posted e show ?thesis using connect_authorised [OF assms(1) h(1) posted e Some] by simp
      qed
    qed
  qed
qed

text \<open>
  C8: A connect request registers its session exactly when it is answered with 200: then the session
  of that name is there for the caller and the response carries an agent token for it. Any other
  answer, whichever step failed, leaves the same sessions registered as before.
\<close>

theorem connect_all_or_nothing:
  assumes "UserKeyStore_ok (sd_store d)" and "serve pl cfg inp d ''/v1/agents/connect'' r = (d1, resp)"
  shows "if rs_Status resp = 200
    then \<exists>e body. caller pl inp d r = Inr e
      \<and> decodeJSON decode_AgentConnectRequest r (16 * 1024) = Some body
      \<and> connected pl cfg inp d1 r e (TrimSpace (cq_SessionID body)) (rs_Body resp)
    else same_sessions (sd_agentRegistry d) (sd_agentRegistry d1)"
  by (rule connect_outcome [OF assms])

theorem connect_all_or_nothing_witness:
  "same_sessions NewAgentRegistry (sd_agentRegistry
     (fst (serve demo_platform demo_config (demo_inputs demo_start ''b'') demo_deps ''/v1/agents/connect'' demo_anonymous)))"
proof -
  let ?res = "serve demo_platform demo_config (demo_inputs demo_start ''b'') demo_deps ''/v1/agents/connect'' demo_anonymous"
  have "UserKeyStore_ok (sd_store demo_deps)" using userkey_reachable_ok [OF demo_reachable] by simp
  from connect_all_or_nothing [OF this prod.collapse [symmetric], of demo_platform demo_config "demo_inputs demo_start ''b''" demo_anonymous]
  show ?thesis by (auto simp: demo_anonymous_caller split: if_splits)
qed

end
