(* ===== verification/Client_Server.thy ===== *)
theory Client_Server
  imports Client_Session Client_Connect Control_Server_Access
begin

text \<open>
  The client against the server of this repository: the requests of the client travel to the handlers
  of the server and their answers back. What is on the way (addresses, TLS, a proxy that adds
  headers) is a \<open>route\<close>, about which nothing is assumed but that it keeps the headers of the client.
\<close>

section \<open>Requests on their way\<close>

record route =
  rt_Addr :: string
  rt_Host :: string
  rt_TLS :: bool
  rt_Headers :: "(string, string) gomap"

definition carried :: "route \<Rightarrow> client_request \<Rightarrow> Request" where
  "carried via q = \<lparr>req_Method = cr_Method q, req_Host = rt_Host via, req_RemoteAddr = rt_Addr via, req_TLS = rt_TLS via,
     req_Header = (case cr_Token q of None \<Rightarrow> [] | Some t \<Rightarrow> [(''Authorization'', t)])
       @ (case cr_Body q of None \<Rightarrow> [] | Some _ \<Rightarrow> [(''Content-Type'', ''application/json'')]) @ rt_Headers via,
     req_Body = (case cr_Body q of None \<Rightarrow> [] | Some b \<Rightarrow> b)\<rparr>"

text \<open>The answer of a handler, as the client gets it.\<close>

definition answer_of :: "Response \<Rightarrow> string + int \<times> string" where
  "answer_of resp = Inr (rs_Status resp, rs_Body resp)"

definition exchange_request :: "client_config \<Rightarrow> client_request" where
  "exchange_request cfg = post_json (endpoint (cc_ControlPlaneURL cfg) ''/v1/auth/exchange'') None
     (ExchangeAuthRequest_json \<lparr>xq_UserKey = cc_UserKey cfg\<rparr>)"

lemma carried_body [simp]:
  "req_Method (carried via (post_json url token v)) = ''POST''" "req_Body (carried via (post_json url token v)) = print_json v"
  by (simp_all add: carried_def post_json_def)

lemma carried_token: "cr_Token q = Some t \<Longrightarrow> Header_Get (carried via q) ''Authorization'' = t"
  by (simp add: carried_def Header_Get_def go_get_def)

lemma carried_decodes:
  assumes "printable max_depth v" and "length (print_json v) \<le> limit"
  shows "decodeJSON dec (carried via (post_json url token v)) limit = dec True v"
  using assms by (intro decodeJSON_print) simp_all

lemma solid_trim: "\<forall>c \<in> set s. solid c \<Longrightarrow> TrimSpace s = s"
  by (intro TrimSpace_id url_safe_trimmed) (auto simp: solid_def)

section \<open>A user key opens the server\<close>

lemma exchange_code:
  assumes "env_http wld h (exchange_request cfg) = Inr (code, body)"
    and "run_state (exchangeControlPlaneAuth wld cfg) h = (Inr auth, h')"
  shows "code = 200"
  using assms by (auto simp: exchangeControlPlaneAuth_def exchange_request_def split: if_splits)

lemma exchange_answered:
  assumes "env_http wld h (exchange_request cfg) = Inr (200, print_json (ExchangeAuthResponse_json out) @ newline)"
    and "printable max_depth (ExchangeAuthResponse_json out)"
  shows "fst (run_state (exchangeControlPlaneAuth wld cfg) h) =
    (if TrimSpace (xr_AccessToken out) = [] then Inl (Plain ''control plane exchange returned empty access_token'')
     else if TrimSpace (xr_RefreshToken out) = [] then Inl (Plain ''control plane exchange returned empty refresh_token'')
     else Inr (trimmed_session (xr_AccessToken out) (xr_AccessTokenExpiresAt out)
       (xr_RefreshToken out) (xr_RefreshTokenExpiresAt out)))"
  using assms(1) Decode_line [OF assms(2)]
  by (simp add: exchangeControlPlaneAuth_def exchange_request_def decoded_def decode_ExchangeAuthResponse_json)

lemma exchange_carried:
  assumes "ascii (cc_UserKey cfg)" "length (print_json (ExchangeAuthRequest_json \<lparr>xq_UserKey = cc_UserKey cfg\<rparr>)) \<le> 32 * 1024"
  shows "decodeJSON decode_ExchangeAuthRequest (carried via (exchange_request cfg)) (32 * 1024) = Some \<lparr>xq_UserKey = cc_UserKey cfg\<rparr>"
proof -
  have "printable max_depth (ExchangeAuthRequest_json \<lparr>xq_UserKey = cc_UserKey cfg\<rparr>)"
    using assms(1) by (simp add: ExchangeAuthRequest_json_def max_depth_def ord_def)
  then show ?thesis
    unfolding exchange_request_def
    by (subst carried_decodes [OF _ assms(2)]) (simp_all add: decode_ExchangeAuthRequest_json)
qed

text \<open>
  C6: A client that has got tokens for its user key from this server holds a key of the server, and
  every later request it makes with its access token, by whatever route and after any further
  history of the server, is a request of that key's entitlement exactly while the token lives (up to
  the clock skew) and the entitlement is usable.
\<close>
theorem key_opens_server:
  assumes "userkey_reachable sha store" "newServerDeps cfg store = Inr d0" "d = foldl (server_step pl cfg) d0 before"
    and "serve pl cfg inp d ''/v1/auth/exchange'' (carried via (exchange_request ccfg)) = (d1, resp)"
    and "env_http wld h (exchange_request ccfg) = answer_of resp"
    and "run_state (exchangeControlPlaneAuth wld ccfg) h = (Inr auth, h')"
    and "ascii (cc_UserKey ccfg)"
    and "length (print_json (ExchangeAuthRequest_json \<lparr>xq_UserKey = cc_UserKey ccfg\<rparr>)) \<le> 32 * 1024"
    and "\<And>e. UserKeyStore_Lookup (pl_sha pl) store (cc_UserKey ccfg) = Some e \<Longrightarrow> ascii (ue_Subject e) \<and> in_int64 (ue_MaxSessions e)"
    and "ascii (in_jti inp)" "TrimSpace (in_jti inp) \<noteq> []"
    and "ascii (cfg_GrantIssuer cfg)" "ascii (cfg_AccessAudience cfg)" "TrimSpace (cfg_AccessAudience cfg) \<noteq> []"
    and "issued = in_clk inp 3" "clock_time issued" "clock_time (issued + cfg_AccessTTL cfg)"
  shows "\<exists>e. UserKeyStore_Lookup (pl_sha pl) store (cc_UserKey ccfg) = Some e
    \<and> (\<forall>ops inp2 via2 q. cr_Token q = Some (bearer (cs_AccessToken auth)) \<longrightarrow>
        (caller pl inp2 (foldl (server_step pl cfg) d1 ops) (carried via2 q) = Inr e \<longleftrightarrow>
           issued div Second * Second - 30 * Second \<le> in_clk inp2 0
           \<and> in_clk inp2 0 \<le> (issued + cfg_AccessTTL cfg) div Second * Second + 30 * Second
           \<and> isEntitlementUsable (in_clk inp2 1) e))"
proof -
  have status: "rs_Status resp = 200"
    using exchange_code [OF assms(5) [unfolded answer_of_def] assms(6)] .
  note body = exchange_carried [OF assms(7,8), of via]
  have names: "ascii (ue_Subject e) \<and> in_int64 (ue_MaxSessions e)"
    if "UserKeyStore_Lookup (pl_sha pl) store (xq_UserKey \<lparr>xq_UserKey = cc_UserKey ccfg\<rparr>) = Some e" for e
    using that assms(9) by simp
  show ?thesis
  proof (rule exchange_issues [OF assms(1-4) status body names assms(10-17)])
    fix e out bytes
    assume e: "UserKeyStore_Lookup (pl_sha pl) store (xq_UserKey \<lparr>xq_UserKey = cc_UserKey ccfg\<rparr>) = Some e"
      and out: "rs_Body resp = print_json (ExchangeAuthResponse_json out) @ newline" "printable max_depth (ExchangeAuthResponse_json out)"
      and solid: "\<forall>c \<in> set (xr_AccessToken out). solid c"
      and use: "\<And>ops inp2 r2. Header_Get r2 ''Authorization'' = ''Bearer '' @ xr_AccessToken out \<Longrightarrow>
        caller pl inp2 (foldl (server_step pl cfg) d1 ops) r2 = Inr e \<longleftrightarrow>
           issued div Second * Second - 30 * Second \<le> in_clk inp2 0
           \<and> in_clk inp2 0 \<le> (issued + cfg_AccessTTL cfg) div Second * Second + 30 * Second
           \<and> isEntitlementUsable (in_clk inp2 1) e"
    have "cs_AccessToken auth = TrimSpace (xr_AccessToken out)"
      using exchange_answered [of wld h ccfg out, OF _ out(2)] assms(5,6) out(1) status
      by (auto simp: answer_of_def trimmed_session_def split: if_splits)
    then have "bearer (cs_AccessToken auth) = ''Bearer '' @ xr_AccessToken out"
      using solid_trim [OF solid] by (simp add: bearer_def)
    then show ?thesis
      using e use carried_token by (intro exI [of _ e] conjI allI impI) simp_all
  qed
qed

section \<open>An instance\<close>

definition demo_route :: route where
  "demo_route = \<lparr>rt_Addr = ''192.0.2.1:1'', rt_Host = ''h'', rt_TLS = True, rt_Headers = []\<rparr>"

definition demo_client :: client_config where
  "demo_client = flaky_config\<lparr>cc_UserKey := ''k1''\<rparr>"

definition demo_served :: "serverDeps \<times> Response" where
  "demo_served = serve demo_platform demo_config (demo_inputs demo_start ''b'') demo_deps ''/v1/auth/exchange''
     (carried demo_route (exchange_request demo_client))"

definition demo_world :: environment where
  "demo_world = calm\<lparr>env_http := (\<lambda>h q. answer_of (snd demo_served))\<rparr>"

lemma demo_key_printed:
  "length (print_json (ExchangeAuthRequest_json \<lparr>xq_UserKey = cc_UserKey demo_client\<rparr>)) \<le> 32 * 1024"
proof -
  have "length (print_json (ExchangeAuthRequest_json \<lparr>xq_UserKey = ''k1''\<rparr>)) = 17" by code_simp
  then show ?thesis by (simp add: demo_client_def)
qed

lemma demo_served_ok: "rs_Status (snd demo_served) = 200"
proof -
  have "cc_UserKey demo_client = ''k1''" "ascii (cc_UserKey demo_client)" by (simp_all add: demo_client_def ord_def)
  then have "decodeJSON decode_ExchangeAuthRequest (carried demo_route (exchange_request demo_client)) (32 * 1024) = Some \<lparr>xq_UserKey = ''k1''\<rparr>"
    using exchange_carried [OF _ demo_key_printed] by metis
  then show ?thesis
    unfolding demo_served_def by (intro demo_exchanges_any) (simp_all add: exchange_request_def)
qed

lemma demo_names:
  "ascii (ue_Subject demo_holder)" "in_int64 (ue_MaxSessions demo_holder)" "ascii (in_jti (demo_inputs demo_start ''b''))"
  "TrimSpace (in_jti (demo_inputs demo_start ''b'')) \<noteq> []" "ascii (cfg_GrantIssuer demo_config)"
  "ascii (cfg_AccessAudience demo_config)" "TrimSpace (cfg_AccessAudience demo_config) \<noteq> []"
  by (simp_all add: ord_def in_int64_def min_int64_def max_int64_def)

lemma demo_clocks: "clock_time demo_start" "clock_time (demo_start + cfg_AccessTTL demo_config)"
  by (simp_all add: clock_time_def demo_start_def)

text \<open>The demo client gets its tokens; the first conjunct lets the property below be applied to them.\<close>

lemma demo_gets_tokens:
  obtains auth h' where "run_state (exchangeControlPlaneAuth demo_world demo_client) [] = (Inr auth, h')"
proof -
  have body: "decodeJSON decode_ExchangeAuthRequest (carried demo_route (exchange_request demo_client)) (32 * 1024)
      = Some \<lparr>xq_UserKey = ''k1''\<rparr>"
    using exchange_carried [OF _ demo_key_printed] by (simp add: demo_client_def ord_def)
  have served: "serve demo_platform demo_config (demo_inputs demo_start ''b'') demo_deps ''/v1/auth/exchange''
      (carried demo_route (exchange_request demo_client)) = (fst demo_served, snd demo_served)"
    by (simp add: demo_served_def)
  have names: "ascii (ue_Subject e) \<and> in_int64 (ue_MaxSessions e)"
    if "UserKeyStore_Lookup (pl_sha demo_platform) demo_seeded (xq_UserKey \<lparr>xq_UserKey = ''k1''\<rparr>) = Some e" for e
    using that demo_lookup(1) demo_names(1,2) by simp
  show ?thesis
  proof (rule exchange_issues [OF demo_reachable demo_new _ served demo_served_ok body names demo_names(3-7) _ demo_clocks])
    show "demo_deps = foldl (server_step demo_platform demo_config) demo_deps []" by simp
    fix out e and bytes :: string
    assume out: "rs_Body (snd demo_served) = print_json (ExchangeAuthResponse_json out) @ newline"
        "printable max_depth (ExchangeAuthResponse_json out)"
      and access: "xr_AccessToken out \<noteq> []" "\<forall>c \<in> set (xr_AccessToken out). solid c"
      and "in_bytes (demo_inputs demo_start ''b'') = Some bytes" "xr_RefreshToken out = RawURL_Encode bytes"
    then have "TrimSpace (xr_RefreshToken out) \<noteq> []" "TrimSpace (xr_AccessToken out) \<noteq> []"
      using solid_trim [OF access(2)] RawURL_trimmed [of bytes] by (auto simp: TrimSpace_id RawURL_Nil_iff)
    moreover have "env_http demo_world [] (exchange_request demo_client) = Inr (200, print_json (ExchangeAuthResponse_json out) @ newline)"
      using out(1) demo_served_ok by (simp add: demo_world_def answer_of_def)
    ultimately show ?thesis
      using exchange_answered [OF _ out(2)] that by (metis prod.collapse)
  qed simp_all
qed

theorem key_opens_server_witness:
  "\<exists>auth h'. run_state (exchangeControlPlaneAuth demo_world demo_client) [] = (Inr auth, h')
    \<and> caller demo_platform (demo_inputs (demo_start + Minute) ''x'') (fst demo_served)
        (carried demo_route (post_json ''https://h/v1/status'' (Some (bearer (cs_AccessToken auth))) JNull)) = Inr demo_holder"
proof -
  obtain auth h' where auth: "run_state (exchangeControlPlaneAuth demo_world demo_client) [] = (Inr auth, h')"
    by (rule demo_gets_tokens)
  have key: "cc_UserKey demo_client = ''k1''" by (simp add: demo_client_def)
  have new: "demo_deps = foldl (server_step demo_platform demo_config) demo_deps []" by simp
  have served: "serve demo_platform demo_config (demo_inputs demo_start ''b'') demo_deps ''/v1/auth/exchange''
      (carried demo_route (exchange_request demo_client)) = (fst demo_served, snd demo_served)"
    by (simp add: demo_served_def)
  have answered: "env_http demo_world [] (exchange_request demo_client) = answer_of (snd demo_served)"
    by (simp add: demo_world_def)
  have names: "ascii (ue_Subject e) \<and> in_int64 (ue_MaxSessions e)"
    if "UserKeyStore_Lookup (pl_sha demo_platform) demo_seeded (cc_UserKey demo_client) = Some e" for e
    using that demo_lookup(1) demo_names(1,2) key by simp
  have clock: "demo_start = in_clk (demo_inputs demo_start ''b'') 3" by simp
  have "ascii (cc_UserKey demo_client)" by (simp add: key ord_def)
  from key_opens_server [OF demo_reachable demo_new new served answered auth this demo_key_printed names
      demo_names(3-7) clock demo_clocks]
  obtain e where e: "UserKeyStore_Lookup (pl_sha demo_platform) demo_seeded (cc_UserKey demo_client) = Some e"
    and use: "\<forall>ops inp2 via2 q. cr_Token q = Some (bearer (cs_AccessToken auth)) \<longrightarrow>
        (caller demo_platform inp2 (foldl (server_step demo_platform demo_config) (fst demo_served) ops) (carried via2 q) = Inr e \<longleftrightarrow>
           demo_start div Second * Second - 30 * Second \<le> in_clk inp2 0
           \<and> in_clk inp2 0 \<le> (demo_start + cfg_AccessTTL demo_config) div Second * Second + 30 * Second
           \<and> isEntitlementUsable (in_clk inp2 1) e)"
    by blast
  have "e = demo_holder" using e demo_lookup(1) key by simp
  then show ?thesis
    using auth use [rule_format, of "post_json ''https://h/v1/status'' (Some (bearer (cs_AccessToken auth))) JNull"
        "demo_inputs (demo_start + Minute) ''x''" "[]" demo_route]
    by (simp add: demo_usable demo_start_def post_json_def)
qed

section \<open>An agent reaches its WebSocket\<close>

definition connect_request :: "client_config \<Rightarrow> string \<Rightarrow> string \<Rightarrow> string \<Rightarrow> client_request" where
  "connect_request cfg token sessionID label = post_json (endpoint (cc_ControlPlaneURL cfg) ''/v1/agents/connect'')
     (Some (bearer token))
     (AgentConnectRequest_json \<lparr>cq_SessionID = TrimSpace sessionID, cq_AgentLabel = normalizeAgentLabel label\<rparr>)"

lemma connect_run:
  assumes "run_state (requestAgentConnect render pe wld cfg token sessionID label) h = (x, h')"
  shows "x = connect_answer render pe wld (env_http wld h (connect_request cfg token sessionID label))"
  using assms by (auto simp: requestAgentConnect_def connect_request_def)

lemma connect_answered:
  assumes "connect_answer render pe wld (answer_of resp) = Inr place"
    and "rs_Body resp = print_json (AgentConnectResponse_json out) @ newline"
    and "printable max_depth (AgentConnectResponse_json out)"
  shows "cr_SignalToken place = cr_SignalToken out"
  using assms(1,2) Decode_line [OF assms(3)]
  by (auto simp: connect_answer_def answer_of_def decoded_def decode_AgentConnectResponse_json split: if_splits sum.splits)

definition ascii_server :: "ICEServer \<Rightarrow> bool" where
  "ascii_server s \<longleftrightarrow> list_all ascii (ice_URLs s) \<and> ascii (ice_Username s) \<and> ascii (ice_Credential s)"

lemma place_printable:
  assumes "ascii (cr_SessionID out)" "ascii (cr_SignalURL out)" "ascii (cr_SignalToken out)" "ascii (cr_ICEPolicy out)"
    "ascii (cr_ExpiresAt out)" and "list_all ascii_server (cr_ICEServers out)"
  shows "printable max_depth (AgentConnectResponse_json out)"
  using assms
  by (auto simp: AgentConnectResponse_json_def ICEServer_json_def ascii_server_def max_depth_def ord_def list_all_iff)

lemma Consume_fresh:
  assumes "go_get seen (TrimSpace i) = None" and "TrimSpace i \<noteq> []"
  shows "\<exists>seen'. ReplayGuard_Consume t t' (Some seen) i expiry = (Some seen', None)"
proof -
  have "go_get (go_filter P seen) (TrimSpace i) = None" for P
    using assms(1) by (auto simp: go_get_def go_filter_def map_of_eq_None_iff)
  then show ?thesis
    using assms(2) by (simp add: ReplayGuard_Consume_def MemoryReplayStore_Consume_def TrimSpace_idem Let_def)
qed

text \<open>Who presents a signaling token for an agent, by a request that names no origin, is let in as that agent.\<close>

lemma agent_admitted:
  assumes "signal_token pl cfg inp issued e SignalRoleAgent i = Inr (token, ends)"
    and "NewValidator (cfg_GrantHMACSecret cfg) (cfg_GrantIssuer cfg) (cfg_SignalAudience cfg) = Inr (sd_signalValidator d)"
    and "TrimSpace (ue_Subject e) = ue_Subject e" "ue_Subject e \<noteq> []" "TrimSpace i = i" "i \<noteq> []"
    and "ascii (ue_Subject e)" "ascii i" "in_int64 (ue_MaxSessions e)" "ascii (in_jti inp)" "TrimSpace (in_jti inp) \<noteq> []"
    and "ascii (cfg_GrantIssuer cfg)" "ascii (cfg_SignalAudience cfg)" "TrimSpace (cfg_SignalAudience cfg) \<noteq> []"
    and "clock_time issued" "clock_time (issued + cfg_SignalTokenTTL cfg)"
    and "issued div Second * Second - 30 * Second \<le> clk 0"
    and "clk 0 \<le> (issued + cfg_SignalTokenTTL cfg) div Second * Second + 30 * Second"
    and "Header_Get r ''Authorization'' = ''Bearer '' @ token" "Header_Get r ''Origin'' = []"
    and "sd_signalReplayGuard d = Some seen" "go_get seen (TrimSpace (in_jti inp)) = None"
    and "\<And>check. check r \<Longrightarrow> upgrade check r"
  shows "\<exists>g. open_WebSocket (pl_hmac pl) upgrade clk n (signal_options_of cfg d) r = (g, Inr (Some
    \<lparr>sp_id = n, sp_Subject = ue_Subject e, sp_SessionID = i, sp_Role = SignalRoleAgent, sp_Send = True, sp_Close = True\<rparr>))"
proof -
  have ends: "ends = issued + cfg_SignalTokenTTL cfg"
    using assms(1) by (auto simp: signal_token_def issueSignedToken_def Let_def split: sum.splits)
  obtain claims where sign: "SignHS256 (pl_hmac pl) (cfg_GrantHMACSecret cfg) claims = Inr token"
    using assms(1) by (auto simp: signal_token_def issueSignedToken_def Let_def split: sum.splits)
  have role: "TrimSpace SignalRoleAgent = SignalRoleAgent" "ascii SignalRoleAgent" by code_simp+
  have "Validate (pl_hmac pl) (sd_signalValidator d) (clk 0) token
      = Inr (issued_claims issued ends (in_jti inp) (cfg_GrantIssuer cfg) (cfg_SignalAudience cfg)
          \<lparr>to_Subject = ue_Subject e, to_MaxSessions = ue_MaxSessions e, to_Role = SignalRoleAgent, to_SessionID = i\<rparr>)"
    using assms(3-18) ends role
    by (subst issued_token_valid [OF assms(1) [unfolded signal_token_def] assms(2), THEN conjunct2]) simp_all
  moreover have "bearerToken r = token" "token \<noteq> []"
    using SignHS256_solid [OF sign] bearerToken_header [OF assms(19)] by simp_all
  moreover obtain seen' where "ReplayGuard_Consume (clk 1) (clk 2) (Some seen) (TrimSpace (in_jti inp))
      (ends div Second * Second) = (Some seen', None)"
    using Consume_fresh [of seen "TrimSpace (in_jti inp)" "clk 1" "clk 2" "ends div Second * Second"] assms(11,22)
    by (auto simp: TrimSpace_idem)
  moreover have "OriginAllowedForBaseURL r base" for base
    using assms(20) by (simp add: OriginAllowedForBaseURL_def)
  ultimately show ?thesis
    using assms(3-6,21) assms(23) [of "\<lambda>r. OriginAllowedForBaseURL r (cfg_ExternalBaseURL cfg)"] role
    by (simp add: open_WebSocket_def admit_def signal_options_of_def options_replayStore_def issued_claims_def new_peer_def)
qed


section \<open>An instance\<close>

text \<open>An agent with a token of the demo server connects, one minute after the token was issued.\<close>

definition demo_access :: string where
  "demo_access = (case issueSignedToken demo_hmac demo_start ''t1'' demo_key ''shellin.dev'' ''control.grants'' (10 * Minute)
     \<lparr>to_Subject = ''alice'', to_MaxSessions = 2, to_Role = [], to_SessionID = []\<rparr> of Inr (token, _) \<Rightarrow> token | Inl _ \<Rightarrow> [])"

definition demo_minute :: inputs where
  "demo_minute = demo_inputs (demo_start + Minute) ''b''"

definition demo_connect :: client_request where
  "demo_connect = connect_request demo_client demo_access ''s1'' ''box''"

definition demo_connected :: "serverDeps \<times> Response" where
  "demo_connected = serve demo_platform demo_config demo_minute demo_deps ''/v1/agents/connect'' (carried demo_route demo_connect)"

definition connect_world :: environment where
  "connect_world = calm\<lparr>env_http := (\<lambda>h q. answer_of (snd demo_connected))\<rparr>"

lemma demo_issues:
  "\<exists>token. issueSignedToken demo_hmac t jti demo_key iss aud ttl opts = Inr (token, t + ttl)"
  by (auto simp: issueSignedToken_def SignHS256_def demo_key_ok Let_def split: option.split)

lemma demo_minute_sel [simp]:
  "in_clk demo_minute n = demo_start + Minute" "in_jti demo_minute = ''t1''"
  by (simp_all add: demo_minute_def)

lemma demo_connect_caller: "caller demo_platform demo_minute demo_deps (carried demo_route demo_connect) = Inr demo_holder"
proof -
  obtain token where token: "issueSignedToken (pl_hmac demo_platform) demo_start ''t1'' (cfg_GrantHMACSecret demo_config)
      (cfg_GrantIssuer demo_config) (cfg_AccessAudience demo_config) (10 * Minute)
      \<lparr>to_Subject = ue_Subject demo_holder, to_MaxSessions = 2, to_Role = [], to_SessionID = []\<rparr> = Inr (token, demo_start + 10 * Minute)"
    using demo_issues [of demo_start "''t1''" "''shellin.dev''" "''control.grants''" "10 * Minute"] by (auto simp: demo_secret)
  then have "demo_access = token" by (simp add: demo_access_def demo_secret)
  moreover have "\<forall>c \<in> set token. solid c"
    using token SignHS256_solid by (auto simp: issueSignedToken_def Let_def split: sum.splits)
  ultimately have auth: "Header_Get (carried demo_route demo_connect) ''Authorization'' = ''Bearer '' @ token"
    using carried_token [of demo_connect] solid_trim [of token]
    by (simp add: demo_connect_def connect_request_def post_json_def bearer_def)
  have validator: "NewValidator (cfg_GrantHMACSecret demo_config) (cfg_GrantIssuer demo_config) (cfg_AccessAudience demo_config)
      = Inr (sd_accessValidator demo_deps)"
    by (simp add: demo_secret demo_validators)
  have held: "TrimSpace (ue_Subject demo_holder) = ue_Subject demo_holder" "ue_Subject demo_holder \<noteq> []"
      "UserKeyStore_LookupBySubject (sd_store demo_deps) (ue_Subject demo_holder) = Some demo_holder"
    by (simp_all add: demo_lookup)
  have "in_int64 2" "ascii ''t1''" "TrimSpace ''t1'' \<noteq> []" "clock_time (demo_start + 10 * Minute)"
    by (simp_all add: in_int64_def min_int64_def max_int64_def ord_def clock_time_def demo_start_def)
  then show ?thesis
    by (subst issued_token_caller [OF token validator held demo_names(1) _ _ _ demo_names(5-7) demo_clocks(1) _ auth])
      (simp_all add: demo_usable demo_start_def)
qed

lemma demo_connect_body:
  "decodeJSON decode_AgentConnectRequest (carried demo_route demo_connect) (16 * 1024) = Some \<lparr>cq_SessionID = ''s1'', cq_AgentLabel = ''box''\<rparr>"
  "length (the (cr_Body demo_connect)) \<le> 16 * 1024"
proof -
  let ?v = "AgentConnectRequest_json \<lparr>cq_SessionID = ''s1'', cq_AgentLabel = ''box''\<rparr>"
  have trim: "TrimSpace ''s1'' = ''s1''" by code_simp
  have "length (print_json ?v) = 39" by code_simp
  then have len: "length (print_json ?v) \<le> 16 * 1024" by simp
  have "printable max_depth ?v" by (simp add: AgentConnectRequest_json_def max_depth_def ord_def)
  then show "decodeJSON decode_AgentConnectRequest (carried demo_route demo_connect) (16 * 1024) = Some \<lparr>cq_SessionID = ''s1'', cq_AgentLabel = ''box''\<rparr>"
    unfolding demo_connect_def connect_request_def trim box_label
    by (subst carried_decodes [OF _ len]) (simp_all add: decode_AgentConnectRequest_json)
  show "length (the (cr_Body demo_connect)) \<le> 16 * 1024"
    using len by (simp add: demo_connect_def connect_request_def post_json_def trim)
qed

definition demo_signal_url :: string where "demo_signal_url = ''wss://api.shellin.dev/v1/agents/signal''"

lemma demo_s1: "TrimSpace ''s1'' = ''s1''"
  by code_simp

lemma demo_place:
  "\<exists>out. rs_Status (snd demo_connected) = 200
     \<and> rs_Body (snd demo_connected) = print_json (AgentConnectResponse_json out) @ newline
     \<and> cr_SessionID out = ''s1'' \<and> cr_SignalURL out = demo_signal_url
     \<and> TrimSpace (cr_SignalToken out) \<noteq> [] \<and> printable max_depth (AgentConnectResponse_json out)
     \<and> sd_signalReplayGuard (fst demo_connected) = Some []"
proof -
  obtain token where token: "signal_token demo_platform demo_config demo_minute (demo_start + Minute) demo_holder
      SignalRoleAgent ''s1'' = Inr (token, demo_start + Minute + 2 * Minute)"
    using demo_issues [of "demo_start + Minute" "''t1''" "''shellin.dev''" "''webrtc.signal''" "2 * Minute"]
    by (auto simp: signal_token_def demo_secret) (auto simp: demo_config_def)
  have "\<forall>c \<in> set token. solid c" "token \<noteq> []"
    using token SignHS256_solid by (auto simp: signal_token_def issueSignedToken_def Let_def split: sum.splits)
  then have ok: "TrimSpace token \<noteq> []" "ascii token"
    using solid_trim by (auto simp: ascii_def solid_def)
  have "case AgentRegistry_UpsertLimited (demo_start + Minute) NewAgentRegistry ''alice'' ''s1'' ''box'' TransportWebRTCTURN 2 of
      (r, Inl _) \<Rightarrow> False | (r, Inr _) \<Rightarrow> True"
    by code_simp
  then obtain r item created where up: "AgentRegistry_UpsertLimited (demo_start + Minute) NewAgentRegistry ''alice'' ''s1'' ''box''
      TransportWebRTCTURN 2 = (r, Inr (item, created))"
    by (auto split: prod.splits sum.splits)
  have "issueICE demo_platform demo_config ''alice'' = Inr [stun_server]"
    by code_simp
  moreover have "SignalURLFromExternalBaseURL (cfg_ExternalBaseURL demo_config) = Inr demo_signal_url"
    by code_simp
  moreover have "TrimSpace ''s1'' = ''s1''" by code_simp
  ultimately have served: "handleAgentConnect demo_platform demo_config demo_minute demo_deps (carried demo_route demo_connect)
      = (demo_deps\<lparr>sd_agentRegistry := r\<rparr>, writeJSON 200 (AgentConnectResponse_json \<lparr>cr_SessionID = ''s1'',
          cr_SignalURL = demo_signal_url, cr_SignalToken = token, cr_ICEServers = [stun_server], cr_ICEPolicy = ICEPolicyAll,
          cr_ExpiresAt = Format_RFC3339 (demo_start + Minute + 2 * Minute)\<rparr>))"
    using demo_connect_caller demo_connect_body(1) up token
    by (simp add: handleAgentConnect_def authenticated_def caller_def with_body_def MakeSignalURLWithBaseURL_def
        demo_signal_url_def demo_connect_def connect_request_def Let_def)
  define out :: AgentConnectResponse where "out = \<lparr>cr_SessionID = ''s1'', cr_SignalURL = demo_signal_url,
      cr_SignalToken = token, cr_ICEServers = [stun_server], cr_ICEPolicy = ICEPolicyAll,
      cr_ExpiresAt = Format_RFC3339 (demo_start + Minute + 2 * Minute)\<rparr>"
  have "fst demo_connected = demo_deps\<lparr>sd_agentRegistry := r\<rparr>" "rs_Status (snd demo_connected) = 200"
      "rs_Body (snd demo_connected) = print_json (AgentConnectResponse_json out) @ newline"
    using served by (simp_all add: demo_connected_def serve_def registerRoutes_def out_def)
  moreover have "ascii demo_signal_url" "ascii CloudflareSTUNURL" "ascii ICEPolicyAll"
    by (simp_all add: demo_signal_url_def CloudflareSTUNURL_def ICEPolicyAll_def ord_def)
  then have "printable max_depth (AgentConnectResponse_json out)"
    using ok by (simp add: AgentConnectResponse_json_def out_def stun_server_def ICEServer_json_def max_depth_def
        ascii_Format ord_def)
  ultimately show ?thesis
    using ok by (intro exI [of _ out]) (simp add: out_def demo_deps_def NewReplayGuard_def NewMemoryReplayStore_def)
qed


end
