(* ===== verification/Release_Version.thy ===== *)
theory Release_Version
  imports Go_Strings "HOL-Library.Char_ord" "HOL-Library.List_Lexorder" "HOL-Library.Product_Lexorder"
begin

text \<open>
  \<^verbatim>\<open>internal/selfupdate/version.go\<close>: the comparison of release versions. The comparison is shown to
  be a linear order on releases: the one that compares the numbers without trailing zeros
  lexicographically, then the stage, where every prerelease comes before the release proper.
\<close>

section \<open>The code\<close>

record parsedReleaseVersion =
  pv_numbers :: "int list"
  pv_prerelease :: string

datatype version_error = VersionRequired | InvalidVersion string

datatype compare_error = ParseCurrent version_error | ParseLatest version_error

fun parse_numbers :: "string list \<Rightarrow> int list option" where
  "parse_numbers [] = Some []"
| "parse_numbers (raw # parts) =
     (let part = TrimSpace raw
      in if part = [] then None
         else case Atoi part of None \<Rightarrow> None
           | Some n \<Rightarrow> if n < 0 then None else map_option ((#) n) (parse_numbers parts))"

definition parseReleaseVersion :: "string \<Rightarrow> version_error + parsedReleaseVersion" where
  "parseReleaseVersion raw =
     (let version = TrimSpace raw
      in if version = [] then Inl VersionRequired
         else let v1 = TrimPrefix version ''v'';
                  v2 = (case Index v1 ''+'' of None \<Rightarrow> v1 | Some i \<Rightarrow> take i v1);
                  (v3, pre) = (case Index v2 ''-'' of None \<Rightarrow> (v2, []) | Some i \<Rightarrow> (take i v2, drop (i + 1) v2))
              in case parse_numbers (split_on (CHR ''.'') v3) of
                   None \<Rightarrow> Inl (InvalidVersion raw)
                 | Some ns \<Rightarrow> Inr \<lparr>pv_numbers = ns, pv_prerelease = pre\<rparr>)"

definition ValidateVersion :: "string \<Rightarrow> version_error option" where
  "ValidateVersion raw = (case parseReleaseVersion raw of Inl e \<Rightarrow> Some e | Inr _ \<Rightarrow> None)"

text \<open>The part at position \<open>i\<close>; a version without it counts as zero there.\<close>

definition part_at :: "int list \<Rightarrow> nat \<Rightarrow> int" where
  "part_at ns i = (if i < length ns then ns ! i else 0)"

fun compare_parts :: "(nat \<Rightarrow> int) \<Rightarrow> (nat \<Rightarrow> int) \<Rightarrow> nat list \<Rightarrow> int" where
  "compare_parts a b [] = 0"
| "compare_parts a b (i # is) =
     (if a i < b i then -1 else if b i < a i then 1 else compare_parts a b is)"

definition compare_parsed :: "parsedReleaseVersion \<Rightarrow> parsedReleaseVersion \<Rightarrow> int" where
  "compare_parsed current latest =
     (let maxLen = max (length (pv_numbers current)) (length (pv_numbers latest));
          c = compare_parts (part_at (pv_numbers current)) (part_at (pv_numbers latest)) [0..<maxLen];
          p = pv_prerelease current; q = pv_prerelease latest
      in if c \<noteq> 0 then c
         else if p = q then 0
         else if p = [] then 1
         else if q = [] then -1
         else if p < q then -1
         else if q < p then 1
         else 0)"

definition compareReleaseVersions :: "string \<Rightarrow> string \<Rightarrow> compare_error + int" where
  "compareReleaseVersions currentVersion latestVersion =
     (case parseReleaseVersion currentVersion of
        Inl e \<Rightarrow> Inl (ParseCurrent e)
      | Inr current \<Rightarrow>
          (case parseReleaseVersion latestVersion of
             Inl e \<Rightarrow> Inl (ParseLatest e)
           | Inr latest \<Rightarrow> Inr (compare_parsed current latest)))"

definition shouldInstallLatestRelease :: "string \<Rightarrow> string \<Rightarrow> bool \<Rightarrow> bool" where
  "shouldInstallLatestRelease currentVersion latestVersion allowUnknownCurrent =
     (case compareReleaseVersions currentVersion latestVersion of
        Inl _ \<Rightarrow> if \<not> allowUnknownCurrent then False else TrimSpace currentVersion \<noteq> TrimSpace latestVersion
      | Inr cmp \<Rightarrow> cmp < 0)"

section \<open>The order of releases\<close>

datatype stage = Prerelease string | Final

instantiation stage :: linorder
begin

fun less_eq_stage :: "stage \<Rightarrow> stage \<Rightarrow> bool" where
  "less_eq_stage (Prerelease p) (Prerelease q) = (p \<le> q)"
| "less_eq_stage _ Final = True"
| "less_eq_stage Final (Prerelease q) = False"

definition less_stage :: "stage \<Rightarrow> stage \<Rightarrow> bool" where
  "less_stage x y \<longleftrightarrow> x \<le> y \<and> \<not> y \<le> (x :: stage)"

instance
proof
  fix x y z :: stage
  show "x < y \<longleftrightarrow> x \<le> y \<and> \<not> y \<le> x" by (rule less_stage_def)
  show "x \<le> x" by (cases x) simp_all
  show "x \<le> z" if "x \<le> y" "y \<le> z" using that by (cases x; cases y; cases z) auto
  show "x = y" if "x \<le> y" "y \<le> x" using that by (cases x; cases y) auto
  show "x \<le> y \<or> y \<le> x" by (cases x; cases y) auto
qed

end

fun trim_zeros :: "int list \<Rightarrow> int list" where
  "trim_zeros [] = []"
| "trim_zeros (n # ns) = (if n = 0 \<and> trim_zeros ns = [] then [] else n # trim_zeros ns)"

definition stage_of :: "parsedReleaseVersion \<Rightarrow> stage" where
  "stage_of v = (if pv_prerelease v = [] then Final else Prerelease (pv_prerelease v))"

definition release :: "parsedReleaseVersion \<Rightarrow> int list \<times> stage" where
  "release v = (trim_zeros (pv_numbers v), stage_of v)"

text \<open>The three-way comparison of a linear order.\<close>

definition three_way :: "'a :: linorder \<Rightarrow> 'a \<Rightarrow> int" where
  "three_way x y = (if x < y then -1 else if y < x then 1 else 0)"

lemma three_way_pair:
  "three_way (a, b) (c, d) = (if three_way a c \<noteq> 0 then three_way a c else three_way b d)"
  by (auto simp: three_way_def)

lemma three_way_Cons:
  "three_way (x # xs) (y # ys) = (if x < y then -1 else if y < x then 1 else three_way xs ys)"
  by (auto simp: three_way_def)

lemma three_way_Nil: "three_way [] ys = (if ys = [] then 0 else -1)" "three_way xs [] = (if xs = [] then 0 else 1)"
  by (cases ys; simp add: three_way_def) (cases xs; simp add: three_way_def)

lemma three_way_stage:
  "three_way (Prerelease p) (Prerelease q) = three_way p q" "three_way (Prerelease p) Final = -1"
  "three_way Final (Prerelease q) = 1" "three_way Final Final = 0"
  by (auto simp: three_way_def less_stage_def)

lemma compare_parts_Suc:
  "compare_parts a b [0..<Suc n] =
     (if a 0 < b 0 then -1 else if b 0 < a 0 then 1 else compare_parts (\<lambda>i. a (Suc i)) (\<lambda>i. b (Suc i)) [0..<n])"
proof -
  have "compare_parts a b (map Suc is) = compare_parts (\<lambda>i. a (Suc i)) (\<lambda>i. b (Suc i)) is" for "is"
    by (induction "is") simp_all
  then show ?thesis by (simp add: upt_conv_Cons map_Suc_upt [symmetric] del: upt_Suc)
qed

lemma part_at_simps [simp]:
  "part_at (n # ns) 0 = n" "part_at (n # ns) (Suc i) = part_at ns i" "part_at [] = (\<lambda>_. 0)"
  by (auto simp: part_at_def fun_eq_iff)

lemma compare_zero: "\<forall>n \<in> set ns. 0 \<le> n \<Longrightarrow>
    compare_parts (part_at ns) (\<lambda>_. 0) [0..<length ns] = (if trim_zeros ns = [] then 0 else 1)
  \<and> compare_parts (\<lambda>_. 0) (part_at ns) [0..<length ns] = (if trim_zeros ns = [] then 0 else -1)"
  by (induction ns) (auto simp: compare_parts_Suc simp del: upt_Suc)

lemma compare_numbers:
  "\<forall>n \<in> set xs. 0 \<le> n \<Longrightarrow> \<forall>n \<in> set ys. 0 \<le> n \<Longrightarrow>
   compare_parts (part_at xs) (part_at ys) [0..<max (length xs) (length ys)] = three_way (trim_zeros xs) (trim_zeros ys)"
proof (induction xs arbitrary: ys)
  case Nil
  then show ?case using compare_zero [of ys] by (simp add: three_way_Nil)
next
  case (Cons x xs)
  show ?case
  proof (cases ys)
    case Nil
    then show ?thesis using compare_zero [of "x # xs"] Cons.prems by (simp add: three_way_Nil)
  next
    case (Cons y ys')
    then show ?thesis
      using Cons.IH [of ys'] Cons.prems
      by (auto simp: compare_parts_Suc three_way_Cons three_way_Nil simp del: upt_Suc)
  qed
qed

lemma parse_numbers_nonneg: "parse_numbers parts = Some ns \<Longrightarrow> \<forall>n \<in> set ns. 0 \<le> n"
  by (induction parts arbitrary: ns) (auto simp: Let_def split: if_splits option.splits)

lemma parsed_nonneg: "parseReleaseVersion raw = Inr v \<Longrightarrow> \<forall>n \<in> set (pv_numbers v). 0 \<le> n"
  by (auto simp: parseReleaseVersion_def Let_def dest: parse_numbers_nonneg split: if_splits option.splits prod.splits)

lemma compare_parsed_order:
  assumes "\<forall>n \<in> set (pv_numbers v). 0 \<le> n" "\<forall>n \<in> set (pv_numbers w). 0 \<le> n"
  shows "compare_parsed v w = three_way (release v) (release w)"
  using compare_numbers [OF assms]
  by (simp add: compare_parsed_def Let_def release_def three_way_pair stage_of_def three_way_stage)
     (simp add: three_way_def)

section \<open>Properties\<close>

text \<open>
  C14: The updater never goes back and never installs the same release again: for two valid versions
  it decides for the latest one exactly when that is greater in the order of releases, in which
  build metadata, a leading v and trailing zeros do not count. With a version it cannot read, it
  updates only when this is allowed and the versions differ.
\<close>

theorem update_is_upgrade:
  "shouldInstallLatestRelease current latest allow \<longleftrightarrow>
     (case (parseReleaseVersion current, parseReleaseVersion latest) of
        (Inr v, Inr w) \<Rightarrow> release v < release w
      | _ \<Rightarrow> allow \<and> TrimSpace current \<noteq> TrimSpace latest)"
  using parsed_nonneg [of current] parsed_nonneg [of latest]
  by (auto simp: shouldInstallLatestRelease_def compareReleaseVersions_def compare_parsed_order three_way_def
      split: sum.splits)

end
