(* ===== verification/Release_Manifest.thy ===== *)
theory Release_Manifest
  imports Go_Base64 Build_Info Go_Json_Indent
begin

text \<open>
  The signed release manifest: \<^verbatim>\<open>internal/selfupdate/manifest.go\<close>, which fetches and checks it, and
  \<^verbatim>\<open>scripts/sign-release-manifest\<close>, which makes it.

  Ed25519 is a parameter: \<open>verify pub msg sig\<close>, \<open>sign priv msg\<close> and \<open>from_seed\<close>; as the package
  \<^verbatim>\<open>crypto/ed25519\<close> documents, a private key is 64 bytes of which the last 32 are the public key.
  SHA-256 is the parameter \<open>sha\<close>. An HTTP request is the parameter \<open>http\<close>, from a URL to the status
  and the body, \<open>None\<close> when it cannot be made.
\<close>

section \<open>The manifest\<close>

record releaseAsset =
  ra_URL :: string
  ra_SHA256 :: string

record releaseManifest =
  rm_Version :: string
  rm_PublishedAt :: string
  rm_Platforms :: "(string, releaseAsset) gomap"
  rm_Signature :: string

definition releaseAsset_put :: "string \<Rightarrow> json \<Rightarrow> releaseAsset \<Rightarrow> releaseAsset option" where
  "releaseAsset_put f v r =
     (if f = ''url'' then map_option (\<lambda>x. r\<lparr>ra_URL := x\<rparr>) (decode_string v (ra_URL r))
      else if f = ''sha256'' then map_option (\<lambda>x. r\<lparr>ra_SHA256 := x\<rparr>) (decode_string v (ra_SHA256 r))
      else Some r)"

definition decode_releaseAsset :: "bool \<Rightarrow> json \<Rightarrow> releaseAsset option" where
  "decode_releaseAsset strict = decode_struct strict [''url'', ''sha256''] releaseAsset_put \<lparr>ra_URL = [], ra_SHA256 = []\<rparr>"

text \<open>A map keeps the entries it has; each member replaces the entry of its key.\<close>

fun decode_entries ::
  "(json \<Rightarrow> 'a option) \<Rightarrow> (string \<times> json) list \<Rightarrow> (string, 'a) gomap \<Rightarrow> (string, 'a) gomap option"
where
  "decode_entries f [] m = Some m"
| "decode_entries f ((k, v) # ms) m = (case f v of None \<Rightarrow> None | Some x \<Rightarrow> decode_entries f ms (go_put m k x))"

definition decode_map :: "(json \<Rightarrow> 'a option) \<Rightarrow> json \<Rightarrow> (string, 'a) gomap \<Rightarrow> (string, 'a) gomap option" where
  "decode_map f v old = (case v of JObj ms \<Rightarrow> decode_entries f ms old | JNull \<Rightarrow> Some [] | _ \<Rightarrow> None)"

definition releaseManifest_put :: "bool \<Rightarrow> string \<Rightarrow> json \<Rightarrow> releaseManifest \<Rightarrow> releaseManifest option" where
  "releaseManifest_put strict f v r =
     (if f = ''version'' then map_option (\<lambda>x. r\<lparr>rm_Version := x\<rparr>) (decode_string v (rm_Version r))
      else if f = ''published_at'' then map_option (\<lambda>x. r\<lparr>rm_PublishedAt := x\<rparr>) (decode_string v (rm_PublishedAt r))
      else if f = ''platforms'' then map_option (\<lambda>x. r\<lparr>rm_Platforms := x\<rparr>) (decode_map (decode_releaseAsset strict) v (rm_Platforms r))
      else if f = ''signature'' then map_option (\<lambda>x. r\<lparr>rm_Signature := x\<rparr>) (decode_string v (rm_Signature r))
      else Some r)"

definition decode_releaseManifest :: "bool \<Rightarrow> json \<Rightarrow> releaseManifest option" where
  "decode_releaseManifest strict = decode_struct strict [''version'', ''published_at'', ''platforms'', ''signature'']
     (releaseManifest_put strict) \<lparr>rm_Version = [], rm_PublishedAt = [], rm_Platforms = [], rm_Signature = []\<rparr>"

section \<open>What is signed\<close>

definition releaseManifestSigningV1 :: string where
  "releaseManifestSigningV1 = ''shellin-release-manifest-v1''"

definition asset_lines :: "string \<Rightarrow> releaseAsset \<Rightarrow> string" where
  "asset_lines k a =
     ''platform:'' @ TrimSpace k @ newline
     @ ''url:'' @ TrimSpace (ra_URL a) @ newline
     @ ''sha256:'' @ ToLower (TrimSpace (ra_SHA256 a)) @ newline"

text \<open>The map is walked in the order of its keys; a key that is not in the map cannot come up.\<close>

definition sorted_assets :: "(string, releaseAsset) gomap \<Rightarrow> (string \<times> releaseAsset) list" where
  "sorted_assets m = map (\<lambda>k. (k, the (go_get m k))) (sort (map fst m))"

definition releaseManifestSigningPayload :: "releaseManifest \<Rightarrow> string" where
  "releaseManifestSigningPayload m =
     releaseManifestSigningV1 @ newline
     @ ''version:'' @ TrimSpace (rm_Version m) @ newline
     @ ''published_at:'' @ TrimSpace (rm_PublishedAt m) @ newline
     @ concat (map (\<lambda>(k, a). asset_lines k a) (sorted_assets (rm_Platforms m)))"

section \<open>Keys\<close>

definition base64_decoders :: "(string \<Rightarrow> string option) list" where
  "base64_decoders = [padded_decode std_alphabet, raw_decode std_alphabet, padded_decode url_alphabet, raw_decode url_alphabet]"

fun first_decoding :: "(string \<Rightarrow> string option) list \<Rightarrow> string \<Rightarrow> string option" where
  "first_decoding [] raw = None"
| "first_decoding (enc # encs) raw = (case enc raw of Some decoded \<Rightarrow> Some decoded | None \<Rightarrow> first_decoding encs raw)"

definition decodeBase64 :: "string \<Rightarrow> string option" where
  "decodeBase64 raw = first_decoding base64_decoders (TrimSpace raw)"

datatype manifest_error = SignatureMissing | KeyNotConfigured | KeyUndecodable | KeyLength nat | SignatureUndecodable
  | SignatureLength nat | SignatureRejected | ManifestRequest | ManifestStatus int | ManifestUndecodable
  | AssetURLMissing string | AssetChecksumMissing string | NoRelease string

definition PublicKeySize :: nat where "PublicKeySize = 32"
definition PrivateKeySize :: nat where "PrivateKeySize = 64"
definition SeedSize :: nat where "SeedSize = 32"
definition SignatureSize :: nat where "SignatureSize = 64"

definition decodeReleaseManifestPublicKey :: "string \<Rightarrow> manifest_error + string" where
  "decodeReleaseManifestPublicKey raw0 =
     (let raw = TrimSpace (TrimPrefix (TrimSpace raw0) ''ed25519:'')
      in if raw = [] then Inl KeyNotConfigured
         else case decodeBase64 raw of None \<Rightarrow> Inl KeyUndecodable
           | Some decoded \<Rightarrow>
               if length decoded \<noteq> PublicKeySize then Inl (KeyLength (length decoded)) else Inr decoded)"

section \<open>Fetching and checking\<close>

definition verifyReleaseManifestSignature ::
  "(string \<Rightarrow> string \<Rightarrow> string \<Rightarrow> bool) \<Rightarrow> releaseManifest \<Rightarrow> string \<Rightarrow> manifest_error option"
where
  "verifyReleaseManifestSignature verify m publicKey =
     (let signature = TrimSpace (rm_Signature m)
      in if signature = [] then Some SignatureMissing
         else case decodeReleaseManifestPublicKey publicKey of Inl e \<Rightarrow> Some e
           | Inr pub \<Rightarrow>
               (case decodeBase64 signature of None \<Rightarrow> Some SignatureUndecodable
                | Some sig \<Rightarrow>
                    if length sig \<noteq> SignatureSize then Some (SignatureLength (length sig))
                    else if \<not> verify pub (releaseManifestSigningPayload m) sig then Some SignatureRejected
                    else None))"

definition latestManifestPath :: string where
  "latestManifestPath = ''/downloads/latest.json''"

definition fetchLatestReleaseManifest ::
  "(string \<Rightarrow> string \<Rightarrow> string \<Rightarrow> bool) \<Rightarrow> (string \<Rightarrow> (int \<times> string) option) \<Rightarrow> string \<Rightarrow> string
   \<Rightarrow> manifest_error + releaseManifest"
where
  "fetchLatestReleaseManifest verify http baseURL publicKey =
     (case http (TrimRight (TrimSpace baseURL) ''/'' @ latestManifestPath) of
        None \<Rightarrow> Inl ManifestRequest
      | Some (status, body) \<Rightarrow>
          if status \<noteq> 200 then Inl (ManifestStatus status)
          else case Option.bind (json_Decode body) (decode_releaseManifest True) of
            None \<Rightarrow> Inl ManifestUndecodable
          | Some manifest \<Rightarrow>
              (case verifyReleaseManifestSignature verify manifest publicKey of
                 Some e \<Rightarrow> Inl e
               | None \<Rightarrow> Inr manifest))"

definition assetForPlatform :: "releaseManifest \<Rightarrow> string \<Rightarrow> string \<Rightarrow> manifest_error + releaseAsset" where
  "assetForPlatform m goos goarch =
     (let key = TrimSpace goos @ ''/'' @ TrimSpace goarch
      in case go_get (rm_Platforms m) key of
           None \<Rightarrow> Inl (NoRelease key)
         | Some asset \<Rightarrow>
             if TrimSpace (ra_URL asset) = [] then Inl (AssetURLMissing key)
             else if TrimSpace (ra_SHA256 asset) = [] then Inl (AssetChecksumMissing key)
             else Inr asset)"

section \<open>Signing\<close>

datatype signing_error = UsageWrong | PrivateKeyMissing | PrivateKeyUnreadable | PrivateKeyUndecodable
  | PrivateKeyLength nat | PublicKeyUndecodable | PublicKeyLength nat | KeysDiffer
  | ArchiveUnreadable string | ManifestUnwritable

text \<open>\<open>None\<close> for the input that cannot be read; a nil reader does not occur.\<close>

definition readPrivateKey :: "string option \<Rightarrow> signing_error + string" where
  "readPrivateKey stdin = (case stdin of None \<Rightarrow> Inl PrivateKeyUnreadable
     | Some text0 \<Rightarrow>
         (let secret = TrimSpace (take (8 * 1024) text0)
          in if secret = [] then Inl PrivateKeyMissing else Inr secret))"

definition decodePrivateKey :: "(string \<Rightarrow> string) \<Rightarrow> string \<Rightarrow> signing_error + string" where
  "decodePrivateKey from_seed raw = (case decodeBase64 (TrimPrefix (TrimSpace raw) ''ed25519:'') of
     None \<Rightarrow> Inl PrivateKeyUndecodable
   | Some decoded \<Rightarrow>
       if length decoded = SeedSize then Inr (from_seed decoded)
       else if length decoded = PrivateKeySize then Inr decoded
       else Inl (PrivateKeyLength (length decoded)))"

definition decodePublicKey :: "string \<Rightarrow> signing_error + string" where
  "decodePublicKey raw = (case decodeBase64 (TrimPrefix (TrimSpace raw) ''ed25519:'') of
     None \<Rightarrow> Inl PublicKeyUndecodable
   | Some decoded \<Rightarrow>
       if length decoded \<noteq> PublicKeySize then Inl (PublicKeyLength (length decoded)) else Inr decoded)"

definition public_of :: "string \<Rightarrow> string" where
  "public_of priv = drop 32 priv"

definition release_platforms :: "(string \<times> string) list" where
  "release_platforms = [(''darwin'', ''amd64''), (''darwin'', ''arm64''), (''linux'', ''amd64''), (''linux'', ''arm64'')]"

definition archive_name :: "string \<Rightarrow> string \<Rightarrow> string" where
  "archive_name goos goarch = ''shellin-'' @ goos @ ''-'' @ goarch @ ''.tar.gz''"

text \<open>\<open>read name\<close> is the archive of that name in the output directory.\<close>

fun add_platforms ::
  "(string \<Rightarrow> string) \<Rightarrow> (string \<Rightarrow> string option) \<Rightarrow> string \<Rightarrow> (string \<times> string) list
   \<Rightarrow> (string, releaseAsset) gomap \<Rightarrow> signing_error + (string, releaseAsset) gomap"
where
  "add_platforms sha read baseURL [] m = Inr m"
| "add_platforms sha read baseURL ((goos, goarch) # pairs) m =
     (let name = archive_name goos goarch
      in case read name of None \<Rightarrow> Inl (ArchiveUnreadable name)
       | Some data \<Rightarrow> add_platforms sha read baseURL pairs (go_put m (goos @ ''/'' @ goarch)
           \<lparr>ra_URL = baseURL @ ''/downloads/'' @ name, ra_SHA256 = hex_EncodeToString (sha data)\<rparr>))"

text \<open>\<^verbatim>\<open>run\<close> up to the encoding of the manifest, which it then writes to \<^verbatim>\<open>latest.json\<close>.\<close>

definition sign_release ::
  "(string \<Rightarrow> string) \<Rightarrow> (string \<Rightarrow> string) \<Rightarrow> (string \<Rightarrow> string \<Rightarrow> string) \<Rightarrow> (string \<Rightarrow> string \<Rightarrow> string option)
   \<Rightarrow> string list \<Rightarrow> string option \<Rightarrow> signing_error + releaseManifest"
where
  "sign_release sha from_seed sign read args stdin =
     (if length args \<noteq> 5 then Inl UsageWrong
      else let outDir = args ! 0; version = args ! 1; baseURL = TrimRight (args ! 2) ''/''; publishedAt = args ! 3
           in case readPrivateKey stdin of Inl e \<Rightarrow> Inl e
              | Inr raw \<Rightarrow>
                  (case decodePrivateKey from_seed raw of Inl e \<Rightarrow> Inl e
                   | Inr priv \<Rightarrow>
                       (case decodePublicKey (args ! 4) of Inl e \<Rightarrow> Inl e
                        | Inr public \<Rightarrow>
                            if public_of priv \<noteq> public then Inl KeysDiffer
                            else (case add_platforms sha (read outDir) baseURL release_platforms [] of Inl e \<Rightarrow> Inl e
                              | Inr platforms \<Rightarrow>
                                  let m = \<lparr>rm_Version = version, rm_PublishedAt = publishedAt,
                                           rm_Platforms = platforms, rm_Signature = []\<rparr>
                                  in Inr (m\<lparr>rm_Signature := padded_encode std_alphabet
                                       (sign priv (releaseManifestSigningPayload m))\<rparr>)))))"

definition releaseAsset_json :: "releaseAsset \<Rightarrow> json" where
  "releaseAsset_json a = JObj [(''url'', JStr (ra_URL a)), (''sha256'', JStr (ra_SHA256 a))]"

definition releaseManifest_json :: "releaseManifest \<Rightarrow> json" where
  "releaseManifest_json m = JObj
     ([(''version'', JStr (rm_Version m))]
      @ (if rm_PublishedAt m = [] then [] else [(''published_at'', JStr (rm_PublishedAt m))])
      @ [(''platforms'', JObj (map (\<lambda>(k, a). (k, releaseAsset_json a)) (sorted_assets (rm_Platforms m)))),
         (''signature'', JStr (rm_Signature m))])"

text \<open>The whole run; \<open>write\<close> says whether \<^verbatim>\<open>latest.json\<close> could be written. The result is its content.\<close>

definition sign_run ::
  "(string \<Rightarrow> string) \<Rightarrow> (string \<Rightarrow> string) \<Rightarrow> (string \<Rightarrow> string \<Rightarrow> string) \<Rightarrow> (string \<Rightarrow> string \<Rightarrow> string option)
   \<Rightarrow> bool \<Rightarrow> string list \<Rightarrow> string option \<Rightarrow> signing_error + string"
where
  "sign_run sha from_seed sign read write args stdin =
     (case sign_release sha from_seed sign read args stdin of Inl e \<Rightarrow> Inl e
      | Inr m \<Rightarrow> if write then Inr (indent_json 0 (releaseManifest_json m) @ newline) else Inl ManifestUnwritable)"

end
