(* ===== verification/Self_Update.thy ===== *)
theory Self_Update
  imports Release_Version Release_Manifest "HOL-Library.Word"
begin

unbundle bit_operations_syntax

text \<open>
  \<^verbatim>\<open>internal/selfupdate/archive.go\<close> and \<^verbatim>\<open>update.go\<close>: downloading, checking and unpacking a release,
  replacing the executable, and starting it again.

  The file system is a map from paths to files. What the operating system and the network answer is
  in the record \<open>host\<close>: \<open>ho_http n\<close> is the \<open>n\<close>-th HTTP request of the run, \<open>ho_unpack\<close> the packages
  \<^verbatim>\<open>gzip\<close> and \<^verbatim>\<open>tar\<close>, and the fields from \<open>ho_tmp\<close> on say how each file operation ends.
\<close>

section \<open>Archives\<close>

type_synonym file_mode = "32 word"

datatype tar_item = TarEntry (te_name: string) (te_regular: bool) (te_mode: file_mode) (te_data: "string option") | TarBroken

datatype update_error = UpdateManifest manifest_error | NoVersion | ExecutableUnresolved | ArchiveRequest
  | ArchiveStatus int | ChecksumRequired | ChecksumMismatch | ArchiveUnopened | ArchiveBroken | BinaryUnreadable
  | BinaryMissing string | ExecutablePathRequired | BinaryEmpty | TempFailed | ChmodFailed | WriteFailed
  | CloseFailed | RenameFailed string | RelaunchFailed string

definition defaultCommandName :: string where "defaultCommandName = ''shellin''"
definition defaultCurrentVersion :: string where "defaultCurrentVersion = ''dev''"
definition defaultAppliedEnvName :: string where "defaultAppliedEnvName = ''SHELLIN_AUTO_UPDATE_APPLIED''"

definition normalizedCommandName :: "string \<Rightarrow> string" where
  "normalizedCommandName raw = (let commandName = TrimSpace raw in if commandName \<noteq> [] then commandName else defaultCommandName)"

definition appliedEnvName :: "string \<Rightarrow> string" where
  "appliedEnvName raw = (let name = TrimSpace raw in if name \<noteq> [] then name else defaultAppliedEnvName)"

text \<open>\<^verbatim>\<open>filepath.Base\<close> on Unix.\<close>

definition path_Base :: "string \<Rightarrow> string" where
  "path_Base path = (let p = TrimRight path ''/''
     in if path = [] then ''.'' else if p = [] then ''/'' else last (split_on (CHR ''/'') p))"

definition verifyReleaseArchiveChecksum :: "(string \<Rightarrow> string) \<Rightarrow> string \<Rightarrow> string \<Rightarrow> update_error option" where
  "verifyReleaseArchiveChecksum sha archiveData expectedChecksum =
     (let expected = ToLower (TrimSpace expectedChecksum)
      in if expected = [] then Some ChecksumRequired
         else if hex_EncodeToString (sha archiveData) \<noteq> expected then Some ChecksumMismatch
         else None)"

definition binary_mode :: "file_mode \<Rightarrow> file_mode" where
  "binary_mode m = (let perm = m AND 0x1FF in if perm AND 0x49 = 0 then perm OR 0x1ED else perm)"

fun find_binary :: "string \<Rightarrow> tar_item list \<Rightarrow> update_error + string \<times> file_mode" where
  "find_binary commandName [] = Inl (BinaryMissing commandName)"
| "find_binary commandName (TarBroken # items) = Inl ArchiveBroken"
| "find_binary commandName (TarEntry name regular mode data # items) =
     (if regular \<and> path_Base name = commandName then
        (case data of None \<Rightarrow> Inl BinaryUnreadable | Some binaryData \<Rightarrow> Inr (binaryData, binary_mode mode))
      else find_binary commandName items)"

definition extractReleaseBinary ::
  "(string \<Rightarrow> tar_item list option) \<Rightarrow> string \<Rightarrow> string \<Rightarrow> update_error + string \<times> file_mode"
where
  "extractReleaseBinary unpack archiveData commandName = (case unpack archiveData of
     None \<Rightarrow> Inl ArchiveUnopened
   | Some items \<Rightarrow> find_binary (normalizedCommandName commandName) items)"

definition downloadAndExtractReleaseBinary ::
  "(string \<Rightarrow> string) \<Rightarrow> (string \<Rightarrow> tar_item list option) \<Rightarrow> (string \<Rightarrow> (int \<times> string) option) \<Rightarrow> releaseAsset \<Rightarrow> string
   \<Rightarrow> update_error + string \<times> file_mode"
where
  "downloadAndExtractReleaseBinary sha unpack http asset commandName =
     (case http (TrimSpace (ra_URL asset)) of
        None \<Rightarrow> Inl ArchiveRequest
      | Some (status, archiveData) \<Rightarrow>
          if status \<noteq> 200 then Inl (ArchiveStatus status)
          else (case verifyReleaseArchiveChecksum sha archiveData (ra_SHA256 asset) of
              Some e \<Rightarrow> Inl e
            | None \<Rightarrow> extractReleaseBinary unpack archiveData commandName))"

section \<open>Replacing the executable\<close>

record disk_file =
  fl_Data :: string
  fl_Mode :: file_mode

type_synonym files = "(string, disk_file) gomap"

record host =
  ho_http :: "nat \<Rightarrow> string \<Rightarrow> (int \<times> string) option"
  ho_verify :: "string \<Rightarrow> string \<Rightarrow> string \<Rightarrow> bool"
  ho_sha :: "string \<Rightarrow> string"
  ho_unpack :: "string \<Rightarrow> tar_item list option"
  ho_GOOS :: string
  ho_GOARCH :: string
  ho_Executable :: "string option"
  ho_EvalSymlinks :: "string \<Rightarrow> string option"
  ho_Args :: "string list"
  ho_Environ :: "string list"
  ho_exec :: bool
  ho_tmp :: "string \<Rightarrow> string \<Rightarrow> string option"
  ho_chmod :: bool
  ho_write :: "nat option"
  ho_close :: bool
  ho_rename :: bool
  ho_remove :: bool

text \<open>
  A write that fails after \<open>n\<close> bytes is \<open>ho_write = Some n\<close>. \<open>drop_temp\<close> is the deferred removal of
  the temporary file; after a successful rename there is none.
\<close>

definition drop_temp :: "host \<Rightarrow> string \<Rightarrow> files \<Rightarrow> files" where
  "drop_temp h tmp fs = (if ho_remove h then go_del fs tmp else fs)"

definition installReplacementBinary ::
  "host \<Rightarrow> string \<Rightarrow> string \<Rightarrow> file_mode \<Rightarrow> files \<Rightarrow> files \<times> update_error option"
where
  "installReplacementBinary h rawPath binaryData mode fs =
     (let executablePath = TrimSpace rawPath
      in if executablePath = [] then (fs, Some ExecutablePathRequired)
         else if binaryData = [] then (fs, Some BinaryEmpty)
         else case ho_tmp h executablePath (path_Base executablePath @ ''.update-*'') of
           None \<Rightarrow> (fs, Some TempFailed)
         | Some tmp \<Rightarrow>
             let fs1 = go_put fs tmp \<lparr>fl_Data = [], fl_Mode = 0x180\<rparr>;
                 mode' = (if mode = 0 then 0x1ED else mode)
             in if \<not> ho_chmod h then (drop_temp h tmp fs1, Some ChmodFailed)
                else case ho_write h of
                  Some n \<Rightarrow> (drop_temp h tmp (go_put fs1 tmp \<lparr>fl_Data = take n binaryData, fl_Mode = mode'\<rparr>), Some WriteFailed)
                | None \<Rightarrow>
                    let fs2 = go_put fs1 tmp \<lparr>fl_Data = binaryData, fl_Mode = mode'\<rparr>
                    in if \<not> ho_close h then (drop_temp h tmp fs2, Some CloseFailed)
                       else if \<not> ho_rename h then (drop_temp h tmp fs2, Some (RenameFailed executablePath))
                       else (drop_temp h tmp (go_put (go_del fs2 tmp) executablePath \<lparr>fl_Data = binaryData, fl_Mode = mode'\<rparr>), None))"

section \<open>Checking and performing an update\<close>

record update_options =
  uo_AllowUnknownCurrent :: bool
  uo_AppliedEnvName :: string
  uo_CommandName :: string
  uo_ExecutablePath :: string
  uo_ManifestPublicKey :: string
  uo_Reexec :: bool
  uo_Args :: "string list"
  uo_BaseURL :: string
  uo_CurrentVersion :: string

record update_result =
  ur_Checked :: bool
  ur_CurrentVersion :: string
  ur_ExecutablePath :: string
  ur_LatestVersion :: string
  ur_UpdateAvailable :: bool
  ur_Updated :: bool

definition fetch_nth :: "host \<Rightarrow> update_options \<Rightarrow> nat \<Rightarrow> manifest_error + releaseManifest" where
  "fetch_nth h opts n = fetchLatestReleaseManifest (ho_verify h) (ho_http h n) (uo_BaseURL opts) (uo_ManifestPublicKey opts)"

definition Check :: "host \<Rightarrow> update_options \<Rightarrow> update_result \<times> update_error option" where
  "Check h opts =
     (let current0 = TrimSpace (uo_CurrentVersion opts);
          current = (if current0 = [] then defaultCurrentVersion else current0);
          result = \<lparr>ur_Checked = False, ur_CurrentVersion = current, ur_ExecutablePath = [], ur_LatestVersion = [],
             ur_UpdateAvailable = False, ur_Updated = False\<rparr>
      in case fetch_nth h opts 0 of
           Inl e \<Rightarrow> (result, Some (UpdateManifest e))
         | Inr manifest \<Rightarrow>
             let latest = TrimSpace (rm_Version manifest);
                 result1 = result\<lparr>ur_Checked := True, ur_LatestVersion := latest\<rparr>
             in if latest = [] then (result1, Some NoVersion)
                else (result1\<lparr>ur_UpdateAvailable :=
                        shouldInstallLatestRelease current latest (uo_AllowUnknownCurrent opts)\<rparr>, None))"

definition resolveExecutablePath :: "host \<Rightarrow> string option" where
  "resolveExecutablePath h = (case ho_Executable h of None \<Rightarrow> None
     | Some executablePath \<Rightarrow> Some (case ho_EvalSymlinks h executablePath of
           Some resolvedPath \<Rightarrow> if TrimSpace resolvedPath \<noteq> [] then resolvedPath else executablePath
         | None \<Rightarrow> executablePath))"

fun upsertEnv :: "string list \<Rightarrow> string \<Rightarrow> string \<Rightarrow> string list" where
  "upsertEnv [] key val = [key @ ''='' @ val]"
| "upsertEnv (entry # env) key val =
     (if HasPrefix entry (key @ ''='') then (key @ ''='' @ val) # env else entry # upsertEnv env key val)"

text \<open>A successful \<^verbatim>\<open>execve\<close> does not return: the run ends in the new program.\<close>

datatype outcome = Returned update_result "update_error option" | Relaunched string "string list" "string list"

definition relaunch :: "host \<Rightarrow> update_options \<Rightarrow> update_result \<Rightarrow> outcome" where
  "relaunch h opts result =
     (let path = ur_ExecutablePath result;
          args1 = (if uo_Args opts = [] then ho_Args h else uo_Args opts);
          reexecArgs = (if args1 = [] then [path] else args1);
          env = upsertEnv (ho_Environ h) (appliedEnvName (uo_AppliedEnvName opts)) ''1''
      in if ho_exec h then Relaunched path reexecArgs env
         else Returned result (Some (RelaunchFailed (ur_LatestVersion result))))"

definition Perform :: "host \<Rightarrow> update_options \<Rightarrow> files \<Rightarrow> files \<times> outcome" where
  "Perform h opts fs =
     (case Check h opts of
        (result, Some e) \<Rightarrow> (fs, Returned result (Some e))
      | (result, None) \<Rightarrow>
          if \<not> ur_UpdateAvailable result then (fs, Returned result None)
          else case (if TrimSpace (uo_ExecutablePath opts) = [] then resolveExecutablePath h
                     else Some (TrimSpace (uo_ExecutablePath opts))) of
            None \<Rightarrow> (fs, Returned result (Some ExecutableUnresolved))
          | Some executablePath \<Rightarrow>
              let result1 = result\<lparr>ur_ExecutablePath := executablePath\<rparr>
              in case fetch_nth h opts 1 of
                   Inl e \<Rightarrow> (fs, Returned result1 (Some (UpdateManifest e)))
                 | Inr manifest \<Rightarrow>
                     (case assetForPlatform manifest (ho_GOOS h) (ho_GOARCH h) of
                        Inl e \<Rightarrow> (fs, Returned result1 (Some (UpdateManifest e)))
                      | Inr asset \<Rightarrow>
                          (case downloadAndExtractReleaseBinary (ho_sha h) (ho_unpack h) (ho_http h 2) asset
                                  (normalizedCommandName (uo_CommandName opts)) of
                             Inl e \<Rightarrow> (fs, Returned result1 (Some e))
                           | Inr (binaryData, mode) \<Rightarrow>
                               (case installReplacementBinary h executablePath binaryData mode fs of
                                  (fs', Some e) \<Rightarrow> (fs', Returned result1 (Some e))
                                | (fs', None) \<Rightarrow>
                                    let result2 = result1\<lparr>ur_Updated := True\<rparr>
                                    in (fs', if uo_Reexec opts then relaunch h opts result2 else Returned result2 None)))))"

end
