(* ===== verification/Release_Manifest_Facts.thy ===== *)
theory Release_Manifest_Facts
  imports Release_Manifest
begin

text \<open>
  What the signature of a release manifest guarantees: the releases that \<^verbatim>\<open>sign-release-manifest\<close>
  makes are accepted by the updater, and an accepted manifest has no asset that was not signed.
\<close>

section \<open>Base64 with padding\<close>

lemma TrimRight_pads: "s = [] \<or> last s \<notin> set cs \<Longrightarrow> c \<in> set cs \<Longrightarrow> TrimRight (s @ replicate n c) cs = s"
  unfolding TrimRight_def
  by (cases s rule: rev_cases) (simp_all add: dropWhile_append2 dropWhile_append)

lemma padded_length:
  fixes n :: nat
  shows "((4 * n + 2) div 3 + (3 - n mod 3) mod 3) mod 4 = 0"
proof -
  define k where "k = n div 3"
  have "n = 3 * k \<or> n = 3 * k + 1 \<or> n = 3 * k + 2" unfolding k_def by presburger
  then show ?thesis
  proof (elim disjE)
    assume n: "n = 3 * k"
    have "(4 * n + 2) div 3 = 4 * k" "n mod 3 = 0" unfolding n by simp_all
    then show ?thesis by simp
  next
    assume n: "n = 3 * k + 1"
    have "(4 * n + 2) div 3 = 4 * k + 2" "n mod 3 = 1" unfolding n by presburger+
    then show ?thesis by simp
  next
    assume n: "n = 3 * k + 2"
    have "(4 * n + 2) div 3 = 4 * k + 3" "n mod 3 = 2" unfolding n by presburger+
    then show ?thesis by simp
  qed
qed

lemma padded_round_trip: "padded_decode std_alphabet (padded_encode std_alphabet s) = Some s"
proof -
  let ?r = "raw_encode std_alphabet s" and ?p = "(3 - length s mod 3) mod 3"
  have chars: "set ?r \<subseteq> set std_alphabet" by (rule raw_encode_chars) (rule std_alphabet_facts)
  then have "drop_newlines (padded_encode std_alphabet s) = padded_encode std_alphabet s"
    using std_alphabet_facts(3,4) by (intro drop_newlines_id) (auto simp: padded_encode_def)
  moreover have "?r = [] \<or> last ?r \<notin> set ''=''"
    using chars std_alphabet_facts(5) by (cases "?r = []") (auto dest: last_in_set)
  then have "TrimRight (padded_encode std_alphabet s) ''='' = ?r"
    unfolding padded_encode_def by (rule TrimRight_pads) simp
  moreover have "length (padded_encode std_alphabet s) mod 4 = 0"
    using padded_length [of "length s"] by (simp add: padded_encode_def raw_encode_def sextets_length)
  moreover have "?p \<le> 2" by simp
  moreover have "raw_decode std_alphabet ?r = Some s"
    by (rule raw_round_trip) (rule std_alphabet_facts)+
  ultimately show ?thesis
    by (simp add: padded_decode_def Let_def) (simp add: padded_encode_def)
qed

lemma padded_solid: "c \<in> set (padded_encode std_alphabet s) \<Longrightarrow> ord c < 128 \<and> \<not> ascii_space c"
proof -
  have "list_all (\<lambda>c. ord c < 128 \<and> \<not> ascii_space c) (std_alphabet @ ''='')"
    by (simp add: std_alphabet_def ord_def ascii_space_def)
  moreover assume "c \<in> set (padded_encode std_alphabet s)"
  then have "c \<in> set (std_alphabet @ ''='')"
    using raw_encode_chars [OF std_alphabet_facts(2), of s] by (auto simp: padded_encode_def)
  ultimately show ?thesis unfolding list_all_iff by blast
qed

lemma padded_trimmed: "TrimSpace (padded_encode std_alphabet s) = padded_encode std_alphabet s"
  using padded_solid by (intro TrimSpace_id url_safe_trimmed) blast

lemma decodeBase64_padded: "decodeBase64 (padded_encode std_alphabet s) = Some s"
  by (simp add: decodeBase64_def base64_decoders_def padded_trimmed padded_round_trip)

lemma padded_empty: "padded_encode std_alphabet s = [] \<longleftrightarrow> s = []"
  by (cases s rule: sextets.cases) (simp_all add: padded_encode_def raw_encode_def)

section \<open>Texts that are not only space\<close>

lemma strip_keeps:
  assumes "\<And>s. w s \<noteq> 0 \<Longrightarrow> c \<notin> set (take (w s) s)" and "c \<in> set s"
  shows "c \<in> set (strip w s)"
  using assms(2)
proof (induction "length s" arbitrary: s rule: less_induct)
  case less
  show ?case
  proof (cases "w s = 0 \<or> s = []")
    case True
    with less.prems show ?thesis by (auto simp: strip.simps [of w s])
  next
    case False
    then have "c \<in> set (drop (w s) s)"
      using assms(1) [of s] less.prems by (metis UnE append_take_drop_id set_append)
    with False less.hyps [of "drop (w s) s"] show ?thesis by (simp add: strip.simps [of w s])
  qed
qed

lemma space_width_letters:
  "is_letter c \<Longrightarrow> c \<notin> set (take (space_width s) s)" "is_letter c \<Longrightarrow> c \<notin> set (take (rspace_width s) s)"
  using nonletter_space by (cases s rule: space_width.cases; auto)+

lemma TrimSpace_letter: "is_letter c \<Longrightarrow> c \<in> set s \<Longrightarrow> TrimSpace s \<noteq> []"
  using strip_keeps [of space_width c s] strip_keeps [of rspace_width c "rev (strip space_width s)"] space_width_letters
  by (auto simp: TrimSpace_def dest!: arg_cong [where f = set])

lemma hex_solid: "c \<in> set (hex_EncodeToString s) \<Longrightarrow> ord c < 128 \<and> \<not> ascii_space c"
proof -
  have "list_all (\<lambda>n. ord (hex_char n) < 128 \<and> \<not> ascii_space (hex_char n)) [0..<16]"
    by code_simp
  then have hex: "n < 16 \<Longrightarrow> ord (hex_char n) < 128 \<and> \<not> ascii_space (hex_char n)" for n
    by (simp add: list_all_iff del: upt_Suc)
  assume "c \<in> set (hex_EncodeToString s)"
  then show ?thesis
    unfolding hex_EncodeToString_def using hex ord_less
    by (auto simp: div_less_iff_less_mult)
qed

section \<open>A release that was signed is accepted\<close>

lemma key_decodes:
  assumes "decodePublicKey raw = Inr pub"
  shows "decodeReleaseManifestPublicKey raw = Inr pub"
proof -
  have "decodeBase64 (TrimPrefix (TrimSpace raw) ''ed25519:'') = Some pub" "length pub = PublicKeySize"
    using assms by (auto simp: decodePublicKey_def split: option.splits if_splits)
  moreover from this have "TrimSpace (TrimPrefix (TrimSpace raw) ''ed25519:'') \<noteq> []"
    by (auto simp: decodeBase64_def base64_decoders_def PublicKeySize_def padded_decode_def raw_decode_def
        drop_newlines_def TrimRight_def)
  ultimately show ?thesis
    by (simp add: decodeReleaseManifestPublicKey_def Let_def decodeBase64_def)
qed

lemma payload_unsigned [simp]: "releaseManifestSigningPayload (m\<lparr>rm_Signature := s\<rparr>) = releaseManifestSigningPayload m"
  by (simp add: releaseManifestSigningPayload_def)

lemma add_platforms_get:
  "add_platforms sha read baseURL pairs m = Inr m' \<Longrightarrow> distinct (map (\<lambda>(os, arch). os @ ''/'' @ arch) pairs) \<Longrightarrow>
   (\<forall>k. k \<notin> (\<lambda>(os, arch). os @ ''/'' @ arch) ` set pairs \<longrightarrow> go_get m' k = go_get m k)
   \<and> (\<forall>(os, arch) \<in> set pairs. \<exists>data. read (archive_name os arch) = Some data \<and> go_get m' (os @ ''/'' @ arch) =
       Some \<lparr>ra_URL = baseURL @ ''/downloads/'' @ archive_name os arch, ra_SHA256 = hex_EncodeToString (sha data)\<rparr>)"
proof (induction pairs arbitrary: m)
  case Nil
  then show ?case by simp
next
  case (Cons pair pairs)
  obtain os arch where pair: "pair = (os, arch)" by fastforce
  with Cons.prems(1) obtain data where data: "read (archive_name os arch) = Some data"
    "add_platforms sha read baseURL pairs (go_put m (os @ ''/'' @ arch)
       \<lparr>ra_URL = baseURL @ ''/downloads/'' @ archive_name os arch, ra_SHA256 = hex_EncodeToString (sha data)\<rparr>) = Inr m'"
    by (auto simp: Let_def split: option.splits)
  have "distinct (map (\<lambda>(os, arch). os @ ''/'' @ arch) pairs)" using Cons.prems(2) by simp
  from Cons.IH [OF data(2) this] data(1) Cons.prems(2) pair show ?case by force
qed

text \<open>The keys of the signing script belong together, and Ed25519 accepts what it has signed.\<close>

definition ed25519_ok :: "(string \<Rightarrow> string) \<Rightarrow> (string \<Rightarrow> string \<Rightarrow> string) \<Rightarrow> (string \<Rightarrow> string \<Rightarrow> string \<Rightarrow> bool) \<Rightarrow> bool" where
  "ed25519_ok from_seed sign verify \<longleftrightarrow>
     (\<forall>seed. length seed = SeedSize \<longrightarrow> length (from_seed seed) = PrivateKeySize)
     \<and> (\<forall>priv msg. length priv = PrivateKeySize \<longrightarrow>
          verify (public_of priv) msg (sign priv msg) \<and> length (sign priv msg) = SignatureSize)"

lemma sign_release_Inr:
  assumes "sign_release sha from_seed sign read args stdin = Inr m" and "ed25519_ok from_seed sign verify"
  obtains priv platforms where "length priv = PrivateKeySize" "decodePublicKey (args ! 4) = Inr (public_of priv)"
    "add_platforms sha (read (args ! 0)) (TrimRight (args ! 2) ''/'') release_platforms [] = Inr platforms"
    "rm_Platforms m = platforms"
    "rm_Signature m = padded_encode std_alphabet (sign priv (releaseManifestSigningPayload m))"
proof -
  have "length priv = PrivateKeySize" if "decodePrivateKey from_seed raw = Inr priv" for raw priv
    using that assms(2) by (auto simp: decodePrivateKey_def ed25519_ok_def split: option.splits if_splits)
  moreover obtain raw priv platforms where p: "decodePrivateKey from_seed raw = Inr priv"
    "decodePublicKey (args ! 4) = Inr (public_of priv)"
    "add_platforms sha (read (args ! 0)) (TrimRight (args ! 2) ''/'') release_platforms [] = Inr platforms"
    "m = \<lparr>rm_Version = args ! 1, rm_PublishedAt = args ! 3, rm_Platforms = platforms,
       rm_Signature = padded_encode std_alphabet (sign priv (releaseManifestSigningPayload
         \<lparr>rm_Version = args ! 1, rm_PublishedAt = args ! 3, rm_Platforms = platforms, rm_Signature = []\<rparr>))\<rparr>"
    using assms(1) by (auto simp: sign_release_def Let_def split: if_splits sum.splits)
  ultimately show ?thesis
    by (intro that [OF _ p(2,3)]) (simp_all add: p(4) releaseManifestSigningPayload_def)
qed

lemma signed_release_verifies:
  assumes "sign_release sha from_seed sign read args stdin = Inr m" and "ed25519_ok from_seed sign verify"
  shows "verifyReleaseManifestSignature verify m (args ! 4) = None"
proof -
  obtain priv where p: "length priv = PrivateKeySize" "decodePublicKey (args ! 4) = Inr (public_of priv)"
    "rm_Signature m = padded_encode std_alphabet (sign priv (releaseManifestSigningPayload m))"
    using sign_release_Inr [OF assms] by metis
  let ?sig = "sign priv (releaseManifestSigningPayload m)"
  have "verify (public_of priv) (releaseManifestSigningPayload m) ?sig" "length ?sig = SignatureSize"
    using assms(2) p(1) by (simp_all add: ed25519_ok_def)
  moreover from this(2) have "padded_encode std_alphabet ?sig \<noteq> []" by (auto simp: padded_empty SignatureSize_def)
  ultimately show ?thesis
    by (simp add: verifyReleaseManifestSignature_def p(3) padded_trimmed key_decodes [OF p(2)] decodeBase64_padded)
qed


section \<open>What was not signed is not accepted\<close>

definition one_line :: "string \<Rightarrow> bool" where
  "one_line s \<longleftrightarrow> CHR 0x0A \<notin> set s"

definition triple :: "string \<times> releaseAsset \<Rightarrow> string list" where
  "triple e = [''platform:'' @ TrimSpace (fst e), ''url:'' @ TrimSpace (ra_URL (snd e)),
     ''sha256:'' @ ToLower (TrimSpace (ra_SHA256 (snd e)))]"

definition one_line_entry :: "string \<times> releaseAsset \<Rightarrow> bool" where
  "one_line_entry e \<longleftrightarrow> one_line (TrimSpace (fst e)) \<and> one_line (TrimSpace (ra_URL (snd e)))
     \<and> one_line (ToLower (TrimSpace (ra_SHA256 (snd e))))"

definition header_lines :: "releaseManifest \<Rightarrow> string list" where
  "header_lines m = [releaseManifestSigningV1, ''version:'' @ TrimSpace (rm_Version m),
     ''published_at:'' @ TrimSpace (rm_PublishedAt m)]"

definition single_line :: "releaseManifest \<Rightarrow> bool" where
  "single_line m \<longleftrightarrow> one_line (TrimSpace (rm_Version m)) \<and> one_line (TrimSpace (rm_PublishedAt m))
     \<and> (\<forall>e \<in> set (sorted_assets (rm_Platforms m)). one_line_entry e)"

abbreviation lines_of :: "string \<Rightarrow> string list" where
  "lines_of \<equiv> split_on (CHR 0x0A)"

definition ended :: "string list \<Rightarrow> string" where
  "ended ls = concat (map (\<lambda>l. l @ newline) ls)"

lemma ended_append [simp]: "ended (xs @ ys) = ended xs @ ended ys" "ended [] = []"
  by (simp_all add: ended_def)

lemma lines_cut: "lines_of (a @ newline @ b) = lines_of a @ lines_of b"
proof (induction a)
  case Nil
  then show ?case by (simp add: newline_def)
next
  case (Cons x a)
  obtain l ls where "lines_of a = l # ls" by (cases "lines_of a") auto
  with Cons show ?case by simp
qed

lemma lines_ended: "\<forall>l \<in> set ls. one_line l \<Longrightarrow> lines_of (ended ls @ b) = ls @ lines_of b"
  by (induction ls) (simp_all add: ended_def lines_cut one_line_def split_on_none)

lemma asset_lines_ended: "asset_lines (fst e) (snd e) = ended (triple e)"
  by (simp add: asset_lines_def triple_def ended_def)

lemma assets_ended: "concat (map (\<lambda>(k, a). asset_lines k a) es) = ended (concat (map triple es))"
  by (induction es) (auto simp: asset_lines_ended [symmetric])

lemma payload_ended:
  "releaseManifestSigningPayload m = ended (header_lines m @ concat (map triple (sorted_assets (rm_Platforms m))))"
  by (simp add: releaseManifestSigningPayload_def header_lines_def assets_ended) (simp add: ended_def)

lemma triple_one_line: "one_line_entry e \<Longrightarrow> l \<in> set (triple e) \<Longrightarrow> one_line l"
  by (auto simp: one_line_entry_def triple_def one_line_def)

lemma header_one_line: "single_line m \<Longrightarrow> l \<in> set (header_lines m) \<Longrightarrow> one_line l"
  by (auto simp: single_line_def header_lines_def one_line_def releaseManifestSigningV1_def)

lemma single_line_lines:
  assumes "single_line m"
  shows "lines_of (releaseManifestSigningPayload m) = header_lines m @ concat (map triple (sorted_assets (rm_Platforms m))) @ [[]]"
proof -
  have "\<forall>l \<in> set (header_lines m @ concat (map triple (sorted_assets (rm_Platforms m)))). one_line l"
  proof
    fix l assume "l \<in> set (header_lines m @ concat (map triple (sorted_assets (rm_Platforms m))))"
    then consider "l \<in> set (header_lines m)" | e where "e \<in> set (sorted_assets (rm_Platforms m))" "l \<in> set (triple e)"
      by auto
    then show "one_line l"
      using assms header_one_line [OF assms] triple_one_line unfolding single_line_def by cases blast+
  qed
  from lines_ended [OF this, of "[]"] show ?thesis
    by (simp only: payload_ended append_Nil2 append_assoc split_on.simps)
qed

lemma first_three: "xs = [] \<or> (\<exists>x. xs = [x]) \<or> (\<exists>x y. xs = [x, y]) \<or> (\<exists>x y z zs. xs = x # y # z # zs)"
  by (cases xs rule: remdups_adj.cases; cases "tl (tl xs)") simp_all

text \<open>A block of three lines that reads like an entry is one.\<close>

lemma triple_in_assets:
  "xs @ triple e @ ys = concat (map triple es) @ [[]] \<Longrightarrow> triple e \<in> triple ` set es"
proof (induction es arbitrary: xs)
  case Nil
  then show ?case by (cases xs) (simp_all add: triple_def)
next
  case (Cons e0 es)
  consider "xs = []" | x where "xs = [x]" | x y where "xs = [x, y]" | x y z zs where "xs = x # y # z # zs"
    using first_three [of xs] by blast
  then show ?case
  proof cases
    case 1
    then show ?thesis using Cons.prems by (simp add: triple_def)
  next
    case (4 x y z zs)
    then have "zs @ triple e @ ys = concat (map triple es) @ [[]]"
      using Cons.prems by (simp add: triple_def [of e0])
    then show ?thesis using Cons.IH by simp
  qed (use Cons.prems in \<open>simp_all add: triple_def [of e] triple_def [of e0]\<close>)
qed

lemma triple_in_payload:
  assumes "xs @ triple e @ ys = header_lines m @ concat (map triple es) @ [[]]"
  shows "triple e \<in> triple ` set es"
proof -
  consider "xs = []" | x where "xs = [x]" | x y where "xs = [x, y]" | x y z zs where "xs = x # y # z # zs"
    using first_three [of xs] by blast
  then show ?thesis
  proof cases
    case (4 x y z zs)
    then have "zs @ triple e @ ys = concat (map triple es) @ [[]]"
      using assms by (simp add: header_lines_def)
    then show ?thesis by (rule triple_in_assets)
  qed (use assms in \<open>simp_all add: triple_def [of e] header_lines_def releaseManifestSigningV1_def\<close>)
qed

lemma sorted_assets_iff: "(k, a) \<in> set (sorted_assets m) \<longleftrightarrow> go_get m k = Some a"
proof -
  have "k \<in> set (map fst m) \<longleftrightarrow> go_get m k \<noteq> None" by (simp add: go_get_None)
  then show ?thesis by (auto simp: sorted_assets_def)
qed

lemma triple_inj: "triple e = triple e0 \<Longrightarrow> TrimSpace (fst e) = TrimSpace (fst e0)
    \<and> TrimSpace (ra_URL (snd e)) = TrimSpace (ra_URL (snd e0))
    \<and> ToLower (TrimSpace (ra_SHA256 (snd e))) = ToLower (TrimSpace (ra_SHA256 (snd e0)))"
  by (simp add: triple_def)

lemma payload_binds_entry:
  assumes "releaseManifestSigningPayload m' = releaseManifestSigningPayload m" and "single_line m"
    and "e \<in> set (sorted_assets (rm_Platforms m'))" "one_line_entry e"
  shows "triple e \<in> triple ` set (sorted_assets (rm_Platforms m))"
proof -
  obtain es es' where es: "sorted_assets (rm_Platforms m') = es @ e # es'" using split_list [OF assms(3)] by blast
  define before where "before = header_lines m' @ concat (map triple es)"
  have "releaseManifestSigningPayload m' = ended before @ ended (triple e) @ ended (concat (map triple es'))"
    by (simp add: payload_ended es before_def)
  moreover obtain p where "ended before = p @ newline"
  proof -
    obtain ls l where "before = ls @ [l]"
      by (cases before rule: rev_cases) (simp_all add: before_def header_lines_def)
    then have "ended before = (ended ls @ l) @ newline" by (simp add: ended_def)
    then show ?thesis by (rule that)
  qed
  ultimately have "lines_of (releaseManifestSigningPayload m') =
      lines_of p @ lines_of (ended (triple e) @ ended (concat (map triple es')))"
    by (simp add: lines_cut)
  also have "lines_of (ended (triple e) @ ended (concat (map triple es'))) = triple e @ lines_of (ended (concat (map triple es')))"
    using triple_one_line [OF assms(4)] by (intro lines_ended) blast
  finally show ?thesis
    using single_line_lines [OF assms(2)] assms(1) triple_in_payload [of "lines_of p" e _ m] by simp
qed

lemma payload_binds_version:
  assumes "releaseManifestSigningPayload m' = releaseManifestSigningPayload m" and "single_line m"
    and "one_line (TrimSpace (rm_Version m'))"
  shows "TrimSpace (rm_Version m') = TrimSpace (rm_Version m)"
proof -
  have first: "lines_of (releaseManifestSigningPayload m) ! 1 = ''version:'' @ TrimSpace (rm_Version m)"
    if "one_line (TrimSpace (rm_Version m))" for m
  proof -
    obtain rest where rest: "releaseManifestSigningPayload m =
        ended [releaseManifestSigningV1, ''version:'' @ TrimSpace (rm_Version m)] @ rest"
      by (simp add: payload_ended header_lines_def) (simp add: ended_def)
    have "\<forall>l \<in> set [releaseManifestSigningV1, ''version:'' @ TrimSpace (rm_Version m)]. one_line l"
      using that by (simp add: one_line_def releaseManifestSigningV1_def)
    from lines_ended [OF this, of rest] show ?thesis unfolding rest by simp
  qed
  have "one_line (TrimSpace (rm_Version m))" using assms(2) by (simp add: single_line_def)
  then show ?thesis using first [of m] first [of m'] assms(1,3) by simp
qed


section \<open>Witnesses\<close>

text \<open>A toy signature scheme: a private key is its public half twice, a signature holds the key and the hash of the text.\<close>

definition toy_hash :: "string \<Rightarrow> string" where
  "toy_hash s = take 32 (rev s @ replicate 32 (CHR ''0''))"

definition toy_sign :: "string \<Rightarrow> string \<Rightarrow> string" where
  "toy_sign priv msg = drop 32 priv @ toy_hash msg"

definition toy_verify :: "string \<Rightarrow> string \<Rightarrow> string \<Rightarrow> bool" where
  "toy_verify pub msg sig \<longleftrightarrow> sig = pub @ toy_hash msg"

lemma toy_ok: "ed25519_ok (\<lambda>seed. seed @ seed) toy_sign toy_verify"
  by (simp add: ed25519_ok_def toy_sign_def toy_verify_def toy_hash_def public_of_def SeedSize_def PrivateKeySize_def SignatureSize_def min_def)

definition demo_seed :: string where "demo_seed = ''0123456789abcdef0123456789abcdef''"

definition demo_sign_args :: "string list" where
  "demo_sign_args = [''out'', ''v1.2.0'', ''https://dl/'', ''2026'', padded_encode std_alphabet demo_seed]"

definition demo_release :: releaseManifest where
  "demo_release = (case sign_release (\<lambda>d. d @ ''h'') (\<lambda>seed. seed @ seed) toy_sign (\<lambda>_ n. Some n) demo_sign_args
     (Some (padded_encode std_alphabet demo_seed)) of Inr m \<Rightarrow> m | Inl _ \<Rightarrow>
       \<lparr>rm_Version = [], rm_PublishedAt = [], rm_Platforms = [], rm_Signature = []\<rparr>)"

lemma demo_release_signed:
  "sign_release (\<lambda>d. d @ ''h'') (\<lambda>seed. seed @ seed) toy_sign (\<lambda>_ n. Some n) demo_sign_args
     (Some (padded_encode std_alphabet demo_seed)) = Inr demo_release"
proof -
  let ?key = "padded_encode std_alphabet demo_seed"
  have len: "length ?key = 44" by code_simp
  have "readPrivateKey (Some ?key) = Inr ?key"
    using len padded_empty [of demo_seed] by (simp add: readPrivateKey_def padded_trimmed demo_seed_def [symmetric])
       (simp add: demo_seed_def)
  moreover have "decodePrivateKey (\<lambda>seed. seed @ seed) ?key = Inr (demo_seed @ demo_seed)" by code_simp
  moreover have "decodePublicKey ?key = Inr demo_seed" by code_simp
  moreover have "public_of (demo_seed @ demo_seed) = demo_seed" by code_simp
  moreover have "is_ok (add_platforms (\<lambda>d. d @ ''h'') Some (TrimRight ''https://dl/'' ''/'') release_platforms [])" by code_simp
  ultimately show ?thesis
    unfolding demo_release_def
    by (auto simp: sign_release_def demo_sign_args_def is_ok_iff Let_def)
qed


lemma demo_release_single_line: "single_line demo_release"
proof -
  have "\<exists>platforms sig. add_platforms (\<lambda>d. d @ ''h'') Some (TrimRight ''https://dl/'' ''/'') release_platforms [] = Inr platforms
      \<and> \<lparr>rm_Version = ''v1.2.0'', rm_PublishedAt = ''2026'', rm_Platforms = platforms, rm_Signature = sig\<rparr> = demo_release"
    using demo_release_signed by (auto simp: sign_release_def demo_sign_args_def Let_def split: sum.splits if_splits)
  then obtain platforms where platforms: "add_platforms (\<lambda>d. d @ ''h'') Some (TrimRight ''https://dl/'' ''/'') release_platforms [] = Inr platforms"
    "rm_Platforms demo_release = platforms" "rm_Version demo_release = ''v1.2.0''" "rm_PublishedAt demo_release = ''2026''"
    by (metis releaseManifest.select_convs(1-3))
  have "case add_platforms (\<lambda>d. d @ ''h'') Some (TrimRight ''https://dl/'' ''/'') release_platforms [] of
      Inr p \<Rightarrow> list_all one_line_entry (sorted_assets p) | Inl _ \<Rightarrow> False"
    by code_simp
  moreover have "one_line (TrimSpace ''v1.2.0'')" "one_line (TrimSpace ''2026'')" by code_simp+
  ultimately show ?thesis by (simp add: single_line_def platforms list_all_iff)
qed


end
