(* ===== verification/Self_Update_Facts.thy ===== *)
theory Self_Update_Facts
  imports Self_Update Release_Manifest_Facts
begin

text \<open>
  What an update can do to the file system: nothing, or put the binary of a signed release in the
  place of the executable; and how the two readings of the manifest can disagree.
\<close>

section \<open>Replacement is all or nothing\<close>

definition same_files_except :: "string set \<Rightarrow> files \<Rightarrow> files \<Rightarrow> bool" where
  "same_files_except ps fs fs' \<longleftrightarrow> (\<forall>p. p \<notin> ps \<longrightarrow> go_get fs' p = go_get fs p)"

lemma same_files_refl [simp]: "same_files_except ps fs fs"
  by (simp add: same_files_except_def)

text \<open>The name of the temporary file is new, and so is not the name of the executable.\<close>

definition fresh_tmp :: "host \<Rightarrow> string \<Rightarrow> files \<Rightarrow> bool" where
  "fresh_tmp h path fs \<longleftrightarrow> (\<forall>pattern tmp. ho_tmp h path pattern = Some tmp \<longrightarrow> go_get fs tmp = None \<and> tmp \<noteq> path)"

lemma install_outcome:
  assumes "installReplacementBinary h raw data mode fs = (fs', err)" and "fresh_tmp h (TrimSpace raw) fs" "ho_remove h"
  shows "case err of
      Some _ \<Rightarrow> same_files_except {} fs fs'
    | None \<Rightarrow> data \<noteq> [] \<and> same_files_except {TrimSpace raw} fs fs'
        \<and> go_get fs' (TrimSpace raw) = Some \<lparr>fl_Data = data, fl_Mode = if mode = 0 then 0x1ED else mode\<rparr>"
proof -
  have tmp: "ho_tmp h (TrimSpace raw) pattern = Some tmp \<Longrightarrow> go_get fs tmp = None \<and> tmp \<noteq> TrimSpace raw" for pattern tmp
    using assms(2) by (simp add: fresh_tmp_def)
  show ?thesis
    using assms(1,3)
    by (auto simp: installReplacementBinary_def Let_def drop_temp_def same_files_except_def
        dest: tmp split: if_splits option.splits)
qed

section \<open>What is installed was signed and checked\<close>

lemma fetched_manifest:
  assumes "fetchLatestReleaseManifest verify http base key = Inr m"
  shows "verifyReleaseManifestSignature verify m key = None"
  using assms by (auto simp: fetchLatestReleaseManifest_def split: option.splits prod.splits if_splits)

lemma find_binary_Inr:
  "find_binary name items = Inr (data, mode) \<Longrightarrow>
   \<exists>entry m. TarEntry entry True m (Some data) \<in> set items \<and> path_Base entry = name \<and> mode = binary_mode m"
proof (induction name items rule: find_binary.induct)
  case (3 commandName name regular mode0 data0 items)
  show ?case
  proof (cases "regular \<and> path_Base name = commandName")
    case True
    then have "TarEntry name True mode0 (Some data) \<in> set (TarEntry name regular mode0 data0 # items)" "mode = binary_mode mode0"
      using 3 by (auto split: option.splits)
    with True show ?thesis by blast
  next
    case False
    with 3 show ?thesis by (metis (no_types, lifting) find_binary.simps(3) list.set_intros(2))
  qed
qed simp_all

text \<open>The binary comes from an archive with the checksum that a manifest with a valid signature states for this platform.\<close>

definition release_binary :: "host \<Rightarrow> update_options \<Rightarrow> string \<Rightarrow> file_mode \<Rightarrow> bool" where
  "release_binary h opts data mode \<longleftrightarrow> (\<exists>m asset archive items entry tar_mode.
     verifyReleaseManifestSignature (ho_verify h) m (uo_ManifestPublicKey opts) = None
     \<and> assetForPlatform m (ho_GOOS h) (ho_GOARCH h) = Inr asset
     \<and> hex_EncodeToString (ho_sha h archive) = ToLower (TrimSpace (ra_SHA256 asset))
     \<and> ho_unpack h archive = Some items \<and> TarEntry entry True tar_mode (Some data) \<in> set items
     \<and> path_Base entry = normalizedCommandName (uo_CommandName opts) \<and> mode = binary_mode tar_mode)"

lemma normalized_twice: "normalizedCommandName (normalizedCommandName raw) = normalizedCommandName raw"
proof -
  have "TrimSpace ''shellin'' = ''shellin''" by code_simp
  then show ?thesis by (simp add: normalizedCommandName_def Let_def defaultCommandName_def)
qed

lemma download_Inr:
  assumes "downloadAndExtractReleaseBinary sha unpack http asset (normalizedCommandName name) = Inr (data, mode)"
  obtains archive items entry m where "hex_EncodeToString (sha archive) = ToLower (TrimSpace (ra_SHA256 asset))"
    "unpack archive = Some items" "TarEntry entry True m (Some data) \<in> set items"
    "path_Base entry = normalizedCommandName name" "mode = binary_mode m"
proof -
  obtain archive items where "verifyReleaseArchiveChecksum sha archive (ra_SHA256 asset) = None" "unpack archive = Some items"
    "find_binary (normalizedCommandName name) items = Inr (data, mode)"
    using assms by (auto simp: downloadAndExtractReleaseBinary_def extractReleaseBinary_def normalized_twice
        split: option.splits prod.splits if_splits)
  with find_binary_Inr [OF this(3)] show ?thesis
    by (auto simp: verifyReleaseArchiveChecksum_def Let_def intro: that split: if_splits)
qed

definition target_path :: "host \<Rightarrow> update_options \<Rightarrow> string option" where
  "target_path h opts = map_option TrimSpace
     (if TrimSpace (uo_ExecutablePath opts) = [] then resolveExecutablePath h else Some (TrimSpace (uo_ExecutablePath opts)))"

text \<open>
  C13: An update leaves every file as it was, the executable included, whichever step fails; or it has
  succeeded, and then only the executable has changed, it is complete, and it is the binary of this
  platform from an archive whose checksum is in a manifest that the public key has signed.
\<close>

theorem update_all_or_nothing:
  assumes "Perform h opts fs = (fs', out)" and "ho_remove h"
    and "\<And>path. target_path h opts = Some path \<Longrightarrow> fresh_tmp h path fs"
  shows "same_files_except {} fs fs'
    \<or> (\<exists>path data mode. target_path h opts = Some path \<and> same_files_except {path} fs fs'
        \<and> go_get fs' path = Some \<lparr>fl_Data = data, fl_Mode = if mode = 0 then 0x1ED else mode\<rparr> \<and> data \<noteq> []
        \<and> release_binary h opts data mode)"
proof (cases "fs' = fs")
  case True
  then show ?thesis by simp
next
  case False
  then obtain result path0 m asset data mode err where
    path: "(if TrimSpace (uo_ExecutablePath opts) = [] then resolveExecutablePath h
       else Some (TrimSpace (uo_ExecutablePath opts))) = Some path0"
    and m: "fetch_nth h opts 1 = Inr m" "assetForPlatform m (ho_GOOS h) (ho_GOARCH h) = Inr asset"
    and data: "downloadAndExtractReleaseBinary (ho_sha h) (ho_unpack h) (ho_http h 2) asset
       (normalizedCommandName (uo_CommandName opts)) = Inr (data, mode)"
    and install: "installReplacementBinary h path0 data mode fs = (fs', err)"
    using assms(1) unfolding Perform_def Let_def
    by (auto split: prod.splits option.splits sum.splits if_splits)
  have target: "target_path h opts = Some (TrimSpace path0)" unfolding target_path_def path by simp
  have "verifyReleaseManifestSignature (ho_verify h) m (uo_ManifestPublicKey opts) = None"
    using m(1) fetched_manifest by (simp add: fetch_nth_def)
  with m(2) data have "release_binary h opts data mode"
    unfolding release_binary_def by (elim download_Inr) blast
  with install_outcome [OF install assms(3) [OF target] assms(2)] target show ?thesis
    by (cases err) auto
qed

section \<open>The manifest is read twice\<close>

text \<open>
  A server that holds two releases, both signed, and answers with the new manifest first and with the
  old one when the updater asks again.
\<close>

definition demo_signed :: "string \<Rightarrow> releaseManifest" where
  "demo_signed version =
     (let m = \<lparr>rm_Version = version, rm_PublishedAt = [], rm_Platforms = [(''linux/amd64'',
            \<lparr>ra_URL = ''https://dl/'' @ version, ra_SHA256 = hex_EncodeToString version\<rparr>)], rm_Signature = []\<rparr>
      in m\<lparr>rm_Signature := padded_encode std_alphabet (demo_seed @ toy_hash (releaseManifestSigningPayload m))\<rparr>)"

text \<open>The archive of a version is its name; the hash of an archive is itself; the binary in it, too.\<close>

definition demo_host :: host where
  "demo_host = \<lparr>ho_http = (\<lambda>n url. Some (200, if n = 0 then print_json (releaseManifest_json (demo_signed ''v2.0.0''))
       else if n = 1 then print_json (releaseManifest_json (demo_signed ''v1.0.0'')) else drop (length ''https://dl/'') url)),
     ho_verify = toy_verify, ho_sha = (\<lambda>data. data),
     ho_unpack = (\<lambda>data. Some [TarEntry ''./shellin'' True 0x1ED (Some data)]),
     ho_GOOS = ''linux'', ho_GOARCH = ''amd64'', ho_Executable = Some ''/bin/shellin'', ho_EvalSymlinks = (\<lambda>p. None),
     ho_Args = [], ho_Environ = [], ho_exec = False, ho_tmp = (\<lambda>p _. Some (p @ ''.update-1'')),
     ho_chmod = True, ho_write = None, ho_close = True, ho_rename = True, ho_remove = True\<rparr>"

definition demo_update :: update_options where
  "demo_update = \<lparr>uo_AllowUnknownCurrent = False, uo_AppliedEnvName = [], uo_CommandName = [], uo_ExecutablePath = [],
     uo_ManifestPublicKey = padded_encode std_alphabet demo_seed, uo_Reexec = False, uo_Args = [],
     uo_BaseURL = ''https://dl'', uo_CurrentVersion = ''v1.5.0''\<rparr>"

lemma demo_signed_printable: "ascii v \<Longrightarrow> printable max_depth (releaseManifest_json (demo_signed v))"
proof -
  assume v: "ascii v"
  have "ascii (hex_EncodeToString v)" "ascii (padded_encode std_alphabet s)" for s
    using hex_solid padded_solid by (auto simp: ascii_def)
  with v show ?thesis
    by (simp add: demo_signed_def Let_def releaseManifest_json_def releaseAsset_json_def sorted_assets_def go_get_def
        max_depth_def) (simp add: ascii_def ord_def)
qed

lemma fetch_printed:
  assumes "ho_http h n (TrimRight (TrimSpace (uo_BaseURL opts)) ''/'' @ latestManifestPath) =
      Some (200, print_json (releaseManifest_json m))"
    and "printable max_depth (releaseManifest_json m)" "decode_releaseManifest True (releaseManifest_json m) = Some m"
    and "verifyReleaseManifestSignature (ho_verify h) m (uo_ManifestPublicKey opts) = None"
  shows "fetch_nth h opts n = Inr m"
  using assms(1,3,4) Decode_print [OF assms(2)] by (simp add: fetch_nth_def fetchLatestReleaseManifest_def)

lemma demo_host_sel [simp]:
  "ho_http demo_host 0 url = Some (200, print_json (releaseManifest_json (demo_signed ''v2.0.0'')))"
  "ho_http demo_host (Suc 0) url = Some (200, print_json (releaseManifest_json (demo_signed ''v1.0.0'')))"
  "ho_verify demo_host = toy_verify" "uo_ManifestPublicKey demo_update = padded_encode std_alphabet demo_seed"
  by (simp_all add: demo_host_def demo_update_def)

lemma demo_signed_ok:
  "decode_releaseManifest True (releaseManifest_json (demo_signed ''v2.0.0'')) = Some (demo_signed ''v2.0.0'')"
  "decode_releaseManifest True (releaseManifest_json (demo_signed ''v1.0.0'')) = Some (demo_signed ''v1.0.0'')"
  "verifyReleaseManifestSignature toy_verify (demo_signed ''v2.0.0'') (padded_encode std_alphabet demo_seed) = None"
  "verifyReleaseManifestSignature toy_verify (demo_signed ''v1.0.0'') (padded_encode std_alphabet demo_seed) = None"
  by code_simp+

lemma demo_fetched:
  "fetch_nth demo_host demo_update 0 = Inr (demo_signed ''v2.0.0'')"
  "fetch_nth demo_host demo_update 1 = Inr (demo_signed ''v1.0.0'')"
  by (rule fetch_printed; simp add: demo_signed_ok demo_signed_printable ascii_def ord_def)+

definition demo_updated :: "files \<times> outcome" where
  "demo_updated = ([(''/bin/shellin'', \<lparr>fl_Data = ''v1.0.0'', fl_Mode = 0x1ED\<rparr>)],
     Returned \<lparr>ur_Checked = True, ur_CurrentVersion = ''v1.5.0'', ur_ExecutablePath = ''/bin/shellin'',
       ur_LatestVersion = ''v2.0.0'', ur_UpdateAvailable = True, ur_Updated = True\<rparr> None)"

lemma demo_performs:
  "Perform demo_host demo_update [] = demo_updated"
proof -
  have check: "Check demo_host demo_update = (\<lparr>ur_Checked = True, ur_CurrentVersion = ''v1.5.0'', ur_ExecutablePath = [],
      ur_LatestVersion = ''v2.0.0'', ur_UpdateAvailable = True, ur_Updated = False\<rparr>, None)"
  proof -
    have "TrimSpace (rm_Version (demo_signed ''v2.0.0'')) = ''v2.0.0''" "TrimSpace (uo_CurrentVersion demo_update) = ''v1.5.0''"
      "shouldInstallLatestRelease ''v1.5.0'' ''v2.0.0'' (uo_AllowUnknownCurrent demo_update)"
      by code_simp+
    then show ?thesis unfolding Check_def demo_fetched Let_def by simp
  qed
  have "case assetForPlatform (demo_signed ''v1.0.0'') ''linux'' ''amd64'' of Inl e \<Rightarrow> False | Inr asset \<Rightarrow>
      downloadAndExtractReleaseBinary (ho_sha demo_host) (ho_unpack demo_host) (ho_http demo_host 2) asset
        (normalizedCommandName []) = Inr (''v1.0.0'', 0x1ED)"
    by code_simp
  then obtain asset where asset: "assetForPlatform (demo_signed ''v1.0.0'') ''linux'' ''amd64'' = Inr asset"
    "downloadAndExtractReleaseBinary (ho_sha demo_host) (ho_unpack demo_host) (ho_http demo_host 2) asset
        (normalizedCommandName []) = Inr (''v1.0.0'', 0x1ED)"
    by (auto split: sum.splits)
  have install: "installReplacementBinary demo_host ''/bin/shellin'' ''v1.0.0'' 0x1ED [] =
      ([(''/bin/shellin'', \<lparr>fl_Data = ''v1.0.0'', fl_Mode = 0x1ED\<rparr>)], None)"
    by code_simp
  have "resolveExecutablePath demo_host = Some ''/bin/shellin''" "TrimSpace (uo_ExecutablePath demo_update) = []"
    "ho_GOOS demo_host = ''linux''" "ho_GOARCH demo_host = ''amd64''" "uo_CommandName demo_update = []" "\<not> uo_Reexec demo_update"
    by (simp_all add: resolveExecutablePath_def demo_host_def demo_update_def)
  then show ?thesis
    unfolding Perform_def check demo_fetched Let_def using asset install
    by (simp add: demo_updated_def)
qed

text \<open>
  C17: The version that was compared need not be the version that is installed: \<^verbatim>\<open>Perform\<close> reads the
  manifest a second time and does not compare it again. Here version 1.5.0 finds version 2.0.0,
  reports that it has been installed, and has put version 1.0.0 in the place of the executable.
\<close>

theorem update_can_downgrade:
  "Perform demo_host demo_update [] = demo_updated
   \<and> verifyReleaseManifestSignature toy_verify (demo_signed ''v2.0.0'') (uo_ManifestPublicKey demo_update) = None
   \<and> verifyReleaseManifestSignature toy_verify (demo_signed ''v1.0.0'') (uo_ManifestPublicKey demo_update) = None"
  by (simp add: demo_performs demo_signed_ok)

lemma demo_fresh: "target_path demo_host demo_update = Some path \<Longrightarrow> fresh_tmp demo_host path []"
  by (simp add: fresh_tmp_def demo_host_def)

theorem update_all_or_nothing_witness:
  "\<exists>data mode. go_get (fst demo_updated) ''/bin/shellin'' = Some \<lparr>fl_Data = data, fl_Mode = if mode = 0 then 0x1ED else mode\<rparr>
     \<and> release_binary demo_host demo_update data mode"
proof -
  have "Perform demo_host demo_update [] = (fst demo_updated, snd demo_updated)" by (simp add: demo_performs)
  moreover have "ho_remove demo_host" by (simp add: demo_host_def)
  ultimately have "same_files_except {} [] (fst demo_updated) \<or> (\<exists>path data mode. target_path demo_host demo_update = Some path
      \<and> same_files_except {path} [] (fst demo_updated)
      \<and> go_get (fst demo_updated) path = Some \<lparr>fl_Data = data, fl_Mode = if mode = 0 then 0x1ED else mode\<rparr> \<and> data \<noteq> []
      \<and> release_binary demo_host demo_update data mode)"
    using demo_fresh by (rule update_all_or_nothing)
  moreover have "\<not> same_files_except {} [] (fst demo_updated)"
    by (auto simp: same_files_except_def demo_updated_def go_get_def)
  moreover have "target_path demo_host demo_update = Some ''/bin/shellin''"
    by code_simp
  ultimately show ?thesis by (metis option.inject)
qed

end
