(* ===== verification/Agent_Label_Facts.thy ===== *)
theory Agent_Label_Facts
  imports Agent_Label
begin

text \<open>
  What holds of the labels and of the title parser of \<^verbatim>\<open>Agent_Label\<close>: a label is short and free of
  control characters, the parser keeps a bounded number of bytes, and up to its bound the titles
  do not depend on how the output is cut into chunks.
\<close>

section \<open>Labels\<close>

definition plain_char :: "char \<Rightarrow> bool" where
  "plain_char c \<longleftrightarrow> 32 \<le> ord c \<and> ord c \<noteq> 127"

lemma clean_rune_plain: "is_rune r \<Longrightarrow> c \<in> set (clean_rune r) \<Longrightarrow> plain_char c"
  using rune_bytes [of r] by (fastforce simp: clean_rune_def plain_char_def ord_def split: list.splits if_splits)

lemma TrimSpace_subset: "set (TrimSpace s) \<subseteq> set s"
proof -
  obtain n m where "strip space_width s = drop n s"
    and "strip rspace_width (rev (strip space_width s)) = drop m (rev (strip space_width s))"
    using strip_suffix by metis
  then show ?thesis
    unfolding TrimSpace_def by (metis set_drop_subset set_rev subset_trans)
qed

lemma fields_from_subset: "f \<in> set (fields_from acc s) \<Longrightarrow> set f \<subseteq> set acc \<union> set s"
proof (induction acc s arbitrary: f rule: fields_from.induct)
  case (1 acc)
  then show ?case by (auto split: if_splits)
next
  case (2 acc c s)
  show ?case
  proof (cases "space_width (c # s) = 0")
    case True
    with 2 show ?thesis by (fastforce simp: fields_from.simps(2))
  next
    case False
    with 2 show ?thesis
      by (fastforce simp: fields_from.simps(2) dest: in_set_dropD split: if_splits)
  qed
qed

lemma Join_subset: "set (Join fs sep) \<subseteq> \<Union> (set ` set fs) \<union> set sep"
  by (induction fs sep rule: Join.induct) auto

lemma runes_bytes: "r \<in> set (runes s) \<Longrightarrow> c \<in> set r \<Longrightarrow> c \<in> set s \<or> 128 \<le> ord c"
proof (induction s rule: runes.induct)
  case (1 s)
  show ?case
  proof (cases "s = [] \<or> rune_width s = 0")
    case True
    with 1 show ?thesis
      by (subst (asm) (3) runes.simps)
         (auto simp: replacement_char_def ord_def dest: in_set_dropD split: if_splits)
  next
    case False
    then show ?thesis
      using 1 by (subst (asm) (3) runes.simps) (auto dest: in_set_dropD in_set_takeD)
  qed
qed

lemma normalizeAgentLabel_clean:
  "length (runes (normalizeAgentLabel raw)) \<le> 120 \<and> (\<forall>c \<in> set (normalizeAgentLabel raw). plain_char c)"
proof -
  define cleaned where "cleaned = concat (map clean_rune (runes raw))"
  define normalized where "normalized = Join (Fields (TrimSpace cleaned)) '' ''"
  have cleaned: "plain_char c" if "c \<in> set cleaned" for c
    using that clean_rune_plain runes_are_runes unfolding cleaned_def by fastforce
  have plain: "plain_char c" if "c \<in> set normalized" for c
  proof -
    have "set normalized \<subseteq> set cleaned \<union> {CHR '' ''}"
      using Join_subset [of "Fields (TrimSpace cleaned)" "'' ''"] fields_from_subset [of _ "[]" "TrimSpace cleaned"]
        TrimSpace_subset [of cleaned]
      unfolding normalized_def Fields_def by fastforce
    then show ?thesis using that cleaned by (auto simp: plain_char_def ord_def)
  qed
  have cut: "runes (concat (take (nat 120) (runes normalized))) = take (nat 120) (runes normalized)"
    by (intro runes_concat) (auto dest: in_set_takeD intro: runes_are_runes)
  have "plain_char c" if "c \<in> set (concat (take (nat 120) (runes normalized)))" for c
  proof -
    from that obtain r where "r \<in> set (runes normalized)" "c \<in> set r" by (auto dest: in_set_takeD)
    then have "c \<in> set normalized \<or> 128 \<le> ord c" by (rule runes_bytes)
    then show ?thesis using plain by (auto simp: plain_char_def)
  qed
  moreover have "normalizeAgentLabel raw = (if Fields (TrimSpace cleaned) = [] then []
      else if 120 < int (length (runes normalized)) then concat (take (nat 120) (runes normalized)) else normalized)"
    by (simp add: normalizeAgentLabel_def Let_def cleaned_def normalized_def)
  ultimately show ?thesis
    using plain cut by (auto simp: runes.simps [of "[]"])
qed

section \<open>One round of the parser\<close>

lemma index_of_append: "index_of c s = Some i \<Longrightarrow> index_of c (s @ t) = Some i"
  by (induction s arbitrary: i) (auto split: if_splits)

lemma Index_bound: "Index s p = Some i \<Longrightarrow> i + length p \<le> length s"
  by (metis Index_split Index_Some_iff append_take_drop_id length_append length_take min.absorb2
      nat_add_left_cancel_le le_add1)

lemma Index_append:
  assumes i: "Index s p = Some i"
  shows "Index (s @ t) p = Some i"
proof -
  have "HasPrefix (drop j (s @ t)) p \<longleftrightarrow> HasPrefix (drop j s) p" if "j \<le> i" for j
    using that Index_bound [OF i] by (simp add: HasPrefix_def)
  then show ?thesis using i by (auto simp: Index_Some_iff)
qed

lemma Index_drop: "Index s p = Some i \<Longrightarrow> Index (drop i s) p = Some 0"
  by (simp add: Index_Some_iff)

lemma oscTitleTerminator_append:
  "oscTitleTerminator s = Some r \<Longrightarrow> oscTitleTerminator (s @ t) = Some r"
proof (induction s arbitrary: r)
  case Nil
  then show ?case by simp
next
  case (Cons c s)
  then show ?case by (cases s) (auto split: if_splits)
qed

lemma oscTitleTerminator_bound:
  "oscTitleTerminator s = Some (i, w) \<Longrightarrow> i + w \<le> length s"
proof (induction s arbitrary: i)
  case Nil
  then show ?case by simp
next
  case (Cons c s)
  then show ?case by (cases s) (auto split: if_splits)
qed

lemma feed_round_Index:
  assumes "Index p [ESC, CHR '']''] = Some start"
  shows "feed_round (p @ c) = feed_round (drop start p @ c)"
proof -
  have "start \<le> length p" using assms by (simp add: Index_Some_iff)
  moreover have "Index (drop start p @ c) [ESC, CHR '']''] = Some 0"
    using assms by (intro Index_append Index_drop)
  moreover have "Index (p @ c) [ESC, CHR '']''] = Some start"
    using assms by (rule Index_append)
  ultimately show ?thesis by (simp add: feed_round_def)
qed

lemma feed_round_Stop:
  assumes "feed_round p = Stop kept" and "int (length p) \<le> maxPending"
  shows "feed_round (p @ c) = feed_round (kept @ c)"
proof (cases "Index p [ESC, CHR '']'']")
  case None
  then show ?thesis using assms by (simp add: feed_round_def)
next
  case (Some start)
  then have "kept = drop start p"
    using assms by (auto simp: feed_round_def Let_def split: option.splits if_splits)
  then show ?thesis using feed_round_Index [OF Some] by simp
qed

lemma feed_round_Found:
  assumes "feed_round p = Found t rest"
  shows "feed_round (p @ c) = Found t (rest @ c)"
proof -
  from assms obtain start where start: "Index p [ESC, CHR '']''] = Some start"
    by (auto simp: feed_round_def Let_def split: option.splits if_splits)
  define q where "q = drop start p"
  have q0: "Index q [ESC, CHR '']''] = Some 0" unfolding q_def using start by (rule Index_drop)
  have four: "4 \<le> length q" using assms start
    by (auto simp: feed_round_def Let_def q_def [symmetric] split: option.splits if_splits)
  obtain off where off: "index_of (CHR '';'') (drop 2 q) = Some off"
    using assms start four by (auto simp: feed_round_def Let_def q_def [symmetric] split: option.splits if_splits)
  obtain i w where iw: "oscTitleTerminator (drop (off + 2 + 1) q) = Some (i, w)"
    using assms start four off by (auto simp: feed_round_def Let_def q_def [symmetric] split: option.splits if_splits)
  have "off < length (drop 2 q)" using index_of_Some [OF off] by simp
  moreover have "i + w \<le> length (drop (off + 2 + 1) q)" by (rule oscTitleTerminator_bound [OF iw])
  moreover have "index_of (CHR '';'') (drop 2 (q @ c)) = Some off"
    using four index_of_append [OF off, of c] by simp
  moreover have "oscTitleTerminator (drop (off + 2 + 1) (q @ c)) = Some (i, w)"
    using calculation(1) oscTitleTerminator_append [OF iw, of c] by simp
  moreover have "Index (q @ c) [ESC, CHR '']''] = Some 0" using q0 by (rule Index_append)
  ultimately have "feed_round (q @ c) = Found t (rest @ c)"
    using assms start four off iw by (auto simp: feed_round_def Let_def q_def [symmetric])
  then show ?thesis using feed_round_Index [OF start] by (simp add: q_def)
qed

section \<open>Chunks\<close>

lemma feed_loop_append:
  "int (length p) \<le> maxPending \<Longrightarrow> feed_loop p = (kept, ts)
   \<Longrightarrow> feed_loop (p @ c) = (fst (feed_loop (kept @ c)), ts @ snd (feed_loop (kept @ c)))"
proof (induction p arbitrary: ts rule: feed_loop.induct)
  case (1 p)
  show ?case
  proof (cases "feed_round p")
    case (Stop k)
    then have "k = kept" "ts = []" using "1.prems" by (simp_all add: feed_loop.simps [of p])
    then show ?thesis
      using feed_round_Stop [OF Stop "1.prems"(1), of c]
      by (simp add: feed_loop.simps [of "p @ c"] feed_loop.simps [of "kept @ c"])
  next
    case (Found t rest)
    then obtain us where us: "feed_loop rest = (kept, us)"
        "ts = (case t of None \<Rightarrow> us | Some l \<Rightarrow> l # us)"
      using "1.prems" by (auto simp: feed_loop.simps [of p] split: prod.splits)
    have "int (length rest) \<le> maxPending" using feed_round_shorter [OF Found] "1.prems"(1) by simp
    then have "feed_loop (rest @ c) = (fst (feed_loop (kept @ c)), us @ snd (feed_loop (kept @ c)))"
      using "1.IH" [OF Found _ us(1)] by simp
    then show ?thesis
      using feed_round_Found [OF Found, of c] us(2)
      by (simp add: feed_loop.simps [of "p @ c"] split: option.split)
  qed
qed

lemma Feed_append:
  assumes "int (length p + length c1) \<le> maxPending"
    and "oscTerminalTitleParser_Feed p c1 = (p1, ts)" and "oscTerminalTitleParser_Feed p1 c2 = (p2, us)"
  shows "oscTerminalTitleParser_Feed p (c1 @ c2) = (p2, ts @ us)"
proof (cases "c1 = [] \<or> c2 = []")
  case True
  then show ?thesis using assms(2,3) by (auto simp: oscTerminalTitleParser_Feed_def)
next
  case False
  then show ?thesis
    using assms feed_loop_append [of "p @ c1" p1 ts c2] by (simp add: oscTerminalTitleParser_Feed_def)
qed

lemma feed_round_kept: "feed_round p = Stop kept \<Longrightarrow> length kept \<le> length p"
  by (auto simp: feed_round_def maxPending_def Let_def split: option.splits if_splits)

lemma feed_loop_kept: "length (fst (feed_loop p)) \<le> length p"
proof (induction p rule: feed_loop.induct)
  case (1 p)
  then show ?case
    by (cases "feed_round p")
       (auto simp: feed_loop.simps [of p] split: prod.splits dest: feed_round_kept feed_round_shorter)
qed

lemma feed_all_concat:
  "int (length p + length (concat cs)) \<le> maxPending
   \<Longrightarrow> feed_all p cs = oscTerminalTitleParser_Feed p (concat cs)"
proof (induction cs arbitrary: p)
  case Nil
  then show ?case by (simp add: oscTerminalTitleParser_Feed_def)
next
  case (Cons c cs)
  obtain p1 ts where p1: "oscTerminalTitleParser_Feed p c = (p1, ts)" by fastforce
  have "length p1 \<le> length p + length c"
    using p1 feed_loop_kept [of "p @ c"] by (auto simp: oscTerminalTitleParser_Feed_def split: if_splits)
  with Cons have "feed_all p1 cs = oscTerminalTitleParser_Feed p1 (concat cs)" by simp
  then show ?case
    using Feed_append [of p c p1 ts "concat cs"] p1 Cons.prems by (simp split: prod.splits)
qed

text \<open>
  However the output of the shell is cut into chunks, the parser reports the same titles and
  keeps the same bytes, as long as it need not forget anything (4096 bytes).
\<close>
theorem titles_independent_of_chunks:
  assumes "int (length (concat chunks)) \<le> maxPending" and "concat chunks = concat chunks'"
  shows "feed_all [] chunks = feed_all [] chunks'"
  using assms by (simp add: feed_all_concat)

theorem titles_independent_of_chunks_witness:
  "feed_all [] [[ESC] @ '']0;jay@~'', ''/work'', [CHR 0x07] @ ''$ '']
     = feed_all [] [[ESC] @ '']0;jay@~/work'' @ [CHR 0x07] @ ''$ '']
   \<and> snd (feed_all [] [[ESC] @ '']0;jay@~/work'' @ [CHR 0x07] @ ''$ '']) = [''jay@~/work'']"
proof
  show "feed_all [] [[ESC] @ '']0;jay@~'', ''/work'', [CHR 0x07] @ ''$ '']
     = feed_all [] [[ESC] @ '']0;jay@~/work'' @ [CHR 0x07] @ ''$ '']"
    by (rule titles_independent_of_chunks) (simp_all add: maxPending_def)
  show "snd (feed_all [] [[ESC] @ '']0;jay@~/work'' @ [CHR 0x07] @ ''$ '']) = [''jay@~/work'']"
    by code_simp
qed

section \<open>What the parser keeps\<close>

text \<open>Beyond 4096 bytes the parser only keeps the start of a sequence whose parameter is that long.\<close>

definition stuck :: "string \<Rightarrow> bool" where
  "stuck p \<longleftrightarrow> (\<exists>q. p = ESC # CHR '']'' # q @ [CHR '';''] \<and> CHR '';'' \<notin> set q)"

definition kept_ok :: "string \<Rightarrow> bool" where
  "kept_ok p \<longleftrightarrow> (maxPending < int (length p) \<longrightarrow> stuck p)"

lemma index_of_split: "index_of c s = Some i \<Longrightarrow> take (Suc i) s = take i s @ [c] \<and> c \<notin> set (take i s)"
  by (induction s arbitrary: i) (auto split: if_splits)

lemma index_of_at: "c \<notin> set q \<Longrightarrow> index_of c (q @ c # s) = Some (length q)"
  by (induction q) auto

lemma sequence_start_stuck:
  assumes "Index p [ESC, CHR '']''] = Some 0" and "index_of (CHR '';'') (drop 2 p) = Some off"
  shows "stuck (take (off + 2 + 1) p)"
proof -
  have "p = ESC # CHR '']'' # drop 2 p"
    using Index_split [OF assms(1)] by (simp add: numeral_2_eq_2)
  then have "take (off + 2 + 1) p = ESC # CHR '']'' # take (Suc off) (drop 2 p)"
    by (metis add_2_eq_Suc' take_Suc_Cons Suc_eq_plus1 add_Suc)
  then show ?thesis
    using index_of_split [OF assms(2)] by (auto simp: stuck_def)
qed

lemma Stop_kept_ok: "feed_round p = Stop kept \<Longrightarrow> kept_ok kept"
proof (cases "Index p [ESC, CHR '']'']")
  case None
  assume "feed_round p = Stop kept"
  with None show ?thesis by (auto simp: feed_round_def kept_ok_def maxPending_def split: if_splits)
next
  case (Some start)
  assume stop: "feed_round p = Stop kept"
  have "Index (drop start p) [ESC, CHR '']''] = Some 0" using Some by (rule Index_drop)
  with stop Some show ?thesis
    using sequence_start_stuck [of "drop start p"]
    by (auto simp: feed_round_def Let_def kept_ok_def maxPending_def split: option.splits if_splits)
qed

lemma feed_loop_kept_ok: "kept_ok (fst (feed_loop p))"
proof (induction p rule: feed_loop.induct)
  case (1 p)
  then show ?case
    by (cases "feed_round p") (auto simp: feed_loop.simps [of p] Stop_kept_ok split: prod.splits)
qed

lemma stuck_round:
  assumes "stuck p" and "maxPending < int (length p)"
  shows "feed_round (p @ c) = Stop p \<or> (\<exists>t rest. feed_round (p @ c) = Found t rest \<and> length rest \<le> length c)"
proof -
  from assms(1) obtain q where q: "p = ESC # CHR '']'' # q @ [CHR '';'']" "CHR '';'' \<notin> set q"
    by (auto simp: stuck_def)
  have "Index (p @ c) [ESC, CHR '']''] = Some 0" by (simp add: q(1) HasPrefix_def)
  moreover have "index_of (CHR '';'') (drop 2 (p @ c)) = Some (length q)"
    using q by (simp add: index_of_at)
  moreover have "drop (length q + 2 + 1) (p @ c) = c" "take (length q + 2 + 1) (p @ c) = p"
    by (simp_all add: q(1))
  moreover have "length p = length q + 3" by (simp add: q(1))
  moreover have "4 \<le> length (p @ c)" using assms(2) by (simp add: maxPending_def)
  ultimately show ?thesis
    using assms(2)
    by (auto simp: feed_round_def Let_def drop_drop [symmetric] simp del: drop_drop split: option.splits)
qed

lemma Feed_bound:
  assumes "kept_ok p" and "int (length p) \<le> maxPending + int k" and "length c \<le> k"
  shows "kept_ok (fst (oscTerminalTitleParser_Feed p c))
    \<and> int (length (fst (oscTerminalTitleParser_Feed p c))) \<le> maxPending + int k"
proof (cases "c = []")
  case True
  with assms show ?thesis by (simp add: oscTerminalTitleParser_Feed_def)
next
  case False
  then have fed: "oscTerminalTitleParser_Feed p c = feed_loop (p @ c)"
    by (simp add: oscTerminalTitleParser_Feed_def)
  have "int (length (fst (feed_loop (p @ c)))) \<le> maxPending + int k"
  proof (cases "maxPending < int (length p)")
    case True
    then consider "feed_round (p @ c) = Stop p"
      | t rest where "feed_round (p @ c) = Found t rest" "length rest \<le> length c"
      using stuck_round [of p c] assms(1) by (auto simp: kept_ok_def)
    then show ?thesis
    proof cases
      case 1
      then show ?thesis using assms(2) by (simp add: feed_loop.simps [of "p @ c"])
    next
      case 2
      then have "length (fst (feed_loop (p @ c))) \<le> length rest"
        using feed_loop_kept [of rest] by (simp add: feed_loop.simps [of "p @ c"] case_prod_beta)
      with 2(2) assms(3) show ?thesis by (simp add: maxPending_def)
    qed
  next
    case False
    then show ?thesis using feed_loop_kept [of "p @ c"] assms(3) by simp
  qed
  then show ?thesis using fed feed_loop_kept_ok by simp
qed

lemma feed_all_bound:
  assumes "kept_ok p" and "int (length p) \<le> maxPending + int k" and "\<forall>c \<in> set cs. length c \<le> k"
  shows "int (length (fst (feed_all p cs))) \<le> maxPending + int k"
  using assms
proof (induction cs arbitrary: p)
  case Nil
  then show ?case by simp
next
  case (Cons c cs)
  then show ?case using Feed_bound [of p k c] by (simp split: prod.splits) (metis fst_conv)
qed

lemma feed_loop_titles:
  "t \<in> set (snd (feed_loop p)) \<Longrightarrow> t \<noteq> [] \<and> (\<exists>raw. t = normalizeAgentLabel raw)"
proof (induction p rule: feed_loop.induct)
  case (1 p)
  show ?case
  proof (cases "feed_round p")
    case (Stop kept)
    with "1.prems" show ?thesis by (simp add: feed_loop.simps [of p])
  next
    case (Found title rest)
    then have "title = Some t \<or> t \<in> set (snd (feed_loop rest))"
      using "1.prems" by (auto simp: feed_loop.simps [of p] split: prod.splits option.splits)
    moreover have "title = Some t \<Longrightarrow> t \<noteq> [] \<and> (\<exists>raw. t = normalizeAgentLabel raw)"
      using Found by (auto simp: feed_round_def Let_def split: option.splits if_splits)
    ultimately show ?thesis using "1.IH" [OF Found] by blast
  qed
qed

lemma feed_all_titles:
  "t \<in> set (snd (feed_all p cs)) \<Longrightarrow> t \<noteq> [] \<and> (\<exists>raw. t = normalizeAgentLabel raw)"
proof (induction cs arbitrary: p)
  case Nil
  then show ?case by simp
next
  case (Cons c cs)
  then show ?case
    using feed_loop_titles [of t "p @ c"]
    by (auto simp: oscTerminalTitleParser_Feed_def split: prod.splits if_splits) (metis snd_conv)+
qed

text \<open>
  C31: Whatever the shell writes, in chunks of at most \<open>k\<close> bytes, the parser keeps at most 4096 +
  \<open>k\<close> bytes, and each title it reports is a non-empty label of at most 120 runes without control
  characters.
\<close>
theorem title_parser_bounded:
  assumes "\<forall>c \<in> set chunks. length c \<le> k"
  shows "int (length (fst (feed_all [] chunks))) \<le> 4096 + int k
    \<and> (\<forall>t \<in> set (snd (feed_all [] chunks)).
         t \<noteq> [] \<and> length (runes t) \<le> 120 \<and> (\<forall>c \<in> set t. 32 \<le> ord c \<and> ord c \<noteq> 127))"
proof
  show "int (length (fst (feed_all [] chunks))) \<le> 4096 + int k"
    using feed_all_bound [of "[]" k chunks] assms by (simp add: kept_ok_def maxPending_def)
  show "\<forall>t \<in> set (snd (feed_all [] chunks)).
         t \<noteq> [] \<and> length (runes t) \<le> 120 \<and> (\<forall>c \<in> set t. 32 \<le> ord c \<and> ord c \<noteq> 127)"
    using feed_all_titles normalizeAgentLabel_clean unfolding plain_char_def by metis
qed

theorem title_parser_bounded_witness:
  "int (length (fst (feed_all [] [''build'', [ESC] @ '']2;a'' @ [CHR 0x09] @ ''b'', [CHR 0x07]]))) \<le> 4096 + int 7
   \<and> snd (feed_all [] [''build'', [ESC] @ '']2;a'' @ [CHR 0x09] @ ''b'', [CHR 0x07]]) = [''a b'']"
proof
  show "int (length (fst (feed_all [] [''build'', [ESC] @ '']2;a'' @ [CHR 0x09] @ ''b'', [CHR 0x07]]))) \<le> 4096 + int 7"
    by (rule title_parser_bounded [THEN conjunct1]) simp
  show "snd (feed_all [] [''build'', [ESC] @ '']2;a'' @ [CHR 0x09] @ ''b'', [CHR 0x07]]) = [''a b'']"
    by code_simp
qed

end
