(* ===== verification/Client_Config.thy ===== *)
theory Client_Config
  imports Http_Origin
begin

text \<open>
  The configuration of the command line client: \<^verbatim>\<open>cmd/shellin/config.go\<close> (the URL of the control
  plane, booleans, durations, the default shell) and \<^verbatim>\<open>update_config.go\<close> (where updates come
  from). \<^verbatim>\<open>time.ParseDuration\<close>, \<^verbatim>\<open>exec.LookPath\<close> and the environment are arguments, and so are the
  variables a build can set with \<^verbatim>\<open>-ldflags\<close>.
\<close>

section \<open>The URL of the control plane\<close>

text \<open>\<^verbatim>\<open>URL.Hostname\<close>: the host without its port and without the brackets of an IPv6 address.\<close>

definition Hostname :: "URL \<Rightarrow> string" where
  "Hostname u =
     (let hostPort = url_Host u;
          host = (case last_index CHR '':'' hostPort of
              None \<Rightarrow> hostPort
            | Some colon \<Rightarrow> if valid_optional_port (drop colon hostPort) then take colon hostPort else hostPort)
      in if host \<noteq> [] \<and> hd host = CHR ''['' \<and> last host = CHR '']'' then butlast (tl host) else host)"

datatype url_error = URLUnparsed | MissingHost | SchemeNotHTTP | RefusingPlainHTTP

definition client_isLoopbackHost :: "string \<Rightarrow> bool" where
  "client_isLoopbackHost host =
     (if EqualFold host ''localhost'' then True
      else case ParseIP host of None \<Rightarrow> False | Some ip \<Rightarrow> IsLoopback ip)"

definition normalizeServerURL :: "string \<Rightarrow> bool \<Rightarrow> url_error + string" where
  "normalizeServerURL raw0 allowInsecureHTTP =
     (let raw = TrimSpace (TrimRight raw0 ''/'')
      in case url_Parse raw of
           None \<Rightarrow> Inl URLUnparsed
         | Some u \<Rightarrow>
             if url_Host u = [] then Inl MissingHost
             else if url_Scheme u \<noteq> ''http'' \<and> url_Scheme u \<noteq> ''https'' then Inl SchemeNotHTTP
             else if url_Scheme u = ''http'' \<and> \<not> allowInsecureHTTP \<and> \<not> client_isLoopbackHost (Hostname u)
             then Inl RefusingPlainHTTP
             else Inr raw)"

section \<open>Values of the build and of the environment\<close>

definition parseBoolDefault :: "string \<Rightarrow> bool \<Rightarrow> bool" where
  "parseBoolDefault raw0 fallback =
     (let raw = TrimSpace (ToLower raw0)
      in if raw \<in> set [''1'', ''true'', ''yes'', ''y'', ''on''] then True
         else if raw \<in> set [''0'', ''false'', ''no'', ''n'', ''off''] then False
         else fallback)"

definition parseDurationDefault :: "(string \<Rightarrow> int option) \<Rightarrow> string \<Rightarrow> int \<Rightarrow> int" where
  "parseDurationDefault parse_duration raw0 fallback =
     (let raw = TrimSpace raw0
      in if raw = [] then fallback
         else case parse_duration raw of None \<Rightarrow> fallback | Some d \<Rightarrow> if d \<le> 0 then fallback else d)"

text \<open>The loop over the candidates; \<open>seen\<close> are those that were looked up.\<close>

fun first_shell :: "(string \<Rightarrow> string option) \<Rightarrow> string list \<Rightarrow> string list \<Rightarrow> string option" where
  "first_shell look seen [] = None"
| "first_shell look seen (raw # candidates) =
     (let candidate = TrimSpace raw
      in if candidate = [] \<or> candidate \<in> set seen then first_shell look seen candidates
         else case look candidate of
                Some resolved \<Rightarrow> Some resolved
              | None \<Rightarrow> first_shell look (candidate # seen) candidates)"

definition resolveDefaultShellPath :: "(string \<Rightarrow> string option) \<Rightarrow> string \<Rightarrow> string \<Rightarrow> string \<Rightarrow> string" where
  "resolveDefaultShellPath look preferred envShell goos =
     (let candidates = [preferred, envShell] @
        (if goos = ''darwin'' then [''/bin/zsh'', ''zsh'', ''/bin/bash'', ''bash'', ''/bin/sh'', ''sh'']
         else if goos = ''linux'' then [''/bin/bash'', ''bash'', ''/bin/sh'', ''sh'']
         else [''/bin/sh'', ''sh''])
      in case first_shell look [] candidates of
           Some resolved \<Rightarrow> resolved
         | None \<Rightarrow> if goos = ''darwin'' then ''/bin/zsh'' else ''/bin/sh'')"

section \<open>Updates\<close>

definition currentCLIVersion :: "string \<Rightarrow> string" where
  "currentCLIVersion defaultCLIVersion =
     (let version = TrimSpace defaultCLIVersion in if version = [] then ''dev'' else version)"

definition isUpdateCheckDisabled :: "(string \<Rightarrow> string) \<Rightarrow> bool" where
  "isUpdateCheckDisabled getenv =
     (parseBoolDefault (getenv ''SHELLIN_DISABLE_UPDATE_CHECK'') False
      \<or> parseBoolDefault (getenv ''SHELLIN_DISABLE_AUTO_UPDATE'') False)"

definition updateBaseURL :: "(string \<Rightarrow> string) \<Rightarrow> string \<Rightarrow> string \<Rightarrow> string" where
  "updateBaseURL getenv defaultDownloadBaseURL override =
     (let raw = TrimSpace override; from_env = TrimSpace (getenv ''SHELLIN_BASE_URL'')
      in if raw \<noteq> [] then TrimRight raw ''/''
         else if from_env \<noteq> [] then TrimRight from_env ''/''
         else TrimRight (TrimSpace defaultDownloadBaseURL) ''/'')"

definition releaseManifestPublicKey :: "string \<Rightarrow> string \<Rightarrow> string" where
  "releaseManifestPublicKey defaultKey override =
     (let raw = TrimSpace override in if raw \<noteq> [] then raw else TrimSpace defaultKey)"

section \<open>Properties\<close>

text \<open>
  The client talks to the control plane over \<^verbatim>\<open>https\<close>, or over \<^verbatim>\<open>http\<close> when the build allows that
  or the host is a loopback host; the URL names a host and has no white space around it.
\<close>
theorem server_url_secure:
  assumes "normalizeServerURL raw allowInsecureHTTP = Inr url"
  shows "\<exists>u. url_Parse url = Some u \<and> url_Host u \<noteq> [] \<and> trimmed url
    \<and> (url_Scheme u = ''https''
       \<or> url_Scheme u = ''http'' \<and> (allowInsecureHTTP \<or> client_isLoopbackHost (Hostname u)))"
  using assms by (auto simp: normalizeServerURL_def Let_def split: option.splits if_splits)

theorem server_url_secure_witness:
  "\<exists>u. url_Parse ''http://127.0.0.1:8080'' = Some u \<and> client_isLoopbackHost (Hostname u)"
proof -
  have "normalizeServerURL ''http://127.0.0.1:8080/'' False = Inr ''http://127.0.0.1:8080''" by code_simp
  from server_url_secure [OF this]
  obtain u where u: "url_Parse ''http://127.0.0.1:8080'' = Some u"
      "url_Scheme u = ''https'' \<or> client_isLoopbackHost (Hostname u)"
    by auto
  moreover have "map_option url_Scheme (url_Parse ''http://127.0.0.1:8080'') = Some ''http''" by code_simp
  ultimately show ?thesis by auto
qed

text \<open>The default shell is one that was found, or the fixed one of the system.\<close>

lemma first_shell_found: "first_shell look seen cs = Some r \<Longrightarrow> \<exists>c \<in> set cs. look (TrimSpace c) = Some r"
  by (induction cs arbitrary: seen) (auto simp: Let_def split: if_splits option.splits)

lemma first_shell_complete:
  assumes "first_shell look seen cs = None" and "\<forall>s \<in> set seen. look s = None"
  shows "\<forall>c \<in> set cs. TrimSpace c = [] \<or> look (TrimSpace c) = None"
  using assms by (induction cs arbitrary: seen) (auto simp: Let_def split: if_splits option.splits)

end
