(* ===== verification/Client_Shell.thy ===== *)
theory Client_Shell
  imports Self_Update Go_Json
begin

text \<open>
  The shell the client starts: \<^verbatim>\<open>cmd/shellin/pty.go\<close>. The environment is a list of entries
  \<^verbatim>\<open>KEY=value\<close>; \<open>upsertEnv\<close> is written twice in the program, here and in the updater. How a
  process ended is an argument, and resizing the terminal ends in the parameter \<open>setsize\<close>.
\<close>

section \<open>The environment\<close>

fun lookupEnv :: "string list \<Rightarrow> string \<Rightarrow> string option" where
  "lookupEnv [] key = None"
| "lookupEnv (entry # env) key =
     (if HasPrefix entry (key @ ''='') then Some (TrimPrefix entry (key @ ''='')) else lookupEnv env key)"

definition localeUsesUTF8 :: "string \<Rightarrow> bool" where
  "localeUsesUTF8 raw =
     (let normalized = ToUpper (TrimSpace raw)
      in Contains normalized ''UTF-8'' \<or> Contains normalized ''UTF8'')"

definition preferredUTF8Locale :: "string \<Rightarrow> string" where
  "preferredUTF8Locale goos = (if goos = ''linux'' then ''C.UTF-8'' else ''en_US.UTF-8'')"

text \<open>The value of a variable that is set and not blank.\<close>

definition env_value :: "string list \<Rightarrow> string \<Rightarrow> string option" where
  "env_value env key = (case lookupEnv env key of
     None \<Rightarrow> None | Some v \<Rightarrow> if TrimSpace v \<noteq> [] then Some v else None)"

definition shellEnvironmentUsesUTF8 :: "string list \<Rightarrow> bool" where
  "shellEnvironmentUsesUTF8 env = (case env_value env ''LC_ALL'' of Some v \<Rightarrow> localeUsesUTF8 v
     | None \<Rightarrow> (case env_value env ''LC_CTYPE'' of Some v \<Rightarrow> localeUsesUTF8 v
     | None \<Rightarrow> (case env_value env ''LANG'' of Some v \<Rightarrow> localeUsesUTF8 v
     | None \<Rightarrow> False)))"

definition buildShellEnvironment :: "string \<Rightarrow> string list \<Rightarrow> string list" where
  "buildShellEnvironment goos baseEnv =
     (if shellEnvironmentUsesUTF8 baseEnv then baseEnv
      else
        let locale = preferredUTF8Locale goos;
            env = upsertEnv (upsertEnv baseEnv ''LANG'' locale) ''LC_CTYPE'' locale
        in if env_value baseEnv ''LC_ALL'' \<noteq> None then upsertEnv env ''LC_ALL'' locale else env)"

section \<open>The command\<close>

definition buildShellCommand :: "string \<Rightarrow> string \<Rightarrow> string list \<Rightarrow> string list \<times> string list" where
  "buildShellCommand goos shellPath environ =
     (let base = ToLower (path_Base shellPath);
          args = (if base \<in> set [''bash'', ''zsh'', ''fish'', ''ksh'', ''sh''] then [shellPath, ''-i''] else [shellPath])
      in (args, buildShellEnvironment goos environ))"

text \<open>How waiting for the shell ended.\<close>

datatype wait_error = Exited int | Killed int | OtherFailure

definition shellExitMessage :: "wait_error option \<Rightarrow> string option" where
  "shellExitMessage err =
     (let closed = ''Session closed. See you soon. '' @ [CHR 0xF0, CHR 0x9F, CHR 0x91, CHR 0x8B];
          interrupted = ''Session interrupted. See you soon. '' @ [CHR 0xF0, CHR 0x9F, CHR 0x91, CHR 0x8B]
      in case err of
           None \<Rightarrow> Some closed
         | Some OtherFailure \<Rightarrow> None
         | Some (Killed s) \<Rightarrow> if s = 2 then Some interrupted else None
         | Some (Exited code) \<Rightarrow>
             if code = 130 then Some interrupted else if code = 0 then Some closed else None)"

section \<open>Sizes\<close>

record controlMessage =
  cm_Type :: string
  cm_Cols :: int
  cm_Rows :: int

definition controlMessage_put :: "string \<Rightarrow> json \<Rightarrow> controlMessage \<Rightarrow> controlMessage option" where
  "controlMessage_put f v m =
     (if f = ''type'' then map_option (\<lambda>s. m\<lparr>cm_Type := s\<rparr>) (decode_string v (cm_Type m))
      else if f = ''cols'' then map_option (\<lambda>n. m\<lparr>cm_Cols := n\<rparr>) (decode_int v (cm_Cols m))
      else if f = ''rows'' then map_option (\<lambda>n. m\<lparr>cm_Rows := n\<rparr>) (decode_int v (cm_Rows m))
      else Some m)"

definition decode_controlMessage :: "json \<Rightarrow> controlMessage option" where
  "decode_controlMessage = decode_struct False [''type'', ''cols'', ''rows''] controlMessage_put
     \<lparr>cm_Type = [], cm_Cols = 0, cm_Rows = 0\<rparr>"

text \<open>The size, columns and rows, that a request of the viewer sets; \<open>None\<close> is the error.\<close>

definition resizePTYFromViewer :: "int \<Rightarrow> int \<Rightarrow> (16 word \<times> 16 word) option" where
  "resizePTYFromViewer cols rows =
     (if cols < 2 \<or> rows < 2 \<or> 1000 < cols \<or> 1000 < rows then None
      else Some (word_of_int cols, word_of_int rows))"

fun resizePTY :: "bool \<Rightarrow> 16 word \<times> 16 word \<Rightarrow> 16 word \<times> 16 word" where
  "resizePTY reserveBottomLine (cols, rows) =
     (if reserveBottomLine \<and> 1 < rows then (cols, rows - 1) else (cols, rows))"

definition handleControlMessage :: "string \<Rightarrow> (16 word \<times> 16 word) option" where
  "handleControlMessage data =
     (if data = [] then None
      else case Option.bind (json_Unmarshal data) decode_controlMessage of
        None \<Rightarrow> None
      | Some ctrl \<Rightarrow> if cm_Type ctrl = ''resize'' then resizePTYFromViewer (cm_Cols ctrl) (cm_Rows ctrl) else None)"

section \<open>Properties\<close>

lemma takeWhile_key: "CHR ''='' \<notin> set k \<Longrightarrow> takeWhile (\<lambda>c. c \<noteq> CHR ''='') (k @ CHR ''='' # v) = k"
  by (induction k) auto

lemma entry_key:
  assumes "HasPrefix e (k @ ''='')" and "HasPrefix e (k' @ ''='')"
    and "CHR ''='' \<notin> set k" and "CHR ''='' \<notin> set k'"
  shows "k = k'"
  using assms takeWhile_key by (auto simp: HasPrefix_iff) metis

lemma entry_of_key: "HasPrefix (k @ ''='' @ v) (k @ ''='')"
  by (simp add: HasPrefix_iff)

lemma lookup_upsert:
  assumes "CHR ''='' \<notin> set key" and "CHR ''='' \<notin> set key'"
  shows "lookupEnv (upsertEnv env key v) key' = (if key' = key then Some v else lookupEnv env key')"
proof (induction env)
  case Nil
  show ?case using entry_key [OF entry_of_key _ assms] TrimPrefix_append [of "key @ ''=''" v] entry_of_key [of key v] by auto
next
  case (Cons e env)
  then show ?case
    using entry_key [OF entry_of_key _ assms, of v] entry_key [OF _ _ assms, of e]
      TrimPrefix_append [of "key @ ''=''" v] entry_of_key [of key v]
    by auto
qed

lemma preferred_facts: "localeUsesUTF8 (preferredUTF8Locale goos)" "TrimSpace (preferredUTF8Locale goos) \<noteq> []"
proof -
  have "localeUsesUTF8 ''C.UTF-8''" "localeUsesUTF8 ''en_US.UTF-8''" "TrimSpace ''C.UTF-8'' \<noteq> []" "TrimSpace ''en_US.UTF-8'' \<noteq> []"
    by code_simp+
  then show "localeUsesUTF8 (preferredUTF8Locale goos)" "TrimSpace (preferredUTF8Locale goos) \<noteq> []"
    by (simp_all add: preferredUTF8Locale_def)
qed

text \<open>
  The shell always runs in an environment that asks for UTF-8. An environment that does already
  is passed on as it is; otherwise no variable but the three of the locale changes.
\<close>
theorem shell_environment_utf8:
  "shellEnvironmentUsesUTF8 (buildShellEnvironment goos env)
   \<and> (shellEnvironmentUsesUTF8 env \<longrightarrow> buildShellEnvironment goos env = env)
   \<and> (\<forall>key. CHR ''='' \<notin> set key \<and> key \<notin> {''LANG'', ''LC_CTYPE'', ''LC_ALL''}
        \<longrightarrow> lookupEnv (buildShellEnvironment goos env) key = lookupEnv env key)"
proof (intro conjI)
  show "shellEnvironmentUsesUTF8 (buildShellEnvironment goos env)"
    using preferred_facts [of goos]
    by (auto simp: buildShellEnvironment_def Let_def shellEnvironmentUsesUTF8_def env_value_def lookup_upsert
        split: option.splits if_splits)
  show "shellEnvironmentUsesUTF8 env \<longrightarrow> buildShellEnvironment goos env = env"
    by (simp add: buildShellEnvironment_def)
  show "\<forall>key. CHR ''='' \<notin> set key \<and> key \<notin> {''LANG'', ''LC_CTYPE'', ''LC_ALL''}
        \<longrightarrow> lookupEnv (buildShellEnvironment goos env) key = lookupEnv env key"
    by (auto simp: buildShellEnvironment_def Let_def lookup_upsert)
qed

theorem shell_environment_utf8_witness:
  "shellEnvironmentUsesUTF8 (buildShellEnvironment ''linux'' [''LC_ALL=POSIX'', ''HOME=/h''])
   \<and> lookupEnv (buildShellEnvironment ''linux'' [''LC_ALL=POSIX'', ''HOME=/h'']) ''HOME'' = Some ''/h''"
  using shell_environment_utf8 [of "''linux''" "[''LC_ALL=POSIX'', ''HOME=/h'']"] by (simp add: HasPrefix_def TrimPrefix_def)

text \<open>The size that reaches the terminal is the one the viewer asked for: nothing wraps.\<close>

lemma resize_exact:
  "resizePTYFromViewer cols rows = Some (c, r) \<Longrightarrow> uint c = cols \<and> uint r = rows \<and> 2 \<le> uint c \<and> uint r \<le> 1000"
  by (auto simp: resizePTYFromViewer_def unsigned_of_int take_bit_int_eq_self split: if_splits)

end
