(* ===== verification/Client_Hud.thy ===== *)
theory Client_Hud
  imports Build_Info
begin

text \<open>
  The line at the bottom of the terminal: \<^verbatim>\<open>cmd/shellin/hud_format.go\<close>, and the state machine of
  \<^verbatim>\<open>bottom_hud.go\<close>; the drawing is in \<^verbatim>\<open>Client_Hud_Drawing\<close>. Widths are in bytes, as in the code. SHA-256 is the
  parameter \<open>sha\<close>. A colour is named after its constant.
\<close>

section \<open>The layout of the line\<close>

definition hudStatusLabel :: string where "hudStatusLabel = '' STATUS ''"

record hudLineLayout =
  hl_line :: string
  hl_leftBadge :: string
  hl_statusStart :: int
  hl_statusText :: string
  hl_rightStart :: int
  hl_rightBadge :: string

definition hudSessionBadgeText :: "string \<Rightarrow> string" where
  "hudSessionBadgeText raw =
     (let sessionID = TrimSpace raw in if sessionID = [] then [] else '' '' @ sessionID @ '' '')"

text \<open>\<^verbatim>\<open>s[:n]\<close> when the string is longer, as each use is guarded.\<close>

definition cut :: "int \<Rightarrow> string \<Rightarrow> string" where
  "cut n s = (if n < int (length s) then take (nat n) s else s)"

text \<open>\<^verbatim>\<open>copy(dst[start:], src)\<close>.\<close>

definition copy_at :: "int \<Rightarrow> string \<Rightarrow> string \<Rightarrow> string" where
  "copy_at start src dst =
     (let n = min (length src) (length dst - nat start)
      in take (nat start) dst @ take n src @ drop (nat start + n) dst)"

definition formatHUDLine :: "int \<Rightarrow> string \<Rightarrow> string \<Rightarrow> hudLineLayout" where
  "formatHUDLine cols statusText rightText =
     (if cols \<le> 0 then
        \<lparr>hl_line = [], hl_leftBadge = [], hl_statusStart = -1, hl_statusText = [], hl_rightStart = -1, hl_rightBadge = []\<rparr>
      else
        let leftBadge0 = cut cols hudStatusLabel;
            text = TrimSpace statusText;
            statusSegment = (if text \<noteq> [] then '' '' @ text else []);
            rightBadge0 = hudSessionBadgeText rightText;
            maxLeftWidth = (if rightBadge0 \<noteq> [] then max 0 (cols - int (length rightBadge0)) else cols);
            leftText = cut maxLeftWidth (leftBadge0 @ statusSegment);
            padded = (if int (length leftText) < cols
                      then leftText @ Repeat '' '' (nat (cols - int (length leftText))) else leftText);
            line = cut cols padded;
            leftBadge = (if length line < length leftBadge0 then line else leftBadge0);
            statusStart = length leftBadge;
            statusEnd = min (statusStart + length statusSegment) (length leftText);
            shown = (statusStart < length leftText \<and> statusStart < statusEnd);
            left = \<lparr>hl_line = line, hl_leftBadge = leftBadge,
                    hl_statusStart = (if shown then int statusStart else -1),
                    hl_statusText = (if shown then take (statusEnd - statusStart) (drop statusStart leftText) else []),
                    hl_rightStart = -1, hl_rightBadge = []\<rparr>
        in if rightBadge0 = [] then left
           else
             let rightBadge = (if cols < int (length rightBadge0)
                               then drop (nat (int (length rightBadge0) - cols)) rightBadge0 else rightBadge0);
                 rightStart = max 0 (cols - int (length rightBadge))
             in left\<lparr>hl_rightBadge := rightBadge, hl_rightStart := rightStart,
                     hl_line := copy_at rightStart rightBadge line\<rparr>)"

section \<open>What it shows\<close>

definition hudSessionIDLabel :: "(string \<Rightarrow> string) \<Rightarrow> string \<Rightarrow> string" where
  "hudSessionIDLabel sha raw =
     (let sessionID = TrimSpace raw
      in if sessionID = [] then [] else take 6 (hex_EncodeToString (sha sessionID)))"

definition hudRightText :: "(string \<Rightarrow> string) \<Rightarrow> string \<Rightarrow> string" where
  "hudRightText sha sessionID =
     (let shortID = hudSessionIDLabel sha sessionID in if shortID \<noteq> [] then ToUpper shortID else [])"

datatype hud_colour = HudReady | HudConnected | HudConnectingColour | HudErrorColour

record hudDisplayState =
  hd_color :: hud_colour
  hd_text :: string
  hd_animate :: bool

definition hudStatusDisplay :: "string \<Rightarrow> string \<Rightarrow> nat \<Rightarrow> hudDisplayState" where
  "hudStatusDisplay signal0 p2p0 animFrame =
     (let signalState = ToLower (TrimSpace signal0); p2pState = ToLower (TrimSpace p2p0)
      in if p2pState = ''connected'' then \<lparr>hd_color = HudConnected, hd_text = ''connected'', hd_animate = False\<rparr>
         else if p2pState = ''negotiating'' \<or> signalState = ''viewer_connected'' \<or> signalState = ''connecting'' then
           \<lparr>hd_color = HudConnectingColour, hd_text = ''connecting'' @ Repeat ''.'' (animFrame mod 4), hd_animate = True\<rparr>
         else if signalState \<in> set [''error'', ''failed'', ''closed'', ''disconnected'']
              \<or> p2pState \<in> set [''failed'', ''closed''] then
           \<lparr>hd_color = HudErrorColour, hd_text = ''connection error'', hd_animate = False\<rparr>
         else \<lparr>hd_color = HudReady, hd_text = ''ready for mobile attach'', hd_animate = False\<rparr>)"

section \<open>The state of the line\<close>

record bottomHUD =
  bh_enabled :: bool
  bh_signalState :: string
  bh_p2pState :: string
  bh_rightText :: string
  bh_animFrame :: nat

definition newBottomHUD :: "bool \<Rightarrow> string \<Rightarrow> bottomHUD" where
  "newBottomHUD enabled rightText = \<lparr>bh_enabled = enabled, bh_signalState = ''connecting'',
     bh_p2pState = ''waiting'', bh_rightText = TrimSpace rightText, bh_animFrame = 0\<rparr>"

definition hud_display :: "bottomHUD \<Rightarrow> hudDisplayState" where
  "hud_display h = hudStatusDisplay (bh_signalState h) (bh_p2pState h) (bh_animFrame h)"

text \<open>The animation starts anew when the state shows none.\<close>

definition still :: "bottomHUD \<Rightarrow> bottomHUD" where
  "still h = (if hd_animate (hud_display h) then h else h\<lparr>bh_animFrame := 0\<rparr>)"

definition hud_SetSignalState :: "string \<Rightarrow> bottomHUD \<Rightarrow> bottomHUD" where
  "hud_SetSignalState state h = (if \<not> bh_enabled h then h else still (h\<lparr>bh_signalState := state\<rparr>))"

definition hud_SetP2PState :: "string \<Rightarrow> bottomHUD \<Rightarrow> bottomHUD" where
  "hud_SetP2PState state h = (if \<not> bh_enabled h then h else still (h\<lparr>bh_p2pState := state\<rparr>))"

definition hud_tick :: "bottomHUD \<Rightarrow> bottomHUD" where
  "hud_tick h = (if hd_animate (hud_display h) then h\<lparr>bh_animFrame := (bh_animFrame h + 1) mod 4\<rparr> else h)"

text \<open>What \<^verbatim>\<open>renderLocked\<close> draws on a terminal of the given size, if anything.\<close>

definition hud_layout :: "(int \<times> int) option \<Rightarrow> bottomHUD \<Rightarrow> hudLineLayout option" where
  "hud_layout terminal h = (if \<not> bh_enabled h then None else case terminal of None \<Rightarrow> None
     | Some (cols, rows) \<Rightarrow> if cols < 1 \<or> rows < 2 then None
         else Some (formatHUDLine cols (hd_text (hud_display h)) (bh_rightText h)))"

section \<open>Properties\<close>

lemma length_cut: "0 \<le> n \<Longrightarrow> int (length (cut n s)) = min n (int (length s))"
  by (auto simp: cut_def)

lemma cut_id: "int (length s) \<le> n \<Longrightarrow> cut n s = s"
  by (simp add: cut_def)

lemma length_Repeat: "length (Repeat s n) = n * length s"
  by (induction n) (simp_all add: Repeat_def)

lemma copy_at_end:
  "nat start + length src = length dst \<Longrightarrow> copy_at start src dst = take (nat start) dst @ src"
  by (auto simp: copy_at_def)

text \<open>The line before the badge on the right is copied into it.\<close>

lemma padded_line:
  assumes "int (length leftText) \<le> cols"
  defines "line \<equiv> cut cols (if int (length leftText) < cols
      then leftText @ Repeat '' '' (nat (cols - int (length leftText))) else leftText)"
  shows "int (length line) = cols" "take (length leftText) line = leftText"
  using assms by (auto simp: cut_def length_Repeat)

lemma slice_of_prefix:
  assumes "take m line = leftText" and "s + k \<le> m"
  shows "take k (drop s line) = take k (drop s leftText)"
  using assms(2) unfolding assms(1) [symmetric] by (simp add: drop_take min_absorb1)

text \<open>The layout with its conditions resolved.\<close>

lemma formatHUDLine_parts:
  assumes "0 < cols"
  obtains leftText line where
    "int (length line) = cols" "take (length leftText) line = leftText"
    "int (length leftText) \<le> (if hudSessionBadgeText rightText = [] then cols
       else max 0 (cols - int (length (hudSessionBadgeText rightText))))"
    "hl_statusText (formatHUDLine cols statusText rightText) = [] \<or>
       (\<exists>a k. hl_statusStart (formatHUDLine cols statusText rightText) = int a
          \<and> hl_statusText (formatHUDLine cols statusText rightText) = take k (drop a leftText)
          \<and> a + k \<le> length leftText)"
    "hudSessionBadgeText rightText = [] \<Longrightarrow>
       hl_line (formatHUDLine cols statusText rightText) = line \<and> hl_rightBadge (formatHUDLine cols statusText rightText) = []"
    "hudSessionBadgeText rightText \<noteq> [] \<Longrightarrow> \<exists>badge start. hl_rightBadge (formatHUDLine cols statusText rightText) = badge
       \<and> int (length badge) = min cols (int (length (hudSessionBadgeText rightText)))
       \<and> hl_rightStart (formatHUDLine cols statusText rightText) = start \<and> start = cols - int (length badge)
       \<and> hl_line (formatHUDLine cols statusText rightText) = copy_at start badge line"
proof -
  define rb where "rb = hudSessionBadgeText rightText"
  define lb where "lb = cut cols hudStatusLabel"
  define seg where "seg = (if TrimSpace statusText \<noteq> [] then '' '' @ TrimSpace statusText else [])"
  define room where "room = (if rb \<noteq> [] then max 0 (cols - int (length rb)) else cols)"
  define leftText where "leftText = cut room (lb @ seg)"
  define line where "line = cut cols (if int (length leftText) < cols
      then leftText @ Repeat '' '' (nat (cols - int (length leftText))) else leftText)"
  have room: "0 \<le> room" "room \<le> cols" using assms by (auto simp: room_def)
  then have "int (length leftText) \<le> room" by (simp add: leftText_def length_cut)
  moreover from this room have line: "int (length line) = cols" "take (length leftText) line = leftText"
    unfolding line_def by (intro padded_line; simp)+
  moreover have "\<not> length line < length lb"
    using assms line(1) length_cut [of cols hudStatusLabel] unfolding lb_def by linarith
  then have layout: "formatHUDLine cols statusText rightText =
     (let statusEnd = min (length lb + length seg) (length leftText);
          shown = (length lb < length leftText \<and> length lb < statusEnd);
          left = \<lparr>hl_line = line, hl_leftBadge = lb, hl_statusStart = (if shown then int (length lb) else -1),
             hl_statusText = (if shown then take (statusEnd - length lb) (drop (length lb) leftText) else []),
             hl_rightStart = -1, hl_rightBadge = []\<rparr>
      in if rb = [] then left
         else let rightBadge = (if cols < int (length rb) then drop (nat (int (length rb) - cols)) rb else rb);
                  rightStart = max 0 (cols - int (length rightBadge))
              in left\<lparr>hl_rightBadge := rightBadge, hl_rightStart := rightStart, hl_line := copy_at rightStart rightBadge line\<rparr>)"
    using assms unfolding formatHUDLine_def Let_def rb_def [symmetric] lb_def [symmetric] seg_def [symmetric]
      room_def [symmetric] leftText_def [symmetric] line_def [symmetric]
    by simp
  moreover have status: "hl_statusText (formatHUDLine cols statusText rightText) = [] \<or>
       (\<exists>a k. hl_statusStart (formatHUDLine cols statusText rightText) = int a
          \<and> hl_statusText (formatHUDLine cols statusText rightText) = take k (drop a leftText)
          \<and> a + k \<le> length leftText)"
  proof (cases "length lb < length leftText \<and> length lb < min (length lb + length seg) (length leftText)")
    case True
    then show ?thesis
      unfolding layout Let_def
      by (intro disjI2 exI [of _ "length lb"] exI [of _ "min (length lb + length seg) (length leftText) - length lb"]) simp
  next
    case False
    then show ?thesis unfolding layout Let_def by simp
  qed
  moreover have "rb = [] \<Longrightarrow> hl_line (formatHUDLine cols statusText rightText) = line
      \<and> hl_rightBadge (formatHUDLine cols statusText rightText) = []"
    unfolding layout Let_def by simp
  moreover have "rb \<noteq> [] \<Longrightarrow> \<exists>badge start. hl_rightBadge (formatHUDLine cols statusText rightText) = badge
       \<and> int (length badge) = min cols (int (length rb))
       \<and> hl_rightStart (formatHUDLine cols statusText rightText) = start \<and> start = cols - int (length badge)
       \<and> hl_line (formatHUDLine cols statusText rightText) = copy_at start badge line"
    using assms unfolding layout Let_def by simp
  ultimately show ?thesis
    using line that unfolding room_def rb_def [symmetric] by (simp split: if_splits)
qed

text \<open>
  The line fills the width of the terminal exactly; the badge on the right ends where the line
  ends; and the pieces that are drawn again in colour are the pieces of the line at their places,
  the status to the left of the badge.
\<close>
theorem hud_line_exact:
  assumes "0 < cols" and "formatHUDLine cols statusText rightText = l"
  shows "int (length (hl_line l)) = cols
    \<and> (hl_rightBadge l \<noteq> [] \<longrightarrow> 0 \<le> hl_rightStart l \<and> drop (nat (hl_rightStart l)) (hl_line l) = hl_rightBadge l)
    \<and> (hl_statusText l \<noteq> [] \<longrightarrow> 0 \<le> hl_statusStart l
         \<and> take (length (hl_statusText l)) (drop (nat (hl_statusStart l)) (hl_line l)) = hl_statusText l
         \<and> (hl_rightBadge l \<noteq> [] \<longrightarrow> hl_statusStart l + int (length (hl_statusText l)) \<le> hl_rightStart l))"
proof -
  obtain leftText line where p:
    "int (length line) = cols" "take (length leftText) line = leftText"
    "int (length leftText) \<le> (if hudSessionBadgeText rightText = [] then cols
       else max 0 (cols - int (length (hudSessionBadgeText rightText))))"
    "hl_statusText l = [] \<or> (\<exists>a k. hl_statusStart l = int a \<and> hl_statusText l = take k (drop a leftText)
       \<and> a + k \<le> length leftText)"
    "hudSessionBadgeText rightText = [] \<Longrightarrow> hl_line l = line \<and> hl_rightBadge l = []"
    "hudSessionBadgeText rightText \<noteq> [] \<Longrightarrow> \<exists>badge start. hl_rightBadge l = badge
       \<and> int (length badge) = min cols (int (length (hudSessionBadgeText rightText)))
       \<and> hl_rightStart l = start \<and> start = cols - int (length badge) \<and> hl_line l = copy_at start badge line"
    by (rule formatHUDLine_parts [OF assms(1), of rightText statusText, unfolded assms(2)]) (rule that; assumption)
  show ?thesis
  proof (cases "hudSessionBadgeText rightText = []")
    case True
    then have "hl_line l = line" "hl_rightBadge l = []" using p(5) by simp_all
    then show ?thesis using p(1,4) slice_of_prefix [OF p(2)] by (auto simp: min_absorb2)
  next
    case False
    define badge where "badge = hl_rightBadge l"
    define start where "start = hl_rightStart l"
    have b: "hl_rightBadge l = badge" "hl_rightStart l = start"
        "int (length badge) = min cols (int (length (hudSessionBadgeText rightText)))"
        "start = cols - int (length badge)" "hl_line l = copy_at start badge line"
      using p(6) [OF False] by (simp_all add: badge_def start_def)
    have start: "0 \<le> start" "nat start + length badge = length line" "length leftText \<le> nat start"
      using b(3,4) p(1,3) False assms(1) by (auto simp: min_def max_def split: if_splits)
    have line: "hl_line l = take (nat start) line @ badge"
      using b(5) copy_at_end [OF start(2)] by simp
    have "take (length leftText) (hl_line l) = leftText"
      using start(2,3) p(2) by (simp add: line min_def)
    note slice = slice_of_prefix [OF this]
    have "drop (nat start) (hl_line l) = badge" using start(2) by (simp add: line)
    moreover have "length (hl_line l) = length line" using start(2) by (simp add: line)
    then have "int (length (hl_line l)) = cols" using p(1) by simp
    moreover have "hl_statusText l \<noteq> [] \<Longrightarrow> 0 \<le> hl_statusStart l
         \<and> take (length (hl_statusText l)) (drop (nat (hl_statusStart l)) (hl_line l)) = hl_statusText l
         \<and> hl_statusStart l + int (length (hl_statusText l)) \<le> start"
      using p(4) slice start(1,3) by (auto simp: min_absorb2)
    ultimately show ?thesis using b(1,2) start(1) by simp
  qed
qed

theorem hud_line_exact_witness:
  "int (length (hl_line (formatHUDLine 30 ''ready'' ''AB12CD''))) = 30
   \<and> hl_line (formatHUDLine 30 ''ready'' ''AB12CD'') = '' STATUS  ready         AB12CD ''"
proof
  show "int (length (hl_line (formatHUDLine 30 ''ready'' ''AB12CD''))) = 30"
    using hud_line_exact [of 30 "''ready''" "''AB12CD''"] by simp
  show "hl_line (formatHUDLine 30 ''ready'' ''AB12CD'') = '' STATUS  ready         AB12CD ''"
    by code_simp
qed

end
