(* ===== verification/Update_Prompt.thy ===== *)
theory Update_Prompt
  imports Go_Strings
begin

text \<open>
  The question whether to install an update: \<^verbatim>\<open>cmd/shellin/update_prompt.go\<close> and
  \<^verbatim>\<open>update_prompt_input.go\<close>. The keyboard is a stream of bytes, of which each \<^verbatim>\<open>ReadByte\<close> takes the
  next; it can end, and it can fail. Drawing the menu can fail too, which the parameter \<open>draw\<close>
  says for the menu after each key. The loop is a partial function: a user who presses arrow keys
  for ever is asked for ever.
\<close>

section \<open>Keys\<close>

datatype input = Byte char | Eof | Failed string

datatype read_error = AtEof | ReadFailed string

datatype updatePromptAction = ActionNone | ActionUp | ActionDown | ActionChoose | ActionCancel

definition ReadByte :: "(nat \<Rightarrow> input) \<Rightarrow> nat \<Rightarrow> read_error + char" where
  "ReadByte keys pos = (case keys pos of
     Byte c \<Rightarrow> Inr c | Eof \<Rightarrow> Inl AtEof | Failed e \<Rightarrow> Inl (ReadFailed e))"

text \<open>What an error in the middle of an escape sequence means.\<close>

definition in_sequence :: "read_error \<Rightarrow> updatePromptAction \<times> read_error option" where
  "in_sequence e = (case e of AtEof \<Rightarrow> (ActionCancel, None) | ReadFailed m \<Rightarrow> (ActionNone, Some (ReadFailed m)))"

definition readUpdatePromptAction :: "(nat \<Rightarrow> input) \<Rightarrow> nat \<Rightarrow> (updatePromptAction \<times> read_error option) \<times> nat" where
  "readUpdatePromptAction keys pos = (case ReadByte keys pos of
     Inl e \<Rightarrow> ((ActionNone, Some e), pos + 1)
   | Inr b \<Rightarrow>
       if b = CHR 0x0D \<or> b = CHR 0x0A then ((ActionChoose, None), pos + 1)
       else if b = CHR ''k'' \<or> b = CHR ''K'' then ((ActionUp, None), pos + 1)
       else if b = CHR ''j'' \<or> b = CHR ''J'' then ((ActionDown, None), pos + 1)
       else if b = CHR 0x03 then ((ActionCancel, None), pos + 1)
       else if b = CHR 0x1B then
         (case ReadByte keys (pos + 1) of
            Inl e \<Rightarrow> (in_sequence e, pos + 2)
          | Inr c \<Rightarrow>
              if c \<noteq> CHR ''['' then ((ActionCancel, None), pos + 2)
              else (case ReadByte keys (pos + 2) of
                 Inl e \<Rightarrow> (in_sequence e, pos + 3)
               | Inr d \<Rightarrow> ((if d = CHR ''A'' then ActionUp else if d = CHR ''B'' then ActionDown else ActionNone, None), pos + 3)))
       else ((ActionNone, None), pos + 1))"

section \<open>The menu\<close>

text \<open>The loop with the selected line; the result is an error or whether to install.\<close>

definition last_option :: nat where "last_option = 1"

partial_function (option) prompt_loop ::
  "(nat \<Rightarrow> input) \<Rightarrow> (nat \<Rightarrow> nat \<Rightarrow> string option) \<Rightarrow> nat \<Rightarrow> nat \<Rightarrow> (string + bool) option"
where
  "prompt_loop keys draw selected pos =
     (let ((action, err), pos') = readUpdatePromptAction keys pos;
          moved = (case action of
              ActionUp \<Rightarrow> if 0 < selected then selected - 1 else selected
            | ActionDown \<Rightarrow> if selected < last_option then selected + 1 else selected
            | _ \<Rightarrow> selected)
      in case err of
           Some (ReadFailed e) \<Rightarrow> Some (Inl e)
         | _ \<Rightarrow>
             if action = ActionChoose then Some (Inr (selected = 0))
             else if action = ActionCancel then Some (Inr False)
             else if moved \<noteq> selected \<and> draw pos' moved \<noteq> None then Some (Inl (the (draw pos' moved)))
             else if err = Some AtEof then Some (Inr False)
             else prompt_loop keys draw moved pos')"

definition promptForAvailableUpdate ::
  "(nat \<Rightarrow> input) \<Rightarrow> (nat \<Rightarrow> nat \<Rightarrow> string option) \<Rightarrow> (string + bool) option"
where
  "promptForAvailableUpdate keys draw = (case draw 0 0 of
     Some e \<Rightarrow> Some (Inl e)
   | None \<Rightarrow> prompt_loop keys draw 0 0)"

section \<open>Without a terminal\<close>

definition parseUpdatePromptChoice :: "string \<Rightarrow> bool option" where
  "parseUpdatePromptChoice line =
     (let choice = ToLower (TrimSpace line)
      in if choice \<in> set [''u'', ''update'', ''y'', ''yes''] then Some True
         else if choice \<in> set [[], ''c'', ''continue'', ''n'', ''no''] then Some False
         else None)"

text \<open>The lines that can be read, and how reading ends: with the text after the last line break.\<close>

fun promptForAvailableUpdateFallback :: "string list \<Rightarrow> string + string \<Rightarrow> string + bool" where
  "promptForAvailableUpdateFallback [] ending = (case ending of
     Inl e \<Rightarrow> Inl e
   | Inr text \<Rightarrow> (case parseUpdatePromptChoice text of Some choice \<Rightarrow> Inr choice | None \<Rightarrow> Inr False))"
| "promptForAvailableUpdateFallback (line # lines) ending =
     (case parseUpdatePromptChoice line of
        Some choice \<Rightarrow> Inr choice
      | None \<Rightarrow> promptForAvailableUpdateFallback lines ending)"

section \<open>Properties\<close>

lemma read_advances: "readUpdatePromptAction keys pos = (r, pos') \<Longrightarrow> pos < pos'"
  unfolding readUpdatePromptAction_def
  by (auto split: sum.splits if_splits)

lemma read_choose: "readUpdatePromptAction keys pos = ((ActionChoose, err), pos')
  \<Longrightarrow> keys pos = Byte (CHR 0x0D) \<or> keys pos = Byte (CHR 0x0A)"
  unfolding readUpdatePromptAction_def ReadByte_def in_sequence_def
  by (auto split: sum.splits input.splits if_splits read_error.splits)

lemma read_eof: "keys pos = Eof \<Longrightarrow> readUpdatePromptAction keys pos = ((ActionNone, Some AtEof), pos + 1)"
  by (simp add: readUpdatePromptAction_def ReadByte_def)

lemma prompt_loop_returns:
  assumes "\<forall>m \<ge> n. keys m = Eof"
  shows "\<exists>r. prompt_loop keys draw selected pos = Some r
    \<and> (r = Inr True \<longrightarrow> (\<exists>i. pos \<le> i \<and> (keys i = Byte (CHR 0x0D) \<or> keys i = Byte (CHR 0x0A))))"
proof (induction "n - pos" arbitrary: selected pos rule: less_induct)
  case less
  obtain action err pos' where r: "readUpdatePromptAction keys pos = ((action, err), pos')"
    by (metis prod.collapse)
  show ?case
  proof (cases "n \<le> pos")
    case True
    with assms have "keys pos = Eof" by simp
    then show ?thesis by (subst prompt_loop.simps) (simp add: read_eof)
  next
    case False
    have "pos < pos'" using read_advances [OF r] .
    then have "n - pos' < n - pos" using False by linarith
    note IH = less [OF this]
    have up: "\<exists>r. prompt_loop keys draw s pos' = Some r
        \<and> (r = Inr True \<longrightarrow> (\<exists>i. pos \<le> i \<and> (keys i = Byte (CHR 0x0D) \<or> keys i = Byte (CHR 0x0A))))" for s
      using IH [of s] \<open>pos < pos'\<close> by (meson less_imp_le order_trans)
    show ?thesis
      by (subst prompt_loop.simps)
         (use r read_choose [of keys pos err pos'] up in \<open>auto simp: Let_def split: option.splits read_error.splits\<close>)
  qed
qed

text \<open>
  C32: The question ends when the keyboard does, whatever was pressed, and an update is only
  installed after the return key was pressed.
\<close>
theorem prompt_terminates:
  assumes "\<forall>m \<ge> n. keys m = Eof"
  shows "\<exists>r. promptForAvailableUpdate keys draw = Some r
    \<and> (r = Inr True \<longrightarrow> (\<exists>i < n. keys i = Byte (CHR 0x0D) \<or> keys i = Byte (CHR 0x0A)))"
proof -
  have "i < n" if "keys i = Byte c" for i c
    using that assms by (metis input.distinct(1) not_le)
  moreover obtain r where "prompt_loop keys draw 0 0 = Some r"
      "r = Inr True \<longrightarrow> (\<exists>i. keys i = Byte (CHR 0x0D) \<or> keys i = Byte (CHR 0x0A))"
    using prompt_loop_returns [OF assms, of draw 0 0] by blast
  ultimately show ?thesis
    unfolding promptForAvailableUpdate_def by (cases "draw 0 0") (simp, blast, simp)
qed

definition typed :: "string \<Rightarrow> nat \<Rightarrow> input" where
  "typed s i = (if i < length s then Byte (s ! i) else Eof)"

theorem prompt_terminates_witness:
  "(\<exists>r. promptForAvailableUpdate (typed (''jk'' @ [CHR 0x0D])) (\<lambda>p s. None) = Some r)
   \<and> promptForAvailableUpdate (typed (''j'' @ [CHR 0x0D])) (\<lambda>p s. None) = Some (Inr False)
   \<and> promptForAvailableUpdate (typed (''jk'' @ [CHR 0x0D])) (\<lambda>p s. None) = Some (Inr True)"
proof (intro conjI)
  have "\<forall>m \<ge> 3. typed (''jk'' @ [CHR 0x0D]) m = Eof" by (simp add: typed_def)
  from prompt_terminates [OF this]
  show "\<exists>r. promptForAvailableUpdate (typed (''jk'' @ [CHR 0x0D])) (\<lambda>p s. None) = Some r" by blast
  show "promptForAvailableUpdate (typed (''j'' @ [CHR 0x0D])) (\<lambda>p s. None) = Some (Inr False)"
    by (simp add: promptForAvailableUpdate_def prompt_loop.simps readUpdatePromptAction_def ReadByte_def typed_def last_option_def)
  show "promptForAvailableUpdate (typed (''jk'' @ [CHR 0x0D])) (\<lambda>p s. None) = Some (Inr True)"
    by (simp add: promptForAvailableUpdate_def prompt_loop.simps readUpdatePromptAction_def ReadByte_def typed_def last_option_def)
qed

end
