(* ===== verification/Client_Negotiation.thy ===== *)
theory Client_Negotiation
  imports Client_Connect Client_Shell
begin

text \<open>
  A live session of the agent: the peer connection, its two data channels and the signaling
  WebSocket (\<^verbatim>\<open>cmd/shellin/webrtc_session.go\<close>, \<^verbatim>\<open>webrtc_negotiator.go\<close>, \<^verbatim>\<open>webrtc_offer.go\<close>,
  \<^verbatim>\<open>webrtc_signal_handlers.go\<close>, \<^verbatim>\<open>webrtc_peer_events.go\<close>, \<^verbatim>\<open>webrtc_data_channels.go\<close>).

  The WebRTC library is a \<open>peer\<close>: what a call to it answers, and what it reports of its state, is a
  function of the history of the session's effects, newest first. The history also records what the
  status line is told, what reaches the shell and what changed in the peer connection by itself.

  The handlers of signaling messages run one after the other in the goroutine that reads the
  WebSocket, and only they touch the offer; the goroutine that writes and the callbacks of the
  library run between them, and while an offer waits for its candidates: these are the
  \<open>background\<close> steps of a message.
\<close>

section \<open>Effects\<close>

datatype signaling_state = Stable | HaveLocalOffer | OtherSignalingState

datatype peer_call = Rollback | CreateOffer bool | SetLocal string | SetAnswer string | AddCandidate ICECandidate

datatype dial_answer = DialFailed string "string option" | Subprotocol string

datatype live_effect =
  Called peer_call "string option"
| SignalState string
| P2PState string
| PeerMade "ICEServer list \<times> bool" "string option"
| PeerChanged string
| PeerClosed
| Dialed string string dial_answer
| ToShell string
| ToViewer string
| Resize "16 word \<times> 16 word"

type_synonym live_history = "live_effect list"

record peer =
  pe_state :: "live_history \<Rightarrow> signaling_state"
  pe_remote :: "live_history \<Rightarrow> bool"
  pe_local :: "live_history \<Rightarrow> string option"
  pe_offer :: "live_history \<Rightarrow> string"
  pe_error :: "live_history \<Rightarrow> peer_call \<Rightarrow> string option"
  pe_open :: "live_history \<Rightarrow> bool"

definition peer_do :: "peer \<Rightarrow> peer_call \<Rightarrow> live_history \<Rightarrow> string option \<times> live_history" where
  "peer_do p c h = (pe_error p h c, Called c (pe_error p h c) # h)"

section \<open>The session\<close>

record signalPump =
  sp_suppressLost :: bool
  sp_lost :: bool

record liveWebRTCSession =
  ls_signalOut :: "SignalMessage list"
  ls_signalingLost :: bool
  ls_reconnectNow :: bool
  ls_signal :: "signalPump option"
  ls_dcOpen :: bool
  ls_pendingCandidates :: "ICECandidate list"

definition signalOut_capacity :: nat where "signalOut_capacity = 128"

definition newLiveWebRTCSession :: liveWebRTCSession where
  "newLiveWebRTCSession = \<lparr>ls_signalOut = [], ls_signalingLost = False, ls_reconnectNow = False, ls_signal = None,
     ls_dcOpen = False, ls_pendingCandidates = []\<rparr>"

text \<open>Sending to a channel when it has room.\<close>

definition notifySignalingLost :: "liveWebRTCSession \<Rightarrow> liveWebRTCSession" where
  "notifySignalingLost l = l\<lparr>ls_signalingLost := True\<rparr>"

definition requestReconnect :: "liveWebRTCSession \<Rightarrow> liveWebRTCSession" where
  "requestReconnect l = l\<lparr>ls_reconnectNow := True\<rparr>"

definition signal_out :: "SignalMessage \<Rightarrow> liveWebRTCSession \<Rightarrow> liveWebRTCSession option" where
  "signal_out msg l = (if length (ls_signalOut l) < signalOut_capacity
     then Some (l\<lparr>ls_signalOut := ls_signalOut l @ [msg]\<rparr>) else None)"

definition try_signal :: "SignalMessage \<Rightarrow> liveWebRTCSession \<Rightarrow> liveWebRTCSession" where
  "try_signal msg l = (case signal_out msg l of Some l' \<Rightarrow> l' | None \<Rightarrow> l)"

type_synonym session_state = "live_history \<times> liveWebRTCSession"

section \<open>The WebSocket\<close>

definition dialSignalWS :: "dial_answer \<Rightarrow> go_error option" where
  "dialSignalWS answer = (case answer of
     DialFailed e None \<Rightarrow> Some (Wrapped ''dial signaling websocket failed: '' (Plain e) [])
   | DialFailed e (Some status) \<Rightarrow>
       Some (Wrapped ''dial signaling websocket failed: '' (Plain e) ('' (status='' @ status @ '')''))
   | Subprotocol s \<Rightarrow>
       if s \<noteq> ''mt-signaling'' then Some (Plain ''signaling websocket subprotocol negotiation failed'') else None)"

definition stopSignalPump :: "liveWebRTCSession \<Rightarrow> liveWebRTCSession" where
  "stopSignalPump l = l\<lparr>ls_signal := None\<rparr>"

definition ReconnectSignaling ::
  "AgentConnectResponse \<Rightarrow> dial_answer \<Rightarrow> session_state \<Rightarrow> go_error option \<times> session_state"
where
  "ReconnectSignaling connect answer s = (case s of (h, l) \<Rightarrow>
     let h = Dialed (TrimSpace (cr_SignalURL connect)) (bearer (cr_SignalToken connect)) answer # h
     in case dialSignalWS answer of
          Some e \<Rightarrow> (Some e, (h, l))
        | None \<Rightarrow> (None, (SignalState ''normal'' # h,
            (stopSignalPump l)\<lparr>ls_signal := Some \<lparr>sp_suppressLost = False, sp_lost = False\<rparr>\<rparr>)))"

definition reportLost :: "session_state \<Rightarrow> session_state" where
  "reportLost s = (case s of (h, l) \<Rightarrow> (case ls_signal l of
     None \<Rightarrow> (h, l)
   | Some pump \<Rightarrow>
       if sp_suppressLost pump \<or> sp_lost pump then (h, l)
       else (SignalState ''closed'' # h, notifySignalingLost (l\<lparr>ls_signal := Some (pump\<lparr>sp_lost := True\<rparr>)\<rparr>))))"

definition live_Close :: "session_state \<Rightarrow> live_history" where
  "live_Close s = (case s of (h, l) \<Rightarrow> PeerClosed # h)"

section \<open>Events of the peer connection and of the data channels\<close>

definition handleConnectionStateChange :: "string \<Rightarrow> session_state \<Rightarrow> session_state" where
  "handleConnectionStateChange state s = (case s of (h, l) \<Rightarrow>
     (P2PState (ToLower state) # PeerChanged state # h,
      if state = ''failed'' \<or> state = ''closed'' then requestReconnect l else l))"

definition handleICECandidate :: "ICECandidate option \<Rightarrow> liveWebRTCSession \<Rightarrow> liveWebRTCSession" where
  "handleICECandidate candidate l = (case candidate of
     None \<Rightarrow> l
   | Some c \<Rightarrow> try_signal \<lparr>sm_Type = SignalMessageTypeCandidate, sm_SDP = None, sm_Candidate = Some c\<rparr> l)"

definition handleTerminalOpen :: "session_state \<Rightarrow> session_state" where
  "handleTerminalOpen s = (case s of (h, l) \<Rightarrow> (P2PState ''connected'' # h,
     try_signal \<lparr>sm_Type = SignalMessageTypeP2PConnected, sm_SDP = None, sm_Candidate = None\<rparr> (l\<lparr>ls_dcOpen := True\<rparr>)))"

definition handleTerminalClose :: "session_state \<Rightarrow> session_state" where
  "handleTerminalClose s = (case s of (h, l) \<Rightarrow> (P2PState ''waiting'' # h, l\<lparr>ls_dcOpen := False\<rparr>))"

definition handleTerminalMessage :: "string \<Rightarrow> session_state \<Rightarrow> session_state" where
  "handleTerminalMessage data s = (case s of (h, l) \<Rightarrow> (if data = [] then h else ToShell data # h, l))"

definition control_message :: "string \<Rightarrow> session_state \<Rightarrow> session_state" where
  "control_message data s = (case s of (h, l) \<Rightarrow>
     (case handleControlMessage data of None \<Rightarrow> h | Some dims \<Rightarrow> Resize dims # h, l))"

text \<open>The goroutine that writes takes a message; when the writing fails, the message is gone.\<close>

definition write_signal :: "bool \<Rightarrow> session_state \<Rightarrow> session_state" where
  "write_signal ok s = (case s of (h, l) \<Rightarrow> (case ls_signal l of
     None \<Rightarrow> (h, l)
   | Some pump \<Rightarrow>
       if sp_lost pump \<or> ls_signalOut l = [] then (h, l)
       else let l = l\<lparr>ls_signalOut := tl (ls_signalOut l)\<rparr> in if ok then (h, l) else reportLost (h, l)))"

datatype background =
  LocalCandidate "ICECandidate option"
| ConnectionState string
| TerminalOpen
| TerminalClose
| TerminalMessage string
| ControlMessage string
| WriteSignal bool

fun background_step :: "background \<Rightarrow> session_state \<Rightarrow> session_state" where
  "background_step (LocalCandidate c) (h, l) = (h, handleICECandidate c l)"
| "background_step (ConnectionState state) s = handleConnectionStateChange state s"
| "background_step TerminalOpen s = handleTerminalOpen s"
| "background_step TerminalClose s = handleTerminalClose s"
| "background_step (TerminalMessage data) s = handleTerminalMessage data s"
| "background_step (ControlMessage data) s = control_message data s"
| "background_step (WriteSignal ok) s = write_signal ok s"

section \<open>Offers and candidates\<close>

definition queuePendingCandidate :: "ICECandidate \<Rightarrow> liveWebRTCSession \<Rightarrow> liveWebRTCSession" where
  "queuePendingCandidate c l = l\<lparr>ls_pendingCandidates := ls_pendingCandidates l @ [c]\<rparr>"

fun add_candidates :: "peer \<Rightarrow> ICECandidate list \<Rightarrow> live_history \<Rightarrow> live_history" where
  "add_candidates p [] h = h"
| "add_candidates p (c # cs) h = add_candidates p cs (snd (peer_do p (AddCandidate c) h))"

definition flushPendingCandidates :: "peer \<Rightarrow> session_state \<Rightarrow> session_state" where
  "flushPendingCandidates p s = (case s of (h, l) \<Rightarrow>
     (add_candidates p (ls_pendingCandidates l) h, l\<lparr>ls_pendingCandidates := []\<rparr>))"

definition resetPendingOffer :: "peer \<Rightarrow> live_history \<Rightarrow> live_history" where
  "resetPendingOffer p h = (if pe_state p h \<noteq> HaveLocalOffer then h else snd (peer_do p Rollback h))"

text \<open>After the candidates have been waited for.\<close>

definition finish_offer :: "peer \<Rightarrow> session_state \<Rightarrow> go_error option \<times> session_state" where
  "finish_offer p s = (case s of (h, l) \<Rightarrow> (case pe_local p h of
     None \<Rightarrow> (Some (Plain ''local description is nil''), (h, l))
   | Some sdp \<Rightarrow>
       (case signal_out \<lparr>sm_Type = SignalMessageTypeOffer,
          sm_SDP = Some \<lparr>sdp_Type = SDPTypeOffer, sdp_SDP = sdp\<rparr>, sm_Candidate = None\<rparr> l of
          Some l' \<Rightarrow> (None, (h, l'))
        | None \<Rightarrow> (Some (Plain ''signaling queue full while sending offer''), (h, l)))))"

definition make_offer :: "peer \<Rightarrow> bool \<Rightarrow> background list \<Rightarrow> session_state \<Rightarrow> go_error option \<times> session_state" where
  "make_offer p iceRestart waiting s = (case s of (h, l) \<Rightarrow>
     let l = l\<lparr>ls_pendingCandidates := []\<rparr>; offer = pe_offer p h
     in case peer_do p (CreateOffer iceRestart) h of
          (Some e, h) \<Rightarrow> (Some (Plain e), (h, l))
        | (None, h) \<Rightarrow> (case peer_do p (SetLocal offer) h of
            (Some e, h) \<Rightarrow> (Some (Plain e), (h, l))
          | (None, h) \<Rightarrow> finish_offer p (fold background_step waiting (h, l))))"

definition sendOffer :: "peer \<Rightarrow> bool \<Rightarrow> background list \<Rightarrow> session_state \<Rightarrow> go_error option \<times> session_state" where
  "sendOffer p iceRestart waiting s = (case s of (h, l) \<Rightarrow>
     if pe_state p h = HaveLocalOffer then
       (case peer_do p Rollback h of
          (Some e, h) \<Rightarrow> (Some (Wrapped ''rollback pending offer: '' (Plain e) []), (h, l))
        | (None, h) \<Rightarrow> make_offer p iceRestart waiting (h, l))
     else make_offer p iceRestart waiting (h, l))"

section \<open>Signaling messages\<close>

definition handleAnswer :: "peer \<Rightarrow> SignalMessage \<Rightarrow> session_state \<Rightarrow> session_state" where
  "handleAnswer p msg s = (case s of (h, l) \<Rightarrow> (case sm_SDP msg of
     None \<Rightarrow> (h, l)
   | Some sdp \<Rightarrow>
       if sdp_SDP sdp = [] \<or> pe_state p h \<noteq> HaveLocalOffer then (h, l)
       else (case peer_do p (SetAnswer (sdp_SDP sdp)) h of
           (Some _, h) \<Rightarrow> (h, l)
         | (None, h) \<Rightarrow> flushPendingCandidates p (h, l))))"

definition handleCandidate :: "peer \<Rightarrow> SignalMessage \<Rightarrow> session_state \<Rightarrow> session_state" where
  "handleCandidate p msg s = (case s of (h, l) \<Rightarrow> (case sm_Candidate msg of
     None \<Rightarrow> (h, l)
   | Some c \<Rightarrow>
       if cand_Candidate c = [] then (h, l)
       else if \<not> pe_remote p h \<or> pe_state p h = HaveLocalOffer then (h, queuePendingCandidate c l)
       else (snd (peer_do p (AddCandidate c) h), l)))"

definition handleViewerReady :: "peer \<Rightarrow> background list \<Rightarrow> background list \<Rightarrow> session_state \<Rightarrow> session_state" where
  "handleViewerReady p waiting again s = (case s of (h, l) \<Rightarrow>
     (case sendOffer p True waiting (P2PState ''negotiating'' # SignalState ''viewer_connected'' # h, l) of
        (None, s) \<Rightarrow> s
      | (Some _, s) \<Rightarrow>
          (case sendOffer p False again s of (None, s) \<Rightarrow> s | (Some _, (h, l)) \<Rightarrow> (h, requestReconnect l))))"

definition handleViewerDetach :: "peer \<Rightarrow> session_state \<Rightarrow> session_state" where
  "handleViewerDetach p s = (case s of (h, l) \<Rightarrow>
     let h = resetPendingOffer p (SignalState ''normal'' # h)
     in (if \<not> ls_dcOpen l then P2PState ''waiting'' # h else h, requestReconnect l))"

definition handleSignalMessage ::
  "peer \<Rightarrow> background list \<Rightarrow> background list \<Rightarrow> SignalMessage \<Rightarrow> session_state \<Rightarrow> session_state"
where
  "handleSignalMessage p waiting again msg s =
     (if sm_Type msg = SignalMessageTypeAnswer then handleAnswer p msg s
      else if sm_Type msg = SignalMessageTypeCandidate then handleCandidate p msg s
      else if sm_Type msg = SignalMessageTypeViewerReady then handleViewerReady p waiting again s
      else if sm_Type msg = SignalMessageTypeDetach \<or> sm_Type msg = SignalMessageTypeViewerReplaced
      then handleViewerDetach p s
      else s)"

section \<open>Steps of a session\<close>

datatype live_event =
  Received string "background list" "background list"
| ReadFailed
| Background background

definition receive :: "peer \<Rightarrow> background list \<Rightarrow> background list \<Rightarrow> string \<Rightarrow> session_state \<Rightarrow> session_state" where
  "receive p waiting again payload s =
     (case Option.bind (json_Unmarshal payload) (decode_SignalMessage False) of
        None \<Rightarrow> s
      | Some msg \<Rightarrow> handleSignalMessage p waiting again msg s)"

text \<open>A lost WebSocket is closed: nothing is read from it any more.\<close>

fun live_step :: "peer \<Rightarrow> live_event \<Rightarrow> session_state \<Rightarrow> session_state" where
  "live_step p (Received payload waiting again) (h, l) = (case ls_signal l of
     None \<Rightarrow> (h, l)
   | Some pump \<Rightarrow> if sp_lost pump then (h, l) else receive p waiting again payload (h, l))"
| "live_step p ReadFailed s = reportLost s"
| "live_step p (Background b) s = background_step b s"

end
