(* ===== verification/Client_Bridge.thy ===== *)
theory Client_Bridge
  imports Client_Negotiation
begin

text \<open>
  The bridge of an agent: the goroutine that connects to the control plane, keeps a live session and
  connects again when it is lost (\<^verbatim>\<open>cmd/shellin/webrtc_bridge.go\<close>, \<^verbatim>\<open>webrtc_bridge_loop.go\<close>,
  \<^verbatim>\<open>webrtc_bridge_auth.go\<close>, \<^verbatim>\<open>webrtc_agent_setup.go\<close>, \<^verbatim>\<open>async.go\<close>), and its composition with the
  heartbeat, which share their tokens through the callback \<^verbatim>\<open>authUpdate\<close>
  (\<^verbatim>\<open>interactive_session.go\<close>, \<^verbatim>\<open>runtime_fatal.go\<close>).

  A step of the bridge is what its goroutine does between two points at which it waits: the timer of
  the backoff, or the \<^verbatim>\<open>select\<close> over a live session. The phase says where it waits. A step carries
  what the surroundings contribute: the label of the agent, and the outcomes of making a peer
  connection and of dialling the WebSocket.
\<close>

section \<open>The surroundings\<close>

record world =
  wo_env :: environment
  wo_peer :: peer
  wo_render :: "string \<Rightarrow> string"
  wo_parse_error :: "string \<Rightarrow> string"

section \<open>The bridge\<close>

datatype bridge_phase = BridgeConnecting | BridgeRetrying | BridgeAttached | BridgeStopped

record webrtcAgentBridge =
  wb_cfg :: client_config
  wb_sessionID :: string
  wb_profilePath :: string
  wb_authSession :: controlPlaneAuthSession
  wb_lastErr :: "go_error option"
  wb_liveSession :: "liveWebRTCSession option"
  wb_connected :: bool
  wb_backoff :: duration
  wb_phase :: bridge_phase
  wb_log :: live_history

definition newWebRTCAgentBridge ::
  "client_config \<Rightarrow> string \<Rightarrow> controlPlaneAuthSession \<Rightarrow> string \<Rightarrow> webrtcAgentBridge"
where
  "newWebRTCAgentBridge cfg sessionID authSession profilePath =
     \<lparr>wb_cfg = cfg, wb_sessionID = TrimSpace sessionID, wb_profilePath = TrimSpace profilePath,
      wb_authSession = authSession, wb_lastErr = None, wb_liveSession = None, wb_connected = False,
      wb_backoff = Second, wb_phase = BridgeConnecting, wb_log = []\<rparr>"

definition minDuration :: "duration \<Rightarrow> duration \<Rightarrow> duration" where
  "minDuration a b = (if a < b then a else b)"

definition bridge_Connected :: "webrtcAgentBridge \<Rightarrow> bool" where "bridge_Connected b = wb_connected b"

definition bridge_LastError :: "webrtcAgentBridge \<Rightarrow> go_error option" where "bridge_LastError b = wb_lastErr b"

definition bridge_log :: "live_effect list \<Rightarrow> webrtcAgentBridge \<Rightarrow> webrtcAgentBridge" where
  "bridge_log es b = b\<lparr>wb_log := es @ wb_log b\<rparr>"

definition requestConnect ::
  "world \<Rightarrow> string \<Rightarrow> webrtcAgentBridge
   \<Rightarrow> (go_error + AgentConnectResponse \<times> controlPlaneAuthSession \<times> controlPlaneAuthUpdateMode) io"
where
  "requestConnect w label b = requestAgentConnectWithAuthSession (wo_render w) (wo_parse_error w) (wo_env w)
     (wb_cfg b) (wb_authSession b) (wb_sessionID b) label"

definition setupWebRTCAgent ::
  "AgentConnectResponse \<Rightarrow> string option \<Rightarrow> dial_answer \<Rightarrow> live_history \<Rightarrow> (go_error + liveWebRTCSession) \<times> live_history"
where
  "setupWebRTCAgent connect made answer h =
     (let h = PeerMade (peer_configuration connect) made # h
      in case made of
           Some e \<Rightarrow> (Inl (Plain e), h)
         | None \<Rightarrow>
             (case ReconnectSignaling connect answer (P2PState ''waiting'' # SignalState ''normal'' # h, newLiveWebRTCSession) of
                (Some err, (h, _)) \<Rightarrow> (Inl err, PeerClosed # h)
              | (None, (h, live)) \<Rightarrow> (Inr live, h)))"

text \<open>\<^verbatim>\<open>authUpdate\<close> is called for tokens that are new.\<close>

definition auth_update ::
  "controlPlaneAuthSession \<Rightarrow> controlPlaneAuthUpdateMode \<Rightarrow> (controlPlaneAuthSession \<times> controlPlaneAuthUpdateMode) option"
where
  "auth_update next mode = (if mode \<noteq> controlPlaneAuthUnchanged then Some (next, mode) else None)"

definition closeLiveSession :: "webrtcAgentBridge \<Rightarrow> webrtcAgentBridge" where
  "closeLiveSession b = (case wb_liveSession b of
     None \<Rightarrow> b
   | Some live \<Rightarrow> b\<lparr>wb_liveSession := None, wb_log := live_Close (wb_log b, live)\<rparr>)"

definition bridge_failed :: "go_error \<Rightarrow> webrtcAgentBridge \<Rightarrow> webrtcAgentBridge" where
  "bridge_failed err b = bridge_log [SignalState ''failed''] (b\<lparr>wb_connected := False, wb_lastErr := Some err\<rparr>)"

text \<open>One attempt of the outer loop.\<close>

definition bridge_attempt ::
  "world \<Rightarrow> string \<Rightarrow> string option \<Rightarrow> dial_answer \<Rightarrow> webrtcAgentBridge
   \<Rightarrow> (webrtcAgentBridge \<times> (controlPlaneAuthSession \<times> controlPlaneAuthUpdateMode) option) io"
where
  "bridge_attempt w label made answer b0 = (let b = bridge_log [SignalState ''connecting''] b0 in do {
     outcome \<leftarrow> requestConnect w label b;
     State_Monad.return (case outcome of
       Inl err \<Rightarrow> ((bridge_failed err b)\<lparr>wb_phase := BridgeRetrying\<rparr>, None)
     | Inr (resp, next, mode) \<Rightarrow>
         let b = b\<lparr>wb_authSession := next\<rparr>
         in (case setupWebRTCAgent resp made answer (wb_log b) of
               (Inl err, h) \<Rightarrow> (bridge_failed err (b\<lparr>wb_log := h\<rparr>))\<lparr>wb_phase := BridgeRetrying\<rparr>
             | (Inr live, h) \<Rightarrow> b\<lparr>wb_log := h, wb_liveSession := Some live, wb_connected := True, wb_lastErr := None,
                 wb_backoff := Second, wb_phase := BridgeAttached\<rparr>,
             auth_update next mode)) })"

definition bridge_reconnect :: "webrtcAgentBridge \<Rightarrow> webrtcAgentBridge" where
  "bridge_reconnect b = closeLiveSession (b\<lparr>wb_connected := False, wb_phase := BridgeConnecting\<rparr>)"

text \<open>\<^verbatim>\<open>recoverLiveSignaling\<close>, after which an error makes the loop connect anew.\<close>

definition signaling_failed :: "go_error \<Rightarrow> webrtcAgentBridge \<Rightarrow> webrtcAgentBridge" where
  "signaling_failed err b = bridge_log [SignalState ''failed''] (b\<lparr>wb_lastErr := Some err\<rparr>)"

definition recoverLiveSignaling ::
  "world \<Rightarrow> string \<Rightarrow> dial_answer \<Rightarrow> liveWebRTCSession \<Rightarrow> webrtcAgentBridge
   \<Rightarrow> (go_error option \<times> webrtcAgentBridge \<times> (controlPlaneAuthSession \<times> controlPlaneAuthUpdateMode) option) io"
where
  "recoverLiveSignaling w label answer live b0 = (let b = bridge_log [SignalState ''connecting''] b0 in do {
     outcome \<leftarrow> requestConnect w label b;
     State_Monad.return (case outcome of
       Inl err \<Rightarrow> (Some err, signaling_failed err b, None)
     | Inr (resp, next, mode) \<Rightarrow>
         (case ReconnectSignaling resp answer (wb_log b, live) of
            (Some err, (h, live)) \<Rightarrow>
              (Some err, signaling_failed err (b\<lparr>wb_authSession := next, wb_log := h, wb_liveSession := Some live\<rparr>),
               auth_update next mode)
          | (None, (h, live)) \<Rightarrow>
              (None, b\<lparr>wb_authSession := next, wb_log := h, wb_liveSession := Some live, wb_lastErr := None\<rparr>,
               auth_update next mode))) })"

section \<open>Steps\<close>

datatype bridge_event =
  Attempt string "string option" dial_answer
| Slept
| SignalingLost string dial_answer
| ReconnectNow
| CloseBridge
| Live live_event
| Enqueue string
| StaleState string

definition enqueue :: "peer \<Rightarrow> string \<Rightarrow> webrtcAgentBridge \<Rightarrow> webrtcAgentBridge" where
  "enqueue p data b =
     (if data = [] \<or> wb_liveSession b = None \<or> \<not> pe_open p (wb_log b) then b else bridge_log [ToViewer data] b)"

text \<open>
  A callback of a session that was closed only reaches the status line. A step that does not fit
  the phase does nothing.
\<close>

definition bridge_step ::
  "world \<Rightarrow> bridge_event \<Rightarrow> webrtcAgentBridge
   \<Rightarrow> (webrtcAgentBridge \<times> (controlPlaneAuthSession \<times> controlPlaneAuthUpdateMode) option) io"
where
  "bridge_step w ev b = (case (ev, wb_phase b, wb_liveSession b) of
     (Attempt label made answer, BridgeConnecting, _) \<Rightarrow> bridge_attempt w label made answer b
   | (Slept, BridgeRetrying, _) \<Rightarrow>
       State_Monad.return (b\<lparr>wb_backoff := minDuration (wb_backoff b * 2) (5 * Second), wb_phase := BridgeConnecting\<rparr>, None)
   | (SignalingLost label answer, BridgeAttached, Some live) \<Rightarrow>
       (if \<not> ls_signalingLost live then State_Monad.return (b, None)
        else do {
          (err, b', update) \<leftarrow> recoverLiveSignaling w label answer (live\<lparr>ls_signalingLost := False\<rparr>)
            (b\<lparr>wb_liveSession := Some (live\<lparr>ls_signalingLost := False\<rparr>)\<rparr>);
          State_Monad.return (if err = None then b' else bridge_reconnect b', update) })
   | (ReconnectNow, BridgeAttached, Some live) \<Rightarrow>
       State_Monad.return (if ls_reconnectNow live then bridge_reconnect b else b, None)
   | (CloseBridge, BridgeRetrying, _) \<Rightarrow> State_Monad.return (b\<lparr>wb_phase := BridgeStopped\<rparr>, None)
   | (CloseBridge, BridgeStopped, _) \<Rightarrow> State_Monad.return (b, None)
   | (CloseBridge, _, _) \<Rightarrow> State_Monad.return (closeLiveSession (b\<lparr>wb_phase := BridgeStopped\<rparr>), None)
   | (Live e, _, Some live) \<Rightarrow> State_Monad.return
       (case live_step (wo_peer w) e (wb_log b, live) of (h, live) \<Rightarrow> b\<lparr>wb_log := h, wb_liveSession := Some live\<rparr>, None)
   | (Enqueue data, _, _) \<Rightarrow> State_Monad.return (enqueue (wo_peer w) data b, None)
   | (StaleState state, _, _) \<Rightarrow> State_Monad.return (bridge_log [P2PState (ToLower state)] b, None)
   | _ \<Rightarrow> State_Monad.return (b, None))"

fun bridge_run :: "world \<Rightarrow> bridge_event list \<Rightarrow> webrtcAgentBridge \<Rightarrow> webrtcAgentBridge io" where
  "bridge_run w [] b = State_Monad.return b"
| "bridge_run w (ev # evs) b = do {
     (b', update) \<leftarrow> bridge_step w ev b;
     bridge_run w evs b' }"

section \<open>The agent\<close>

text \<open>The first error that is final is kept, and ends the program.\<close>

definition runtimeFatalStopper_Set :: "go_error option \<Rightarrow> go_error option \<Rightarrow> go_error option" where
  "runtimeFatalStopper_Set err s = (if err = None \<or> s \<noteq> None then s else err)"

record agent =
  ag_bridge :: webrtcAgentBridge
  ag_heartbeat :: agentRegistryHeartbeat
  ag_fatal :: "go_error option"

definition new_agent :: "client_config \<Rightarrow> string \<Rightarrow> string \<Rightarrow> controlPlaneAuthSession \<Rightarrow> agent" where
  "new_agent cfg profilePath sessionID initialAuth =
     \<lparr>ag_bridge = newWebRTCAgentBridge cfg sessionID initialAuth profilePath,
      ag_heartbeat = newAgentRegistryHeartbeat cfg profilePath sessionID initialAuth, ag_fatal = None\<rparr>"

datatype agent_event = OfBridge bridge_event | StartHeartbeat string | HeartbeatRound string

definition agent_step :: "world \<Rightarrow> agent_event \<Rightarrow> agent \<Rightarrow> agent io" where
  "agent_step w ev a =
     (if ag_fatal a \<noteq> None then State_Monad.return a
      else case ev of
        OfBridge e \<Rightarrow> do {
          (b, update) \<leftarrow> bridge_step w e (ag_bridge a);
          hb \<leftarrow> (case update of
            None \<Rightarrow> State_Monad.return (ag_heartbeat a)
          | Some (next, mode) \<Rightarrow> heartbeat_ApplyAuthUpdate (wo_env w) (ag_heartbeat a) next mode);
          State_Monad.return (a\<lparr>ag_bridge := b, ag_heartbeat := hb\<rparr>) }
      | StartHeartbeat label \<Rightarrow> do {
          (hb, _) \<leftarrow> heartbeat_Start (wo_env w) label (ag_heartbeat a);
          State_Monad.return (a\<lparr>ag_heartbeat := hb\<rparr>) }
      | HeartbeatRound label \<Rightarrow>
          if \<not> hb_running (ag_heartbeat a) then State_Monad.return a
          else do {
            (hb, fatal) \<leftarrow> heartbeat_round (wo_env w) label (ag_heartbeat a);
            State_Monad.return (a\<lparr>ag_heartbeat := hb, ag_fatal := runtimeFatalStopper_Set fatal (ag_fatal a)\<rparr>) })"

fun agent_run :: "world \<Rightarrow> agent_event list \<Rightarrow> agent \<Rightarrow> agent io" where
  "agent_run w [] a = State_Monad.return a"
| "agent_run w (ev # evs) a = do { a' \<leftarrow> agent_step w ev a; agent_run w evs a' }"

end
