(* ===== verification/Client_Negotiation_Facts.thy ===== *)
theory Client_Negotiation_Facts
  imports Client_Negotiation
begin

text \<open>
  What holds of a live session: the queue to the WebSocket stays within its capacity; candidates of
  the viewer reach the peer connection only when it can use them, and only those the viewer sent;
  and a viewer that is ready is sent an offer, or the session is built anew.
\<close>

named_theorems live_defs

lemmas [live_defs] = handleConnectionStateChange_def handleICECandidate_def handleTerminalOpen_def
  handleTerminalClose_def handleTerminalMessage_def control_message_def write_signal_def reportLost_def
  notifySignalingLost_def requestReconnect_def try_signal_def signal_out_def queuePendingCandidate_def Let_def

section \<open>Background steps\<close>

text \<open>Effects that are not calls to the peer connection.\<close>

definition no_call :: "live_effect \<Rightarrow> bool" where
  "no_call e = (case e of Called _ _ \<Rightarrow> False | _ \<Rightarrow> True)"

lemma no_call_simps [simp]:
  "\<not> no_call (Called c e)" "no_call (SignalState s)" "no_call (P2PState s)" "no_call (PeerMade conf r)"
  "no_call (PeerChanged s)" "no_call PeerClosed" "no_call (Dialed u t a)" "no_call (ToShell d)" "no_call (ToViewer d)"
  "no_call (Resize dims)"
  by (simp_all add: no_call_def)

definition calm_from :: "session_state \<Rightarrow> session_state \<Rightarrow> bool" where
  "calm_from s s' \<longleftrightarrow> (\<exists>new. fst s' = new @ fst s \<and> (\<forall>e \<in> set new. no_call e))
     \<and> ls_pendingCandidates (snd s') = ls_pendingCandidates (snd s)
     \<and> (length (ls_signalOut (snd s)) \<le> signalOut_capacity \<longrightarrow> length (ls_signalOut (snd s')) \<le> signalOut_capacity)"

lemma calm_fromI:
  "fst s' = new @ fst s \<Longrightarrow> (\<And>e. e \<in> set new \<Longrightarrow> no_call e) \<Longrightarrow> ls_pendingCandidates (snd s') = ls_pendingCandidates (snd s)
   \<Longrightarrow> (length (ls_signalOut (snd s)) \<le> signalOut_capacity \<Longrightarrow> length (ls_signalOut (snd s')) \<le> signalOut_capacity)
   \<Longrightarrow> calm_from s s'"
  by (auto simp: calm_from_def)

lemma calm_refl [simp]: "calm_from s s"
  by (rule calm_fromI [of s "[]"]) simp_all

lemma calm_trans: "calm_from s t \<Longrightarrow> calm_from t u \<Longrightarrow> calm_from s u"
  by (fastforce simp: calm_from_def)

lemma calm_effect: "no_call e \<Longrightarrow> calm_from (h, l) (e # h, l)"
  by (rule calm_fromI [where new = "[e]"]) simp_all

lemma calm_signal: "calm_from (h, l) (h, try_signal msg l)"
  by (rule calm_fromI [where new = "[]"]) (auto simp: try_signal_def signal_out_def)

lemma calm_flags [simp]:
  "calm_from (h, l) (h, requestReconnect l)" "calm_from (h, l) (h, notifySignalingLost l)"
  "calm_from (h, l) (h, l\<lparr>ls_dcOpen := b\<rparr>)" "calm_from (h, l) (h, l\<lparr>ls_signal := pump\<rparr>)"
  by (rule calm_fromI [where new = "[]"]; simp add: live_defs)+

lemma calm_reportLost: "calm_from s (reportLost s)"
  by (cases s) (auto simp: reportLost_def calm_from_def notifySignalingLost_def split: option.split)

lemma calm_background: "calm_from s (background_step b s)"
proof -
  obtain h l where s: "s = (h, l)" by fastforce
  show ?thesis
  proof (cases b)
    case (LocalCandidate c)
    then show ?thesis using calm_signal by (auto simp: s handleICECandidate_def split: option.split)
  next
    case (ConnectionState state)
    then show ?thesis
      by (auto simp: s handleConnectionStateChange_def calm_from_def requestReconnect_def)
  next
    case TerminalOpen
    have "calm_from (h, l) (P2PState ''connected'' # h, l\<lparr>ls_dcOpen := True\<rparr>)"
      by (auto simp: calm_from_def)
    then show ?thesis
      using TerminalOpen calm_trans calm_signal by (auto simp: s handleTerminalOpen_def)
  next
    case (WriteSignal ok)
    have "calm_from (h, l) (h, l\<lparr>ls_signalOut := tl (ls_signalOut l)\<rparr>)"
      by (auto simp: calm_from_def)
    then show ?thesis
      using WriteSignal calm_trans calm_reportLost
      by (auto simp: s write_signal_def Let_def split: option.split)
  qed (auto simp: s live_defs calm_from_def split: option.split)
qed

lemma calm_waiting: "calm_from s (fold background_step bs s)"
proof (induction bs arbitrary: s)
  case (Cons b bs)
  have "calm_from s (background_step b s)" by (rule calm_background)
  then show ?case using Cons [of "background_step b s"] by (auto intro: calm_trans)
qed simp

section \<open>Candidates\<close>

text \<open>
  What WebRTC promises of these calls: an answer that is taken ends the pending offer and is the
  remote description; a candidate changes neither; and only calls change them.
\<close>

definition peer_contract :: "peer \<Rightarrow> bool" where
  "peer_contract p \<longleftrightarrow>
     (\<forall>h sdp. pe_state p (Called (SetAnswer sdp) None # h) \<noteq> HaveLocalOffer \<and> pe_remote p (Called (SetAnswer sdp) None # h))
   \<and> (\<forall>h c e. pe_state p (Called (AddCandidate c) e # h) = pe_state p h \<and> pe_remote p (Called (AddCandidate c) e # h) = pe_remote p h)"

text \<open>Each candidate was added when the connection had a remote description and no pending offer.\<close>

fun candidates_ok :: "peer \<Rightarrow> live_history \<Rightarrow> bool" where
  "candidates_ok p (Called (AddCandidate c) e # h) \<longleftrightarrow> pe_remote p h \<and> pe_state p h \<noteq> HaveLocalOffer \<and> candidates_ok p h"
| "candidates_ok p (_ # h) = candidates_ok p h"
| "candidates_ok p [] = True"

fun added :: "live_history \<Rightarrow> ICECandidate list" where
  "added (Called (AddCandidate c) e # h) = added h @ [c]"
| "added (_ # h) = added h"
| "added [] = []"

text \<open>The candidates the viewer sent.\<close>

fun sent_candidate :: "live_event \<Rightarrow> ICECandidate list" where
  "sent_candidate (Received payload _ _) = (case Option.bind (json_Unmarshal payload) (decode_SignalMessage False) of
     None \<Rightarrow> [] | Some msg \<Rightarrow> if sm_Type msg = SignalMessageTypeCandidate then
       (case sm_Candidate msg of None \<Rightarrow> [] | Some c \<Rightarrow> [c]) else [])"
| "sent_candidate _ = []"

text \<open>The invariant of a session, for the candidates \<open>C\<close> that were sent.\<close>

definition session_ok :: "peer \<Rightarrow> ICECandidate set \<Rightarrow> session_state \<Rightarrow> bool" where
  "session_ok p C s \<longleftrightarrow> candidates_ok p (fst s) \<and> set (added (fst s)) \<subseteq> C
     \<and> set (ls_pendingCandidates (snd s)) \<subseteq> C \<and> length (ls_signalOut (snd s)) \<le> signalOut_capacity"

lemma no_call_candidates [simp]: "no_call e \<Longrightarrow> candidates_ok p (e # h) = candidates_ok p h" "no_call e \<Longrightarrow> added (e # h) = added h"
  by (cases e; simp)+

lemma no_calls_candidates:
  "\<forall>e \<in> set new. no_call e \<Longrightarrow> candidates_ok p (new @ h) = candidates_ok p h \<and> added (new @ h) = added h"
  by (induction new) auto

lemma session_ok_calm: "session_ok p C s \<Longrightarrow> calm_from s s' \<Longrightarrow> session_ok p C s'"
  using no_calls_candidates by (fastforce simp: session_ok_def calm_from_def)

lemma session_ok_call:
  "session_ok p C (h, l) \<Longrightarrow> \<forall>cand. c \<noteq> AddCandidate cand \<Longrightarrow> session_ok p C (Called c e # h, l)"
  by (cases c) (simp_all add: session_ok_def)

lemma session_ok_forget: "session_ok p C (h, l) \<Longrightarrow> session_ok p C (h, l\<lparr>ls_pendingCandidates := []\<rparr>)"
  by (simp add: session_ok_def)

lemma add_candidates_ok:
  assumes "peer_contract p" and "candidates_ok p h" and "pe_remote p h" and "pe_state p h \<noteq> HaveLocalOffer"
  shows "candidates_ok p (add_candidates p cs h) \<and> added (add_candidates p cs h) = added h @ cs"
  using assms(2-4)
proof (induction cs arbitrary: h)
  case (Cons c cs)
  let ?h = "Called (AddCandidate c) (pe_error p h (AddCandidate c)) # h"
  have "pe_state p ?h = pe_state p h" "pe_remote p ?h = pe_remote p h"
    using assms(1) by (simp_all add: peer_contract_def)
  then show ?case using Cons by (simp add: peer_do_def)
qed simp

lemma session_ok_finish:
  assumes "session_ok p C s" and "finish_offer p s = (r, s')"
  shows "session_ok p C s'"
  using assms by (auto simp: finish_offer_def session_ok_def signal_out_def split: prod.splits option.splits if_splits)

lemma session_ok_make:
  assumes "session_ok p C s" and "make_offer p iceRestart waiting s = (r, s')"
  shows "session_ok p C s'"
proof -
  obtain h l where s: "s = (h, l)" by fastforce
  let ?h1 = "Called (CreateOffer iceRestart) (pe_error p h (CreateOffer iceRestart)) # h"
  let ?l = "l\<lparr>ls_pendingCandidates := []\<rparr>"
  let ?set = "SetLocal (pe_offer p h)"
  have zero: "session_ok p C (h, ?l)" using session_ok_forget assms(1) s by simp
  then have one: "session_ok p C (?h1, ?l)" by (rule session_ok_call) simp
  then have two: "session_ok p C (Called ?set (pe_error p ?h1 ?set) # ?h1, ?l)"
    by (rule session_ok_call) simp
  then have "session_ok p C (fold background_step waiting (Called ?set (pe_error p ?h1 ?set) # ?h1, ?l))"
    using calm_waiting by (rule session_ok_calm)
  then show ?thesis
    using assms(2) zero one two session_ok_finish
    by (auto simp: s make_offer_def peer_do_def Let_def split: option.splits)
qed

lemma session_ok_send:
  assumes "session_ok p C s" and "sendOffer p iceRestart waiting s = (r, s')"
  shows "session_ok p C s'"
proof -
  obtain h l where s: "s = (h, l)" by fastforce
  have "session_ok p C (Called Rollback (pe_error p h Rollback) # h, l)"
    using assms(1) s by (intro session_ok_call) simp_all
  then show ?thesis
    using assms session_ok_make by (auto simp: s sendOffer_def peer_do_def split: option.splits if_splits)
qed

lemma session_ok_answer:
  assumes "peer_contract p" and "session_ok p C s"
  shows "session_ok p C (handleAnswer p msg s)"
proof -
  obtain h l where s: "s = (h, l)" by fastforce
  have "session_ok p C (Called (SetAnswer sdp) e # h, l)" for sdp e
    using assms(2) s by (intro session_ok_call) simp_all
  moreover have "session_ok p C (flushPendingCandidates p (Called (SetAnswer sdp) None # h, l))" for sdp
    using assms add_candidates_ok [OF assms(1), of "Called (SetAnswer sdp) None # h"]
    by (simp add: s session_ok_def flushPendingCandidates_def peer_contract_def)
  ultimately show ?thesis
    using assms(2) by (auto simp: s handleAnswer_def peer_do_def split: option.split)
qed

lemma session_ok_candidate:
  assumes "session_ok p C s" and "\<And>c. sm_Candidate msg = Some c \<Longrightarrow> c \<in> C"
  shows "session_ok p C (handleCandidate p msg s)"
  using assms
  by (cases s) (auto simp: handleCandidate_def session_ok_def queuePendingCandidate_def peer_do_def split: option.split)

lemma session_ok_ready:
  assumes "session_ok p C s"
  shows "session_ok p C (handleViewerReady p waiting again s)"
proof -
  obtain h l where s: "s = (h, l)" by fastforce
  let ?s = "(P2PState ''negotiating'' # SignalState ''viewer_connected'' # h, l)"
  obtain r t where t: "sendOffer p True waiting ?s = (r, t)" by (metis prod.exhaust)
  obtain r' h' l' where u: "sendOffer p False again t = (r', (h', l'))" by (metis prod.exhaust_sel)
  have "session_ok p C ?s"
    using assms s by (auto intro!: session_ok_calm [OF _ calm_effect])
  then have "session_ok p C t" using t by (rule session_ok_send)
  moreover from this have "session_ok p C (h', l')" using u by (rule session_ok_send)
  moreover from this have "session_ok p C (h', requestReconnect l')" by (rule session_ok_calm) simp
  ultimately show ?thesis
    by (auto simp: s handleViewerReady_def t u split: option.split)
qed

lemma session_ok_detach:
  assumes "session_ok p C s"
  shows "session_ok p C (handleViewerDetach p s)"
proof -
  obtain h l where s: "s = (h, l)" by fastforce
  have "session_ok p C (SignalState ''normal'' # h, l)"
    using assms s by (auto intro: session_ok_calm [OF _ calm_effect])
  then have "session_ok p C (resetPendingOffer p (SignalState ''normal'' # h), l)"
    by (simp add: resetPendingOffer_def peer_do_def session_ok_call)
  then have "session_ok p C (resetPendingOffer p (SignalState ''normal'' # h), requestReconnect l)"
    by (rule session_ok_calm) simp
  then show ?thesis
    by (auto simp: s handleViewerDetach_def Let_def intro: session_ok_calm [OF _ calm_effect])
qed

lemma session_ok_step:
  assumes "peer_contract p" and "session_ok p C s" and "set (sent_candidate ev) \<subseteq> C"
  shows "session_ok p C (live_step p ev s)"
proof (cases ev)
  case (Received payload waiting again)
  obtain h l where s: "s = (h, l)" by fastforce
  have "session_ok p C (receive p waiting again payload s)"
  proof (cases "Option.bind (json_Unmarshal payload) (decode_SignalMessage False)")
    case None
    then show ?thesis using assms(2) by (simp add: receive_def)
  next
    case (Some msg)
    have "c \<in> C" if "sm_Type msg = SignalMessageTypeCandidate" "sm_Candidate msg = Some c" for c
      using assms(3) that Some by (simp add: Received)
    then show ?thesis
      using assms(1,2) session_ok_answer session_ok_ready session_ok_detach session_ok_candidate
      by (simp add: receive_def Some handleSignalMessage_def)
  qed
  then show ?thesis using assms(2) by (auto simp: Received s split: option.split)
next
  case ReadFailed
  then show ?thesis using assms(2) calm_reportLost session_ok_calm by auto
next
  case (Background b)
  then show ?thesis using assms(2) calm_background session_ok_calm by auto
qed

text \<open>
  C24: In every run of a session from its start, each candidate is handed to the peer connection while
  that has a remote description and no offer waits for its answer, and was sent by the viewer; and
  the queue to the WebSocket never holds more than 128 messages.
\<close>
theorem candidate_discipline:
  assumes "peer_contract p" and "fold (live_step p) events ([], newLiveWebRTCSession\<lparr>ls_signal := pump\<rparr>) = (h, l)"
  shows "candidates_ok p h \<and> set (added h) \<subseteq> set (concat (map sent_candidate events))
    \<and> length (ls_signalOut l) \<le> 128"
proof -
  let ?C = "set (concat (map sent_candidate events))"
  have "session_ok p ?C (fold (live_step p) es s)" if "session_ok p ?C s" "set es \<subseteq> set events" for es s
    using that
  proof (induction es arbitrary: s)
    case (Cons e es)
    have "session_ok p ?C (live_step p e s)"
      using Cons.prems by (intro session_ok_step assms(1)) auto
    then show ?case using Cons by simp
  qed simp
  moreover have "session_ok p ?C ([], newLiveWebRTCSession\<lparr>ls_signal := pump\<rparr>)"
    by (simp add: session_ok_def newLiveWebRTCSession_def)
  ultimately have "session_ok p ?C (h, l)" using assms(2) by (metis order_refl)
  then show ?thesis by (simp add: session_ok_def signalOut_capacity_def)
qed

section \<open>Offers\<close>

lemma finish_offer_queued:
  "finish_offer p s = (None, (h', l')) \<Longrightarrow> \<exists>sdp. pe_local p h' = Some sdp \<and> ls_signalOut l' \<noteq> []
     \<and> last (ls_signalOut l') = \<lparr>sm_Type = SignalMessageTypeOffer,
          sm_SDP = Some \<lparr>sdp_Type = SDPTypeOffer, sdp_SDP = sdp\<rparr>, sm_Candidate = None\<rparr>"
  by (auto simp: finish_offer_def signal_out_def split: prod.splits option.splits if_splits)

lemma sendOffer_queued:
  assumes "sendOffer p iceRestart waiting s = (None, (h', l'))"
  shows "\<exists>sdp. pe_local p h' = Some sdp \<and> ls_signalOut l' \<noteq> []
     \<and> last (ls_signalOut l') = \<lparr>sm_Type = SignalMessageTypeOffer,
          sm_SDP = Some \<lparr>sdp_Type = SDPTypeOffer, sdp_SDP = sdp\<rparr>, sm_Candidate = None\<rparr>"
proof -
  have "\<exists>sdp. pe_local p h' = Some sdp \<and> ls_signalOut l' \<noteq> []
     \<and> last (ls_signalOut l') = \<lparr>sm_Type = SignalMessageTypeOffer,
          sm_SDP = Some \<lparr>sdp_Type = SDPTypeOffer, sdp_SDP = sdp\<rparr>, sm_Candidate = None\<rparr>"
    if "make_offer p iceRestart waiting t = (None, (h', l'))" for t
    using that finish_offer_queued by (auto simp: make_offer_def peer_do_def Let_def split: prod.splits option.splits)
  then show ?thesis
    using assms by (auto simp: sendOffer_def split: prod.splits option.splits if_splits)
qed

text \<open>
  C25: A viewer that is ready is sent an offer: afterwards the last message to the WebSocket is an
  offer of the local description, or the session is to be built anew.
\<close>
theorem viewer_gets_offer:
  assumes "handleViewerReady p waiting again s = (h', l')"
  shows "ls_reconnectNow l' \<or> (\<exists>sdp. pe_local p h' = Some sdp \<and> ls_signalOut l' \<noteq> []
     \<and> last (ls_signalOut l') = \<lparr>sm_Type = SignalMessageTypeOffer,
          sm_SDP = Some \<lparr>sdp_Type = SDPTypeOffer, sdp_SDP = sdp\<rparr>, sm_Candidate = None\<rparr>)"
  using assms sendOffer_queued
  by (fastforce simp: handleViewerReady_def requestReconnect_def split: prod.splits option.splits)

section \<open>An instance\<close>

text \<open>A connection on which every call succeeds, and a viewer that sends two candidates and an answer.\<close>

fun obliging_state :: "live_history \<Rightarrow> signaling_state" where
  "obliging_state (Called (SetLocal _) None # _) = HaveLocalOffer"
| "obliging_state (Called Rollback None # _) = Stable"
| "obliging_state (Called (SetAnswer _) None # _) = Stable"
| "obliging_state (_ # h) = obliging_state h"
| "obliging_state [] = Stable"

fun obliging_remote :: "live_history \<Rightarrow> bool" where
  "obliging_remote (Called (SetAnswer _) None # _) = True"
| "obliging_remote (_ # h) = obliging_remote h"
| "obliging_remote [] = False"

fun obliging_local :: "live_history \<Rightarrow> string option" where
  "obliging_local (Called (SetLocal sdp) None # _) = Some sdp"
| "obliging_local (_ # h) = obliging_local h"
| "obliging_local [] = None"

definition obliging :: peer where
  "obliging = \<lparr>pe_state = obliging_state, pe_remote = obliging_remote, pe_local = obliging_local,
     pe_offer = (\<lambda>h. ''offer''), pe_error = (\<lambda>h c. None), pe_open = (\<lambda>h. True)\<rparr>"

lemma obliging_contract: "peer_contract obliging"
  by (simp add: peer_contract_def obliging_def)

definition viewer_message :: "string \<Rightarrow> string \<Rightarrow> string \<Rightarrow> SignalMessage" where
  "viewer_message kind sdp candidate = \<lparr>sm_Type = kind,
     sm_SDP = (if sdp = [] then None else Some (SDPPayload_zero\<lparr>sdp_SDP := sdp\<rparr>)),
     sm_Candidate = (if candidate = [] then None else Some (ICECandidate_zero\<lparr>cand_Candidate := candidate\<rparr>))\<rparr>"

definition viewer_sends :: "SignalMessage \<Rightarrow> live_event" where
  "viewer_sends msg = Received (print_json (SignalMessage_json msg)) [] []"

definition viewer_script :: "SignalMessage list" where
  "viewer_script = [viewer_message SignalMessageTypeViewerReady [] [],
     viewer_message SignalMessageTypeCandidate [] ''c1'', viewer_message SignalMessageTypeAnswer ''a'' [],
     viewer_message SignalMessageTypeCandidate [] ''c2'']"

lemma viewer_payload:
  assumes "msg \<in> set viewer_script"
  shows "Option.bind (json_Unmarshal (print_json (SignalMessage_json msg))) (decode_SignalMessage False) = Some msg"
proof -
  have "printable max_depth (SignalMessage_json msg)"
    using assms unfolding max_depth_def
    by (auto simp: viewer_script_def viewer_message_def SignalMessage_json_def SDPPayload_json_def ICECandidate_json_def
        SDPPayload_zero_def ICECandidate_zero_def SignalMessageTypeViewerReady_def SignalMessageTypeCandidate_def
        SignalMessageTypeAnswer_def ascii_def ord_def)
  then show ?thesis by (simp add: Unmarshal_print decode_SignalMessage_json)
qed

definition open_pump :: "signalPump option" where
  "open_pump = Some \<lparr>sp_suppressLost = False, sp_lost = False\<rparr>"

lemma viewer_step:
  "msg \<in> set viewer_script \<Longrightarrow> ls_signal l = open_pump
   \<Longrightarrow> live_step p (viewer_sends msg) (h, l) = handleSignalMessage p [] [] msg (h, l)"
  by (simp add: viewer_sends_def open_pump_def receive_def viewer_payload)

lemma make_offer_signal: "ls_signal (snd (snd (make_offer p restart [] s))) = ls_signal (snd s)"
  by (auto simp: make_offer_def peer_do_def finish_offer_def signal_out_def Let_def split: prod.split option.split)

lemma sendOffer_signal: "ls_signal (snd (snd (sendOffer p restart [] s))) = ls_signal (snd s)"
  using make_offer_signal [of p restart]
  by (auto simp: sendOffer_def peer_do_def split: prod.split option.split)

lemma ready_signal: "ls_signal (snd (handleViewerReady p [] [] s)) = ls_signal (snd s)"
proof -
  obtain h l where s: "s = (h, l)" by fastforce
  obtain r t where t: "sendOffer p True [] (P2PState ''negotiating'' # SignalState ''viewer_connected'' # h, l) = (r, t)"
    by (metis prod.exhaust)
  obtain r' h' l' where u: "sendOffer p False [] t = (r', (h', l'))" by (metis prod.exhaust_sel)
  have "ls_signal (snd t) = ls_signal l" "ls_signal l' = ls_signal (snd t)"
    using sendOffer_signal [of p True "(P2PState ''negotiating'' # SignalState ''viewer_connected'' # h, l)"]
      sendOffer_signal [of p False t] t u by simp_all
  then show ?thesis
    by (auto simp: s handleViewerReady_def t u requestReconnect_def split: option.split)
qed

lemma message_signal: "ls_signal (snd (handleSignalMessage p [] [] msg s)) = ls_signal (snd s)"
  using ready_signal [of p s]
  by (auto simp: handleSignalMessage_def handleAnswer_def handleCandidate_def handleViewerDetach_def
      flushPendingCandidates_def queuePendingCandidate_def requestReconnect_def Let_def split: prod.split option.split)

lemma viewer_run:
  "set msgs \<subseteq> set viewer_script \<Longrightarrow> ls_signal (snd s) = open_pump
   \<Longrightarrow> fold (live_step p) (map viewer_sends msgs) s = fold (handleSignalMessage p [] []) msgs s"
proof (induction msgs arbitrary: s)
  case (Cons m ms)
  have "live_step p (viewer_sends m) s = handleSignalMessage p [] [] m s"
    using Cons.prems by (cases s) (simp add: viewer_step)
  then show ?case using Cons message_signal [of p m s] by simp
qed simp

definition viewer_start :: session_state where
  "viewer_start = ([], newLiveWebRTCSession\<lparr>ls_signal := open_pump\<rparr>)"

theorem candidate_discipline_witness:
  "case fold (live_step obliging) (map viewer_sends viewer_script) viewer_start of (h, l) \<Rightarrow>
     candidates_ok obliging h \<and> set (added h) \<subseteq> set (concat (map sent_candidate (map viewer_sends viewer_script)))
   \<and> map cand_Candidate (added h) = [''c1'', ''c2'']"
proof -
  obtain h l where hl: "fold (live_step obliging) (map viewer_sends viewer_script) viewer_start = (h, l)" by fastforce
  have "fold (live_step obliging) (map viewer_sends viewer_script) viewer_start
      = fold (handleSignalMessage obliging [] []) viewer_script viewer_start"
    by (rule viewer_run) (simp_all add: viewer_start_def)
  moreover have "map cand_Candidate (added (fst (fold (handleSignalMessage obliging [] []) viewer_script viewer_start)))
      = [''c1'', ''c2'']" by code_simp
  ultimately have "map cand_Candidate (added h) = [''c1'', ''c2'']" using hl by (metis fst_conv)
  then show ?thesis
    using candidate_discipline [OF obliging_contract hl [unfolded viewer_start_def]] by (simp add: hl)
qed

theorem viewer_gets_offer_witness:
  "case handleViewerReady obliging [LocalCandidate None] [] viewer_start of (h, l) \<Rightarrow>
     (ls_reconnectNow l \<or> (\<exists>sdp. pe_local obliging h = Some sdp)) \<and> \<not> ls_reconnectNow l
   \<and> map (\<lambda>m. (sm_Type m, map_option sdp_SDP (sm_SDP m))) (ls_signalOut l) = [(''offer'', Some ''offer'')]"
proof -
  obtain h l where hl: "handleViewerReady obliging [LocalCandidate None] [] viewer_start = (h, l)" by fastforce
  have "\<not> ls_reconnectNow (snd (handleViewerReady obliging [LocalCandidate None] [] viewer_start))"
    "map (\<lambda>m. (sm_Type m, map_option sdp_SDP (sm_SDP m)))
       (ls_signalOut (snd (handleViewerReady obliging [LocalCandidate None] [] viewer_start))) = [(''offer'', Some ''offer'')]"
    by code_simp+
  then show ?thesis using viewer_gets_offer [OF hl] by (auto simp: hl)
qed

end
