(* ===== verification/Client_Connect_Facts.thy ===== *)
theory Client_Connect_Facts
  imports Client_Connect Client_Auth_Facts
begin

text \<open>
  What holds of \<^verbatim>\<open>Client_Connect\<close>: the effort of a connect request with its recovery and that its
  answer was given to the tokens it returns; that waiting for the bridge ends; and which ICE servers
  reach the peer connection.
\<close>

section \<open>The connect request\<close>

text \<open>The last answer is a place to meet the control plane gave to this token.\<close>

definition connect_granted ::
  "(string \<Rightarrow> string) \<Rightarrow> environment \<Rightarrow> client_config \<Rightarrow> string \<Rightarrow> AgentConnectResponse \<Rightarrow> client_history \<Rightarrow> bool"
where
  "connect_granted render env cfg token resp h \<longleftrightarrow> (\<exists>q body rest out u. h = Asked q (Inr (200, body)) # rest
     \<and> cr_URL q = endpoint (cc_ControlPlaneURL cfg) ''/v1/agents/connect'' \<and> client_request.cr_Token q = Some (bearer token)
     \<and> decoded env decode_AgentConnectResponse body = Inr out
     \<and> url_Parse (TrimSpace (cr_SignalURL out)) = Some u \<and> url_Host u \<noteq> [] \<and> url_Scheme u \<in> {''ws'', ''wss''}
     \<and> TrimSpace (cr_SessionID out) \<noteq> [] \<and> TrimSpace (cr_SignalToken out) \<noteq> []
     \<and> resp = out\<lparr>cr_SignalURL := render (TrimSpace (cr_SignalURL out))\<rparr>)"

lemma normalizeSignalURL_Inr:
  "normalizeSignalURL render pe raw = Inr url \<Longrightarrow> \<exists>u. url_Parse (TrimSpace raw) = Some u \<and> url_Host u \<noteq> []
     \<and> url_Scheme u \<in> {''ws'', ''wss''} \<and> url = render (TrimSpace raw)"
  by (auto simp: normalizeSignalURL_def split: option.splits if_splits)

lemma connect_answer_Inr:
  assumes "connect_answer render pe env a = Inr resp"
  obtains body out u where "a = Inr (200, body)" "decoded env decode_AgentConnectResponse body = Inr out"
    "url_Parse (TrimSpace (cr_SignalURL out)) = Some u" "url_Host u \<noteq> []" "url_Scheme u \<in> {''ws'', ''wss''}"
    "TrimSpace (cr_SessionID out) \<noteq> []" "TrimSpace (cr_SignalToken out) \<noteq> []"
    "resp = out\<lparr>cr_SignalURL := render (TrimSpace (cr_SignalURL out))\<rparr>"
proof -
  obtain code body where a: "a = Inr (code, body)"
    using assms by (cases a) (auto simp: connect_answer_def)
  then have "code = 200" using assms by (auto simp: connect_answer_def split: if_splits)
  moreover obtain out where out: "decoded env decode_AgentConnectResponse body = Inr out"
    using assms a by (auto simp: connect_answer_def split: if_splits sum.splits)
  moreover obtain url where "normalizeSignalURL render pe (cr_SignalURL out) = Inr url" "resp = out\<lparr>cr_SignalURL := url\<rparr>"
      "TrimSpace (cr_SessionID out) \<noteq> []" "TrimSpace (cr_SignalToken out) \<noteq> []"
    using assms a out by (auto simp: connect_answer_def split: if_splits sum.splits)
  ultimately show ?thesis
    using a normalizeSignalURL_Inr [of render pe "cr_SignalURL out"] that [of body out] by blast
qed

lemma holds_after_connect:
  assumes "\<And>x h'. grew h 1 0 h' \<Longrightarrow> (\<And>resp. x = Inr resp \<Longrightarrow> connect_granted render env cfg token resp h') \<Longrightarrow> Q x h'"
  shows "holds_after (requestAgentConnect render pe env cfg token sid label) Q h"
proof -
  have "connect_granted render env cfg token resp (Asked q a # h)"
    if "connect_answer render pe env a = Inr resp" "cr_URL q = endpoint (cc_ControlPlaneURL cfg) ''/v1/agents/connect''"
      "client_request.cr_Token q = Some (bearer token)" for q a resp
    using that(1) by (rule connect_answer_Inr) (use that(2,3) in \<open>auto simp: connect_granted_def\<close>)
  then show ?thesis
    unfolding requestAgentConnect_def holds_after_bind holds_after_return
    by (auto simp: holds_after_def grew_request [of h 0] intro!: assms)
qed

text \<open>What a connect request with recovery must come to.\<close>

definition settled ::
  "(string \<Rightarrow> string) \<Rightarrow> environment \<Rightarrow> client_config \<Rightarrow> controlPlaneAuthSession
   \<Rightarrow> go_error + AgentConnectResponse \<times> controlPlaneAuthSession \<times> controlPlaneAuthUpdateMode \<Rightarrow> client_history \<Rightarrow> bool"
where
  "settled render env cfg auth0 x h = (case x of
     Inl e \<Rightarrow> isUnauthorizedError (Some e) \<longrightarrow> isNonRetryableControlPlaneError (Some e)
   | Inr (resp, auth, mode) \<Rightarrow> connect_granted render env cfg (cs_AccessToken auth) resp h
       \<and> (mode = controlPlaneAuthUnchanged \<longrightarrow> auth = auth0))"

definition connects ::
  "(string \<Rightarrow> string) \<Rightarrow> environment \<Rightarrow> client_config \<Rightarrow> controlPlaneAuthSession \<Rightarrow> client_history
   \<Rightarrow> (go_error + AgentConnectResponse \<times> controlPlaneAuthSession \<times> controlPlaneAuthUpdateMode) io \<Rightarrow> client_history \<Rightarrow> bool"
where
  "connects render env cfg auth0 h0 m h = holds_after m (\<lambda>x h'. settled render env cfg auth0 x h' \<and> grew h0 3 1 h') h"

lemma marked_settled: "isUnauthorizedError (Some (markConnectAuthErrorNonRetryable e))
   \<Longrightarrow> isNonRetryableControlPlaneError (Some (markConnectAuthErrorNonRetryable e))"
  by (auto simp: markConnectAuthErrorNonRetryable_def isNonRetryableControlPlaneError_def split: if_splits)

lemma connects_error:
  "grew h0 n r h \<Longrightarrow> n \<le> 3 \<Longrightarrow> r \<le> 1
   \<Longrightarrow> connects render env cfg auth0 h0 (State_Monad.return (Inl (markConnectAuthErrorNonRetryable e))) h"
  using marked_settled by (auto simp: connects_def settled_def intro: grew_mono)

lemma connects_retry:
  assumes "grew h0 n r h" and "n + 1 \<le> 3" and "r \<le> 1" and "mode \<noteq> controlPlaneAuthUnchanged"
  shows "connects render env cfg auth0 h0 (requestAgentConnect render pe env cfg (cs_AccessToken auth) sid label
    \<bind> (\<lambda>second. State_Monad.return (connect_retry second auth mode))) h"
  unfolding connects_def holds_after_bind holds_after_return
  by (rule holds_after_connect)
    (use assms grew_trans [of h0 n r h 1 0] marked_settled grew_mono in
      \<open>fastforce simp: connect_retry_def settled_def split: sum.splits\<close>)

lemma connects_reload:
  assumes "grew h0 n r h" and "n + 1 \<le> 3" and "r = 0"
    and "\<And>loadErr. e1 loadErr = markConnectAuthErrorNonRetryable (f1 loadErr)" and "e2 = markConnectAuthErrorNonRetryable f2"
  shows "connects render env cfg auth0 h0 (loadUpdatedControlPlaneAuthFromProfile env url path auth
    \<bind> (\<lambda>reload. case reload of
        Inl loadErr \<Rightarrow> State_Monad.return (Inl (e1 loadErr))
      | Inr (latestAuth, changed) \<Rightarrow>
          if \<not> changed then State_Monad.return (Inl e2)
          else requestAgentConnect render pe env cfg (cs_AccessToken latestAuth) sid label
            \<bind> (\<lambda>second. State_Monad.return (connect_retry second latestAuth controlPlaneAuthReloaded)))) h"
proof -
  have "connects render env cfg auth0 h0 (case reload of
        Inl loadErr \<Rightarrow> State_Monad.return (Inl (e1 loadErr))
      | Inr (latestAuth, changed) \<Rightarrow>
          if \<not> changed then State_Monad.return (Inl e2)
          else requestAgentConnect render pe env cfg (cs_AccessToken latestAuth) sid label
            \<bind> (\<lambda>second. State_Monad.return (connect_retry second latestAuth controlPlaneAuthReloaded))) h'"
    if "grew h 0 1 h'" for reload h'
  proof -
    have "grew h0 n 1 h'" using grew_trans [OF assms(1) that] assms(3) by simp
    then show ?thesis
      using assms(2,4,5) connects_error connects_retry by (auto split: sum.split)
  qed
  then show ?thesis
    unfolding connects_def holds_after_bind by (auto intro!: holds_after_reload [where cfg = undefined])
qed

lemma connects_recovery:
  "connects render env cfg auth h (requestAgentConnectWithAuthSession render pe env cfg auth sid label) h"
  unfolding requestAgentConnectWithAuthSession_def connects_def holds_after_bind
proof (rule holds_after_connect, fold connects_def, goal_cases)
  case (1 first h1)
  note one = 1
  show ?case
  proof (cases first)
    case (Inr resp)
    then show ?thesis using one grew_mono [OF one(1), of 3 1] by (simp add: connects_def settled_def)
  next
    case (Inl err)
    note reload = connects_reload [where pe = pe and sid = sid and label = label]
    show ?thesis
      unfolding Inl sum.case
    proof (split if_split, intro conjI impI, goal_cases)
      case 1
      then show ?case using grew_mono [OF one(1), of 3 1] by (simp add: connects_def settled_def)
    next
      case 2
      show ?case
      proof (split if_split, intro conjI impI, goal_cases)
        case 1
        show ?case
          unfolding connects_def holds_after_bind
        proof (rule holds_after_tokens(2) [where cfg = cfg], fold connects_def, goal_cases)
          case (1 refresh h2)
          then have two: "grew h 2 0 h2" using grew_trans [OF one(1), of 1 0 h2] by (simp add: numeral_2_eq_2)
          show ?case
          proof (cases refresh)
            case (Inr refreshed)
            then show ?thesis using connects_retry [OF two] by simp
          next
            case (Inl refreshErr)
            show ?thesis
              unfolding Inl sum.case by (rule reload [OF two]) (simp, rule refl)+
          qed
        qed
      next
        case 2
        show ?case by (rule reload [OF one(1)]) (simp, rule refl)+
      qed
    qed
  qed
qed

section \<open>Waiting for the bridge\<close>

lemma wait_result_None:
  "wait_result show_duration timeout deadline look = None \<longleftrightarrow> \<not> bl_Connected look
     \<and> \<not> isNonRetryableControlPlaneError (bl_LastError look) \<and> \<not> (0 < timeout \<and> deadline < bl_Now look)"
  by (auto simp: wait_result_def split: option.splits)

lemma wait_result_connected:
  "wait_result show_duration timeout deadline look = Some None \<longleftrightarrow> bl_Connected look"
  by (auto simp: wait_result_def isNonRetryableControlPlaneError_def split: option.splits)

lemma wait_loop_first:
  assumes "wait_result show_duration timeout deadline (looks (n + k)) \<noteq> None"
    and "\<forall>i < k. wait_result show_duration timeout deadline (looks (n + i)) = None"
  shows "wait_loop show_duration timeout deadline looks n = wait_result show_duration timeout deadline (looks (n + k))"
  using assms
proof (induction k arbitrary: n)
  case 0
  then show ?case by (subst wait_loop.simps) auto
next
  case (Suc k)
  have "wait_loop show_duration timeout deadline looks (Suc n)
      = wait_result show_duration timeout deadline (looks (Suc n + k))"
    using Suc.prems by (intro Suc.IH) (simp, metis Suc_less_eq add_Suc add_Suc_right)
  moreover have "wait_result show_duration timeout deadline (looks n) = None"
    using Suc.prems(2) by fastforce
  ultimately show ?case by (subst wait_loop.simps) simp
qed

text \<open>
  C26: Waiting for the first connection ends by the first look after the deadline at the latest,
  whatever the bridge does; and it ends well exactly when the bridge is seen connected before an
  error that is final and before the deadline has passed.
\<close>
theorem waiting_ends:
  assumes "0 < timeout" and "Time_Add start timeout < bl_Now (looks m)"
  shows "\<exists>r. waitForBridgeConnected show_duration start timeout looks = Some r
    \<and> (r = None \<longleftrightarrow> (\<exists>n \<le> m. bl_Connected (looks n) \<and> (\<forall>i < n. \<not> bl_Connected (looks i)
         \<and> \<not> isNonRetryableControlPlaneError (bl_LastError (looks i)) \<and> bl_Now (looks i) \<le> Time_Add start timeout)))"
proof -
  let ?w = "\<lambda>i. wait_result show_duration timeout (Time_Add start timeout) (looks i)"
  define k where "k = (LEAST i. ?w i \<noteq> None)"
  have "?w m \<noteq> None" using assms by (simp add: wait_result_None)
  then have k: "?w k \<noteq> None" "k \<le> m" "\<forall>i < k. ?w i = None"
    using LeastI [of "\<lambda>i. ?w i \<noteq> None" m] Least_le [of "\<lambda>i. ?w i \<noteq> None" m] not_less_Least [of _ "\<lambda>i. ?w i \<noteq> None"]
    unfolding k_def by blast+
  have "waitForBridgeConnected show_duration start timeout looks = ?w k"
    using wait_loop_first [of show_duration timeout "Time_Add start timeout" looks 0 k] k
    by (simp add: waitForBridgeConnected_def)
  moreover have "?w k = Some None \<longleftrightarrow> (\<exists>n \<le> m. bl_Connected (looks n) \<and> (\<forall>i < n. ?w i = None))"
    using k by (metis linorder_neqE_nat option.distinct(1) wait_result_connected)
  moreover have "?w i = None \<longleftrightarrow> \<not> bl_Connected (looks i)
      \<and> \<not> isNonRetryableControlPlaneError (bl_LastError (looks i)) \<and> bl_Now (looks i) \<le> Time_Add start timeout" for i
    using assms(1) by (simp add: wait_result_None not_less)
  moreover obtain r where "?w k = Some r" using k(1) by blast
  ultimately show ?thesis by simp
qed

definition silent_looks :: "nat \<Rightarrow> bridge_look" where
  "silent_looks n = \<lparr>bl_Connected = False, bl_LastError = None, bl_Now = 100000000 * int n, bl_LaterError = None\<rparr>"

theorem waiting_ends_witness:
  "\<exists>r. waitForBridgeConnected (\<lambda>d. ''30s'') 0 30000000000 silent_looks = Some r \<and> r \<noteq> None"
proof -
  have "Time_Add 0 30000000000 = 30000000000" by code_simp
  then have "(0::int) < 30000000000" "Time_Add 0 30000000000 < bl_Now (silent_looks 301)"
    by (simp_all add: silent_looks_def)
  from waiting_ends [where looks = silent_looks, OF this] show ?thesis by (auto simp: silent_looks_def)
qed

section \<open>ICE servers\<close>

text \<open>A peer connection is never made without a server, and never with an empty or padded URL.\<close>

lemma ice_servers_usable:
  "toWebRTCICEServers servers \<noteq> [] \<and> (\<forall>s \<in> set (toWebRTCICEServers servers). ice_URLs s \<noteq> []
     \<and> (\<forall>u \<in> set (ice_URLs s). u \<noteq> [] \<and> trimmed u))"
proof -
  have stun: "TrimSpace ''stun:stun.cloudflare.com:3478'' = ''stun:stun.cloudflare.com:3478''" by code_simp
  have idem: "TrimSpace (TrimSpace u) = TrimSpace u" for u by (simp add: TrimSpace_id)
  have "ice_URLs s \<noteq> [] \<and> (\<forall>u \<in> set (ice_URLs s). u \<noteq> [] \<and> trimmed u)"
    if "s \<in> set (toWebRTCICEServers servers)" for s
    using that stun idem unfolding trimmed_iff by (auto simp: toWebRTCICEServers_def client_urls_def Let_def split: if_splits)
  then show ?thesis by (auto simp: toWebRTCICEServers_def Let_def)
qed

end
