(* ===== verification/Client_Bridge_Facts.thy ===== *)
theory Client_Bridge_Facts
  imports Client_Bridge Client_Negotiation_Facts Client_Connect_Facts Client_Session
begin

text \<open>
  What holds of the bridge in every run: what its phase says of the live session, the error and the
  time between two attempts; and what becomes of an agent with a user key whose tokens the heartbeat
  has renewed.
\<close>

section \<open>The connect request\<close>

text \<open>
  C21: A connect request makes at most three requests and reads the profile at most once. A place to
  meet it returns was given, in the last answer, to the access token it returns, names a session and
  a token, and is a WebSocket URL with a host; the tokens are the given ones unless it says
  otherwise; and a refusal for want of authorisation is reported as final.
\<close>
theorem connect_recovery_sound:
  assumes "run_state (requestAgentConnectWithAuthSession render pe env cfg auth sid label) h = (outcome, h')"
  shows "\<exists>new. h' = new @ h \<and> length (filter is_request new) \<le> 3 \<and> length (filter is_read new) \<le> 1
    \<and> (case outcome of
         Inl e \<Rightarrow> isUnauthorizedError (Some e) \<longrightarrow> isNonRetryableControlPlaneError (Some e)
       | Inr (resp, auth', mode) \<Rightarrow> connect_granted render env cfg (cs_AccessToken auth') resp h'
           \<and> (mode = controlPlaneAuthUnchanged \<longrightarrow> auth' = auth))"
proof -
  have "settled render env cfg auth outcome h' \<and> grew h 3 1 h'"
    using connects_recovery assms unfolding connects_def by (rule holds_after_run)
  then show ?thesis by (auto simp: settled_def grew_def)
qed

section \<open>The invariant of the bridge\<close>

definition phase_ok :: "webrtcAgentBridge \<Rightarrow> bool" where
  "phase_ok b \<longleftrightarrow> (case wb_phase b of
     BridgeConnecting \<Rightarrow> wb_liveSession b = None \<and> \<not> wb_connected b
   | BridgeRetrying \<Rightarrow> wb_liveSession b = None \<and> \<not> wb_connected b \<and> wb_lastErr b \<noteq> None
   | BridgeAttached \<Rightarrow> wb_liveSession b \<noteq> None \<and> wb_connected b \<and> wb_lastErr b = None
   | BridgeStopped \<Rightarrow> wb_liveSession b = None)"

definition sessions_ok :: "peer \<Rightarrow> webrtcAgentBridge \<Rightarrow> bool" where
  "sessions_ok p b \<longleftrightarrow> candidates_ok p (wb_log b)
     \<and> (\<forall>live. wb_liveSession b = Some live \<longrightarrow> session_ok p UNIV (wb_log b, live))"

definition bridge_ok :: "peer \<Rightarrow> webrtcAgentBridge \<Rightarrow> bool" where
  "bridge_ok p b \<longleftrightarrow> phase_ok b \<and> sessions_ok p b \<and> wb_backoff b \<in> {Second, 2 * Second, 4 * Second, 5 * Second}"

lemma session_log: "no_call e \<Longrightarrow> session_ok p C (e # h, l) = session_ok p C (h, l)"
  by (simp add: session_ok_def)

lemma sessions_ok_log:
  assumes "sessions_ok p b" and "\<forall>e \<in> set es. no_call e"
  shows "sessions_ok p (bridge_log es b)"
proof -
  have "session_ok p C (es @ h, l) = session_ok p C (h, l)" for C h l
    using no_calls_candidates [OF assms(2)] by (simp add: session_ok_def)
  then show ?thesis
    using assms no_calls_candidates [OF assms(2)] by (simp add: sessions_ok_def bridge_log_def)
qed

lemma bridge_log_sel [simp]:
  "wb_phase (bridge_log es b) = wb_phase b" "wb_liveSession (bridge_log es b) = wb_liveSession b"
  "wb_connected (bridge_log es b) = wb_connected b" "wb_lastErr (bridge_log es b) = wb_lastErr b"
  "wb_backoff (bridge_log es b) = wb_backoff b" "wb_log (bridge_log es b) = es @ wb_log b"
  by (simp_all add: bridge_log_def)

lemma bridge_ok_log: "bridge_ok p b \<Longrightarrow> \<forall>e \<in> set es. no_call e \<Longrightarrow> bridge_ok p (bridge_log es b)"
  by (cases "wb_phase b") (simp_all add: bridge_ok_def sessions_ok_log phase_ok_def)

lemma closed_ok:
  assumes "sessions_ok p b"
  shows "sessions_ok p (closeLiveSession b) \<and> wb_liveSession (closeLiveSession b) = None
    \<and> wb_phase (closeLiveSession b) = wb_phase b \<and> wb_connected (closeLiveSession b) = wb_connected b
    \<and> wb_backoff (closeLiveSession b) = wb_backoff b \<and> wb_lastErr (closeLiveSession b) = wb_lastErr b"
  using assms by (auto simp: closeLiveSession_def live_Close_def sessions_ok_def split: option.split)

lemma reconnect_ok:
  "sessions_ok p b \<Longrightarrow> wb_backoff b \<in> {Second, 2 * Second, 4 * Second, 5 * Second} \<Longrightarrow> bridge_ok p (bridge_reconnect b)"
  using closed_ok [of p "b\<lparr>wb_connected := False, wb_phase := BridgeConnecting\<rparr>"]
  by (simp add: bridge_reconnect_def bridge_ok_def phase_ok_def sessions_ok_def)

lemma ReconnectSignaling_ok:
  assumes "session_ok p C s" and "ReconnectSignaling connect answer s = (err, s')"
  shows "session_ok p C s'"
  using assms
  by (auto simp: ReconnectSignaling_def stopSignalPump_def session_ok_def Let_def split: prod.splits option.splits)

lemma setup_ok:
  assumes "setupWebRTCAgent resp made answer h = (r, h')" and "candidates_ok p h"
  shows "candidates_ok p h' \<and> (\<forall>live. r = Inr live \<longrightarrow> session_ok p UNIV (h', live))"
proof (cases made)
  case (Some e)
  then show ?thesis using assms by (auto simp: setupWebRTCAgent_def)
next
  case None
  let ?s = "(P2PState ''waiting'' # SignalState ''normal'' # PeerMade (peer_configuration resp) made # h, newLiveWebRTCSession)"
  obtain err h1 l1 where e: "ReconnectSignaling resp answer ?s = (err, (h1, l1))" by (metis prod.exhaust)
  have "session_ok p UNIV ?s"
    using assms(2) by (simp add: session_ok_def newLiveWebRTCSession_def)
  then have "session_ok p UNIV (h1, l1)" using e by (rule ReconnectSignaling_ok)
  moreover from this have "candidates_ok p h1" by (simp add: session_ok_def)
  ultimately show ?thesis
    using assms(1) e None by (auto simp: setupWebRTCAgent_def Let_def split: option.splits)
qed

definition keeps_bridge :: "peer \<Rightarrow> webrtcAgentBridge \<Rightarrow> bool" where
  "keeps_bridge p b \<longleftrightarrow> sessions_ok p b \<and> wb_backoff b \<in> {Second, 2 * Second, 4 * Second, 5 * Second}"

lemma failed_ok:
  assumes "sessions_ok p b" and "wb_liveSession b = None" and "wb_backoff b \<in> {Second, 2 * Second, 4 * Second, 5 * Second}"
  shows "bridge_ok p ((bridge_failed err b)\<lparr>wb_phase := BridgeRetrying\<rparr>)"
  using assms by (simp add: bridge_failed_def bridge_log_def bridge_ok_def phase_ok_def sessions_ok_def)

lemma attempt_ok:
  assumes "bridge_ok p b" and "wb_phase b = BridgeConnecting"
  shows "holds_after (bridge_attempt w label made answer b) (\<lambda>(b', update) h'. bridge_ok p b') h"
proof -
  let ?b = "bridge_log [SignalState ''connecting''] b"
  have b: "sessions_ok p ?b" "wb_liveSession ?b = None" "wb_backoff ?b \<in> {Second, 2 * Second, 4 * Second, 5 * Second}"
    using assms bridge_ok_log [of p b "[SignalState ''connecting'']"] by (auto simp: bridge_ok_def phase_ok_def)
  have "bridge_ok p (case setupWebRTCAgent resp made answer (wb_log ?b) of
        (Inl err, h) \<Rightarrow> (bridge_failed err (?b\<lparr>wb_authSession := next, wb_log := h\<rparr>))\<lparr>wb_phase := BridgeRetrying\<rparr>
      | (Inr live, h) \<Rightarrow> ?b\<lparr>wb_authSession := next, wb_log := h, wb_liveSession := Some live, wb_connected := True,
          wb_lastErr := None, wb_backoff := Second, wb_phase := BridgeAttached\<rparr>)" for resp "next"
  proof -
    obtain r h' where r: "setupWebRTCAgent resp made answer (wb_log ?b) = (r, h')" by (metis prod.exhaust)
    have "candidates_ok p (wb_log ?b)" using b(1) by (simp add: sessions_ok_def)
    then have h': "candidates_ok p h'" "\<And>live. r = Inr live \<Longrightarrow> session_ok p UNIV (h', live)"
      using setup_ok [OF r] by blast+
    show ?thesis
    proof (cases r)
      case (Inl err)
      then show ?thesis
        unfolding r prod.case Inl sum.case
        by (intro failed_ok) (use b h' in \<open>simp_all add: sessions_ok_def\<close>)
    next
      case (Inr live)
      then show ?thesis
        unfolding r prod.case Inr sum.case using h' Inr by (simp add: bridge_ok_def phase_ok_def sessions_ok_def)
    qed
  qed
  moreover have "bridge_ok p ((bridge_failed err ?b)\<lparr>wb_phase := BridgeRetrying\<rparr>)" for err
    using b by (rule failed_ok)
  ultimately show ?thesis
    unfolding bridge_attempt_def holds_after_bind holds_after_return Let_def
    by (auto simp: holds_after_def split: prod.split sum.split)
qed

lemma signaling_failed_keeps: "keeps_bridge p b \<Longrightarrow> keeps_bridge p (signaling_failed err b)"
  by (simp add: keeps_bridge_def signaling_failed_def bridge_log_def sessions_ok_def session_log)

lemma recover_ok:
  assumes "bridge_ok p b" and "wb_phase b = BridgeAttached" and "wb_liveSession b = Some live"
  shows "holds_after (recoverLiveSignaling w label answer live b)
    (\<lambda>(err, b', update) h'. if err = None then bridge_ok p b' else keeps_bridge p b') h"
proof -
  let ?b = "bridge_log [SignalState ''connecting''] b"
  have ok: "bridge_ok p ?b" using assms(1) by (rule bridge_ok_log) simp
  then have keeps: "keeps_bridge p ?b" by (auto simp: keeps_bridge_def bridge_ok_def)
  have live: "session_ok p UNIV (wb_log ?b, live)"
    using ok assms(3) by (simp add: bridge_ok_def sessions_ok_def)
  have "case ReconnectSignaling resp answer (wb_log ?b, live) of
      (Some err, (h, live)) \<Rightarrow> keeps_bridge p (signaling_failed err (?b\<lparr>wb_authSession := next, wb_log := h, wb_liveSession := Some live\<rparr>))
    | (None, (h, live)) \<Rightarrow> bridge_ok p (?b\<lparr>wb_authSession := next, wb_log := h, wb_liveSession := Some live, wb_lastErr := None\<rparr>)"
    for resp "next"
  proof -
    obtain err h' l' where e: "ReconnectSignaling resp answer (wb_log ?b, live) = (err, (h', l'))" by (metis prod.exhaust)
    have s: "session_ok p UNIV (h', l')" using live e by (rule ReconnectSignaling_ok)
    then have c: "candidates_ok p h'" by (simp add: session_ok_def)
    show ?thesis
    proof (cases err)
      case None
      then show ?thesis
        unfolding e prod.case None option.case
        using s c ok assms(2) by (simp add: bridge_ok_def sessions_ok_def phase_ok_def)
    next
      case (Some x)
      then show ?thesis
        unfolding e prod.case Some option.case
        by (intro signaling_failed_keeps) (use s c keeps in \<open>simp add: keeps_bridge_def sessions_ok_def\<close>)
    qed
  qed
  moreover have "keeps_bridge p (signaling_failed err ?b)" for err
    using keeps by (rule signaling_failed_keeps)
  ultimately show ?thesis
    unfolding recoverLiveSignaling_def holds_after_bind holds_after_return Let_def
    by (fastforce simp: holds_after_def split: prod.splits sum.split option.splits)
qed

lemma step_ok:
  assumes "peer_contract (wo_peer w)" and "bridge_ok (wo_peer w) b"
  shows "holds_after (bridge_step w ev b) (\<lambda>(b', update) h'. bridge_ok (wo_peer w) b') h"
proof -
  let ?p = "wo_peer w"
  have stay: "holds_after (State_Monad.return (b, u)) (\<lambda>(b', update) h'. bridge_ok ?p b') h" for u
    using assms(2) by simp
  have stopped: "bridge_ok ?p (closeLiveSession (b\<lparr>wb_phase := BridgeStopped\<rparr>))"
    using closed_ok [of ?p "b\<lparr>wb_phase := BridgeStopped\<rparr>"] assms(2)
    by (simp add: bridge_ok_def phase_ok_def sessions_ok_def)
  show ?thesis
  proof (cases ev)
    case (Attempt label made answer)
    then show ?thesis
      using stay attempt_ok [OF assms(2)] by (cases "wb_phase b") (simp_all add: bridge_step_def)
  next
    case Slept
    then show ?thesis
      using assms(2) by (cases "wb_phase b") (auto simp: bridge_step_def bridge_ok_def phase_ok_def sessions_ok_def minDuration_def)
  next
    case (SignalingLost label answer)
    show ?thesis
    proof (cases "\<exists>live. wb_phase b = BridgeAttached \<and> wb_liveSession b = Some live \<and> ls_signalingLost live")
      case False
      then show ?thesis
        using SignalingLost stay by (cases "wb_phase b") (auto simp: bridge_step_def split: option.split)
    next
      case True
      then obtain live where live: "wb_phase b = BridgeAttached" "wb_liveSession b = Some live" "ls_signalingLost live"
        by blast
      let ?live = "live\<lparr>ls_signalingLost := False\<rparr>"
      have "bridge_ok ?p (b\<lparr>wb_liveSession := Some ?live\<rparr>)"
        using assms(2) live by (simp add: bridge_ok_def phase_ok_def sessions_ok_def session_ok_def)
      then have "holds_after (recoverLiveSignaling w label answer ?live (b\<lparr>wb_liveSession := Some ?live\<rparr>))
          (\<lambda>(err, b', update) h'. if err = None then bridge_ok ?p b' else keeps_bridge ?p b') h"
        by (rule recover_ok) (use live in simp_all)
      then have "holds_after (recoverLiveSignaling w label answer ?live (b\<lparr>wb_liveSession := Some ?live\<rparr>))
          (\<lambda>(err, b', update) h'. bridge_ok ?p (if err = None then b' else bridge_reconnect b')) h"
        by (rule holds_after_mono) (auto simp: keeps_bridge_def reconnect_ok split: if_splits)
      then show ?thesis
        unfolding SignalingLost bridge_step_def using live by (simp add: case_prod_unfold)
    qed
  next
    case ReconnectNow
    have "bridge_ok ?p (bridge_reconnect b)" using assms(2) by (intro reconnect_ok) (simp_all add: bridge_ok_def)
    then show ?thesis
      using ReconnectNow assms(2) by (cases "wb_phase b") (auto simp: bridge_step_def split: option.split)
  next
    case CloseBridge
    have "wb_phase b = BridgeRetrying \<Longrightarrow> bridge_ok ?p (b\<lparr>wb_phase := BridgeStopped\<rparr>)"
      using assms(2) by (simp add: bridge_ok_def phase_ok_def sessions_ok_def)
    then show ?thesis
      using CloseBridge stay stopped by (cases "wb_phase b") (simp_all add: bridge_step_def)
  next
    case (Live e)
    show ?thesis
    proof (cases "wb_liveSession b")
      case None
      then show ?thesis using Live stay by (simp add: bridge_step_def)
    next
      case (Some live)
      obtain h' l' where s: "live_step ?p e (wb_log b, live) = (h', l')" by fastforce
      have "session_ok ?p UNIV (wb_log b, live)"
        using assms(2) Some by (simp add: bridge_ok_def sessions_ok_def)
      then have "session_ok ?p UNIV (h', l')"
        using session_ok_step [OF assms(1), of UNIV "(wb_log b, live)" e] s by simp
      moreover from this have "candidates_ok ?p h'" by (simp add: session_ok_def)
      ultimately have "bridge_ok ?p (b\<lparr>wb_log := h', wb_liveSession := Some l'\<rparr>)"
        using assms(2) Some by (cases "wb_phase b") (simp_all add: bridge_ok_def phase_ok_def sessions_ok_def)
      then show ?thesis using Some by (simp add: Live bridge_step_def s)
    qed
  next
    case (Enqueue data)
    then show ?thesis using assms(2) bridge_ok_log by (simp add: bridge_step_def enqueue_def)
  next
    case (StaleState state)
    then show ?thesis using assms(2) bridge_ok_log by (simp add: bridge_step_def)
  qed
qed

lemma run_ok:
  assumes "peer_contract (wo_peer w)" and "bridge_ok (wo_peer w) b"
  shows "holds_after (bridge_run w evs b) (\<lambda>b' h'. bridge_ok (wo_peer w) b') h"
  using assms(2)
proof (induction evs arbitrary: b h)
  case (Cons ev evs)
  show ?case
    unfolding bridge_run.simps holds_after_bind
    by (rule holds_after_mono [OF step_ok [OF assms(1) Cons.prems]]) (use Cons.IH in \<open>auto split: prod.split\<close>)
qed simp

text \<open>
  C22: In every run the bridge is attached exactly while it has a live session and says that it is
  connected, without an error; it waits to try again only after an error, and for at most five
  seconds; and over all the sessions of the run the peer connections are given candidates only while
  they can use them.
\<close>
theorem bridge_invariant:
  assumes "peer_contract (wo_peer w)"
    and "run_state (bridge_run w evs (newWebRTCAgentBridge cfg sessionID auth profilePath)) h = (b, h')"
  shows "(wb_phase b = BridgeAttached \<longleftrightarrow> wb_liveSession b \<noteq> None)
    \<and> (wb_phase b = BridgeAttached \<longrightarrow> bridge_Connected b \<and> bridge_LastError b = None)
    \<and> (wb_phase b = BridgeRetrying \<longrightarrow> \<not> bridge_Connected b \<and> bridge_LastError b \<noteq> None)
    \<and> (wb_phase b = BridgeConnecting \<longrightarrow> \<not> bridge_Connected b)
    \<and> Second \<le> wb_backoff b \<and> wb_backoff b \<le> 5 * Second
    \<and> candidates_ok (wo_peer w) (wb_log b)"
proof -
  have "bridge_ok (wo_peer w) (newWebRTCAgentBridge cfg sessionID auth profilePath)"
    by (simp add: bridge_ok_def phase_ok_def sessions_ok_def newWebRTCAgentBridge_def)
  then have "bridge_ok (wo_peer w) b"
    using run_ok [OF assms(1)] assms(2) holds_after_run by fast
  then show ?thesis
    by (cases "wb_phase b")
      (auto simp: bridge_ok_def phase_ok_def sessions_ok_def bridge_Connected_def bridge_LastError_def)
qed

section \<open>An agent with a user key\<close>

text \<open>
  The agent was started with a user key and has the tokens \<open>a1\<close>, \<open>r1\<close>. On the same machine another
  account is logged in: the profile holds its token \<open>b1\<close>. The server takes \<open>a1\<close> until the first
  heartbeat, and \<open>r1\<close> for one refresh.
\<close>

definition place :: AgentConnectResponse where
  "place = AgentConnectResponse_zero\<lparr>cr_SessionID := ''s'', cr_SignalURL := ''wss://c/v1/signal'', cr_SignalToken := ''t''\<rparr>"

definition place_body :: string where
  "place_body = print_json (AgentConnectResponse_json place)"

definition crossed_http :: "client_history \<Rightarrow> client_request \<Rightarrow> string + int \<times> string" where
  "crossed_http h q =
     (if cr_URL q = ''https://c/v1/auth/refresh'' then
        (if list_ex (asks ''https://c/v1/auth/refresh'') h then Inr (401, ''unauthorized'') else Inr (200, renewed_body))
      else if cr_URL q = ''https://c/v1/agents/connect'' then
        (if client_request.cr_Token q = Some ''Bearer b1''
            \<or> client_request.cr_Token q = Some ''Bearer a1'' \<and> \<not> list_ex (asks ''https://c/v1/agents/heartbeat'') h
         then Inr (200, place_body) else Inr (401, ''unauthorized''))
      else if cr_URL q = ''https://c/v1/agents/register'' then Inr (200, [])
      else if client_request.cr_Token q = Some ''Bearer a1'' then Inr (401, ''unauthorized'')
      else Inr (204, []))"

definition other_session :: controlPlaneAuthSession where
  "other_session = no_tokens\<lparr>cs_AccessToken := ''b1'', cs_RefreshToken := ''q1''\<rparr>"

definition crossed :: environment where
  "crossed = \<lparr>env_http = crossed_http,
     env_read = (\<lambda>h p. Inr (indent_json 0 (authProfile_json (profile_of ''https://c'' other_session 0)) @ newline)),
     env_save = (\<lambda>h p. []), env_now = (\<lambda>h. 0), env_json_error = (\<lambda>s. ''bad JSON'')\<rparr>"

definition crossed_config :: client_config where
  "crossed_config = \<lparr>cc_ControlPlaneURL = ''https://c'', cc_AuthProfilePath = ''/p'', cc_Shell = [],
     cc_AnswerTimeout = 0, cc_UserKey = ''k'', cc_HUD = True\<rparr>"

definition crossed_world :: world where
  "crossed_world = \<lparr>wo_env = crossed, wo_peer = obliging, wo_render = (\<lambda>s. s), wo_parse_error = (\<lambda>s. ''bad URL'')\<rparr>"

lemma crossed_sel [simp]:
  "env_http crossed = crossed_http" "env_json_error crossed b = ''bad JSON''" "wo_env crossed_world = crossed"
  "wo_peer crossed_world = obliging"
  "wo_render crossed_world = (\<lambda>s. s)" "wo_parse_error crossed_world = (\<lambda>s. ''bad URL'')"
  "cc_ControlPlaneURL crossed_config = ''https://c''" "cc_UserKey crossed_config = ''k''"
  "cc_AuthProfilePath crossed_config = ''/p''"
  by (simp_all add: crossed_def crossed_config_def crossed_world_def)

lemma crossed_strings [simp]:
  "TrimSpace ''/p'' = ''/p''" "TrimSpace ''b1'' = ''b1''" "TrimSpace ''q1'' = ''q1''" "TrimSpace ''t'' = ''t''"
  "TrimSpace ''https://c'' = ''https://c''" "TrimRight ''https://c'' ''/'' = ''https://c''"
  "TrimSpace ''wss://c/v1/signal'' = ''wss://c/v1/signal''"
  "endpoint ''https://c'' ''/v1/agents/connect'' = ''https://c/v1/agents/connect''"
  "endpoint ''https://c'' ''/v1/agents/register'' = ''https://c/v1/agents/register''"
  by code_simp+

lemma other_sel [simp]: "cs_AccessToken other_session = ''b1''" "cs_RefreshToken other_session = ''q1''"
  by (simp_all add: other_session_def no_tokens_def)

lemma place_answer: "connect_answer (\<lambda>s. s) pe crossed (Inr (200, place_body)) = Inr place"
proof -
  have "printable max_depth (AgentConnectResponse_json place)"
    by (simp add: AgentConnectResponse_json_def place_def AgentConnectResponse_zero_def max_depth_def ord_def)
  then have "decoded crossed decode_AgentConnectResponse place_body = Inr place"
    by (simp add: decoded_def place_body_def Decode_print decode_AgentConnectResponse_json)
  moreover have "normalizeSignalURL (\<lambda>s. s) pe ''wss://c/v1/signal'' = Inr ''wss://c/v1/signal''"
  proof -
    have "map_option (\<lambda>u. (url_Host u, url_Scheme u)) (url_Parse ''wss://c/v1/signal'') = Some (''c'', ''wss'')"
      by code_simp
    then obtain u where "url_Parse ''wss://c/v1/signal'' = Some u" "url_Host u = ''c''" "url_Scheme u = ''wss''" by auto
    then show ?thesis by (simp add: normalizeSignalURL_def)
  qed
  ultimately show ?thesis by (simp add: connect_answer_def place_def)
qed

lemma crossed_refresh:
  "run_state (refreshControlPlaneAuth crossed crossed_config ''r1'') h =
     (if list_ex (asks ''https://c/v1/auth/refresh'') h
      then (Inl (status_text ''control plane refresh'' 401 ''unauthorized''), Asked refresh_request (Inr (401, ''unauthorized'')) # h)
      else (Inr renewed_session, Asked refresh_request (Inr (200, renewed_body)) # h))"
proof -
  have "decoded crossed decode_RefreshAuthResponse renewed_body = decoded flaky decode_RefreshAuthResponse renewed_body"
    by (simp add: decoded_def split: option.split)
  then show ?thesis
    using renewed_decodes
    by (simp add: refreshControlPlaneAuth_def refresh_request_def crossed_http_def renewed_def renewed_session_def
        trimmed_session_def no_tokens_def post_json_def)
qed

lemma crossed_reload:
  "run_state (loadUpdatedControlPlaneAuthFromProfile crossed ''https://c'' ''/p'' expired_session) h =
     (Inr (other_session, True), ReadProfile ''/p'' (env_read crossed h ''/p'') # h)"
proof -
  have "Option.bind (json_Unmarshal (indent_json 0 (authProfile_json (profile_of ''https://c'' other_session 0)) @ newline))
      (decode_authProfile False) = Some (profile_of ''https://c'' other_session 0)"
    by (rule profile_content_read) (simp_all add: ascii_session_def other_session_def no_tokens_def ord_def)
  then have "run_state (loadAuthProfile crossed ''/p'') h
      = (Inr (profile_of ''https://c'' other_session 0), ReadProfile ''/p'' (env_read crossed h ''/p'') # h)"
    by (simp add: loadAuthProfile_def crossed_def)
  moreover have "trimmed_session ''b1'' [] ''q1'' [] = other_session"
    by (simp add: trimmed_session_def other_session_def no_tokens_def)
  moreover have "\<not> sameControlPlaneAuthSession other_session expired_session"
    by (simp add: sameControlPlaneAuthSession_def)
  ultimately show ?thesis
    by (simp add: loadUpdatedControlPlaneAuthFromProfile_def loadControlPlaneAuthFromProfile_def profile_of_def
        other_session_def no_tokens_def)
qed

definition ask_connect :: "string \<Rightarrow> client_request" where
  "ask_connect token = post_json ''https://c/v1/agents/connect'' (Some (''Bearer '' @ token))
     (AgentConnectRequest_json \<lparr>cq_SessionID = ''s'', cq_AgentLabel = ''box''\<rparr>)"

lemma crossed_connect:
  "token \<in> {''a1'', ''b1''} \<Longrightarrow>
     run_state (requestAgentConnect (\<lambda>s. s) pe crossed crossed_config token ''s'' ''box'') h =
     (if token = ''a1'' \<and> list_ex (asks ''https://c/v1/agents/heartbeat'') h
      then (Inl (StatusError ''connect'' 401 ''unauthorized''), Asked (ask_connect token) (Inr (401, ''unauthorized'')) # h)
      else (Inr place, Asked (ask_connect token) (Inr (200, place_body)) # h))"
  using place_answer [of pe]
  by (auto simp: requestAgentConnect_def ask_connect_def bearer_def crossed_http_def connect_answer_def)

definition crossed_events :: "agent_event list" where
  "crossed_events = [OfBridge (Attempt ''box'' None (Subprotocol ''mt-signaling'')), StartHeartbeat ''box'',
     HeartbeatRound ''box'', OfBridge (Live ReadFailed), OfBridge (SignalingLost ''box'' (Subprotocol ''mt-signaling''))]"

definition crossed_agent :: agent where
  "crossed_agent = new_agent crossed_config [] ''s'' expired_session"

lemma crossed_requests:
  "run_state (requestAgentConnectWithAuthSession (\<lambda>s. s) pe crossed crossed_config expired_session ''s'' ''box'') [] =
     (Inr (place, expired_session, controlPlaneAuthUnchanged), [Asked (ask_connect ''a1'') (Inr (200, place_body))])"
  "list_ex (asks ''https://c/v1/agents/heartbeat'') h \<Longrightarrow> list_ex (asks ''https://c/v1/auth/refresh'') h \<Longrightarrow>
     \<exists>h'. run_state (requestAgentConnectWithAuthSession (\<lambda>s. s) pe crossed crossed_config expired_session ''s'' ''box'') h =
     (Inr (place, other_session, controlPlaneAuthReloaded), Asked (ask_connect ''b1'') (Inr (200, place_body)) # h' @ h)"
  by (simp_all add: requestAgentConnectWithAuthSession_def crossed_connect crossed_refresh crossed_reload connect_retry_def)

text \<open>The heartbeat renews the tokens.\<close>

lemma crossed_heartbeat:
  "\<exists>h'. run_state (heartbeatAgentSessionWithAuthRecovery crossed crossed_config [] ''s'' ''box'' expired_session) h =
     (Inr (renewed_session, controlPlaneAuthRefreshed), h' @ h) \<and> list_ex (asks ''https://c/v1/agents/heartbeat'') h'
     \<and> list_ex (asks ''https://c/v1/auth/refresh'') h' \<and> Asked (beat ''a2'') (Inr (204, [])) \<in> set h'"
  if "\<not> list_ex (asks ''https://c/v1/auth/refresh'') h"
proof -
  have beats: "run_state (heartbeatOrRegisterAgentSession crossed crossed_config ''a1'' ''s'' ''box'') h' =
      (Some (StatusError ''heartbeat'' 401 ''unauthorized''), Asked (beat ''a1'') (Inr (401, ''unauthorized'')) # h')"
    "run_state (heartbeatOrRegisterAgentSession crossed crossed_config ''a2'' ''s'' ''box'') h' =
      (None, Asked (beat ''a2'') (Inr (204, [])) # h')" for h'
    by (simp_all add: heartbeatOrRegisterAgentSession_def heartbeatAgentSession_def beat_def bearer_def
        crossed_http_def expect_status_def Let_def)
  have "asks ''https://c/v1/agents/heartbeat'' (Asked (beat t) a)" for t a
    by (simp add: asks_def beat_def)
  then show ?thesis
    using that by (simp add: heartbeatAgentSessionWithAuthRecovery_def recover_with_refresh_def beats crossed_refresh
        after_heartbeat_def)
qed

text \<open>The bridge has a live session and goes on with these tokens.\<close>

definition attached :: "controlPlaneAuthSession \<Rightarrow> liveWebRTCSession \<Rightarrow> webrtcAgentBridge \<Rightarrow> bool" where
  "attached auth live b \<longleftrightarrow> wb_cfg b = crossed_config \<and> wb_sessionID b = ''s'' \<and> wb_authSession b = auth
     \<and> wb_connected b \<and> wb_phase b = BridgeAttached \<and> wb_liveSession b = Some live"

definition hooked :: liveWebRTCSession where
  "hooked = newLiveWebRTCSession\<lparr>ls_signal := open_pump\<rparr>"

definition hooked_lost :: liveWebRTCSession where
  "hooked_lost = hooked\<lparr>ls_signal := Some \<lparr>sp_suppressLost = False, sp_lost = True\<rparr>, ls_signalingLost := True\<rparr>"

lemma crossed_dial:
  "ReconnectSignaling place (Subprotocol ''mt-signaling'') (h, l) =
     (None, (SignalState ''normal'' # Dialed ''wss://c/v1/signal'' ''Bearer t'' (Subprotocol ''mt-signaling'') # h,
       l\<lparr>ls_signal := open_pump\<rparr>))"
  by (simp add: ReconnectSignaling_def dialSignalWS_def stopSignalPump_def open_pump_def place_def bearer_def)

lemma crossed_attempt:
  "\<exists>b. run_state (bridge_step crossed_world (Attempt ''box'' None (Subprotocol ''mt-signaling''))
      (newWebRTCAgentBridge crossed_config ''s'' expired_session [])) [] =
     ((b, None), [Asked (ask_connect ''a1'') (Inr (200, place_body))]) \<and> attached expired_session hooked b"
  by (simp add: bridge_step_def newWebRTCAgentBridge_def bridge_attempt_def requestConnect_def crossed_requests
      setupWebRTCAgent_def crossed_dial attached_def hooked_def auth_update_def bridge_log_def Let_def)

lemma crossed_lost:
  "attached auth hooked b \<Longrightarrow>
     \<exists>b'. run_state (bridge_step crossed_world (Live ReadFailed) b) h = ((b', None), h) \<and> attached auth hooked_lost b'"
  by (simp add: bridge_step_def attached_def reportLost_def hooked_def hooked_lost_def open_pump_def
      newLiveWebRTCSession_def notifySignalingLost_def)

lemma crossed_recovered:
  assumes "attached expired_session hooked_lost b" and "list_ex (asks ''https://c/v1/agents/heartbeat'') h"
    and "list_ex (asks ''https://c/v1/auth/refresh'') h"
  shows "\<exists>b' h'. run_state (bridge_step crossed_world (SignalingLost ''box'' (Subprotocol ''mt-signaling'')) b) h =
     ((b', Some (other_session, controlPlaneAuthReloaded)), Asked (ask_connect ''b1'') (Inr (200, place_body)) # h' @ h)
     \<and> attached other_session hooked b'"
proof -
  obtain h' where "run_state (requestAgentConnectWithAuthSession (\<lambda>s. s) (\<lambda>s. ''bad URL'') crossed crossed_config expired_session ''s'' ''box'') h =
     (Inr (place, other_session, controlPlaneAuthReloaded), Asked (ask_connect ''b1'') (Inr (200, place_body)) # h' @ h)"
    using crossed_requests(2) [OF assms(2,3)] by blast
  moreover have "ls_signalingLost hooked_lost"
    "hooked_lost\<lparr>ls_signalingLost := False, ls_signal := open_pump\<rparr> = hooked"
    by (simp_all add: hooked_lost_def hooked_def newLiveWebRTCSession_def)
  ultimately show ?thesis
    using assms(1)
    by (simp add: bridge_step_def attached_def recoverLiveSignaling_def requestConnect_def crossed_dial
        auth_update_def bridge_log_def Let_def)
qed

definition crossed_heartbeat_at :: "controlPlaneAuthSession \<Rightarrow> agentRegistryHeartbeat" where
  "crossed_heartbeat_at auth = heartbeat_setAuth
     ((newAgentRegistryHeartbeat crossed_config [] ''s'' expired_session)\<lparr>hb_running := True\<rparr>) auth"

lemma crossed_start:
  "\<exists>q. run_state (heartbeat_Start crossed ''box'' (newAgentRegistryHeartbeat crossed_config [] ''s'' expired_session)) h =
     ((crossed_heartbeat_at expired_session, None), Asked q (Inr (200, [])) # h) \<and> \<not> asks ''https://c/v1/auth/refresh'' (Asked q (Inr (200, [])))"
  by (simp add: heartbeat_Start_def newAgentRegistryHeartbeat_def registerAgentSession_def crossed_http_def
      expect_status_def crossed_heartbeat_at_def heartbeat_setAuth_def asks_def)

lemma crossed_auth:
  "heartbeat_currentAuth (crossed_heartbeat_at expired_session) = expired_session"
  "hb_cfg (crossed_heartbeat_at auth) = crossed_config" "hb_profilePath (crossed_heartbeat_at auth) = []"
  "hb_sessionID (crossed_heartbeat_at auth) = ''s''" "hb_running (crossed_heartbeat_at auth)"
  "hb_accessToken (crossed_heartbeat_at auth) = TrimSpace (cs_AccessToken auth)"
  "heartbeat_setAuth (crossed_heartbeat_at auth) next = crossed_heartbeat_at next"
  by (simp_all add: crossed_heartbeat_at_def heartbeat_currentAuth_def heartbeat_setAuth_def
      newAgentRegistryHeartbeat_def expired_session_def no_tokens_def)

lemma crossed_round:
  assumes "\<not> list_ex (asks ''https://c/v1/auth/refresh'') h"
  shows "\<exists>h'. run_state (heartbeat_round crossed ''box'' (crossed_heartbeat_at expired_session)) h =
     ((crossed_heartbeat_at renewed_session, None), h' @ h) \<and> list_ex (asks ''https://c/v1/agents/heartbeat'') h'
     \<and> list_ex (asks ''https://c/v1/auth/refresh'') h' \<and> Asked (beat ''a2'') (Inr (204, [])) \<in> set h'"
  using crossed_heartbeat [OF assms]
  by (auto simp: heartbeat_round_def crossed_auth heartbeat_ApplyAuthUpdate_def heartbeat_persistAuth_def Let_def)

text \<open>
  C23: An agent with a user key can end up under the account of someone else. When the heartbeat has
  renewed the tokens, the bridge still has the old ones; when it must connect again its refresh is
  refused, and it reads the profile of the configuration, which belongs to the account that is
  logged in on this machine. It connects under that account and hands its tokens to the heartbeat.
\<close>
theorem foreign_profile:
  "case run_state (agent_run crossed_world crossed_events crossed_agent) [] of (a, h) \<Rightarrow>
     ag_fatal a = None \<and> wb_phase (ag_bridge a) = BridgeAttached
   \<and> wb_authSession (ag_bridge a) = other_session \<and> hb_accessToken (ag_heartbeat a) = ''b1''
   \<and> Asked (ask_connect ''b1'') (Inr (200, place_body)) \<in> set h
   \<and> Asked (beat ''a2'') (Inr (204, [])) \<in> set h"
proof -
  obtain b1 where one: "run_state (bridge_step crossed_world (Attempt ''box'' None (Subprotocol ''mt-signaling''))
      (newWebRTCAgentBridge crossed_config ''s'' expired_session [])) [] =
      ((b1, None), [Asked (ask_connect ''a1'') (Inr (200, place_body))])" "attached expired_session hooked b1"
    using crossed_attempt by blast
  obtain q where two: "run_state (heartbeat_Start crossed ''box'' (newAgentRegistryHeartbeat crossed_config [] ''s'' expired_session))
      [Asked (ask_connect ''a1'') (Inr (200, place_body))] = ((crossed_heartbeat_at expired_session, None),
      [Asked q (Inr (200, [])), Asked (ask_connect ''a1'') (Inr (200, place_body))])"
      "\<not> asks ''https://c/v1/auth/refresh'' (Asked q (Inr (200, [])))"
    using crossed_start by blast
  let ?h2 = "[Asked q (Inr (200, [])), Asked (ask_connect ''a1'') (Inr (200, place_body))]"
  have "\<not> list_ex (asks ''https://c/v1/auth/refresh'') ?h2"
    using two(2) by (simp add: asks_def ask_connect_def)
  then obtain h3 where three: "run_state (heartbeat_round crossed ''box'' (crossed_heartbeat_at expired_session)) ?h2 =
      ((crossed_heartbeat_at renewed_session, None), h3 @ ?h2)" "list_ex (asks ''https://c/v1/agents/heartbeat'') h3"
      "list_ex (asks ''https://c/v1/auth/refresh'') h3" "Asked (beat ''a2'') (Inr (204, [])) \<in> set h3"
    using crossed_round by blast
  obtain b4 where four: "run_state (bridge_step crossed_world (Live ReadFailed) b1) (h3 @ ?h2) = ((b4, None), h3 @ ?h2)"
      "attached expired_session hooked_lost b4"
    using crossed_lost [OF one(2)] by blast
  obtain b5 h5 where five: "run_state (bridge_step crossed_world (SignalingLost ''box'' (Subprotocol ''mt-signaling'')) b4) (h3 @ ?h2) =
      ((b5, Some (other_session, controlPlaneAuthReloaded)), Asked (ask_connect ''b1'') (Inr (200, place_body)) # h5 @ h3 @ ?h2)"
      "attached other_session hooked b5"
    using crossed_recovered [OF four(2), of "h3 @ ?h2"] three(2,3) by auto
  have "run_state (agent_run crossed_world crossed_events crossed_agent) [] =
      (\<lparr>ag_bridge = b5, ag_heartbeat = crossed_heartbeat_at other_session, ag_fatal = None\<rparr>,
       Asked (ask_connect ''b1'') (Inr (200, place_body)) # h5 @ h3 @ ?h2)"
    using one(1) two(1) three(1) four(1) five(1)
    by (simp add: crossed_events_def crossed_agent_def new_agent_def agent_step_def crossed_auth
        runtimeFatalStopper_Set_def heartbeat_ApplyAuthUpdate_def)
  then show ?thesis
    using five(2) three(4) by (simp add: attached_def crossed_auth)
qed

theorem connect_recovery_sound_witness:
  "connect_granted (\<lambda>s. s) crossed crossed_config ''a1'' place [Asked (ask_connect ''a1'') (Inr (200, place_body))]"
  using connect_recovery_sound [OF crossed_requests(1) [of "\<lambda>s. ''bad URL''"]] by simp

theorem bridge_invariant_witness:
  "\<exists>b h. run_state (bridge_run crossed_world [Attempt ''box'' None (Subprotocol ''mt-signaling'')]
      (newWebRTCAgentBridge crossed_config ''s'' expired_session [])) [] = (b, h)
    \<and> bridge_Connected b \<and> bridge_LastError b = None"
proof -
  obtain b where b: "run_state (bridge_step crossed_world (Attempt ''box'' None (Subprotocol ''mt-signaling''))
      (newWebRTCAgentBridge crossed_config ''s'' expired_session [])) [] =
      ((b, None), [Asked (ask_connect ''a1'') (Inr (200, place_body))])" "attached expired_session hooked b"
    using crossed_attempt by blast
  have contract: "peer_contract (wo_peer crossed_world)" by (simp add: obliging_contract)
  have run: "run_state (bridge_run crossed_world [Attempt ''box'' None (Subprotocol ''mt-signaling'')]
      (newWebRTCAgentBridge crossed_config ''s'' expired_session [])) [] = (b, [Asked (ask_connect ''a1'') (Inr (200, place_body))])"
    using b(1) by simp
  from bridge_invariant [OF contract run] b(2) run show ?thesis by (auto simp: attached_def)
qed

end
