(* ===== verification/Client_Commands.thy ===== *)
theory Client_Commands
  imports Client_Auth Client_Config Update_Prompt Self_Update
begin

text \<open>
  The subcommands of the command line client: \<^verbatim>\<open>cmd/shellin/login_command.go\<close>,
  \<^verbatim>\<open>status_command.go\<close>, \<^verbatim>\<open>cleanup_command.go\<close>, \<^verbatim>\<open>cli_dispatch.go\<close>, and the check for an update
  before a session (\<^verbatim>\<open>update_command.go\<close>).

  The package \<^verbatim>\<open>flag\<close> is an argument: \<open>parse\<close> gives an error, or the values of the two flags and the
  arguments that are left. A command gives an error or the text it prints. What a build sets with
  \<^verbatim>\<open>-ldflags\<close> is the record \<open>cli_build\<close>. Dates in the local time zone are an argument as well.
  The plan shown by the status command is Go's for product ids in ASCII.
\<close>

section \<open>Configuration of a command\<close>

record cli_build =
  cb_ControlPlaneURL :: string
  cb_AllowInsecureURL :: string
  cb_parse_error :: "string \<Rightarrow> string"

datatype parsed_flags = FlagError string | Flags string string "string list"

definition url_error_text :: "(string \<Rightarrow> string) \<Rightarrow> string \<Rightarrow> url_error \<Rightarrow> string" where
  "url_error_text parse_error raw e = (case e of
     URLUnparsed \<Rightarrow> parse_error (TrimSpace (TrimRight raw ''/''))
   | MissingHost \<Rightarrow> ''missing host''
   | SchemeNotHTTP \<Rightarrow> ''scheme must be http or https''
   | RefusingPlainHTTP \<Rightarrow> ''refusing non-loopback http URL; use https'')"

definition control_url :: "cli_build \<Rightarrow> go_error + string" where
  "control_url build =
     (let controlPlaneURL = TrimSpace (cb_ControlPlaneURL build)
      in if controlPlaneURL = [] then Inl (Plain ''control plane URL is not configured in this build'')
         else case normalizeServerURL controlPlaneURL (parseBoolDefault (cb_AllowInsecureURL build) False) of
           Inl e \<Rightarrow> Inl (Wrapped ''invalid control plane URL: ''
             (Plain (url_error_text (cb_parse_error build) controlPlaneURL e)) [])
         | Inr url \<Rightarrow> Inr url)"

text \<open>What status and cleanup have in common.\<close>

definition command_config :: "string \<Rightarrow> cli_build \<Rightarrow> parsed_flags \<Rightarrow> go_error + client_config" where
  "command_config name build flags = (case flags of
     FlagError e \<Rightarrow> Inl (Plain e)
   | Flags authProfilePath userKey args \<Rightarrow>
       if args \<noteq> [] then Inl (Plain (''usage: '' @ cliCommandName @ '' '' @ name @ '' [flags]''))
       else case control_url build of
         Inl e \<Rightarrow> Inl e
       | Inr url \<Rightarrow> Inr \<lparr>cc_ControlPlaneURL = url, cc_AuthProfilePath = authProfilePath, cc_Shell = [],
           cc_AnswerTimeout = 0, cc_UserKey = TrimSpace userKey, cc_HUD = False\<rparr>)"

definition save_tokens :: "environment \<Rightarrow> string \<Rightarrow> string \<Rightarrow> controlPlaneAuthSession \<Rightarrow> go_error option io" where
  "save_tokens env path controlPlaneURL auth = do {
     t \<leftarrow> clock env;
     saveAuthProfile env path (profile_of controlPlaneURL auth t) }"

section \<open>Formatting\<close>

definition escape_seq :: "string \<Rightarrow> string" where "escape_seq s = ESC # CHR ''['' # s @ ''m''"

definition ansiReset :: string where "ansiReset = escape_seq ''0''"
definition ansiBold :: string where "ansiBold = escape_seq ''1''"
definition ansiGray :: string where "ansiGray = escape_seq ''90''"
definition ansiCyan :: string where "ansiCyan = escape_seq ''36''"
definition ansiGreen :: string where "ansiGreen = escape_seq ''32''"
definition hudBaseFG :: string where "hudBaseFG = escape_seq ''38;2;244;241;234''"
definition hudConnectingFG :: string where "hudConnectingFG = escape_seq ''38;2;240;197;74''"

definition newline1 :: string where "newline1 = [CHR 0x0A]"

definition formatStatusRow :: "string \<Rightarrow> string \<Rightarrow> string" where
  "formatStatusRow label value =
     ansiGray @ label @ replicate (10 - length label) (CHR '' '') @ ansiReset @ '' '' @ hudBaseFG @ value @ ansiReset"

definition plan_word :: "string \<Rightarrow> string list" where
  "plan_word part =
     (if part = ''shellin'' then []
      else if part = ''lite'' then [''Lite'']
      else if part = ''pro'' then [''Pro'']
      else if part \<in> set [''monthly'', ''yearly'', ''annual'', ''weekly'', ''daily''] then []
      else [ToUpper (take 1 part) @ drop 1 part])"

definition displayPlanName :: "string \<Rightarrow> string" where
  "displayPlanName raw =
     (let productID = TrimSpace raw
      in if productID = [] then ''unknown''
         else let rawParts = Fields (map (\<lambda>c. if c \<in> set ''._-'' then CHR '' '' else c) (ToLower productID));
                  parts = concat (map plan_word rawParts)
              in if rawParts = [] \<or> parts = [] then productID else ''Shellin '' @ Join parts '' '')"

definition formatStatusExpiry :: "(string \<Rightarrow> string option) \<Rightarrow> string \<Rightarrow> string" where
  "formatStatusExpiry local_date raw0 =
     (let raw = TrimSpace raw0
      in if raw = [] then [] else case local_date raw of None \<Rightarrow> raw | Some date \<Rightarrow> date)"

definition formatStatusCommandOutput :: "(string \<Rightarrow> string option) \<Rightarrow> SessionStatusResponse \<Rightarrow> string" where
  "formatStatusCommandOutput local_date status =
     (let ends = formatStatusExpiry local_date (ss_ExpiresAt status)
      in newline1 @ ansiCyan @ ansiBold @ ''Status'' @ ansiReset @ newline1 @ newline1
         @ formatStatusRow ''Plan'' (displayPlanName (ss_ProductID status)) @ newline1
         @ formatStatusRow ''Sessions'' (Itoa (ss_ActiveSessions status) @ '' / '' @ Itoa (ss_MaxSessions status))
         @ (if ends \<noteq> [] then newline1 @ formatStatusRow ''Ends'' ends else [])
         @ newline1 @ newline1)"

text \<open>A heading, two lines of text, and blank lines around them.\<close>

definition message :: "string \<Rightarrow> string \<Rightarrow> string \<Rightarrow> string \<Rightarrow> string" where
  "message colour title first second =
     newline1 @ colour @ ansiBold @ title @ ansiReset @ newline1 @ newline1
     @ hudBaseFG @ first @ ansiReset @ newline1 @ hudBaseFG @ second @ ansiReset @ newline1 @ newline1"

definition formatCleanupRequestedMessage :: "int \<Rightarrow> string" where
  "formatCleanupRequestedMessage activeSessions = message hudConnectingFG ''Cleanup Requested''
     (''Cleanup requested for '' @ Itoa activeSessions @ '' active session(s).'')
     ''Active sessions usually shut down within about 30 seconds.''"

definition formatCleanupCompleteMessage :: string where
  "formatCleanupCompleteMessage = message ansiGreen ''Cleanup Complete''
     ''No active sessions to clean up.'' ''Everything is already clear.''"

definition formatLoginSuccessMessage :: string where
  "formatLoginSuccessMessage = message ansiGreen (''Login Complete '' @ [CHR 0xE2, CHR 0x9C, CHR 0xA8])
     (''You'' @ [CHR 0x27] @ ''re ready to use '' @ cliCommandName @ ''.'')
     (''Run `'' @ cliCommandName @ ''` to start a new terminal session.'')"

section \<open>Commands\<close>

definition runStatusCommand ::
  "environment \<Rightarrow> cli_build \<Rightarrow> (string list \<Rightarrow> parsed_flags) \<Rightarrow> (string \<Rightarrow> string option) \<Rightarrow> string list
   \<Rightarrow> (go_error + string) io"
where
  "runStatusCommand env build parse local_date args = (case command_config ''status'' build (parse args) of
     Inl e \<Rightarrow> State_Monad.return (Inl e)
   | Inr cfg \<Rightarrow> do {
       resolved \<leftarrow> resolveControlPlaneAuth env cfg;
       case resolved of
         Inl e \<Rightarrow> State_Monad.return (Inl (Wrapped ''status authorization failed: '' e []))
       | Inr (initialAuth, profilePath) \<Rightarrow> do {
           answer \<leftarrow> requestSessionStatusWithAuthSession env cfg initialAuth profilePath;
           case answer of
             Inl e \<Rightarrow> State_Monad.return (Inl (Wrapped ''status request failed: '' e []))
           | Inr (status, finalAuth) \<Rightarrow> do {
               _ \<leftarrow> (if profilePath \<noteq> [] \<and> (cs_AccessToken finalAuth \<noteq> cs_AccessToken initialAuth
                        \<or> cs_RefreshToken finalAuth \<noteq> cs_RefreshToken initialAuth)
                     then save_tokens env profilePath (cc_ControlPlaneURL cfg) finalAuth else State_Monad.return None);
               State_Monad.return (Inr (formatStatusCommandOutput local_date status)) } } })"

definition runCleanupCommand ::
  "environment \<Rightarrow> cli_build \<Rightarrow> (string list \<Rightarrow> parsed_flags) \<Rightarrow> string list \<Rightarrow> (go_error + string) io"
where
  "runCleanupCommand env build parse args = (case command_config ''cleanup'' build (parse args) of
     Inl e \<Rightarrow> State_Monad.return (Inl e)
   | Inr cfg \<Rightarrow> do {
       resolved \<leftarrow> resolveControlPlaneAuth env cfg;
       case resolved of
         Inl e \<Rightarrow> State_Monad.return (Inl (Wrapped ''cleanup authorization failed: '' e []))
       | Inr (initialAuth, profilePath) \<Rightarrow> do {
           answer \<leftarrow> requestTerminateAllAgentsWithAuthSession env cfg initialAuth profilePath;
           case answer of
             Inl e \<Rightarrow> State_Monad.return (Inl (Wrapped ''cleanup request failed: '' e []))
           | Inr (result, finalAuth) \<Rightarrow> do {
               _ \<leftarrow> (if profilePath \<noteq> [] \<and> \<not> sameControlPlaneAuthSession finalAuth initialAuth
                     then save_tokens env profilePath (cc_ControlPlaneURL cfg) finalAuth else State_Monad.return None);
               State_Monad.return (Inr (if tr_TerminatedSessions result = 0 then formatCleanupCompleteMessage
                 else formatCleanupRequestedMessage (tr_TerminatedSessions result))) } } })"

text \<open>The login key may stand before the flags.\<close>

definition reorder_login_args :: "string list \<Rightarrow> string list" where
  "reorder_login_args args =
     (if 1 < length args \<and> \<not> HasPrefix (TrimSpace (hd args)) ''-'' then tl args @ [hd args] else args)"

definition runLoginCommand ::
  "environment \<Rightarrow> cli_build \<Rightarrow> (string list \<Rightarrow> parsed_flags) \<Rightarrow> string list \<Rightarrow> (go_error + string) io"
where
  "runLoginCommand env build parse args = (case parse (reorder_login_args args) of
     FlagError e \<Rightarrow> State_Monad.return (Inl (Plain e))
   | Flags authProfilePath _ rest \<Rightarrow>
       if length rest \<noteq> 1 then
         State_Monad.return (Inl (Plain (''usage: '' @ cliCommandName @ '' login [flags] <one-time-login-key>'')))
       else case control_url build of
         Inl e \<Rightarrow> State_Monad.return (Inl e)
       | Inr url \<Rightarrow> do {
           login \<leftarrow> deviceLoginWithKey env url (hd rest);
           case login of
             Inl e \<Rightarrow> State_Monad.return (Inl (Wrapped ''device login failed: '' e []))
           | Inr authSession \<Rightarrow> do {
               failure \<leftarrow> save_tokens env authProfilePath url authSession;
               State_Monad.return (case failure of
                 Some e \<Rightarrow> Inl (Wrapped ''save auth profile failed: '' e [])
               | None \<Rightarrow> Inr formatLoginSuccessMessage) } })"

datatype remove_outcome = Removed | NotExist | RemoveFailed string

definition runLogoutCommand ::
  "(string list \<Rightarrow> parsed_flags) \<Rightarrow> (string \<Rightarrow> remove_outcome) \<Rightarrow> string list \<Rightarrow> go_error + string"
where
  "runLogoutCommand parse remove args = (case parse args of
     FlagError e \<Rightarrow> Inl (Plain e)
   | Flags authProfilePath _ _ \<Rightarrow> (case remove authProfilePath of
       Removed \<Rightarrow> Inr (''logout succeeded ('' @ authProfilePath @ '')'' @ newline1)
     | NotExist \<Rightarrow> Inr (''already logged out ('' @ authProfilePath @ '')'' @ newline1)
     | RemoveFailed e \<Rightarrow> Inl (Wrapped ''failed to remove auth profile: '' (Plain e) [])))"

datatype subcommand = LoginCommand | VersionCommand | UpdateCommand | LogoutCommand | StatusCommand | CleanupCommand

definition dispatchSubcommand :: "string list \<Rightarrow> (subcommand \<times> string list) option" where
  "dispatchSubcommand args =
     (if length args \<le> 1 then None
      else let name = TrimSpace (args ! 1); rest = drop 2 args
           in if name = ''login'' then Some (LoginCommand, rest)
              else if name = ''version'' then Some (VersionCommand, rest)
              else if name = ''update'' then Some (UpdateCommand, rest)
              else if name = ''logout'' then Some (LogoutCommand, rest)
              else if name = ''status'' then Some (StatusCommand, rest)
              else if name = ''cleanup'' then Some (CleanupCommand, rest)
              else None)"

section \<open>Updates\<close>

definition autoUpdateAppliedEnv :: string where "autoUpdateAppliedEnv = ''SHELLIN_AUTO_UPDATE_APPLIED''"

text \<open>What a build and the surroundings say about updates.\<close>

record update_build =
  ub_CLIVersion :: string
  ub_DownloadBaseURL :: string
  ub_PublicKey :: string
  ub_getenv :: "string \<Rightarrow> string"

definition selfUpdateOptions :: "update_build \<Rightarrow> string \<Rightarrow> bool \<Rightarrow> update_options" where
  "selfUpdateOptions build currentVersion allowUnknownCurrent =
     \<lparr>uo_AllowUnknownCurrent = allowUnknownCurrent, uo_AppliedEnvName = autoUpdateAppliedEnv,
      uo_CommandName = cliCommandName, uo_ExecutablePath = [],
      uo_ManifestPublicKey = releaseManifestPublicKey (ub_PublicKey build) [], uo_Reexec = False, uo_Args = [],
      uo_BaseURL = updateBaseURL (ub_getenv build) (ub_DownloadBaseURL build) [], uo_CurrentVersion = currentVersion\<rparr>"

text \<open>How the question was answered: with keys in raw mode, or with lines.\<close>

datatype answers = Keys "nat \<Rightarrow> input" "nat \<Rightarrow> nat \<Rightarrow> string option" | Lines "string list" "string + string"

definition ask_user :: "answers \<Rightarrow> (string + bool) option" where
  "ask_user a = (case a of
     Keys keys draw \<Rightarrow> promptForAvailableUpdate keys draw
   | Lines lines ending \<Rightarrow> Some (promptForAvailableUpdateFallback lines ending))"

datatype update_outcome =
  NotChecked | CheckFailed update_error | UpToDate | PromptFailed string | Declined | NoAnswer | Performed outcome

text \<open>
  The host is \<open>h\<close> while the check runs and \<open>h'\<close> when the update is performed. \<open>interactive\<close> says that
  both standard input and output are terminals.
\<close>

definition maybePromptForCLIUpdate ::
  "update_build \<Rightarrow> bool \<Rightarrow> answers \<Rightarrow> host \<Rightarrow> host \<Rightarrow> files \<Rightarrow> files \<times> update_outcome"
where
  "maybePromptForCLIUpdate build interactive answers h h' fs =
     (let currentVersion = currentCLIVersion (ub_CLIVersion build)
      in if isUpdateCheckDisabled (ub_getenv build)
            \<or> parseBoolDefault (ub_getenv build autoUpdateAppliedEnv) False
            \<or> \<not> interactive \<or> ValidateVersion currentVersion \<noteq> None
         then (fs, NotChecked)
         else case Check h (selfUpdateOptions build currentVersion False) of
           (_, Some e) \<Rightarrow> (fs, CheckFailed e)
         | (checkResult, None) \<Rightarrow>
             if \<not> ur_UpdateAvailable checkResult then (fs, UpToDate)
             else case ask_user answers of
               None \<Rightarrow> (fs, NoAnswer)
             | Some (Inl e) \<Rightarrow> (fs, PromptFailed e)
             | Some (Inr updateNow) \<Rightarrow>
                 if \<not> updateNow then (fs, Declined)
                 else case Perform h' ((selfUpdateOptions build currentVersion False)
                     \<lparr>uo_Args := ho_Args h', uo_Reexec := True\<rparr>) fs of
                   (fs', out) \<Rightarrow> (fs', Performed out))"

definition runUpdateCommand ::
  "update_build \<Rightarrow> (string list \<Rightarrow> parsed_flags) \<Rightarrow> string list \<Rightarrow> host \<Rightarrow> files \<Rightarrow> files \<times> (string + outcome \<times> string)"
where
  "runUpdateCommand build parse args h fs = (case parse args of
     FlagError e \<Rightarrow> (fs, Inl e)
   | Flags _ _ rest \<Rightarrow>
       if rest \<noteq> [] then (fs, Inl (''usage: '' @ cliCommandName @ '' update''))
       else case Perform h (selfUpdateOptions build (currentCLIVersion (ub_CLIVersion build)) True) fs of
         (fs', out) \<Rightarrow> (fs', Inr (out, case out of
             Returned result None \<Rightarrow>
               if ur_Updated result then cliCommandName @ '' updated from '' @ ur_CurrentVersion result
                 @ '' to '' @ ur_LatestVersion result @ newline1
               else if ur_LatestVersion result \<noteq> [] then cliCommandName @ '' is already up to date (''
                 @ ur_LatestVersion result @ '')'' @ newline1
               else cliCommandName @ '' is already up to date ('' @ ur_CurrentVersion result @ '')'' @ newline1
           | _ \<Rightarrow> [])))"

end
