(* ===== verification/Client_Screen.thy ===== *)
theory Client_Screen
  imports Client_Commands Client_Hud
begin

text \<open>
  What the client shows while it starts: the stages of the start-up screen and their displays
  (\<^verbatim>\<open>cmd/shellin/startup_screen.go\<close>, \<^verbatim>\<open>startup_display.go\<close>, \<^verbatim>\<open>startup_step_format.go\<close>,
  \<^verbatim>\<open>fatal_errors.go\<close>), and the presenter that hands the state of the connection to the screen or to
  the status line (\<^verbatim>\<open>terminal_ui.go\<close>).

  A screen records what it has written to the terminal. The goroutine of its animation is the step
  \<open>screen_tick\<close>.
\<close>

section \<open>Displays\<close>

datatype startupStage =
  StageAuthorizing | StageCheckingLimits | StageCreatingSession | StageWaitingClient | StageNegotiating | StageStartingShell

record startupStepState =
  st_label :: string
  st_status :: string

record startupDisplayState =
  dp_title :: string
  dp_titleFG :: string
  dp_subtitle :: string
  dp_steps :: "startupStepState list"
  dp_animate :: bool

definition relay_steps :: "string \<Rightarrow> string \<Rightarrow> string \<Rightarrow> startupStepState list" where
  "relay_steps authenticate check create =
     [\<lparr>st_label = ''Authenticate'', st_status = authenticate\<rparr>, \<lparr>st_label = ''Check session limit'', st_status = check\<rparr>,
      \<lparr>st_label = ''Create relay session'', st_status = create\<rparr>]"

definition startupStatusDisplay :: "startupStage \<Rightarrow> startupDisplayState" where
  "startupStatusDisplay stage =
     (let shown = (\<lambda>subtitle steps animate. \<lparr>dp_title = ''Connecting...'', dp_titleFG = [], dp_subtitle = subtitle,
            dp_steps = steps, dp_animate = animate\<rparr>)
      in case stage of
           StageAuthorizing \<Rightarrow> shown ''Authenticating session'' (relay_steps ''active'' ''pending'' ''pending'') True
         | StageCheckingLimits \<Rightarrow> shown ''Checking session availability'' (relay_steps ''done'' ''active'' ''pending'') True
         | StageCreatingSession \<Rightarrow> shown ''Preparing relay session'' (relay_steps ''done'' ''done'' ''active'') True
         | StageNegotiating \<Rightarrow>
             shown ''Client found. Establishing secure terminal'' (relay_steps ''done'' ''done'' ''done'') False
         | StageStartingShell \<Rightarrow> shown ''Connected. Starting terminal'' (relay_steps ''done'' ''done'' ''done'') False
         | StageWaitingClient \<Rightarrow> shown ''Waiting for client to join'' (relay_steps ''done'' ''done'' ''done'') False)"

definition hudErrorFG :: string where "hudErrorFG = escape_seq ''38;2;239;118;118''"
definition hudReadyFG :: string where "hudReadyFG = escape_seq ''38;2;176;173;166''"

text \<open>The display of an error, with its colours as escape sequences.\<close>

definition error_display :: "startupDisplay \<Rightarrow> startupDisplayState" where
  "error_display d = \<lparr>dp_title = sd_title d,
     dp_titleFG = (case sd_titleFG d of HudConnecting \<Rightarrow> hudConnectingFG | HudError \<Rightarrow> hudErrorFG),
     dp_subtitle = sd_subtitle d, dp_steps = map (\<lambda>l. \<lparr>st_label = l, st_status = []\<rparr>) (sd_steps d), dp_animate = False\<rparr>"

section \<open>Steps\<close>

definition plainStartupCommand :: "string \<Rightarrow> (string \<times> string) option" where
  "plainStartupCommand raw =
     (let label = TrimSpace raw
      in if \<not> HasPrefix label ''Run '' then None
         else let command = TrimSpace (TrimPrefix label ''Run '')
              in if command = [] then None
                 else case Index command '' again'' of
                   Some idx \<Rightarrow>
                     (let baseCommand = TrimSpace (take idx command);
                          trailing = TrimSpace (drop (idx + length '' again'') command)
                      in if baseCommand = [] then None
                         else Some (baseCommand, if trailing \<noteq> [] then ''again '' @ trailing else ''again''))
                 | None \<Rightarrow> Some (command, []))"

definition formatPlainStartupStep :: "nat \<Rightarrow> string \<Rightarrow> string" where
  "formatPlainStartupStep index raw =
     (let label = TrimSpace raw;
          prefix = ansiGray @ Itoa (int index) @ ''.'' @ ansiReset @ '' ''
      in case plainStartupCommand label of
           Some (command, suffix) \<Rightarrow>
             prefix @ ansiGray @ ''Run '' @ ansiReset @ ansiBold @ hudReadyFG @ ''`'' @ command @ ''`'' @ ansiReset
             @ (if suffix \<noteq> [] then '' '' @ ansiGray @ suffix @ ansiReset else [])
         | None \<Rightarrow> prefix @ ansiGray @ label @ ansiReset)"

definition formatStartupStep :: "nat \<Rightarrow> nat \<Rightarrow> startupStepState \<Rightarrow> bool \<Rightarrow> nat \<Rightarrow> string" where
  "formatStartupStep index n_steps step animate animFrame =
     (if TrimSpace (st_status step) = [] then formatPlainStartupStep index (st_label step)
      else
        let statusLabel =
              (if st_status step = ''done'' then ''['' @ [CHR 0xE2, CHR 0x9C, CHR 0x93] @ '']''
               else if st_status step = ''active'' then
                 (if animate then ''['' @ Repeat ''.'' (1 + animFrame mod 4) @ '']'' else ''[...]'')
               else if st_status step = ''pending'' then ''[ ]'' else ''[...]'');
            color = (if st_status step = ''done'' then ansiGreen
               else if st_status step = ''active'' then hudConnectingFG else ansiGray)
        in color @ Itoa (int index) @ ''/'' @ Itoa (int n_steps) @ '' '' @ statusLabel @ '' '' @ st_label step @ ansiReset)"

section \<open>The screen\<close>

record startupScreen =
  su_enabled :: bool
  su_stage :: startupStage
  su_override :: "startupDisplayState option"
  su_animFrame :: nat
  su_stopped :: bool
  su_written :: "string list"

definition newStartupScreen :: "bool \<Rightarrow> startupScreen" where
  "newStartupScreen enabled = \<lparr>su_enabled = enabled, su_stage = StageAuthorizing, su_override = None,
     su_animFrame = 0, su_stopped = False, su_written = []\<rparr>"

definition clear_screen :: string where
  "clear_screen = ESC # ''[2J'' @ ESC # ''[H''"

text \<open>What \<^verbatim>\<open>renderLocked\<close> writes.\<close>

definition screen_text :: "startupScreen \<Rightarrow> string" where
  "screen_text s =
     (let display = (case su_override s of None \<Rightarrow> startupStatusDisplay (su_stage s) | Some d \<Rightarrow> d);
          lines = [ansiBold @ dp_titleFG display @ dp_title display @ ansiReset, []]
            @ (if dp_subtitle display \<noteq> [] then [dp_subtitle display, []] else [])
            @ map (\<lambda>(index, step). formatStartupStep index (length (dp_steps display)) step (dp_animate display) (su_animFrame s))
                (enumerate 1 (dp_steps display))
      in clear_screen @ Join lines newline1)"

definition screen_render :: "startupScreen \<Rightarrow> startupScreen" where
  "screen_render s = (if \<not> su_enabled s then s else s\<lparr>su_written := su_written s @ [screen_text s]\<rparr>)"

definition screen_Start :: "startupScreen \<Rightarrow> startupScreen" where
  "screen_Start s = screen_render s"

definition screen_Stop :: "startupScreen \<Rightarrow> startupScreen" where
  "screen_Stop s = (if \<not> su_enabled s \<or> su_stopped s then s
     else s\<lparr>su_stopped := True, su_written := su_written s @ [clear_screen]\<rparr>)"

definition screen_SetStage :: "startupStage \<Rightarrow> startupScreen \<Rightarrow> startupScreen" where
  "screen_SetStage stage s = (if \<not> su_enabled s \<or> su_stopped s then s
     else screen_render (s\<lparr>su_override := None, su_stage := stage, su_animFrame := 0\<rparr>))"

definition screen_SetSignalState :: "string \<Rightarrow> startupScreen \<Rightarrow> startupScreen" where
  "screen_SetSignalState raw s = (if \<not> su_enabled s \<or> su_stopped s \<or> su_override s \<noteq> None then s
     else let state = ToLower (TrimSpace raw)
          in screen_render (if state = ''viewer_connected'' then s\<lparr>su_stage := StageNegotiating\<rparr>
               else if state = ''connecting'' then s\<lparr>su_stage := StageCreatingSession\<rparr> else s))"

definition screen_SetP2PState :: "string \<Rightarrow> startupScreen \<Rightarrow> startupScreen" where
  "screen_SetP2PState raw s = (if \<not> su_enabled s \<or> su_stopped s \<or> su_override s \<noteq> None then s
     else let state = ToLower (TrimSpace raw)
          in screen_render (if state \<in> set [''negotiating'', ''checking'', ''connecting''] then s\<lparr>su_stage := StageNegotiating\<rparr>
               else if state = ''connected'' then s\<lparr>su_stage := StageStartingShell\<rparr>
               else if state = ''waiting'' then s\<lparr>su_stage := StageWaitingClient\<rparr> else s))"

text \<open>A tick of the animation; \<^verbatim>\<open>Stop\<close> ends the goroutine before the screen is stopped.\<close>

definition screen_tick :: "startupScreen \<Rightarrow> startupScreen" where
  "screen_tick s = (if \<not> su_enabled s \<or> su_stopped s \<or> \<not> dp_animate (startupStatusDisplay (su_stage s)) then s
     else screen_render (s\<lparr>su_animFrame := (su_animFrame s + 1) mod 4\<rparr>))"

definition screen_ShowDisplay :: "startupDisplayState \<Rightarrow> startupScreen \<Rightarrow> startupScreen" where
  "screen_ShowDisplay display s = (if \<not> su_enabled s \<or> su_stopped s then s
     else screen_render (s\<lparr>su_override := Some display, su_animFrame := 0\<rparr>))"

text \<open>\<^verbatim>\<open>fatalStartupError\<close>: the error on the screen, or else the text that is logged.\<close>

definition fatalStartupError :: "string \<Rightarrow> go_error option \<Rightarrow> startupScreen \<Rightarrow> startupScreen \<times> string option" where
  "fatalStartupError prefix err s = (case startupDisplayForError err of
     Some d \<Rightarrow> if su_enabled s
       then let s' = screen_ShowDisplay (error_display d) s
            in (s'\<lparr>su_written := su_written s' @ [newline1 @ newline1]\<rparr>, None)
       else (s, Some (prefix @ '': '' @ (case err of None \<Rightarrow> [] | Some e \<Rightarrow> Error e)))
   | None \<Rightarrow> (s, Some (prefix @ '': '' @ (case err of None \<Rightarrow> ''<nil>'' | Some e \<Rightarrow> Error e))))"

section \<open>The presenter\<close>

datatype status_sink = NoSink | ScreenSink startupScreen | HudSink bottomHUD

record statusPresenter =
  sp_sink :: status_sink
  sp_signalState :: string
  sp_p2pState :: string

definition newStatusPresenter :: "status_sink \<Rightarrow> statusPresenter" where
  "newStatusPresenter sink = \<lparr>sp_sink = sink, sp_signalState = ''connecting'', sp_p2pState = ''waiting''\<rparr>"

fun sink_SetSignalState :: "string \<Rightarrow> status_sink \<Rightarrow> status_sink" where
  "sink_SetSignalState state NoSink = NoSink"
| "sink_SetSignalState state (ScreenSink s) = ScreenSink (screen_SetSignalState state s)"
| "sink_SetSignalState state (HudSink h) = HudSink (hud_SetSignalState state h)"

fun sink_SetP2PState :: "string \<Rightarrow> status_sink \<Rightarrow> status_sink" where
  "sink_SetP2PState state NoSink = NoSink"
| "sink_SetP2PState state (ScreenSink s) = ScreenSink (screen_SetP2PState state s)"
| "sink_SetP2PState state (HudSink h) = HudSink (hud_SetP2PState state h)"

definition presenter_SetSink :: "status_sink \<Rightarrow> statusPresenter \<Rightarrow> statusPresenter" where
  "presenter_SetSink sink p =
     p\<lparr>sp_sink := sink_SetP2PState (sp_p2pState p) (sink_SetSignalState (sp_signalState p) sink)\<rparr>"

definition presenter_SetSignalState :: "string \<Rightarrow> statusPresenter \<Rightarrow> statusPresenter" where
  "presenter_SetSignalState state p = p\<lparr>sp_signalState := state, sp_sink := sink_SetSignalState state (sp_sink p)\<rparr>"

definition presenter_SetP2PState :: "string \<Rightarrow> statusPresenter \<Rightarrow> statusPresenter" where
  "presenter_SetP2PState state p = p\<lparr>sp_p2pState := state, sp_sink := sink_SetP2PState state (sp_sink p)\<rparr>"

section \<open>Properties\<close>

text \<open>What can happen to a screen by itself, and what can happen to the presenter.\<close>

datatype screen_event = ScreenSignal string | ScreenP2P string | ScreenTick

fun screen_step :: "screen_event \<Rightarrow> startupScreen \<Rightarrow> startupScreen" where
  "screen_step (ScreenSignal state) s = screen_SetSignalState state s"
| "screen_step (ScreenP2P state) s = screen_SetP2PState state s"
| "screen_step ScreenTick s = screen_tick s"

datatype presenter_event = SetSignal string | SetP2P string | HudTick

fun presenter_step :: "presenter_event \<Rightarrow> statusPresenter \<Rightarrow> statusPresenter" where
  "presenter_step (SetSignal state) p = presenter_SetSignalState state p"
| "presenter_step (SetP2P state) p = presenter_SetP2PState state p"
| "presenter_step HudTick p = (case sp_sink p of HudSink h \<Rightarrow> p\<lparr>sp_sink := HudSink (hud_tick h)\<rparr> | _ \<Rightarrow> p)"

text \<open>A display without animated steps reads the same in every frame.\<close>

lemma formatStartupStep_frame: "formatStartupStep index n_steps step False n = formatStartupStep index n_steps step False m"
  by (simp add: formatStartupStep_def)

lemma screen_text_frame:
  assumes "su_override s = Some d" and "\<not> dp_animate d"
  shows "screen_text (s\<lparr>su_animFrame := n\<rparr>) = screen_text s"
proof -
  have "(\<lambda>(index, step). formatStartupStep index k step (dp_animate d) n)
      = (\<lambda>(index, step). formatStartupStep index k step (dp_animate d) (su_animFrame s))" for k
    using assms(2) formatStartupStep_frame by (auto simp: fun_eq_iff)
  then show ?thesis using assms(1) by (simp add: screen_text_def Let_def)
qed

lemma screen_step_keeps:
  assumes "su_override s = Some d" and "\<not> dp_animate d"
  shows "su_override (screen_step ev s) = Some d \<and> screen_text (screen_step ev s) = screen_text s
    \<and> (\<exists>k. su_written (screen_step ev s) = su_written s @ replicate k (screen_text s))"
proof (cases ev)
  case ScreenTick
  have "screen_text (s\<lparr>su_animFrame := n\<rparr>) = screen_text s" for n
    using assms by (rule screen_text_frame)
  moreover have "screen_text (s\<lparr>su_written := w\<rparr>) = screen_text s" for s w
    by (cases "su_override s") (simp_all add: screen_text_def)
  ultimately show ?thesis
    using assms(1) by (auto simp: ScreenTick screen_tick_def screen_render_def intro: exI [of _ 0] exI [of _ "Suc 0"])
qed (use assms(1) in \<open>auto simp: screen_SetSignalState_def screen_SetP2PState_def intro: exI [of _ 0]\<close>)

text \<open>
  Once the start-up screen shows an error, whatever the connection reports and however often the
  animation ticks, the terminal only ever gets the same text again.
\<close>
theorem error_stays_on_screen:
  assumes "startupDisplayForError err = Some d" and "su_enabled s" and "\<not> su_stopped s"
    and "s0 = screen_ShowDisplay (error_display d) s"
  shows "\<exists>k. su_written (fold screen_step evs s0) = su_written s0 @ replicate k (screen_text s0)
    \<and> last (su_written (fold screen_step evs s0)) = screen_text s0"
proof -
  have s0: "su_override s0 = Some (error_display d)" "\<not> dp_animate (error_display d)"
      "su_written s0 \<noteq> []" "last (su_written s0) = screen_text s0"
    using assms(2-4)
    by (simp_all add: screen_ShowDisplay_def screen_render_def error_display_def screen_text_def Let_def)
  have "\<exists>k. su_written (fold screen_step evs t) = su_written t @ replicate k (screen_text t)"
    if "su_override t = Some (error_display d)" for t
    using that
  proof (induction evs arbitrary: t)
    case (Cons ev evs)
    note step = screen_step_keeps [OF Cons.prems s0(2), of ev]
    then obtain k where "su_written (screen_step ev t) = su_written t @ replicate k (screen_text t)" by blast
    moreover obtain k' where "su_written (fold screen_step evs (screen_step ev t))
        = su_written (screen_step ev t) @ replicate k' (screen_text (screen_step ev t))"
      using Cons.IH step by blast
    ultimately have "su_written (fold screen_step (ev # evs) t) = su_written t @ replicate (k + k') (screen_text t)"
      using step by (simp add: replicate_add)
    then show ?case by blast
  qed (simp add: exI [of _ 0])
  then obtain k where "su_written (fold screen_step evs s0) = su_written s0 @ replicate k (screen_text s0)"
    using s0(1) by blast
  moreover from this have "last (su_written (fold screen_step evs s0)) = screen_text s0"
    using s0(3,4) by (cases "k = 0") (simp_all add: last_append)
  ultimately show ?thesis by blast
qed

theorem error_stays_on_screen_witness:
  "\<exists>d. startupDisplayForError (Some (SessionTerminated (Plain ''gone''))) = Some d
     \<and> (let s0 = screen_ShowDisplay (error_display d) (newStartupScreen True)
        in last (su_written (fold screen_step [ScreenSignal ''failed'', ScreenTick] s0)) = screen_text s0)"
proof -
  obtain d where d: "startupDisplayForError (Some (SessionTerminated (Plain ''gone''))) = Some d"
    by (simp add: startupDisplayForError_def)
  have "su_enabled (newStartupScreen True)" "\<not> su_stopped (newStartupScreen True)"
    by (simp_all add: newStartupScreen_def)
  from error_stays_on_screen [OF d this refl, of "[ScreenSignal ''failed'', ScreenTick]"] d show ?thesis
    by (auto simp: Let_def)
qed

text \<open>The status line shows the states the presenter was told last.\<close>

lemma hud_in_step:
  assumes "bh_enabled h"
  shows "\<exists>h'. sp_sink (fold presenter_step evs (presenter_SetSink (HudSink h) p)) = HudSink h' \<and> bh_enabled h'
    \<and> bh_signalState h' = sp_signalState (fold presenter_step evs (presenter_SetSink (HudSink h) p))
    \<and> bh_p2pState h' = sp_p2pState (fold presenter_step evs (presenter_SetSink (HudSink h) p))"
proof -
  define ok where "ok q \<longleftrightarrow> (\<exists>h'. sp_sink q = HudSink h' \<and> bh_enabled h' \<and> bh_signalState h' = sp_signalState q
      \<and> bh_p2pState h' = sp_p2pState q)"
    for q :: statusPresenter
  have step: "ok q \<Longrightarrow> ok (presenter_step ev q)" for ev q
    by (cases ev) (auto simp: ok_def presenter_SetSignalState_def presenter_SetP2PState_def hud_SetSignalState_def
        hud_SetP2PState_def hud_tick_def still_def)
  have "ok (presenter_SetSink (HudSink h) p)"
    using assms by (simp add: ok_def presenter_SetSink_def hud_SetSignalState_def hud_SetP2PState_def still_def)
  then have "ok (fold presenter_step evs (presenter_SetSink (HudSink h) p))"
    by (induction evs arbitrary: p h rule: rev_induct) (simp_all add: step)
  then show ?thesis by (simp add: ok_def)
qed

end
