(* ===== verification/Client_Hud_Drawing.thy ===== *)
theory Client_Hud_Drawing
  imports Client_Screen
begin

text \<open>
  What the status line writes to the terminal (\<^verbatim>\<open>cmd/shellin/bottom_hud.go\<close>): the escape sequences of
  each drawing, and the life of the line from \<^verbatim>\<open>Start\<close> to \<^verbatim>\<open>Stop\<close>. The size of the terminal, columns
  and rows, is read anew for each drawing; \<open>None\<close> when it cannot be read. A call to \<^verbatim>\<open>WriteString\<close>
  is one element of \<open>dh_written\<close>, since the output is locked for each. The goroutine of the animation
  is the event \<open>HudTicked\<close>.
\<close>

section \<open>Drawing\<close>

definition hudBaseBG :: string where "hudBaseBG = escape_seq ''48;2;53;53;51''"
definition hudLabelBG :: string where "hudLabelBG = escape_seq ''48;2;78;77;72''"
definition hudLabelFG :: string where "hudLabelFG = escape_seq ''38;2;244;241;234''"
definition hudSessionBG :: string where "hudSessionBG = escape_seq ''48;2;96;94;88''"
definition hudSessionFG :: string where "hudSessionFG = escape_seq ''38;2;250;247;240''"
definition hudConnectedFG :: string where "hudConnectedFG = escape_seq ''38;2;121;214;145''"

fun colour_text :: "hud_colour \<Rightarrow> string" where
  "colour_text HudReady = hudReadyFG"
| "colour_text HudConnected = hudConnectedFG"
| "colour_text HudConnectingColour = hudConnectingFG"
| "colour_text HudErrorColour = hudErrorFG"

text \<open>The sequences: the cursor saved and restored, placed, and the lines that scroll.\<close>

definition save_cursor :: string where "save_cursor = [ESC, CHR ''7'']"
definition restore_cursor :: string where "restore_cursor = [ESC, CHR ''8'']"

definition cursor_to :: "int \<Rightarrow> int \<Rightarrow> string" where
  "cursor_to row col = ESC # ''['' @ Itoa row @ '';'' @ Itoa col @ ''H''"

definition scroll_to :: "int \<Rightarrow> string" where
  "scroll_to row = ESC # ''[1;'' @ Itoa row @ ''r''"

definition clear_line :: string where "clear_line = ESC # ''[2K''"

definition hud_drawing :: "int \<Rightarrow> hud_colour \<Rightarrow> hudLineLayout \<Rightarrow> string" where
  "hud_drawing rows colour layout =
     save_cursor @ scroll_to (rows - 1) @ cursor_to rows 1 @ clear_line @ hudBaseBG @ hudBaseFG @ hl_line layout
     @ (if hl_leftBadge layout \<noteq> [] then cursor_to rows 1 @ hudLabelBG @ hudLabelFG @ hl_leftBadge layout else [])
     @ (if hl_statusText layout \<noteq> [] then
          cursor_to rows (hl_statusStart layout + 1) @ hudBaseBG @ colour_text colour @ hl_statusText layout else [])
     @ (if hl_rightBadge layout \<noteq> [] then
          cursor_to rows (hl_rightStart layout + 1) @ hudSessionBG @ hudSessionFG @ hl_rightBadge layout else [])
     @ ansiReset @ restore_cursor"

definition hud_renderLocked :: "(int \<times> int) option \<Rightarrow> bottomHUD \<Rightarrow> string list" where
  "hud_renderLocked terminal h = (case (terminal, hud_layout terminal h) of
     (Some (cols, rows), Some layout) \<Rightarrow> [hud_drawing rows (hd_color (hud_display h)) layout]
   | _ \<Rightarrow> [])"

definition hud_prepareScreenLocked :: "(int \<times> int) option \<Rightarrow> bottomHUD \<Rightarrow> string list" where
  "hud_prepareScreenLocked terminal h = (if \<not> bh_enabled h then [] else case terminal of None \<Rightarrow> []
     | Some (cols, rows) \<Rightarrow> if rows < 2 then []
         else [ESC # ''[2J'' @ ESC # ''[H'' @ scroll_to (rows - 1) @ cursor_to 1 1])"

section \<open>From start to stop\<close>

record drawn_hud =
  dh_hud :: bottomHUD
  dh_started :: bool
  dh_stopped :: bool
  dh_written :: "string list"

definition new_drawn_hud :: "bool \<Rightarrow> string \<Rightarrow> drawn_hud" where
  "new_drawn_hud enabled rightText =
     \<lparr>dh_hud = newBottomHUD enabled rightText, dh_started = False, dh_stopped = False, dh_written = []\<rparr>"

definition hud_draw :: "(int \<times> int) option \<Rightarrow> drawn_hud \<Rightarrow> drawn_hud" where
  "hud_draw terminal d = d\<lparr>dh_written := dh_written d @ hud_renderLocked terminal (dh_hud d)\<rparr>"

definition hud_Start :: "(int \<times> int) option \<Rightarrow> drawn_hud \<Rightarrow> drawn_hud" where
  "hud_Start terminal d = (if \<not> bh_enabled (dh_hud d) then d
     else hud_draw terminal (d\<lparr>dh_started := True,
       dh_written := dh_written d @ hud_prepareScreenLocked terminal (dh_hud d)\<rparr>))"

definition hud_Refresh :: "(int \<times> int) option \<Rightarrow> drawn_hud \<Rightarrow> drawn_hud" where
  "hud_Refresh terminal d = (if \<not> bh_enabled (dh_hud d) then d else hud_draw terminal d)"

text \<open>\<open>set\<close> is \<open>hud_SetSignalState\<close> or \<open>hud_SetP2PState\<close> of a state.\<close>

definition hud_report :: "(bottomHUD \<Rightarrow> bottomHUD) \<Rightarrow> (int \<times> int) option \<Rightarrow> drawn_hud \<Rightarrow> drawn_hud" where
  "hud_report setting terminal d = (if \<not> bh_enabled (dh_hud d) then d
     else hud_draw terminal (d\<lparr>dh_hud := setting (dh_hud d)\<rparr>))"

definition hud_animate :: "(int \<times> int) option \<Rightarrow> drawn_hud \<Rightarrow> drawn_hud" where
  "hud_animate terminal d =
     (if \<not> dh_started d \<or> dh_stopped d \<or> \<not> hd_animate (hud_display (dh_hud d)) then d
      else hud_draw terminal (d\<lparr>dh_hud := hud_tick (dh_hud d)\<rparr>))"

text \<open>\<^verbatim>\<open>Stop\<close> waits for the animation to end; \<open>None\<close> when that has never begun, so that it waits for ever.\<close>

definition hud_Stop :: "(int \<times> int) option \<Rightarrow> drawn_hud \<Rightarrow> drawn_hud option" where
  "hud_Stop terminal d =
     (if \<not> bh_enabled (dh_hud d) \<or> dh_stopped d then Some d
      else if \<not> dh_started d then None
      else Some (d\<lparr>dh_stopped := True, dh_written := dh_written d @ (case terminal of None \<Rightarrow> []
        | Some (cols, rows) \<Rightarrow> if rows < 1 then []
            else [save_cursor @ ESC # ''[r'' @ cursor_to rows 1 @ clear_line @ restore_cursor])\<rparr>))"

datatype hud_event = HudSignal string | HudP2P string | HudRefresh | HudTicked

fun hud_step :: "(int \<times> int) option \<Rightarrow> hud_event \<Rightarrow> drawn_hud \<Rightarrow> drawn_hud" where
  "hud_step terminal (HudSignal state) d = hud_report (hud_SetSignalState state) terminal d"
| "hud_step terminal (HudP2P state) d = hud_report (hud_SetP2PState state) terminal d"
| "hud_step terminal HudRefresh d = hud_Refresh terminal d"
| "hud_step terminal HudTicked d = hud_animate terminal d"

section \<open>Properties\<close>

text \<open>A drawing that leaves the cursor where it was.\<close>

definition keeps_cursor :: "string \<Rightarrow> bool" where
  "keeps_cursor w \<longleftrightarrow> (\<exists>inner. w = save_cursor @ inner @ restore_cursor)"

lemma hud_drawing_keeps_cursor: "keeps_cursor (hud_drawing rows colour layout)"
  unfolding keeps_cursor_def hud_drawing_def by (metis append.assoc)

lemma render_keeps_cursor: "w \<in> set (hud_renderLocked terminal h) \<Longrightarrow> keeps_cursor w"
  by (auto simp: hud_renderLocked_def hud_drawing_keeps_cursor split: option.splits prod.splits)

lemma stop_keeps_cursor: "keeps_cursor (save_cursor @ ESC # ''[r'' @ cursor_to rows 1 @ clear_line @ restore_cursor)"
  unfolding keeps_cursor_def by (metis append.assoc append_Cons)

lemma render_visible:
  assumes "bh_enabled h" and "1 \<le> cols" and "2 \<le> rows"
  shows "hud_renderLocked (Some (cols, rows)) h = [hud_drawing rows (hd_color (hud_display h))
    (formatHUDLine cols (hd_text (hud_display h)) (bh_rightText h))]"
  using assms by (simp add: hud_renderLocked_def hud_layout_def)

lemma setting_enabled [simp]:
  "bh_enabled (hud_SetSignalState state h) = bh_enabled h" "bh_enabled (hud_SetP2PState state h) = bh_enabled h"
  "bh_enabled (hud_tick h) = bh_enabled h"
  by (simp_all add: hud_SetSignalState_def hud_SetP2PState_def hud_tick_def still_def)

lemmas hud_operations = hud_draw_def hud_Start_def hud_Refresh_def hud_report_def hud_animate_def hud_Stop_def

text \<open>After the start the line writes only drawings that put the cursor back, until it is stopped and after.\<close>

lemma hud_step_writes:
  "\<exists>ws. dh_written (hud_step terminal ev d) = dh_written d @ ws \<and> (\<forall>w \<in> set ws. keeps_cursor w)"
  using render_keeps_cursor by (cases ev) (auto simp: hud_operations)

lemma hud_Stop_writes:
  "hud_Stop terminal d = Some d' \<Longrightarrow> \<exists>ws. dh_written d' = dh_written d @ ws \<and> (\<forall>w \<in> set ws. keeps_cursor w)"
  using stop_keeps_cursor by (auto simp: hud_Stop_def split: if_splits option.splits prod.splits)

text \<open>
  On a terminal of a size that does not change, what was drawn last after the start is the line for
  the present state, whatever was reported, refreshed or animated in between.
\<close>

theorem drawn_line_current:
  assumes "1 \<le> cols" and "2 \<le> rows" and "d = fold (hud_step (Some (cols, rows))) evs (hud_Start (Some (cols, rows)) d0)"
    and "bh_enabled (dh_hud d0)"
  shows "dh_written d \<noteq> [] \<and> last (dh_written d) = hud_drawing rows (hd_color (hud_display (dh_hud d)))
    (formatHUDLine cols (hd_text (hud_display (dh_hud d))) (bh_rightText (dh_hud d)))"
proof -
  let ?t = "Some (cols, rows)"
  define ok where "ok x \<longleftrightarrow> bh_enabled (dh_hud x) \<and> dh_written x \<noteq> []
      \<and> hud_renderLocked ?t (dh_hud x) = [last (dh_written x)]" for x :: drawn_hud
  have drawn: "ok (hud_draw ?t x)" if "bh_enabled (dh_hud x)" for x
    using that render_visible [OF that assms(1,2)] by (simp add: ok_def hud_draw_def)
  have "ok (hud_step ?t ev x)" if "ok x" for ev x
  proof -
    have "bh_enabled (dh_hud x)" using that by (simp add: ok_def)
    then show ?thesis using that by (cases ev) (simp_all add: drawn hud_Refresh_def hud_report_def hud_animate_def)
  qed
  moreover have "ok (hud_Start ?t d0)" using assms(4) by (simp add: hud_Start_def drawn)
  ultimately have "ok (fold (hud_step ?t) evs (hud_Start ?t d0))"
    by (induction evs rule: rev_induct) simp_all
  then show ?thesis
    using render_visible [OF _ assms(1,2), of "dh_hud d"] assms(3) by (auto simp: ok_def)
qed

text \<open>
  The line can come back after it was stopped: nothing keeps a report of the connection from drawing
  it, and the drawing takes the last row from the shell again.
\<close>

theorem late_report_reserves_row:
  assumes "1 \<le> cols" and "2 \<le> rows" and "bh_enabled (dh_hud d)"
    and "hud_Stop (Some (cols, rows)) d = Some stopped"
  shows "\<exists>rest. last (dh_written (hud_step (Some (cols, rows)) (HudSignal state) stopped))
    = save_cursor @ scroll_to (rows - 1) @ rest"
proof -
  have "dh_hud stopped = dh_hud d" using assms(4) by (auto simp: hud_Stop_def split: if_splits)
  then show ?thesis
    using assms(1-3) by (simp add: hud_report_def hud_draw_def render_visible hud_drawing_def)
qed

end
