(* ===== verification/Client_Interactive.thy ===== *)
theory Client_Interactive
  imports Client_Bridge Client_Hud_Drawing
begin

text \<open>
  An interactive session from its command line to its output: the configuration
  (\<^verbatim>\<open>cmd/shellin/interactive_config.go\<close>), the start of the agent behind the start-up screen
  (\<^verbatim>\<open>interactive_session.go\<close>), and the loop that reads the shell (\<^verbatim>\<open>terminal_pump.go\<close>). The version
  command (\<^verbatim>\<open>version_command.go\<close>) and the texts of the question for an update
  (\<^verbatim>\<open>update_prompt_render.go\<close>) are here as well.

  The start-up screen is the sink of the presenter while it is shown, so the program's variable
  \<^verbatim>\<open>startup\<close> is the screen in the presenter.
\<close>

section \<open>Configuration\<close>

record interactive_build = cli_build +
  ib_HUD :: string
  ib_AnswerTimeout :: string
  ib_UserKey :: string

text \<open>\<open>parse\<close> overwrites the defaults with what the command line says, or ends the program with a text.\<close>

definition parseInteractiveConfig ::
  "interactive_build \<Rightarrow> (string \<Rightarrow> int option) \<Rightarrow> string \<Rightarrow> string \<Rightarrow> (client_config \<Rightarrow> string + client_config)
   \<Rightarrow> string + client_config"
where
  "parseInteractiveConfig build parse_duration defaultPath defaultShell parse =
     (let url = TrimSpace (cb_ControlPlaneURL build)
      in case parse \<lparr>cc_ControlPlaneURL = url, cc_AuthProfilePath = defaultPath, cc_Shell = defaultShell,
           cc_AnswerTimeout = parseDurationDefault parse_duration (ib_AnswerTimeout build) (10 * 60 * Second),
           cc_UserKey = TrimSpace (ib_UserKey build), cc_HUD = parseBoolDefault (ib_HUD build) True\<rparr> of
         Inl usage \<Rightarrow> Inl usage
       | Inr flags \<Rightarrow>
           if url = [] then Inr (flags\<lparr>cc_ControlPlaneURL := url\<rparr>)
           else case normalizeServerURL url (parseBoolDefault (cb_AllowInsecureURL build) False) of
             Inl e \<Rightarrow> Inl (''invalid control plane URL: '' @ url_error_text (cb_parse_error build) url e)
           | Inr controlPlaneURL \<Rightarrow> Inr (flags\<lparr>cc_ControlPlaneURL := controlPlaneURL\<rparr>))"

section \<open>Starting\<close>

definition on_screen :: "(startupScreen \<Rightarrow> startupScreen) \<Rightarrow> statusPresenter \<Rightarrow> statusPresenter" where
  "on_screen f p = (case sp_sink p of ScreenSink s \<Rightarrow> p\<lparr>sp_sink := ScreenSink (f s)\<rparr> | _ \<Rightarrow> p)"

definition first_presenter :: "bool \<Rightarrow> statusPresenter" where
  "first_presenter useHUD =
     (let status = newStatusPresenter NoSink
      in if useHUD then on_screen screen_Start (on_screen (screen_SetStage StageAuthorizing)
           (presenter_SetSink (ScreenSink (newStartupScreen useHUD)) status))
         else status)"

text \<open>Either the program ends, with what the screen shows or the text that is logged, or an agent is made.\<close>

datatype session_start = StartFailed startupScreen "string option" | Started statusPresenter agent

definition start_failed :: "statusPresenter \<Rightarrow> string \<Rightarrow> go_error \<Rightarrow> session_start" where
  "start_failed status prefix err =
     (case fatalStartupError prefix (Some err)
        (case sp_sink status of ScreenSink s \<Rightarrow> s | _ \<Rightarrow> newStartupScreen False) of
        (s, logged) \<Rightarrow> StartFailed s logged)"

definition start_session :: "environment \<Rightarrow> client_config \<Rightarrow> bool \<Rightarrow> string \<Rightarrow> session_start io" where
  "start_session env cfg useHUD sessionID = (let status = first_presenter useHUD in do {
     resolved \<leftarrow> resolveControlPlaneAuth env cfg;
     case resolved of
       Inl err \<Rightarrow> State_Monad.return (start_failed status ''session authorization failed'' err)
     | Inr (initialAuth, profilePath) \<Rightarrow> do {
         answer \<leftarrow> requestSessionStatusWithAuthSession env cfg initialAuth profilePath;
         case answer of
           Inl err \<Rightarrow> State_Monad.return (start_failed status ''session authorization failed'' err)
         | Inr (preflightStatus, finalAuth) \<Rightarrow> do {
             _ \<leftarrow> persistControlPlaneAuthUpdate env profilePath (cc_ControlPlaneURL cfg) initialAuth finalAuth;
             let checked = on_screen (screen_SetStage StageCheckingLimits) status;
             State_Monad.return (case validateControlPlanePreflightStatus preflightStatus of
               Some err \<Rightarrow> start_failed checked ''session authorization failed'' err
             | None \<Rightarrow> Started
                 (presenter_SetP2PState ''waiting'' (on_screen (screen_SetStage StageCreatingSession) checked))
                 (new_agent cfg profilePath sessionID finalAuth)) } } })"

text \<open>What the live session tells the presenter, newest first.\<close>

fun present_effect :: "live_effect \<Rightarrow> statusPresenter \<Rightarrow> statusPresenter" where
  "present_effect (SignalState state) p = presenter_SetSignalState state p"
| "present_effect (P2PState state) p = presenter_SetP2PState state p"
| "present_effect _ p = p"

text \<open>
  The bridge was waited for: with an error the program ends; otherwise the screen makes room for the
  shell and the status line.
\<close>

definition session_connected ::
  "(string \<Rightarrow> string) \<Rightarrow> client_config \<Rightarrow> bool \<Rightarrow> string \<Rightarrow> go_error option \<Rightarrow> statusPresenter \<Rightarrow> session_start + statusPresenter"
where
  "session_connected sha cfg useHUD sessionID waited status = (case waited of
     Some err \<Rightarrow> Inl (start_failed status ''failed to establish WebRTC agent session'' err)
   | None \<Rightarrow>
       let status = presenter_SetSink NoSink (on_screen screen_Stop status)
       in Inr (if useHUD then presenter_SetSink (HudSink (newBottomHUD useHUD (hudRightText sha sessionID))) status
               else status))"

section \<open>The output of the shell\<close>

text \<open>
  What the loop works on: the title parser, the label of the agent, what the terminal has been given,
  the bridge, and whether the heartbeat has been told of a new label. The terminal is given the output
  of the shell and the drawings of the status line.
\<close>

datatype stdout_write = ShellBytes string | HudDrawing string

record terminal_output =
  to_titleParser :: oscTerminalTitleParser
  to_labelTracker :: agentLabelTracker
  to_stdout :: "stdout_write list"
  to_bridge :: webrtcAgentBridge
  to_update :: bool

definition set_title :: "string \<Rightarrow> terminal_output \<Rightarrow> terminal_output" where
  "set_title title t = (case agentLabelTracker_Set (to_labelTracker t) title of
     (tracker, changed) \<Rightarrow> t\<lparr>to_labelTracker := tracker, to_update := to_update t \<or> changed\<rparr>)"

text \<open>
  One chunk, of at most 4096 bytes, as the pseudo terminal gives it, with the size of the terminal and
  the state of the status line when it is refreshed.
\<close>

definition pump_chunk :: "peer \<Rightarrow> string \<times> (int \<times> int) option \<times> bottomHUD \<Rightarrow> terminal_output \<Rightarrow> terminal_output" where
  "pump_chunk p = (\<lambda>(chunk, size, hud) t.
     if chunk = [] then t
     else case oscTerminalTitleParser_Feed (to_titleParser t) chunk of (parser, titles) \<Rightarrow>
        let t = fold set_title titles (t\<lparr>to_titleParser := parser\<rparr>)
        in t\<lparr>to_stdout := to_stdout t @ ShellBytes chunk # map HudDrawing (hud_renderLocked size hud),
             to_bridge := enqueue p chunk (to_bridge t)\<rparr>)"

definition pumpPTYOutput ::
  "peer \<Rightarrow> (string \<times> (int \<times> int) option \<times> bottomHUD) list \<Rightarrow> terminal_output \<Rightarrow> terminal_output"
where
  "pumpPTYOutput p chunks t = fold (pump_chunk p) chunks (t\<lparr>to_titleParser := []\<rparr>)"

section \<open>The version command\<close>

datatype version_flags = VersionFlagError string | VersionFlags bool "string list"

definition runVersionCommand ::
  "(string \<Rightarrow> string) \<Rightarrow> build \<Rightarrow> string \<Rightarrow> (string list \<Rightarrow> version_flags) \<Rightarrow> string list \<Rightarrow> string + string"
where
  "runVersionCommand sha b cliVersion parse args = (case parse args of
     VersionFlagError e \<Rightarrow> Inl e
   | VersionFlags jsonOutput rest \<Rightarrow>
       if rest \<noteq> [] then Inl (''usage: '' @ cliCommandName @ '' version [--json]'')
       else if jsonOutput then
         let v = currentCLIVersion cliVersion
         in Inr (print_json (VersionResponse_json
              (Snapshot sha (b\<lparr>b_Version := v, b_ServiceReleaseID := v\<rparr>) cliCommandName)) @ newline1)
       else Inr (cliCommandName @ '' '' @ currentCLIVersion cliVersion @ newline1))"

section \<open>The question for an update\<close>

definition ansiBlue :: string where "ansiBlue = escape_seq ''34''"

definition updateMenuOptions :: "string list" where
  "updateMenuOptions = [''Yes, install the update now'', ''No, keep using the current version'']"

definition formatUpdateAvailableMessage :: "string \<Rightarrow> string \<Rightarrow> string" where
  "formatUpdateAvailableMessage currentVersion latestVersion =
     newline1 @ hudConnectingFG @ ansiBold @ ''Update Available'' @ ansiReset @ newline1 @ newline1
     @ formatStatusRow ''Current'' currentVersion @ newline1 @ formatStatusRow ''Latest'' latestVersion
     @ newline1 @ newline1"

definition formatUpdatePromptLine :: string where
  "formatUpdatePromptLine = hudConnectingFG @ ''Install now? [y]es / [n]o'' @ ansiReset @ '': ''"

definition formatUpdateMenuOptionLine :: "string \<Rightarrow> bool \<Rightarrow> string" where
  "formatUpdateMenuOptionLine txt selected =
     (if selected then ansiBlue @ ''> '' @ txt @ ansiReset else hudBaseFG @ ''  '' @ txt @ ansiReset)"

definition updateMenuLineCount :: nat where "updateMenuLineCount = 2"

definition menu_line :: "string \<Rightarrow> string" where
  "menu_line line = ESC # ''[2K'' @ [CHR 0x0D] @ line @ [CHR 0x0D, CHR 0x0A]"

text \<open>What is written when no write fails.\<close>

definition renderUpdateMenu :: "nat \<Rightarrow> bool \<Rightarrow> string" where
  "renderUpdateMenu selected redraw =
     (if redraw then ESC # ''['' @ Itoa (int updateMenuLineCount) @ ''F'' else [])
     @ menu_line (formatUpdateMenuOptionLine (updateMenuOptions ! 0) (selected = 0))
     @ menu_line (formatUpdateMenuOptionLine (updateMenuOptions ! 1) (selected = 1))"

definition formatUpdateRawTTYText :: "string \<Rightarrow> string" where
  "formatUpdateRawTTYText txt = concat (map (\<lambda>c. if c = CHR 0x0A then [CHR 0x0D, CHR 0x0A] else [c]) txt)"

end
