(* ===== verification/Client_Interactive_Facts.thy ===== *)
theory Client_Interactive_Facts
  imports Client_Interactive Client_Bridge_Facts Agent_Label_Facts
begin

text \<open>
  The properties of an interactive session: it starts only with the consent of the control plane,
  the status line says what the connection reported last, and the output of the shell reaches the
  terminal and the viewer unchanged and decides the label of the agent.
\<close>

section \<open>Starting\<close>

text \<open>The configuration of a build that names a control plane is one for which \<open>normalizeServerURL\<close> vouches.\<close>

lemma parseInteractiveConfig_url:
  assumes "parseInteractiveConfig build parse_duration path shell parse = Inr cfg" and "cc_ControlPlaneURL cfg \<noteq> []"
  shows "normalizeServerURL (TrimSpace (cb_ControlPlaneURL build)) (parseBoolDefault (cb_AllowInsecureURL build) False)
    = Inr (cc_ControlPlaneURL cfg)"
  using assms by (auto simp: parseInteractiveConfig_def Let_def split: sum.splits if_splits)

lemma resolve_requests:
  assumes "run_state (resolveControlPlaneAuth env cfg) h = (outcome, h')"
  shows "\<exists>q. h' = q @ h \<and> length (filter is_request q) \<le> 1"
proof -
  have exchange: "holds_after (exchangeControlPlaneAuth env cfg) (\<lambda>x h'. grew h 1 1 h') h"
    by (rule holds_after_tokens) (auto elim: grew_mono)
  have "holds_after (loadControlPlaneAuthFromProfile env url path) (\<lambda>x h'. grew h 1 1 h') h" for url path
    unfolding loadControlPlaneAuthFromProfile_def loadAuthProfile_def
    by (auto simp: holds_after_def grew_def Let_def split: sum.splits prod.splits option.splits)
  then have "holds_after (resolveControlPlaneAuth env cfg) (\<lambda>x h'. grew h 1 1 h') h"
    using exchange by (auto simp: resolveControlPlaneAuth_def holds_after_bind)
  then have "grew h 1 1 h'" using assms by (rule holds_after_run)
  then show ?thesis by (auto simp: grew_def)
qed

text \<open>
  C20: An interactive session gets an agent only after the control plane has answered, to the access
  token that the bridge and the heartbeat both go on with, that fewer sessions are active than
  allowed and that the subscription is usable; new tokens of a profile are written to it before;
  and all that takes at most six requests.
\<close>
theorem session_start_sound:
  assumes "run_state (start_session env cfg useHUD sessionID) h = (Started shown a, h')"
  shows "\<exists>pre post status auth. h' = post @ pre @ h \<and> length (filter is_request (post @ pre)) \<le> 6
    \<and> wb_authSession (ag_bridge a) = auth \<and> hb_accessToken (ag_heartbeat a) = TrimSpace (cs_AccessToken auth)
    \<and> hb_refreshToken (ag_heartbeat a) = TrimSpace (cs_RefreshToken auth)
    \<and> status_granted env cfg (cs_AccessToken auth) status (pre @ h)
    \<and> ss_ActiveSessions status < ss_MaxSessions status
    \<and> ToLower (TrimSpace (ss_SubscriptionStatus status)) \<in> {[], ''active'', ''grace''}
    \<and> ag_fatal a = None \<and> \<not> bridge_Connected (ag_bridge a)"
proof -
  obtain auth profilePath h0 status auth' h1 e where steps:
      "run_state (resolveControlPlaneAuth env cfg) h = (Inr (auth, profilePath), h0)"
      "run_state (requestSessionStatusWithAuthSession env cfg auth profilePath) h0 = (Inr (status, auth'), h1)"
      "run_state (persistControlPlaneAuthUpdate env profilePath (cc_ControlPlaneURL cfg) auth auth') h1 = (e, h')"
      "validateControlPlanePreflightStatus status = None" "a = new_agent cfg profilePath sessionID auth'"
    using assms
    by (auto simp: start_session_def start_failed_def Let_def split: sum.splits prod.splits option.splits)
  obtain q where q: "h0 = q @ h" "length (filter is_request q) \<le> 1"
    using resolve_requests [OF steps(1)] by blast
  obtain pre post where "h' = post @ pre @ h0" "length (filter is_request (post @ pre)) \<le> 5"
      "status_granted env cfg (cs_AccessToken auth') status (pre @ h0)" "ss_ActiveSessions status < ss_MaxSessions status"
      "ToLower (TrimSpace (ss_SubscriptionStatus status)) \<in> {[], ''active'', ''grace''}"
    using preflight_steps [OF steps(2-4)] by blast
  then show ?thesis
    using q steps(5)
    by (intro exI [of _ "pre @ q"] exI [of _ post] exI [of _ status] exI [of _ auth'])
       (auto simp: new_agent_def newWebRTCAgentBridge_def newAgentRegistryHeartbeat_def bridge_Connected_def)
qed

text \<open>A user with a key, and a server that gives tokens for it and answers with a status.\<close>

definition keyed_config :: client_config where
  "keyed_config = flaky_config\<lparr>cc_UserKey := ''k''\<rparr>"

definition exchanged :: ExchangeAuthResponse where
  "exchanged = \<lparr>xr_AccessToken = ''a2'', xr_AccessTokenExpiresAt = [], xr_RefreshToken = ''r2'', xr_RefreshTokenExpiresAt = []\<rparr>"

definition exchanged_body :: string where
  "exchanged_body = print_json (ExchangeAuthResponse_json exchanged)"

definition granting :: environment where
  "granting = calm\<lparr>env_http := (\<lambda>h q. Inr (200, if cr_URL q = ''https://c/v1/status'' then two_allowed_body else exchanged_body))\<rparr>"

lemma granting_decodes:
  "decoded granting decode_ExchangeAuthResponse exchanged_body = Inr exchanged"
  "decoded granting decode_SessionStatusResponse two_allowed_body = Inr two_allowed"
proof -
  have "printable max_depth (ExchangeAuthResponse_json exchanged)"
    by (simp add: ExchangeAuthResponse_json_def exchanged_def max_depth_def ord_def)
  then show "decoded granting decode_ExchangeAuthResponse exchanged_body = Inr exchanged"
    by (simp add: decoded_def exchanged_body_def Decode_print decode_ExchangeAuthResponse_json)
  show "decoded granting decode_SessionStatusResponse two_allowed_body = Inr two_allowed"
    using two_allowed_decodes by (simp add: decoded_def split: option.splits)
qed

lemma granting_resolves:
  "\<exists>h. run_state (resolveControlPlaneAuth granting keyed_config) [] = (Inr (renewed_session, []), h)"
proof -
  have "endpoint ''https://c'' ''/v1/auth/exchange'' = ''https://c/v1/auth/exchange''" by code_simp
  moreover have "env_http granting h q = Inr (200, if cr_URL q = ''https://c/v1/status'' then two_allowed_body else exchanged_body)" for h q
    by (simp add: granting_def)
  ultimately show ?thesis
    by (simp add: resolveControlPlaneAuth_def exchangeControlPlaneAuth_def keyed_config_def granting_decodes
        exchanged_def trimmed_session_def renewed_session_def no_tokens_def)
qed

lemma granting_status:
  "\<exists>h'. run_state (requestSessionStatusWithAuthSession granting keyed_config renewed_session []) h = (Inr (two_allowed, renewed_session), h')"
proof -
  have "endpoint ''https://c'' ''/v1/status'' = ''https://c/v1/status''" by code_simp
  moreover have "env_http granting h q = Inr (200, if cr_URL q = ''https://c/v1/status'' then two_allowed_body else exchanged_body)" for h q
    by (simp add: granting_def)
  ultimately show ?thesis
    by (simp add: requestSessionStatusWithAuthSession_def with_recovery_def requestSessionStatus_def
        keyed_config_def granting_decodes)
qed

theorem session_start_sound_witness:
  "\<exists>shown a h'. run_state (start_session granting keyed_config True ''s'') [] = (Started shown a, h')
     \<and> hb_accessToken (ag_heartbeat a) = TrimSpace (cs_AccessToken (wb_authSession (ag_bridge a)))"
proof -
  have valid: "validateControlPlanePreflightStatus two_allowed = None"
  proof -
    have "ToLower (TrimSpace ''Active'') = ''active''" by code_simp
    then show ?thesis by (simp add: validateControlPlanePreflightStatus_def sessionStatusAllowsRelay_def)
  qed
  obtain h0 where h0: "run_state (resolveControlPlaneAuth granting keyed_config) [] = (Inr (renewed_session, []), h0)"
    using granting_resolves by blast
  moreover obtain h1 where "run_state (requestSessionStatusWithAuthSession granting keyed_config renewed_session []) h0
      = (Inr (two_allowed, renewed_session), h1)"
    using granting_status by blast
  moreover obtain e h' where "run_state (persistControlPlaneAuthUpdate granting [] (cc_ControlPlaneURL keyed_config)
      renewed_session renewed_session) h1 = (e, h')"
    by fastforce
  ultimately obtain shown a where a: "run_state (start_session granting keyed_config True ''s'') [] = (Started shown a, h')"
    using valid by (auto simp: start_session_def Let_def)
  then show ?thesis using session_start_sound [OF a] by blast
qed

section \<open>The status line\<close>

text \<open>The states the connection reported last.\<close>

fun last_signal :: "string \<Rightarrow> live_history \<Rightarrow> string" where
  "last_signal old [] = old"
| "last_signal old (SignalState s # h) = s"
| "last_signal old (e # h) = last_signal old h"

fun last_p2p :: "string \<Rightarrow> live_history \<Rightarrow> string" where
  "last_p2p old [] = old"
| "last_p2p old (P2PState s # h) = s"
| "last_p2p old (e # h) = last_p2p old h"

lemma presented:
  "sp_signalState (foldr present_effect log p) = last_signal (sp_signalState p) log
   \<and> sp_p2pState (foldr present_effect log p) = last_p2p (sp_p2pState p) log"
proof (induction log)
  case (Cons e log)
  then show ?case by (cases e) (simp_all add: presenter_SetSignalState_def presenter_SetP2PState_def)
qed simp

lemma presented_hud:
  assumes "sp_sink p = HudSink hud" and "bh_enabled hud"
    and "bh_signalState hud = sp_signalState p" and "bh_p2pState hud = sp_p2pState p"
  shows "\<exists>hud'. sp_sink (foldr present_effect log p) = HudSink hud' \<and> bh_enabled hud'
    \<and> bh_signalState hud' = sp_signalState (foldr present_effect log p)
    \<and> bh_p2pState hud' = sp_p2pState (foldr present_effect log p)"
proof (induction log)
  case (Cons e log)
  then show ?case
    by (cases e) (auto simp: presenter_SetSignalState_def presenter_SetP2PState_def hud_SetSignalState_def
        hud_SetP2PState_def still_def)
qed (use assms in simp)


section \<open>The output of the shell\<close>

text \<open>What the viewer was sent.\<close>

fun viewer_bytes :: "live_history \<Rightarrow> string" where
  "viewer_bytes [] = []"
| "viewer_bytes (ToViewer data # h) = viewer_bytes h @ data"
| "viewer_bytes (e # h) = viewer_bytes h"

text \<open>The last title that changes the label counts.\<close>

definition label_after :: "string list \<Rightarrow> agentLabelTracker \<Rightarrow> agentLabelTracker" where
  "label_after titles tracker = fold (\<lambda>title t. fst (agentLabelTracker_Set t title)) titles tracker"

lemma set_titles:
  "to_labelTracker (fold set_title titles t) = label_after titles (to_labelTracker t)"
  "to_titleParser (fold set_title titles t) = to_titleParser t"
  "to_stdout (fold set_title titles t) = to_stdout t" "to_bridge (fold set_title titles t) = to_bridge t"
  by (induction titles arbitrary: t) (simp_all add: label_after_def set_title_def split: prod.split)

definition viewer_open :: "peer \<Rightarrow> webrtcAgentBridge \<Rightarrow> bool" where
  "viewer_open p b \<longleftrightarrow> wb_liveSession b \<noteq> None \<and> pe_open p (wb_log b)"

lemma enqueued:
  assumes "\<And>h data. pe_open p (ToViewer data # h) = pe_open p h"
  shows "viewer_open p (enqueue p chunk b) = viewer_open p b
    \<and> viewer_bytes (wb_log (enqueue p chunk b)) = viewer_bytes (wb_log b) @ (if viewer_open p b then chunk else [])"
  using assms by (auto simp: enqueue_def viewer_open_def bridge_log_def)

text \<open>What the terminal has of the shell, and that the drawings among it put the cursor back.\<close>

fun shell_bytes :: "stdout_write list \<Rightarrow> string" where
  "shell_bytes [] = []"
| "shell_bytes (ShellBytes data # ws) = data @ shell_bytes ws"
| "shell_bytes (HudDrawing drawing # ws) = shell_bytes ws"

definition drawings_keep_cursor :: "stdout_write list \<Rightarrow> bool" where
  "drawings_keep_cursor ws \<longleftrightarrow> (\<forall>drawing. HudDrawing drawing \<in> set ws \<longrightarrow> keeps_cursor drawing)"

lemma shell_bytes_append [simp]:
  "shell_bytes (ws @ vs) = shell_bytes ws @ shell_bytes vs" "shell_bytes (map HudDrawing ds) = []"
  by (induction ws rule: shell_bytes.induct) (simp_all, induction ds, simp_all)

lemma drawings_keep_cursor_simps [simp]:
  "drawings_keep_cursor []" "drawings_keep_cursor (ShellBytes data # ws) = drawings_keep_cursor ws"
  "drawings_keep_cursor (ws @ vs) \<longleftrightarrow> drawings_keep_cursor ws \<and> drawings_keep_cursor vs"
  "drawings_keep_cursor (map HudDrawing (hud_renderLocked terminal hud))"
  using render_keeps_cursor by (auto simp: drawings_keep_cursor_def)

lemma pumped:
  assumes "\<And>h data. pe_open p (ToViewer data # h) = pe_open p h"
  shows "shell_bytes (to_stdout (fold (pump_chunk p) chunks t)) = shell_bytes (to_stdout t) @ concat (map fst chunks)
    \<and> drawings_keep_cursor (to_stdout (fold (pump_chunk p) chunks t)) = drawings_keep_cursor (to_stdout t)
    \<and> viewer_bytes (wb_log (to_bridge (fold (pump_chunk p) chunks t)))
        = viewer_bytes (wb_log (to_bridge t)) @ (if viewer_open p (to_bridge t) then concat (map fst chunks) else [])
    \<and> to_labelTracker (fold (pump_chunk p) chunks t)
        = label_after (snd (feed_all (to_titleParser t) (map fst chunks))) (to_labelTracker t)"
proof (induction chunks arbitrary: t)
  case (Cons c chunks)
  obtain chunk size hud where c: "c = (chunk, size, hud)" by (cases c)
  obtain parser titles where fed: "oscTerminalTitleParser_Feed (to_titleParser t) chunk = (parser, titles)" by fastforce
  have "shell_bytes (to_stdout (pump_chunk p c t)) = shell_bytes (to_stdout t) @ chunk"
      "drawings_keep_cursor (to_stdout (pump_chunk p c t)) = drawings_keep_cursor (to_stdout t)"
      "to_titleParser (pump_chunk p c t) = parser"
      "to_labelTracker (pump_chunk p c t) = label_after titles (to_labelTracker t)"
      "to_bridge (pump_chunk p c t) = enqueue p chunk (to_bridge t)"
    using fed by (auto simp: c pump_chunk_def set_titles oscTerminalTitleParser_Feed_def label_after_def enqueue_def Let_def)
  then show ?case
    using Cons.IH [of "pump_chunk p c t"] fed enqueued [OF assms, of chunk "to_bridge t"]
    by (simp add: c label_after_def split: prod.split)
qed (simp add: label_after_def)


definition silent_terminal :: terminal_output where
  "silent_terminal = \<lparr>to_titleParser = [], to_labelTracker = Some ''box'', to_stdout = [],
     to_bridge = (newWebRTCAgentBridge flaky_config ''s'' renewed_session [])\<lparr>wb_liveSession := Some newLiveWebRTCSession\<rparr>,
     to_update = False\<rparr>"


end
