(* ===== verification/Client_Terminal.thy ===== *)
theory Client_Terminal
  imports Client_Interactive
begin

text \<open>
  The terminal around an interactive session: who may use it and how its size reaches the shell
  (\<^verbatim>\<open>cmd/shellin/terminal_runtime.go\<close>), how a session ends (\<^verbatim>\<open>interactive_session.go\<close>,
  \<^verbatim>\<open>fatal_errors.go\<close>), and the usage texts of the subcommands (\<^verbatim>\<open>cli_usage.go\<close>).
  Whether a file is a terminal, whether its mode could be changed, and the sizes read at each change
  are arguments.
\<close>

section \<open>Modes and sizes\<close>

definition terminalSupportsHUD :: "bool \<Rightarrow> bool \<Rightarrow> bool" where
  "terminalSupportsHUD stdin_terminal stdout_terminal \<longleftrightarrow> stdin_terminal \<and> stdout_terminal"

text \<open>Whether there is a mode to restore.\<close>

definition enterRawTerminal :: "bool \<Rightarrow> bool \<Rightarrow> bool" where
  "enterRawTerminal stdin_terminal make_raw \<longleftrightarrow> stdin_terminal \<and> make_raw"

text \<open>
  The sizes the pseudo terminal is given, and the status line. The size is read and set once at the
  beginning, then for each signal, the first of which the program sends to itself; the line is drawn
  anew after each signal.
\<close>

type_synonym window = "16 word \<times> 16 word"

definition resize_round ::
  "window option \<times> (int \<times> int) option \<Rightarrow> window list \<times> drawn_hud \<Rightarrow> window list \<times> drawn_hud"
where
  "resize_round = (\<lambda>(size, terminal) (sizes, hud).
     (sizes @ (case size of None \<Rightarrow> [] | Some w \<Rightarrow> [resizePTY (bh_enabled (dh_hud hud)) w]), hud_Refresh terminal hud))"

definition startTerminalResizeWatcher ::
  "bool \<Rightarrow> window option \<Rightarrow> (window option \<times> (int \<times> int) option) list \<Rightarrow> drawn_hud \<Rightarrow> window list \<times> drawn_hud"
where
  "startTerminalResizeWatcher stdin_terminal first signals hud =
     (if \<not> stdin_terminal then ([], hud)
      else fold resize_round signals
        ((case first of None \<Rightarrow> [] | Some w \<Rightarrow> [resizePTY (bh_enabled (dh_hud hud)) w]), hud))"

section \<open>The end of a session\<close>

text \<open>\<^verbatim>\<open>fatalCLIError\<close>: what the terminal is given, and the text that is logged.\<close>

definition fatalCLIError :: "bool \<Rightarrow> go_error \<Rightarrow> string list \<times> string option" where
  "fatalCLIError stdout_terminal err = (case startupDisplayForError (Some err) of
     Some d \<Rightarrow>
       if stdout_terminal
       then (su_written (screen_ShowDisplay (error_display d) (newStartupScreen True)) @ [newline1 @ newline1], None)
       else ([], Some (Error err))
   | None \<Rightarrow> ([], Some (Error err)))"

text \<open>
  What remains to be done when the shell has ended, in the order of the calls. A deferred call runs
  when the function returns, not when the program exits.
\<close>

datatype closing =
  StopLine | DetachLine | RestoreMode | StopResizing | StopHeartbeat | CloseBridge | ClosePTY

record session_end =
  se_closing :: "closing list"
  se_written :: "string list"
  se_logged :: "string option"
  se_failed :: bool

text \<open>
  \<open>useHUD\<close>, \<open>raw\<close> and \<open>registered\<close> say whether there is a status line, a mode to restore and a
  heartbeat to stop; \<open>wait_text\<close> is the text of an error of \<^verbatim>\<open>cmd.Wait\<close>.
\<close>

definition deferred_closing :: "bool \<Rightarrow> bool \<Rightarrow> closing list" where
  "deferred_closing useHUD registered =
     [StopResizing] @ (if useHUD then [StopLine] else []) @ (if registered then [StopHeartbeat] else [])
     @ [CloseBridge, ClosePTY]"

definition finish_session ::
  "bool \<Rightarrow> bool \<Rightarrow> bool \<Rightarrow> bool \<Rightarrow> wait_error option \<Rightarrow> string \<Rightarrow> go_error option \<Rightarrow> session_end"
where
  "finish_session useHUD raw registered stdout_terminal waitErr wait_text fatal =
     (let first = (if useHUD then [StopLine, DetachLine] else []) @ (if raw then [RestoreMode] else []);
          returned = first @ deferred_closing useHUD registered
      in case fatal of
           Some fatalErr \<Rightarrow> (case fatalCLIError stdout_terminal fatalErr of (written, logged) \<Rightarrow>
             \<lparr>se_closing = first, se_written = written, se_logged = logged, se_failed = True\<rparr>)
         | None \<Rightarrow> (case shellExitMessage waitErr of
             Some msg \<Rightarrow> \<lparr>se_closing = returned, se_written = [newline1 @ msg @ newline1 @ newline1],
               se_logged = None, se_failed = False\<rparr>
           | None \<Rightarrow> \<lparr>se_closing = returned, se_written = [],
               se_logged = (if waitErr \<noteq> None then Some (''shell exited: '' @ wait_text) else None), se_failed = False\<rparr>))"

section \<open>Usage\<close>

text \<open>
  A flag as the package \<^verbatim>\<open>flag\<close> presents it: \<open>UnquoteUsage\<close> gives the name of its value and its usage;
  \<open>quote\<close> is the verb \<^verbatim>\<open>%q\<close>.
\<close>

record flag_info =
  fi_Name :: string
  fi_value :: string
  fi_usage :: string
  fi_IsBool :: bool
  fi_DefValue :: string

definition flag_default :: "(string \<Rightarrow> string) \<Rightarrow> flag_info \<Rightarrow> string" where
  "flag_default quote f =
     (if fi_IsBool f then (if fi_DefValue f = ''true'' then '' (default true)'' else [])
      else if fi_DefValue f = [] then []
      else if CHR '' '' \<in> set (fi_DefValue f) \<or> CHR 0x09 \<in> set (fi_DefValue f)
      then '' (default '' @ quote (fi_DefValue f) @ '')''
      else '' (default '' @ fi_DefValue f @ '')'')"

definition flag_lines :: "(string \<Rightarrow> string) \<Rightarrow> flag_info \<Rightarrow> string" where
  "flag_lines quote f =
     (if fi_value f = [] then ''  -'' @ fi_Name f @ newline1 else ''  -'' @ fi_Name f @ '' '' @ fi_value f @ newline1)
     @ ''    '' @ [CHR 0x09] @ fi_usage f @ flag_default quote f @ newline1"

text \<open>\<^verbatim>\<open>setFilteredUsage\<close>: the text printed for the flags in the order of their names.\<close>

definition filteredUsage :: "(string \<Rightarrow> string) \<Rightarrow> string \<Rightarrow> string set \<Rightarrow> flag_info list \<Rightarrow> string" where
  "filteredUsage quote name hidden flags =
     ''Usage of '' @ name @ '':'' @ newline1
     @ concat (map (flag_lines quote) (filter (\<lambda>f. fi_Name f \<notin> hidden) flags))"

section \<open>Properties\<close>

lemma resizePTY_row:
  assumes "1 < snd w"
  shows "fst (resizePTY True w) = fst w" "uint (snd (resizePTY True w)) = uint (snd w) - 1"
proof -
  obtain c r where w: "w = (c, r)" by (cases w)
  have "1 < uint r" using assms by (simp add: w word_less_def)
  moreover have "uint r < 2 ^ 16" using uint_lt2p [of r] by simp
  ultimately have "uint (r - 1) = uint r - 1" by (simp add: uint_word_ariths)
  then show "fst (resizePTY True w) = fst w" "uint (snd (resizePTY True w)) = uint (snd w) - 1"
    using assms by (simp_all add: w)
qed

text \<open>The sizes that could be read are the sizes that are set.\<close>

definition sizes_read :: "(window option \<times> 'a) list \<Rightarrow> window list" where
  "sizes_read signals = map the (filter (\<lambda>s. s \<noteq> None) (map fst signals))"

lemma resize_rounds:
  "fst (fold resize_round signals (sizes, hud))
    = sizes @ map (resizePTY (bh_enabled (dh_hud hud))) (sizes_read signals)"
proof (induction signals arbitrary: sizes hud)
  case (Cons s signals)
  obtain size terminal where s: "s = (size, terminal)" by (cases s)
  have "resize_round s (sizes, hud)
      = (sizes @ (case size of None \<Rightarrow> [] | Some w \<Rightarrow> [resizePTY (bh_enabled (dh_hud hud)) w]), hud_Refresh terminal hud)"
    by (simp add: s resize_round_def)
  moreover have "bh_enabled (dh_hud (hud_Refresh terminal hud)) = bh_enabled (dh_hud hud)"
    by (simp add: hud_Refresh_def hud_draw_def)
  ultimately show ?case
    by (cases size) (simp_all add: s Cons.IH sizes_read_def)
qed (simp add: sizes_read_def)

text \<open>The shell never gets the row of the status line, unless there is only one row.\<close>

theorem shell_avoids_status_line:
  assumes "fst (startTerminalResizeWatcher True first signals hud) = sizes" and "bh_enabled (dh_hud hud)"
    and "windows = sizes_read ((first, None) # signals)" and "\<forall>w \<in> set windows. 1 < snd w"
  shows "length sizes = length windows
    \<and> (\<forall>i < length sizes. fst (sizes ! i) = fst (windows ! i) \<and> uint (snd (sizes ! i)) = uint (snd (windows ! i)) - 1)"
proof -
  have "sizes = map (resizePTY True) windows"
    using assms(1-3) by (cases first) (auto simp: startTerminalResizeWatcher_def resize_rounds sizes_read_def)
  moreover have "1 < snd (windows ! i)" if "i < length windows" for i
    using that assms(4) by simp
  ultimately show ?thesis by (simp add: resizePTY_row)
qed

text \<open>
  However a session ends, the terminal gets its mode back once and the status line is taken off the
  screen before anything else is written; only after an error that ends the session the program exits
  without its deferred calls, so that neither the heartbeat nor the bridge is told.
\<close>

theorem session_ends_clean:
  assumes "e = finish_session useHUD raw registered stdout_terminal waitErr wait_text fatal"
  shows "count_list (se_closing e) RestoreMode = (if raw then 1 else 0)
    \<and> (useHUD \<longrightarrow> take 2 (se_closing e) = [StopLine, DetachLine])
    \<and> se_failed e = (fatal \<noteq> None)
    \<and> (fatal = None \<longrightarrow> {CloseBridge, ClosePTY} \<subseteq> set (se_closing e)
        \<and> (registered \<longrightarrow> StopHeartbeat \<in> set (se_closing e)))
    \<and> (fatal \<noteq> None \<longrightarrow> set (se_closing e) \<subseteq> {StopLine, DetachLine, RestoreMode}
        \<and> (se_logged e = None \<longrightarrow> last (se_written e) = newline1 @ newline1))"
  unfolding assms finish_session_def fatalCLIError_def deferred_closing_def Let_def
  by (auto split: option.splits)

end
