(* ===== verification/Spec2Isabelle.thy ===== *)
theory Spec2Isabelle
  imports Login_Keys User_Key_Spec Client_Server Self_Update_Facts Agent_Label_Facts
    Client_Session Client_Config Client_Shell Client_Hud Update_Prompt
    Client_Bridge_Facts Client_Command_Facts Client_Interactive_Facts Client_Terminal
begin

text \<open>
  A verification development for \<^verbatim>\<open>shellin-core\<close>, the Go core of a remote terminal: an \<^emph>\<open>agent\<close>
  (the command line client \<^verbatim>\<open>cmd/shellin\<close>, which owns a shell on a desktop), a \<^emph>\<open>viewer\<close> (a mobile
  client), and a \<^emph>\<open>control plane\<close> (\<^verbatim>\<open>cmd/shellin-control-plane\<close>) that authenticates both, keeps the
  list of live sessions and relays the messages by which the two set up a WebRTC connection.
  Paths below are relative to the root of the repository.

  \<^bold>\<open>How the program is modelled.\<close>

  \<^item> A function of the program is a function of the same name; a method \<^verbatim>\<open>T.M\<close> is \<open>T_M\<close>. A struct is a
    record whose fields have a short prefix of their own, an \<^verbatim>\<open>error\<close> the left side of a sum or an
    option, a nil pointer \<open>None\<close>, a Go map an association list with distinct keys whose order is the
    order of iteration, a string a list of bytes. Integers are \<^typ>\<open>int\<close>; where arithmetic can leave
    the range of \<^verbatim>\<open>int64\<close> it wraps around or saturates as in Go.
  \<^item> The clock, random bytes, token ids and the outcomes of calls to the operating system are
    arguments. A handler that reads the clock several times reads \<open>in_clk n\<close> the \<open>n\<close>-th time.
  \<^item> SHA-256, HMAC-SHA256, Ed25519, gzip and tar, the package \<^verbatim>\<open>flag\<close>, \<^verbatim>\<open>time.ParseDuration\<close>,
    \<^verbatim>\<open>URL.String\<close>, the WebSocket and the WebRTC library and the TURN API are parameters. Where a
    property needs documented behaviour of one of them (a signature that is made verifies, a handshake
    fails when its origin check does), it is a hypothesis of the theorem.
  \<^item> An operation under a mutex is one step, and so is a request handler: the stores it uses lock
    themselves, and two handlers that interleave between two of their store operations are not
    modelled. Histories are lists of such steps in any order.
  \<^item> The client runs in the state monad of \<^verbatim>\<open>HOL-Library\<close> over the history of its effects, newest
    first; what the world answers is an \<open>environment\<close>, a function of the whole history. So nothing is
    assumed of the server, the file system or other processes that share the profile, unless a theorem
    says so. A goroutine is a run of steps, each of which lies between two points at which it waits.

  \<^bold>\<open>Go's library\<close>, as far as the program uses it.

  \<^item> \<^verbatim>\<open>Prelude\<close>: collections of rewrite rules, sums as results, wrap-around, Go maps.
  \<^item> \<^verbatim>\<open>Go_Strings\<close>, \<^verbatim>\<open>Go_Time\<close>, \<^verbatim>\<open>Go_Net\<close>, \<^verbatim>\<open>Go_Base64\<close>, \<^verbatim>\<open>Go_Json\<close>, \<^verbatim>\<open>Go_Json_Indent\<close>, \<^verbatim>\<open>Go_Ascii\<close>. The
    main results are round trips: what the encodings write is read back (\<open>Unmarshal_print\<close> and its
    companions), for every value within the depth \<open>max_depth\<close> = 10000 that Go allows.

  \<^bold>\<open>The shared packages\<close>, each with the properties of its operations.

  \<^item> \<^verbatim>\<open>Protocol\<close> (\<^verbatim>\<open>protocol/messages.go\<close>): every message, its decoding and encoding, and that it survives
    the wire.
  \<^item> \<^verbatim>\<open>Grant_Auth\<close>, \<^verbatim>\<open>Replay_Guard\<close> (\<^verbatim>\<open>grantauth/\<close>): signing and validation of tokens; an accepted
    token was authenticated, in time and for the right audience; the replay store.
  \<^item> \<^verbatim>\<open>One_Time_Store\<close>, \<^verbatim>\<open>Refresh_Tokens\<close>, \<^verbatim>\<open>Login_Keys\<close>, \<^verbatim>\<open>User_Keys\<close>, \<^verbatim>\<open>User_Key_Spec\<close>,
    \<^verbatim>\<open>Agent_Registry\<close>, \<^verbatim>\<open>Agent_Registry_Facts\<close>, \<^verbatim>\<open>Signal_Hub\<close> (\<^verbatim>\<open>controlplane/\<close>): the stores of the
    control plane, with their invariants and what a credential, a session or a message may do.
  \<^item> \<^verbatim>\<open>Signaling\<close> (\<^verbatim>\<open>signaling/websocket.go\<close>): who may open a WebSocket, and the relay over the hub.
  \<^item> \<^verbatim>\<open>Turn\<close> (\<^verbatim>\<open>turn/\<close>), \<^verbatim>\<open>Build_Info\<close> (\<^verbatim>\<open>buildinfo/\<close>), \<^verbatim>\<open>Http_Origin\<close> (\<^verbatim>\<open>internal/httporigin/\<close>).
  \<^item> \<^verbatim>\<open>Release_Version\<close>, \<^verbatim>\<open>Release_Manifest\<close>, \<^verbatim>\<open>Self_Update\<close> and their \<^verbatim>\<open>_Facts\<close>
    (\<^verbatim>\<open>internal/selfupdate/\<close>, \<^verbatim>\<open>scripts/sign-release-manifest/\<close>): versions are compared by a linear
    order, a signed manifest is accepted and an accepted one was signed, an update is all or nothing.

  \<^bold>\<open>The control plane\<close> (\<^verbatim>\<open>cmd/shellin-control-plane/\<close>).

  \<^item> \<^verbatim>\<open>Server_Config\<close>, \<^verbatim>\<open>Rate_Limiter\<close>, \<^verbatim>\<open>Server_Tokens\<close>, \<^verbatim>\<open>Http_Server\<close>: the configuration and the
    seeding of user keys, throttling, the tokens the server issues, the helpers of the handlers.
  \<^item> \<^verbatim>\<open>Control_Server\<close>: all handlers, the routes and the clean-up; its state is the record
    \<open>serverDeps\<close> of all stores. \<^verbatim>\<open>Control_Server_Facts\<close> shows that every request is a short sequence of
    operations of the stores under the caller's name, from which the properties of the stores carry
    over to the server in \<^verbatim>\<open>Control_Server_Props\<close> and \<^verbatim>\<open>Control_Server_Access\<close>;
    \<^verbatim>\<open>Control_Server_Demo\<close> is the server on which they are exercised.

  \<^bold>\<open>The client\<close> (\<^verbatim>\<open>cmd/shellin/\<close>).

  \<^item> \<^verbatim>\<open>Client_Errors\<close>, \<^verbatim>\<open>Client_Config\<close>, \<^verbatim>\<open>Client_Shell\<close>, \<^verbatim>\<open>Client_Hud\<close>, \<^verbatim>\<open>Client_Hud_Drawing\<close>,
    \<^verbatim>\<open>Client_Screen\<close>, \<^verbatim>\<open>Agent_Label\<close>, \<^verbatim>\<open>Agent_Label_Facts\<close>, \<^verbatim>\<open>Update_Prompt\<close>: errors and their
    display, configuration, the shell process, the status line and the start-up screen, labels and
    terminal titles, the question for an update.
  \<^item> \<^verbatim>\<open>Client_Requests\<close>, \<^verbatim>\<open>Client_Auth\<close>: the requests, the profile, and the recovery of a request that
    is refused with 401. \<^verbatim>\<open>Client_Auth_Facts\<close> holds the rules of a Hoare logic over the monad, with
    bounds on the requests and reads of a run; \<^verbatim>\<open>Client_Session\<close> the properties of the heartbeat.
  \<^item> \<^verbatim>\<open>Client_Connect\<close>, \<^verbatim>\<open>Client_Negotiation\<close>, \<^verbatim>\<open>Client_Bridge\<close> and their \<^verbatim>\<open>_Facts\<close>: a place to meet
    the viewer, the live session as a machine over its events (\<open>live_step\<close>), and the goroutine that keeps
    a session alive (\<open>bridge_run\<close>) together with the heartbeat (\<open>agent_run\<close>).
  \<^item> \<^verbatim>\<open>Client_Commands\<close>, \<^verbatim>\<open>Client_Command_Facts\<close>, \<^verbatim>\<open>Client_Interactive\<close>, \<^verbatim>\<open>Client_Interactive_Facts\<close>:
    the subcommands, and an interactive session from its command line to its output;
    \<^verbatim>\<open>Client_Terminal\<close>: the terminal around it and how it ends.
  \<^item> \<^verbatim>\<open>Client_Server\<close> puts the client and the server of this repository together: its requests travel to
    the server's handlers, and what the client gets is what the server later accepts.

  \<^bold>\<open>Interfaces.\<close> A contract that a client of a component relies on is a locale, interpreted on the
  model of the component: \<open>one_time_store\<close> and its extension \<open>expiring_store\<close> (refresh tokens, login
  keys), \<open>replay_store\<close> (the in-memory store of token ids), \<open>tombstones\<close> (the registry),
  \<open>session_relay\<close> (the hub), \<open>throttle\<close> (the limiter), \<open>secondary_index\<close> (both indexes of the user key
  store), and \<open>authorised_request\<close> (the status and the clean-up request, which are made with recovery).

  \<^bold>\<open>Bounds and termination.\<close> The JSON parser recurses on fuel, \<open>2 * length s + 2\<close> for a text \<open>s\<close>: the
  grammar consumes a character at least at every second level, and the round trips show it to be
  enough for every text the program prints. The other loops that consume their input are functions with
  a measure. Two loops wait for the outside and need not end: \<open>prompt_loop\<close>, which asks for as long as
  keys come, and \<open>wait_loop\<close>, which waits for the first connection; both are partial functions, and
  \<open>prompt_terminates\<close> and \<open>waiting_ends\<close> say when they return. The constants of the code are kept: the
  queue of 128 signaling messages, the buffer of 4096 bytes for terminal titles, the 64 KiB limit on
  signaling messages, ten minutes for a tombstone, 30 seconds of clock skew.

  \<^bold>\<open>What modelling has shown.\<close> Properties that state a defect are theorems as well:
  \<open>token_admitted_twice\<close> (the replay store forgets a token id before the validator stops accepting the
  token), \<open>refreshed_tokens_lost\<close> (a transient error after a refresh drops the new tokens),
  \<open>late_report_reserves_row\<close> (a report that arrives while a session ends draws the status line again),
  \<open>foreign_profile\<close> (an agent with a user key can go on under the account of the profile) and
  \<open>update_can_downgrade\<close> (an update installs from a second reading of the manifest, whose version it
  does not compare).

  \<^bold>\<open>Not modelled.\<close> \<^verbatim>\<open>cmd/shellin/main.go\<close> and \<^verbatim>\<open>doc.go\<close> (a main function that calls the dispatcher or
  starts a session); the directory of the profile (\<^verbatim>\<open>os.UserConfigDir\<close>); the goroutine that copies the
  keyboard to the shell, which has no state; listening, the time-outs of the HTTP server and the ticker
  of its clean-up, whose rounds are steps. Tests, the documentation, the shell scripts and the website
  are not part of the model. \<open>ToLower\<close> and its relatives leave non-ASCII letters as they are; the program
  compares with ASCII constants, except where it displays a plan whose product id is not ASCII.
\<close>

end
